(* ===== verification/Prelude.thy ===== *)
theory Prelude
  imports Main "HOL-Library.Word" "HOL-Library.Multiset" "HOL-Library.AList"
begin

text \<open>
  What every theory of the development shares: the representation of Go values (bytes,
  nilable slices, machine integers, maps, panics), the lemma collections, and the generic
  facts on lists, maps and words that the component proofs use.
\<close>

named_theorems outcome_simps \<open>characteristic equations of Go outcomes\<close>
named_theorems map_simps \<open>lookups in Go maps after updates\<close>

section \<open>Values\<close>

text \<open>
  A Go \<open>[]byte\<close> is nil or a sequence of bytes. Most of the code does not see the difference
  (\<open>len\<close>, \<open>bytes.Equal\<close>, \<open>range\<close>), some of it does (\<open>== nil\<close>, JSON, SQL NULL): a slice is an
  option, and \<open>slice_bytes\<close> reads it where nil counts as empty.
\<close>

type_synonym byte = "8 word"
type_synonym bytes = "8 word list"
type_synonym slice = "bytes option"
type_synonym u64 = "64 word"

definition slice_bytes :: "slice \<Rightarrow> bytes" where
  "slice_bytes s = (case s of None \<Rightarrow> [] | Some b \<Rightarrow> b)"

lemma slice_bytes_simps [simp]: "slice_bytes None = []" "slice_bytes (Some b) = b"
  by (simp_all add: slice_bytes_def)

text \<open>\<open>bytes.Equal\<close>: nil and empty are equal.\<close>

definition bytes_Equal :: "slice \<Rightarrow> slice \<Rightarrow> bool" where
  "bytes_Equal a b \<longleftrightarrow> slice_bytes a = slice_bytes b"

text \<open>
  Go strings are byte strings, as Isabelle's \<open>string\<close> is (a \<open>char\<close> has 256 values). The
  conversions \<open>[]byte(s)\<close> and \<open>string(b)\<close> are bijective.
\<close>

definition byte_of_char :: "char \<Rightarrow> byte" where
  "byte_of_char c = of_nat (of_char c)"

definition char_of_byte :: "byte \<Rightarrow> char" where
  "char_of_byte b = char_of (unat b)"

definition string_bytes :: "string \<Rightarrow> bytes" where
  "string_bytes s = map byte_of_char s"

definition bytes_string :: "bytes \<Rightarrow> string" where
  "bytes_string b = map char_of_byte b"

lemma of_char_lt_256: "(of_char c :: nat) < 256"
  using of_char_mod_256 [where 'a = nat, of c] by (metis mod_less_divisor zero_less_numeral)

lemma char_of_byte_of_char [simp]: "char_of_byte (byte_of_char c) = c"
  using of_char_lt_256 [of c] by (simp add: char_of_byte_def byte_of_char_def unat_of_nat)

lemma byte_of_char_of_byte [simp]: "byte_of_char (char_of_byte b) = b"
proof -
  have "unat b < 256"
    using unsigned_less [of b] by simp
  then show ?thesis
    by (simp add: char_of_byte_def byte_of_char_def)
qed

lemma bytes_string_bytes [simp]: "bytes_string (string_bytes s) = s"
  by (induction s) (simp_all add: bytes_string_def string_bytes_def)

lemma string_bytes_string [simp]: "string_bytes (bytes_string b) = b"
  by (induction b) (simp_all add: bytes_string_def string_bytes_def)

lemma string_bytes_eq_iff [simp]: "string_bytes s = string_bytes t \<longleftrightarrow> s = t"
  by (metis bytes_string_bytes)

lemma string_bytes_append: "string_bytes (s @ t) = string_bytes s @ string_bytes t"
  by (simp add: string_bytes_def)

lemma length_string_bytes [simp]: "length (string_bytes s) = length s"
  by (simp add: string_bytes_def)

text \<open>\<open>int64(x)\<close> of a \<open>uint64\<close> and \<open>uint64(i)\<close> of an \<open>int64\<close>: two's complement.\<close>

definition int64_of :: "u64 \<Rightarrow> int" where
  "int64_of x = sint x"

definition uint64_of :: "int \<Rightarrow> u64" where
  "uint64_of i = word_of_int i"

lemma uint64_of_int64_of [simp]: "uint64_of (int64_of x) = x"
  by (simp add: uint64_of_def int64_of_def)

lemma int64_of_inj [simp]: "int64_of x = int64_of y \<longleftrightarrow> x = y"
  by (metis uint64_of_int64_of)

lemma int64_of_range: "- (2 ^ 63) \<le> int64_of x \<and> int64_of x < 2 ^ 63"
  using sint_range_size [of x] by (simp add: int64_of_def word_size)

lemma int64_of_small: "uint x < 2 ^ 63 \<Longrightarrow> int64_of x = uint x"
  by (simp add: int64_of_def sint_uint signed_take_bit_eq_if_positive
      take_bit_int_eq_self bit_iff_odd)

section \<open>Panics\<close>

text \<open>A Go function returns or panics. Only the kinds of panic the source can raise occur.\<close>

datatype panic =
    Nil_Dereference | Index_Out_Of_Range | Type_Assertion | Nil_Map_Write | Makeslice_Length

datatype 'a go = Ret 'a | Panic panic

fun go_bind :: "'a go \<Rightarrow> ('a \<Rightarrow> 'b go) \<Rightarrow> 'b go" where
  "go_bind (Ret x) f = f x"
| "go_bind (Panic p) f = Panic p"

lemma go_bind_Ret_iff [outcome_simps]:
  "go_bind m f = Ret y \<longleftrightarrow> (\<exists>x. m = Ret x \<and> f x = Ret y)"
  by (cases m) auto

section \<open>Maps\<close>

text \<open>
  A Go map is an association list. Writing replaces the value of a present key. The order in
  which \<open>range\<close> visits a map is unspecified: where the source ranges over one, the model takes
  the visiting order as a parameter that permutes the entries (\<open>map_order\<close>).
\<close>

type_synonym ('k, 'v) gomap = "('k \<times> 'v) list"

abbreviation mget :: "('k, 'v) gomap \<Rightarrow> 'k \<Rightarrow> 'v option" where
  "mget \<equiv> map_of"

abbreviation mput :: "'k \<Rightarrow> 'v \<Rightarrow> ('k, 'v) gomap \<Rightarrow> ('k, 'v) gomap" where
  "mput \<equiv> AList.update"

definition wf_map :: "('k, 'v) gomap \<Rightarrow> bool" where
  "wf_map m \<longleftrightarrow> distinct (map fst m)"

definition map_order :: "('a list \<Rightarrow> 'a list) \<Rightarrow> bool" where
  "map_order ord \<longleftrightarrow> (\<forall>xs. mset (ord xs) = mset xs)"

text \<open>A nil map reads as empty.\<close>

definition nil_map :: "('k, 'v) gomap option \<Rightarrow> ('k, 'v) gomap" where
  "nil_map m = (case m of None \<Rightarrow> [] | Some m \<Rightarrow> m)"

lemma nil_map_simps [simp]: "nil_map None = []" "nil_map (Some m) = m"
  by (simp_all add: nil_map_def)

lemma mget_mput [map_simps]: "mget (mput k v m) k' = (if k' = k then Some v else mget m k')"
  by (simp add: update_conv')

lemma wf_map_empty [simp]: "wf_map []"
  by (simp add: wf_map_def)

lemma wf_map_mput [simp]: "wf_map m \<Longrightarrow> wf_map (mput k v m)"
  by (simp add: wf_map_def distinct_update)

lemma mget_Some_iff: "wf_map m \<Longrightarrow> mget m k = Some v \<longleftrightarrow> (k, v) \<in> set m"
  by (simp add: wf_map_def)

lemma set_mput:
  assumes "wf_map m"
  shows "(k', v') \<in> set (mput k v m) \<longleftrightarrow> (if k' = k then v' = v else (k', v') \<in> set m)"
proof -
  have "(k', v') \<in> set (mput k v m) \<longleftrightarrow> mget (mput k v m) k' = Some v'"
    using assms by (simp add: mget_Some_iff)
  also have "\<dots> \<longleftrightarrow> (if k' = k then v' = v else (k', v') \<in> set m)"
    using assms by (auto simp: map_simps mget_Some_iff)
  finally show ?thesis .
qed

lemma mput_fresh: "mget m k = None \<Longrightarrow> mput k v m = m @ [(k, v)]"
  by (induction m) (auto split: if_splits)

lemma map_order_set: "map_order ord \<Longrightarrow> set (ord xs) = set xs"
  by (metis map_order_def set_mset_mset)

lemma map_order_length: "map_order ord \<Longrightarrow> length (ord xs) = length xs"
  by (metis map_order_def size_mset)

lemma map_order_id [simp]: "map_order (\<lambda>xs. xs)"
  by (simp add: map_order_def)

lemma map_order_rev [simp]: "map_order rev"
  by (simp add: map_order_def)

section \<open>Lists\<close>

lemma sorted_wrt_filter: "sorted_wrt R xs \<Longrightarrow> sorted_wrt R (filter P xs)"
  by (induction xs) auto

lemma distinct_map_filter_fst: "distinct (map f xs) \<Longrightarrow> distinct (map f (filter P xs))"
  by (induction xs) auto

end
