(* ===== verification/Models.thy ===== *)
theory Models
  imports Prelude
begin

text \<open>
  internal/models: the data both the hub and the clients exchange. Structs are records with
  the source's field names behind a prefix per struct, \<open>[]byte\<close> is a nilable slice, a Go map
  an association list (optional where the code tells nil from empty), \<open>int64\<close> values are
  integers, chain indices are 64-bit words.
\<close>

section \<open>Enumerations\<close>

definition TopicChat :: string where "TopicChat = ''chat''"
definition TopicMembers :: string where "TopicMembers = ''members''"
definition TopicCatchUp :: string where "TopicCatchUp = ''catchup''"
definition TopicUserUpdate :: string where "TopicUserUpdate = ''userupdate''"
definition TopicRooms :: string where "TopicRooms = ''rooms''"

text \<open>\<open>MessageType\<close> is a string type; unknown values travel through the program unchanged.\<close>

type_synonym message_type = string

definition MsgTypeChat :: message_type where "MsgTypeChat = ''chat''"
definition MsgTypeJoin :: message_type where "MsgTypeJoin = ''join''"
definition MsgTypeLeave :: message_type where "MsgTypeLeave = ''leave''"
definition MsgTypeRekey :: message_type where "MsgTypeRekey = ''rekey''"
definition MsgTypeCatchUpReq :: message_type where "MsgTypeCatchUpReq = ''catchup_req''"
definition MsgTypeCatchUpResp :: message_type where "MsgTypeCatchUpResp = ''catchup_resp''"
definition MsgTypeUserUpdate :: message_type where "MsgTypeUserUpdate = ''user_update''"

lemmas msg_type_defs =
  MsgTypeChat_def MsgTypeJoin_def MsgTypeLeave_def MsgTypeRekey_def MsgTypeCatchUpReq_def
  MsgTypeCatchUpResp_def MsgTypeUserUpdate_def

text \<open>\<open>Visibility\<close> is an \<open>int\<close>: values other than the three constants are possible.\<close>

type_synonym visibility = int

definition Public :: visibility where "Public = 0"
definition PasswordProtected :: visibility where "PasswordProtected = 1"
definition Private :: visibility where "Private = 2"

lemmas visibility_defs = Public_def PasswordProtected_def Private_def

section \<open>Users and members\<close>

record user =
  u_DilithiumPub :: slice
  u_KyberPub :: slice
  u_Libp2pPub :: slice
  u_PeerID :: string
  u_Username :: string
  u_PreferredColor :: string

text \<open>\<open>peer.AddrInfo\<close> of libp2p: a peer ID and its addresses, both only passed on.\<close>

record addr_info =
  ai_ID :: string
  ai_Addrs :: "string list"

record member =
  m_AddrInfo :: addr_info
  m_User :: user

definition zero_user :: user where
  "zero_user = \<lparr>u_DilithiumPub = None, u_KyberPub = None, u_Libp2pPub = None, u_PeerID = [],
     u_Username = [], u_PreferredColor = []\<rparr>"

section \<open>Rooms and servers\<close>

record room_meta =
  rm_ID :: string
  rm_Name :: string
  rm_Visibility :: visibility
  rm_PasswordHash :: slice
  rm_PasswordSalt :: slice
  rm_EncRoomKey :: slice
  rm_Members :: "(string, member) gomap option"

record server_meta =
  sm_ID :: string
  sm_Name :: string
  sm_Description :: string
  sm_Visibility :: visibility
  sm_OwnerPeerID :: string
  sm_CreatedAt :: int
  sm_PasswordHash :: slice
  sm_PasswordSalt :: slice
  sm_Rooms :: "(string, room_meta) gomap option"
  sm_Online :: int

section \<open>Messages\<close>

record decrypted_message =
  dm_Sender :: user
  dm_Timestamp :: int
  dm_Content :: string
  dm_RoomID :: string
  dm_ServerID :: string

record chat_message =
  cm_ChainIndex :: u64
  cm_Ciphertext :: slice

record join_message =
  jm_User :: user
  jm_EncKey :: slice

record leave_message =
  lm_PeerID :: string

record rekey_entry =
  re_PeerID :: string
  re_Ciph :: slice

record rekey_message =
  rk_Entries :: "rekey_entry list option"

record catch_up_request =
  cq_SinceIndex :: u64

record catch_up_response =
  cr_MasterRoomKey :: slice
  cr_MasterRoomKeyBase :: slice
  cr_ChainIndex :: u64
  cr_CatchUpMessages :: slice
  cr_Error :: string

record user_update =
  uu_User :: user

text \<open>The values of the interface \<open>Message\<close> and its method \<open>Type\<close>.\<close>

datatype message =
    ChatMessage chat_message
  | JoinMessage join_message
  | LeaveMessage leave_message
  | RekeyMessage rekey_message
  | CatchUpRequest catch_up_request
  | CatchUpResponse catch_up_response
  | UserUpdate user_update

fun message_Type :: "message \<Rightarrow> message_type" where
  "message_Type (ChatMessage m) = MsgTypeChat"
| "message_Type (JoinMessage m) = MsgTypeJoin"
| "message_Type (LeaveMessage m) = MsgTypeLeave"
| "message_Type (RekeyMessage m) = MsgTypeRekey"
| "message_Type (CatchUpRequest m) = MsgTypeCatchUpReq"
| "message_Type (CatchUpResponse m) = MsgTypeCatchUpResp"
| "message_Type (UserUpdate m) = MsgTypeUserUpdate"

text \<open>The payload of an envelope is raw JSON text.\<close>

record envelope =
  env_Type :: message_type
  env_Sender :: user
  env_Timestamp :: int
  env_Signature :: slice
  env_Payload :: string

record stored_message =
  st_ID :: int
  st_RoomID :: string
  st_ServerID :: string
  st_ChainIndex :: "u64 option"
  st_MsgType :: message_type
  st_SenderID :: string
  st_Timestamp :: int
  st_Signature :: slice
  st_Payload :: slice

section \<open>RPC requests\<close>

record create_server_request =
  csr_Name :: string
  csr_Visibility :: visibility
  csr_Description :: string
  csr_PasswordHash :: slice
  csr_PasswordSalt :: slice
  csr_Creator :: user

record list_rooms_request =
  lrr_ServerID :: string

record create_room_request =
  crr_ServerID :: string
  crr_RoomName :: string
  crr_Visibility :: visibility
  crr_PasswordHash :: slice
  crr_PasswordSalt :: slice
  crr_EncRoomKey :: slice

record join_server_request =
  jsr_ServerID :: string
  jsr_PasswordHash :: slice

record join_room_request =
  jrr_ServerID :: string
  jrr_RoomID :: string
  jrr_PasswordHash :: slice
  jrr_Sender :: user

record list_room_members_request =
  lmr_ServerID :: string
  lmr_RoomID :: string

text \<open>The responses, as the values handed to the JSON encoder.\<close>

datatype rpc_response =
    ListServersResponse "server_meta list"
  | CreateServerResponse string
  | ListRoomsResponse "room_meta list" string
  | CreateRoomResponse string string
  | JoinServerResponse "server_meta option" string
  | JoinRoomResponse "room_meta option" string
  | ListRoomMembersResponse "member list" string

end
