(* ===== verification/Errors.thy ===== *)
theory Errors
  imports Prelude
begin

text \<open>
  internal/utils/errors.go and the error variables of the packages. An error is a
  \<open>HillsideError\<close> (base and details), a text made by \<open>fmt.Errorf\<close> or \<open>errors.New\<close>, or a
  text that wraps another error with \<open>%w\<close>. Errors are pointers: the package variables are
  the values without details, one per base, and every other error is allocated where it is
  made, so it is the same pointer as no other error.
\<close>

datatype go_error =
    HillsideError (he_base: string) (he_details: string)
  | Errorf string
  | Wrapped string go_error

text \<open>A result or an error.\<close>

type_synonym 'a result = "go_error + 'a"

text \<open>The \<open>Error\<close> method.\<close>

fun Error_text :: "go_error \<Rightarrow> string" where
  "Error_text (HillsideError base details) =
     (if details \<noteq> [] then base @ '': '' @ details else base)"
| "Error_text (Errorf msg) = msg"
| "Error_text (Wrapped msg e) = msg"

definition NewHillsideError :: "string \<Rightarrow> go_error" where
  "NewHillsideError base = HillsideError (''networking: '' @ base) []"

fun WithDetails :: "go_error \<Rightarrow> string \<Rightarrow> go_error" where
  "WithDetails (HillsideError base old) details = HillsideError base details"
| "WithDetails e details = e"

text \<open>The \<open>Is\<close> method; the target may be nil.\<close>

fun HillsideError_Is :: "go_error \<Rightarrow> go_error option \<Rightarrow> bool" where
  "HillsideError_Is e None = False"
| "HillsideError_Is (HillsideError base details) (Some t) = (base = Error_text t)"
| "HillsideError_Is e (Some t) = False"

text \<open>
  Pointer equality of an error with a package variable or with an error allocated for the
  comparison: only a package variable is ever the same pointer.
\<close>

fun same_error :: "go_error \<Rightarrow> go_error \<Rightarrow> bool" where
  "same_error (HillsideError a []) (HillsideError b []) = (a = b)"
| "same_error _ _ = False"

text \<open>\<open>errors.Is\<close>: the error itself, its \<open>Is\<close> method, then what it wraps.\<close>

fun errors_Is :: "go_error \<Rightarrow> go_error \<Rightarrow> bool" where
  "errors_Is (Wrapped msg e) t = errors_Is e t"
| "errors_Is e t = (same_error e t \<or> HillsideError_Is e (Some t))"

definition ThemeError :: "string \<Rightarrow> go_error" where
  "ThemeError message = Errorf (''theme error: '' @ message)"

definition CreateServerError :: "string \<Rightarrow> go_error" where
  "CreateServerError message = Errorf (''create server error: '' @ message)"

definition CreateRoomError :: "string \<Rightarrow> go_error" where
  "CreateRoomError message = Errorf (''create room error: '' @ message)"

definition JoinServerError :: "string \<Rightarrow> go_error" where
  "JoinServerError message = Errorf (''join server error: '' @ message)"

definition JoinRoomError :: "string \<Rightarrow> go_error" where
  "JoinRoomError message = Errorf (''join room error: '' @ message)"

definition ValidationError :: "string \<Rightarrow> go_error" where
  "ValidationError message = Errorf (''validation error: '' @ message)"

definition SecurityError :: "string \<Rightarrow> go_error" where
  "SecurityError message = Errorf (''security error: '' @ message)"

definition SendMessageError :: "string \<Rightarrow> go_error" where
  "SendMessageError message = Errorf (''send message error: '' @ message)"

definition IsValidationError :: "go_error \<Rightarrow> bool" where
  "IsValidationError err = errors_Is err (ValidationError [])"

definition IsSecurityError :: "go_error \<Rightarrow> bool" where
  "IsSecurityError err = errors_Is err (SecurityError [])"

text \<open>\<open>fmt.Errorf(prefix + "%w", err)\<close>.\<close>

definition wrapf :: "string \<Rightarrow> go_error \<Rightarrow> go_error" where
  "wrapf prefix err = Wrapped (prefix @ Error_text err) err"

lemma errors_Is_wrapf [simp]: "errors_Is (wrapf prefix err) t = errors_Is err t"
  by (simp add: wrapf_def)

section \<open>The packages' error variables\<close>

definition ErrServerNotFound :: go_error where
  "ErrServerNotFound = NewHillsideError ''server not found''"

definition ErrRoomNotFound :: go_error where
  "ErrRoomNotFound = NewHillsideError ''room not found''"

definition ErrDuplicateID :: go_error where
  "ErrDuplicateID = NewHillsideError ''duplicate ID detected''"

definition ErrNoRows :: go_error where
  "ErrNoRows = NewHillsideError ''no rows in result set''"

definition ErrCannotConnect :: go_error where
  "ErrCannotConnect = NewHillsideError ''cannot connect to database''"

definition ErrEncryptionFailed :: go_error where
  "ErrEncryptionFailed = NewHillsideError ''encryption failed''"

definition ErrSigningFailed :: go_error where
  "ErrSigningFailed = NewHillsideError ''signing failed''"

definition ErrSignatureInvalid :: go_error where
  "ErrSignatureInvalid = NewHillsideError ''signature invalid''"

definition ErrBadKey :: go_error where
  "ErrBadKey = NewHillsideError ''invalid key provided''"

definition ErrProfileNotFound :: go_error where
  "ErrProfileNotFound = NewHillsideError ''profile not found''"

definition ErrInvalidPassword :: go_error where
  "ErrInvalidPassword = NewHillsideError ''invalid password''"

definition ErrProfileCreation :: go_error where
  "ErrProfileCreation = NewHillsideError ''error creating profile''"

definition ErrProfileLoad :: go_error where
  "ErrProfileLoad = NewHillsideError ''error loading profile''"

definition ErrNotInitialized :: go_error where
  "ErrNotInitialized = NewHillsideError ''not initialized''"

text \<open>An error of encoding/json, whose text is not modelled.\<close>

definition json_error :: go_error where
  "json_error = Errorf ''json: cannot unmarshal''"

lemmas sentinel_defs =
  ErrServerNotFound_def ErrRoomNotFound_def ErrDuplicateID_def ErrNoRows_def ErrCannotConnect_def
  ErrEncryptionFailed_def ErrSigningFailed_def ErrSignatureInvalid_def ErrBadKey_def
  ErrProfileNotFound_def ErrInvalidPassword_def ErrProfileCreation_def ErrProfileLoad_def
  ErrNotInitialized_def

section \<open>Properties\<close>

lemma errors_Is_wrap_chain: "errors_Is (Wrapped m e) t = errors_Is e t"
  by simp

lemma errors_Is_not_Wrapped:
  "(\<And>m e'. e \<noteq> Wrapped m e') \<Longrightarrow> errors_Is e t = (same_error e t \<or> HillsideError_Is e (Some t))"
  by (cases e) auto

text \<open>How many \<open>%w\<close> layers an error has does not matter to \<open>errors.Is\<close>.\<close>

fun wrap_all :: "string list \<Rightarrow> go_error \<Rightarrow> go_error" where
  "wrap_all [] e = e"
| "wrap_all (m # ms) e = Wrapped m (wrap_all ms e)"

lemma errors_Is_wrap_all [simp]: "errors_Is (wrap_all ms e) t = errors_Is e t"
  by (induction ms) simp_all

theorem sentinel_recognised:
  "errors_Is (wrap_all ms (WithDetails (NewHillsideError b) d)) (NewHillsideError b') \<longleftrightarrow> b = b'"
  by (cases d) (simp_all add: NewHillsideError_def)

theorem plain_errors_unrecognised:
  "\<not> IsValidationError (ValidationError m)" "\<not> IsSecurityError (SecurityError m)"
  by (simp_all add: IsValidationError_def IsSecurityError_def ValidationError_def SecurityError_def)

end
