(* ===== verification/Tables.thy ===== *)
theory Tables
  imports Models Errors
begin

text \<open>
  The SQL the store uses, as operations on tables: a table is the rows in insertion order with
  the last identifier AUTOINCREMENT gave out. \<open>ORDER BY\<close> leaves the order of ties open: a
  query takes the order in which the engine meets the rows as an argument and sorts stably.
  Every statement may fail as a whole; the driver's error is an argument.
\<close>

record 'r sql_table =
  t_rows :: "'r list"
  t_seq :: int

type_synonym fault = "go_error option"

definition empty_table :: "'r sql_table" where
  "empty_table = \<lparr>t_rows = [], t_seq = 0\<rparr>"

definition sql_insert :: "(int \<Rightarrow> 'r) \<Rightarrow> 'r sql_table \<Rightarrow> 'r sql_table" where
  "sql_insert row t = \<lparr>t_rows = t_rows t @ [row (t_seq t + 1)], t_seq = t_seq t + 1\<rparr>"

definition sql_update :: "('r \<Rightarrow> bool) \<Rightarrow> ('r \<Rightarrow> 'r) \<Rightarrow> 'r sql_table \<Rightarrow> 'r sql_table" where
  "sql_update P f t = t\<lparr>t_rows := map (\<lambda>r. if P r then f r else r) (t_rows t)\<rparr>"

definition sql_delete :: "('r \<Rightarrow> bool) \<Rightarrow> 'r sql_table \<Rightarrow> 'r sql_table" where
  "sql_delete P t = t\<lparr>t_rows := filter (\<lambda>r. \<not> P r) (t_rows t)\<rparr>"

text \<open>\<open>LIMIT\<close>: a negative number is no limit.\<close>

definition sql_limit :: "int \<Rightarrow> 'r list \<Rightarrow> 'r list" where
  "sql_limit n rs = (if n < 0 then rs else take (nat n) rs)"

text \<open>Rows in the order of a key, ascending and descending; \<open>met\<close> is the order of the engine.\<close>

definition sql_order :: "('r list \<Rightarrow> 'r list) \<Rightarrow> ('r \<Rightarrow> 'k :: linorder) \<Rightarrow> 'r list \<Rightarrow> 'r list" where
  "sql_order met key rs = sort_key key (met rs)"

definition sql_order_desc :: "('r list \<Rightarrow> 'r list) \<Rightarrow> ('r \<Rightarrow> int) \<Rightarrow> 'r list \<Rightarrow> 'r list" where
  "sql_order_desc met key rs = sort_key (\<lambda>r. - key r) (met rs)"

lemma t_rows_simps [simp]:
  "t_rows empty_table = []" "t_seq empty_table = 0"
  "t_rows (sql_insert row t) = t_rows t @ [row (t_seq t + 1)]"
  "t_seq (sql_insert row t) = t_seq t + 1"
  "t_rows (sql_update P f t) = map (\<lambda>r. if P r then f r else r) (t_rows t)"
  "t_seq (sql_update P f t) = t_seq t"
  "t_rows (sql_delete P t) = filter (\<lambda>r. \<not> P r) (t_rows t)"
  "t_seq (sql_delete P t) = t_seq t"
  by (simp_all add: empty_table_def sql_insert_def sql_update_def sql_delete_def)

lemma mset_sql_order: "map_order met \<Longrightarrow> mset (sql_order met key rs) = mset rs"
  by (simp add: sql_order_def map_order_def)

lemma set_sql_order: "map_order met \<Longrightarrow> set (sql_order met key rs) = set rs"
  by (metis mset_eq_setD mset_sql_order)

lemma sorted_sql_order: "sorted (map key (sql_order met key rs))"
  by (simp add: sql_order_def)

lemma sorted_sql_order_desc: "sorted_wrt (\<ge>) (map key (sql_order_desc met key rs))"
proof -
  have "sorted (map (\<lambda>r. - key r) (sort_key (\<lambda>r. - key r) (met rs)))"
    by simp
  then show ?thesis by (simp add: sql_order_desc_def sorted_wrt_map)
qed

lemma mset_sql_order_desc: "map_order met \<Longrightarrow> mset (sql_order_desc met key rs) = mset rs"
  by (simp add: sql_order_desc_def map_order_def)

text \<open>Identifiers are distinct and no larger than the counter.\<close>

definition ids_ok :: "('r \<Rightarrow> int) \<Rightarrow> 'r sql_table \<Rightarrow> bool" where
  "ids_ok f t \<longleftrightarrow> distinct (map f (t_rows t)) \<and> (\<forall>r \<in> set (t_rows t). f r \<le> t_seq t)"

lemma ids_ok_empty [simp]: "ids_ok f empty_table"
  by (simp add: ids_ok_def)

lemma ids_ok_insert: "ids_ok f t \<Longrightarrow> (\<And>i. f (row i) = i) \<Longrightarrow> ids_ok f (sql_insert row t)"
  by (force simp: ids_ok_def)

lemma ids_ok_delete: "ids_ok f t \<Longrightarrow> ids_ok f (sql_delete P t)"
  by (auto simp: ids_ok_def distinct_map_filter_fst)

lemma ids_ok_update:
  assumes "ids_ok f t" "\<And>r. f (g r) = f r"
  shows "ids_ok f (sql_update P g t)"
proof -
  have "f (if P r then g r else r) = f r" for r
    using assms(2) by simp
  then show ?thesis
    using assms by (auto simp: ids_ok_def comp_def)
qed

text \<open>A key column is unique: rows with the same key, where there is one, are the same row.\<close>

fun unique_key :: "('r \<Rightarrow> 'k option) \<Rightarrow> 'r list \<Rightarrow> bool" where
  "unique_key key [] = True"
| "unique_key key (r # rs) =
     ((key r = None \<or> (\<forall>x \<in> set rs. key x \<noteq> key r)) \<and> unique_key key rs)"

lemma unique_key_append:
  "unique_key key (rs @ [r]) \<longleftrightarrow> unique_key key rs \<and> (key r = None \<or> (\<forall>x \<in> set rs. key x \<noteq> key r))"
  by (induction rs) auto

lemma unique_key_filter: "unique_key key rs \<Longrightarrow> unique_key key (filter P rs)"
  by (induction rs) auto

lemma unique_key_map:
  assumes "\<And>r. key (g r) = key r"
  shows "unique_key key (map g rs) = unique_key key rs"
  using assms by (induction rs) simp_all

lemma unique_key_Some: "unique_key (\<lambda>r. Some (f r)) rs \<longleftrightarrow> distinct (map f rs)"
  by (induction rs) (simp_all add: image_iff, metis)

lemma unique_keyD:
  "unique_key key rs \<Longrightarrow> r \<in> set rs \<Longrightarrow> s \<in> set rs \<Longrightarrow> key r = key s \<Longrightarrow> key r \<noteq> None \<Longrightarrow> r = s"
  by (induction rs) auto

end
