(* ===== verification/Msg_Store.thy ===== *)
theory Msg_Store
  imports Tables "HOL-Library.Product_Lexorder"
begin

text \<open>
  The messages table of internal/storage (storage.go, history.go): columns, the unique index on
  room and chain index, and the statements on it. Chain indices are 64-bit unsigned in the
  program and stored as 64-bit signed integers.
\<close>

record message_row =
  mr_id :: int
  mr_room_id :: string
  mr_server_id :: string
  mr_chain_index :: "int option"
  mr_msg_type :: string
  mr_sender_id :: string
  mr_timestamp :: int
  mr_signature :: bytes
  mr_payload :: bytes

type_synonym msg_table = "message_row sql_table"

text \<open>The row of a chat message is determined by its room and chain index (\<open>uq_room_chain\<close>).\<close>

definition room_chain :: "message_row \<Rightarrow> (string \<times> int) option" where
  "room_chain r = map_option (Pair (mr_room_id r)) (mr_chain_index r)"

definition wf_messages :: "msg_table \<Rightarrow> bool" where
  "wf_messages t \<longleftrightarrow> ids_ok mr_id t \<and> unique_key room_chain (t_rows t)"

section \<open>Statements\<close>

text \<open>
  \<open>INSERT OR IGNORE\<close>: a row that breaks the unique index, or a NOT NULL column given as a nil
  slice, is skipped without an error.
\<close>

definition SaveEnvelope ::
  "fault \<Rightarrow> slice \<Rightarrow> slice \<Rightarrow> int \<Rightarrow> message_type \<Rightarrow> u64 option \<Rightarrow> string \<Rightarrow> string \<Rightarrow> string
     \<Rightarrow> msg_table \<Rightarrow> go_error option \<times> msg_table"
where
  "SaveEnvelope fault signature payload timestamp msgType chainIndex sender_id roomID serverID t =
     (let ci = map_option int64_of chainIndex in
      case fault of
        Some err \<Rightarrow> (Some (wrapf ''insert envelope: '' err), t)
      | None \<Rightarrow>
          (case (signature, payload) of
             (Some sig, Some pay) \<Rightarrow>
               if ci \<noteq> None \<and> (\<exists>r \<in> set (t_rows t). room_chain r = map_option (Pair roomID) ci)
               then (None, t)
               else (None, sql_insert (\<lambda>i.
                 \<lparr>mr_id = i, mr_room_id = roomID, mr_server_id = serverID, mr_chain_index = ci,
                  mr_msg_type = msgType, mr_sender_id = sender_id, mr_timestamp = timestamp,
                  mr_signature = sig, mr_payload = pay\<rparr>) t)
           | _ \<Rightarrow> (None, t)))"

definition stored_of_row :: "message_row \<Rightarrow> stored_message" where
  "stored_of_row r =
     \<lparr>st_ID = mr_id r, st_RoomID = mr_room_id r, st_ServerID = mr_server_id r,
      st_ChainIndex = map_option uint64_of (mr_chain_index r), st_MsgType = mr_msg_type r,
      st_SenderID = mr_sender_id r, st_Timestamp = mr_timestamp r,
      st_Signature = Some (mr_signature r), st_Payload = Some (mr_payload r)\<rparr>"

definition chain_key :: "message_row \<Rightarrow> int" where
  "chain_key r = (case mr_chain_index r of None \<Rightarrow> 0 | Some c \<Rightarrow> c)"

definition GetMessagesSinceChainIndex ::
  "fault \<Rightarrow> (message_row list \<Rightarrow> message_row list) \<Rightarrow> string \<Rightarrow> u64 \<Rightarrow> int \<Rightarrow> msg_table
     \<Rightarrow> stored_message list result"
where
  "GetMessagesSinceChainIndex fault met roomID sinceIndex limit t =
     (case fault of
        Some err \<Rightarrow> Inl (wrapf ''select messages since: '' err)
      | None \<Rightarrow>
          (let rows = sql_order met chain_key
             (filter (\<lambda>r. mr_room_id r = roomID \<and> mr_chain_index r \<noteq> None
                  \<and> chain_key r \<ge> int64_of sinceIndex) (t_rows t))
           in Inr (map stored_of_row (if limit \<le> 0 then rows else sql_limit limit rows))))"

text \<open>Messages with a chain index first and by it, the others by time.\<close>

definition latest_key :: "message_row \<Rightarrow> int \<times> int \<times> int" where
  "latest_key r =
     (if mr_chain_index r \<noteq> None then 0 else 1, chain_key r, mr_timestamp r)"

definition GetLatestMessages ::
  "fault \<Rightarrow> (message_row list \<Rightarrow> message_row list) \<Rightarrow> string \<Rightarrow> int \<Rightarrow> msg_table \<Rightarrow> stored_message list result"
where
  "GetLatestMessages fault met roomID limit t =
     (case fault of
        Some err \<Rightarrow> Inl (wrapf ''select latest messages: '' err)
      | None \<Rightarrow>
          Inr (map stored_of_row (sql_limit limit
            (sql_order met latest_key (filter (\<lambda>r. mr_room_id r = roomID) (t_rows t))))))"

text \<open>After any error of the query the scanned value is invalid, so every error is \<open>ErrNoRows\<close>.\<close>

definition GetLatestChainIndex ::
  "fault \<Rightarrow> (message_row list \<Rightarrow> message_row list) \<Rightarrow> string \<Rightarrow> msg_table \<Rightarrow> u64 result"
where
  "GetLatestChainIndex fault met roomID t =
     (case fault of
        Some err \<Rightarrow> Inl ErrNoRows
      | None \<Rightarrow>
          (case sql_limit 1 (sql_order_desc met chain_key
              (filter (\<lambda>r. mr_room_id r = roomID \<and> mr_chain_index r \<noteq> None) (t_rows t))) of
             [] \<Rightarrow> Inl ErrNoRows
           | r # _ \<Rightarrow> Inr (uint64_of (chain_key r))))"

definition DeleteOlderThan ::
  "fault \<Rightarrow> string \<Rightarrow> int \<Rightarrow> msg_table \<Rightarrow> int result \<times> msg_table"
where
  "DeleteOlderThan fault roomID before t =
     (let P = (\<lambda>r. mr_room_id r = roomID \<and> mr_timestamp r < before) in
      case fault of
        Some err \<Rightarrow> (Inl (wrapf ''delete older than: '' err), t)
      | None \<Rightarrow> (Inr (int (length (filter P (t_rows t)))), sql_delete P t))"

section \<open>The invariant\<close>

lemma wf_messages_empty [simp]: "wf_messages empty_table"
  by (simp add: wf_messages_def)

lemma SaveEnvelope_cases:
  obtains (unchanged) e where "SaveEnvelope fault sig pay ts mt ci who rid sid t = (e, t)"
  | (added) s p where "sig = Some s" "pay = Some p" "fault = None"
      "map_option (Pair rid) (map_option int64_of ci) \<noteq> None \<Longrightarrow>
        \<forall>r \<in> set (t_rows t). room_chain r \<noteq> map_option (Pair rid) (map_option int64_of ci)"
      "SaveEnvelope fault sig pay ts mt ci who rid sid t = (None, sql_insert (\<lambda>i.
         \<lparr>mr_id = i, mr_room_id = rid, mr_server_id = sid, mr_chain_index = map_option int64_of ci,
          mr_msg_type = mt, mr_sender_id = who, mr_timestamp = ts, mr_signature = s, mr_payload = p\<rparr>) t)"
proof (cases "fault = None \<and> sig \<noteq> None \<and> pay \<noteq> None \<and> \<not> (map_option int64_of ci \<noteq> None
    \<and> (\<exists>r \<in> set (t_rows t). room_chain r = map_option (Pair rid) (map_option int64_of ci)))")
  case True
  then obtain s p where "sig = Some s" "pay = Some p" "fault = None" by auto
  with True show ?thesis
    by (intro added) (auto simp: SaveEnvelope_def Let_def)
next
  case False
  then have "\<exists>e. SaveEnvelope fault sig pay ts mt ci who rid sid t = (e, t)"
    by (auto simp: SaveEnvelope_def Let_def split: option.split)
  then show ?thesis using unchanged by blast
qed

lemma wf_SaveEnvelope:
  assumes "wf_messages t"
  shows "wf_messages (snd (SaveEnvelope fault sig pay ts mt ci who rid sid t))"
proof (cases rule: SaveEnvelope_cases [of fault sig pay ts mt ci who rid sid t])
  case (added s p)
  with assms show ?thesis
    by (auto simp: wf_messages_def room_chain_def unique_key_append intro!: ids_ok_insert)
qed (use assms in simp)

lemma wf_DeleteOlderThan:
  "wf_messages t \<Longrightarrow> wf_messages (snd (DeleteOlderThan fault rid before t))"
  by (auto simp: DeleteOlderThan_def Let_def wf_messages_def ids_ok_delete unique_key_filter
      split: option.split)

section \<open>Properties\<close>

text \<open>
  Saving and deleting messages keep the table well formed, whatever fails: identifiers stay
  distinct and no room has two messages with one chain index.
\<close>

theorem messages_stay_unique:
  assumes "wf_messages t"
  shows "wf_messages (snd (SaveEnvelope fault sig pay ts mt ci who rid sid t))
    \<and> wf_messages (snd (DeleteOlderThan fault rid before t))"
  using assms by (simp add: wf_SaveEnvelope wf_DeleteOlderThan)

text \<open>The chat messages of a room from an index on, as the query should return them.\<close>

definition chat_rows :: "msg_table \<Rightarrow> string \<Rightarrow> message_row set" where
  "chat_rows t rid = {r \<in> set (t_rows t). mr_room_id r = rid \<and> mr_chain_index r \<noteq> None}"

lemma chat_rows_inj:
  assumes "wf_messages t" "r \<in> chat_rows t rid" "s \<in> chat_rows t rid" "chain_key r = chain_key s"
  shows "r = s"
  using assms
  by (intro unique_keyD [of room_chain "t_rows t"])
    (auto simp: chat_rows_def wf_messages_def room_chain_def chain_key_def)

lemma distinct_chain_keys:
  assumes "wf_messages t" "distinct rs" "set rs \<subseteq> chat_rows t rid"
  shows "distinct (map chain_key rs)"
  using assms by (auto simp: distinct_map inj_on_def intro: chat_rows_inj)

lemma wf_distinct_rows: "wf_messages t \<Longrightarrow> distinct (t_rows t)"
  by (simp add: wf_messages_def ids_ok_def distinct_map)

lemma messages_since_all:
  assumes "wf_messages t" "map_order met" "limit \<le> 0"
  shows "\<exists>rows. GetMessagesSinceChainIndex None met rid since limit t = Inr (map stored_of_row rows)
    \<and> set rows = {r \<in> chat_rows t rid. int64_of since \<le> chain_key r}
    \<and> sorted_wrt (<) (map chain_key rows)"
proof -
  let ?f = "filter (\<lambda>r. mr_room_id r = rid \<and> mr_chain_index r \<noteq> None \<and> chain_key r \<ge> int64_of since) (t_rows t)"
  let ?rows = "sql_order met chain_key ?f"
  have set: "set ?rows = {r \<in> chat_rows t rid. int64_of since \<le> chain_key r}"
    by (auto simp: set_sql_order [OF assms(2)] chat_rows_def)
  have "distinct ?rows"
    using wf_distinct_rows [OF assms(1)] mset_sql_order [OF assms(2), of chain_key ?f]
    by (metis distinct_filter mset_eq_imp_distinct_iff)
  then have "distinct (map chain_key ?rows)"
    using set by (intro distinct_chain_keys [OF assms(1)]) auto
  then have "sorted_wrt (<) (map chain_key ?rows)"
    using sorted_sql_order [of chain_key met ?f] by (simp add: strict_sorted_iff)
  with set assms(3) show ?thesis
    by (intro exI [of _ ?rows]) (simp add: GetMessagesSinceChainIndex_def)
qed


text \<open>
  The messages since an index, without a limit, are exactly the room's chat messages whose
  stored index is at least that index, each once, in strictly ascending order of index; the
  order in which the engine met the rows does not show.
\<close>

theorem messages_since_exact:
  assumes "wf_messages t" "map_order met" "limit \<le> 0"
  shows "\<exists>rows. GetMessagesSinceChainIndex None met rid since limit t = Inr (map stored_of_row rows)
    \<and> set rows = {r \<in> chat_rows t rid. int64_of since \<le> chain_key r}
    \<and> sorted_wrt (<) (map chain_key rows)"
  using assms by (rule messages_since_all)

text \<open>
  Saving is idempotent and the first write wins: once a message is stored under a room and
  index, saving any message under the same room and index succeeds and changes nothing.
\<close>

theorem save_first_wins:
  assumes "SaveEnvelope None (Some sig) (Some pay) ts mt (Some c) who rid sid t = (e, t1)"
  shows "e = None \<and> SaveEnvelope None sig2 pay2 ts2 mt2 (Some c) who2 rid sid2 t1 = (None, t1)
    \<and> (\<exists>r \<in> set (t_rows t1). room_chain r = Some (rid, int64_of c))"
proof -
  have r: "e = None \<and> (\<exists>r \<in> set (t_rows t1). room_chain r = Some (rid, int64_of c))"
    using assms by (auto simp: SaveEnvelope_def Let_def room_chain_def split: if_split_asm)
  then have "\<exists>r \<in> set (t_rows t1). room_chain r = map_option (Pair rid) (Some (int64_of c))" by simp
  then have "SaveEnvelope None sig2 pay2 ts2 mt2 (Some c) who2 rid sid2 t1 = (None, t1)"
    by (simp add: SaveEnvelope_def Let_def split: option.split)
  with r show ?thesis by blast
qed

text \<open>
  What was saved is read back: after saving a chat message under a free room and index, the
  query from that index returns the message with its fields first, under the next identifier.
\<close>

theorem saved_message_read_back:
  assumes "wf_messages t" "map_order met"
    and "\<forall>r \<in> set (t_rows t). room_chain r \<noteq> Some (rid, int64_of c)"
    and "SaveEnvelope None (Some sig) (Some pay) ts mt (Some c) who rid sid t = (e, t1)"
  shows "\<exists>ms. e = None \<and> GetMessagesSinceChainIndex None met rid c 0 t1 = Inr
    (\<lparr>st_ID = t_seq t + 1, st_RoomID = rid, st_ServerID = sid, st_ChainIndex = Some c, st_MsgType = mt,
      st_SenderID = who, st_Timestamp = ts, st_Signature = Some sig, st_Payload = Some pay\<rparr> # ms)"
proof -
  define row where "row = \<lparr>mr_id = t_seq t + 1, mr_room_id = rid, mr_server_id = sid,
    mr_chain_index = Some (int64_of c), mr_msg_type = mt, mr_sender_id = who, mr_timestamp = ts,
    mr_signature = sig, mr_payload = pay\<rparr>"
  have t1: "e = None" "t_rows t1 = t_rows t @ [row]"
    using assms(3,4) by (auto simp: SaveEnvelope_def Let_def row_def split: if_split_asm)
  have wf: "wf_messages t1"
    using wf_SaveEnvelope [OF assms(1), of None "Some sig" "Some pay" ts mt "Some c" who rid sid] assms(4)
    by simp
  obtain rows where rows: "GetMessagesSinceChainIndex None met rid c 0 t1 = Inr (map stored_of_row rows)"
    "set rows = {r \<in> chat_rows t1 rid. int64_of c \<le> chain_key r}" "sorted_wrt (<) (map chain_key rows)"
    using messages_since_all [OF wf assms(2), of 0 rid c] by auto
  have row_in: "row \<in> set rows"
    using rows(2) t1(2) by (simp add: chat_rows_def row_def chain_key_def)
  obtain r rs where r: "rows = r # rs" using row_in by (cases rows) auto
  have "r = row"
  proof (rule ccontr)
    assume "r \<noteq> row"
    with row_in r rows(3) have "chain_key r < chain_key row" by auto
    moreover have "int64_of c \<le> chain_key r" using rows(2) r by auto
    ultimately show False by (simp add: row_def chain_key_def)
  qed
  with rows(1) r t1(1) show ?thesis
    by (auto simp: stored_of_row_def row_def)
qed

text \<open>
  The latest chain index of a room is the largest stored one, or the no-rows error when the
  room has no chat message.
\<close>

theorem latest_index_is_max:
  assumes "map_order met"
  shows "GetLatestChainIndex None met rid t =
    (if chat_rows t rid = {} then Inl ErrNoRows
     else Inr (uint64_of (Max (chain_key ` chat_rows t rid))))"
proof -
  let ?f = "filter (\<lambda>r. mr_room_id r = rid \<and> mr_chain_index r \<noteq> None) (t_rows t)"
  let ?l = "sql_order_desc met chain_key ?f"
  have set: "set ?l = chat_rows t rid"
    by (auto simp: sql_order_desc_def chat_rows_def map_order_set [OF assms])
  show ?thesis
  proof (cases ?l)
    case Nil
    with set show ?thesis by (simp add: GetLatestChainIndex_def sql_limit_def)
  next
    case (Cons r rs)
    have "sorted (map (\<lambda>r. - chain_key r) ?l)" by (simp add: sql_order_desc_def)
    with Cons have "\<forall>s \<in> set ?l. chain_key s \<le> chain_key r" by auto
    then have "Max (chain_key ` chat_rows t rid) = chain_key r"
      using set Cons by (intro Max_eqI) (auto simp: set [symmetric])
    moreover have "chat_rows t rid \<noteq> {}" using set Cons by auto
    ultimately show ?thesis
      using Cons by (simp add: GetLatestChainIndex_def sql_limit_def)
  qed
qed

text \<open>
  The query for the latest messages, limited to fewer than the room has, returns the oldest
  ones: every chat message it leaves out has a larger chain index than every one it returns.
\<close>

theorem latest_messages_are_oldest:
  assumes "wf_messages t" "map_order met" "0 \<le> n" "nat n \<le> card (chat_rows t rid)"
  shows "\<exists>rows. GetLatestMessages None met rid n t = Inr (map stored_of_row rows)
    \<and> length rows = nat n \<and> set rows \<subseteq> chat_rows t rid
    \<and> (\<forall>r \<in> set rows. \<forall>s \<in> chat_rows t rid - set rows. chain_key r < chain_key s)"
proof -
  let ?f = "filter (\<lambda>r. mr_room_id r = rid) (t_rows t)"
  define l where "l = sql_order met latest_key ?f"
  define rows where "rows = take (nat n) l"
  have set_l: "set l = {r \<in> set (t_rows t). mr_room_id r = rid}"
    by (auto simp: l_def set_sql_order [OF assms(2)])
  have "distinct ?f" using wf_distinct_rows [OF assms(1)] by simp
  then have dist: "distinct l"
    unfolding l_def by (metis mset_eq_imp_distinct_iff mset_sql_order [OF assms(2)])
  have chat: "chat_rows t rid \<subseteq> set l" by (auto simp: set_l chat_rows_def)
  have "card (chat_rows t rid) \<le> length l"
    using card_mono [OF _ chat] dist by (simp add: distinct_card)
  then have len: "length rows = nat n" using assms(4) by (simp add: rows_def)
  have sorted: "sorted (map latest_key l)" by (simp add: l_def sorted_sql_order)
  have before: "latest_key r \<le> latest_key s" if "r \<in> set rows" "s \<in> set l - set rows" for r s
  proof -
    have "l = rows @ drop (nat n) l" by (simp add: rows_def)
    with sorted have "sorted (map latest_key rows @ map latest_key (drop (nat n) l))"
      by (metis map_append)
    moreover from that(2) have "s \<in> set (drop (nat n) l)"
      by (metis Diff_iff Un_iff \<open>l = rows @ drop (nat n) l\<close> set_append)
    ultimately show ?thesis using that(1) by (auto simp: sorted_append)
  qed
  have only_chat: "r \<in> chat_rows t rid" if r: "r \<in> set rows" for r
  proof (rule ccontr)
    assume no: "r \<notin> chat_rows t rid"
    from r have "r \<in> set l" by (auto simp: rows_def dest: in_set_takeD)
    with no have none: "mr_chain_index r = None" by (auto simp: set_l chat_rows_def)
    have "chat_rows t rid \<subseteq> set rows"
    proof
      fix s assume s: "s \<in> chat_rows t rid"
      show "s \<in> set rows"
      proof (rule ccontr)
        assume "s \<notin> set rows"
        with before [OF r, of s] s chat have "latest_key r \<le> latest_key s" by auto
        with none s show False by (auto simp: latest_key_def chat_rows_def)
      qed
    qed
    with r no have "insert r (chat_rows t rid) \<subseteq> set rows" by auto
    then have "card (insert r (chat_rows t rid)) \<le> card (set rows)"
      by (intro card_mono) simp_all
    then have "card (insert r (chat_rows t rid)) \<le> length rows"
      using card_length [of rows] by (rule le_trans)
    with no len assms(4) show False by (simp add: chat_rows_def)
  qed
  have "chain_key r < chain_key s" if "r \<in> set rows" "s \<in> chat_rows t rid - set rows" for r s
  proof -
    have "latest_key r \<le> latest_key s" using before [OF that(1), of s] that(2) chat by auto
    then have "chain_key r \<le> chain_key s"
      using only_chat [OF that(1)] that(2) by (auto simp: latest_key_def chat_rows_def)
    moreover have "chain_key r \<noteq> chain_key s"
      using chat_rows_inj [OF assms(1) only_chat [OF that(1)], of s] that by auto
    ultimately show ?thesis by simp
  qed
  with len only_chat assms(3) show ?thesis
    by (intro exI [of _ rows]) (auto simp: GetLatestMessages_def rows_def l_def sql_limit_def)
qed

section \<open>Instances of the properties\<close>

definition sample_messages :: msg_table where
  "sample_messages =
     snd (SaveEnvelope None (Some [1]) (Some [2]) 20 ''chat'' (Some 5) ''p'' ''r'' ''s''
       (snd (SaveEnvelope None (Some [1]) (Some [3]) 10 ''chat'' (Some 7) ''p'' ''r'' ''s'' empty_table)))"

lemma sample_messages_wf [simp]: "wf_messages sample_messages"
  by (simp add: sample_messages_def wf_SaveEnvelope)

lemma int64_of_numeral:
  "int64_of 5 = 5" "int64_of 6 = 6" "int64_of 7 = 7" "int64_of 0 = 0"
  by (simp_all add: int64_of_def)

lemma sample_messages_rows:
  "t_rows sample_messages =
    [\<lparr>mr_id = 1, mr_room_id = ''r'', mr_server_id = ''s'', mr_chain_index = Some 7, mr_msg_type = ''chat'',
      mr_sender_id = ''p'', mr_timestamp = 10, mr_signature = [1], mr_payload = [3]\<rparr>,
     \<lparr>mr_id = 2, mr_room_id = ''r'', mr_server_id = ''s'', mr_chain_index = Some 5, mr_msg_type = ''chat'',
      mr_sender_id = ''p'', mr_timestamp = 20, mr_signature = [1], mr_payload = [2]\<rparr>]"
  by (simp add: sample_messages_def SaveEnvelope_def Let_def room_chain_def int64_of_numeral)

lemma sample_chat: "chat_rows sample_messages ''r'' = set (t_rows sample_messages)"
  by (auto simp: chat_rows_def sample_messages_rows)

theorem messages_stay_unique_witness:
  "wf_messages (snd (SaveEnvelope None (Some [9]) (Some [9]) 30 ''chat'' (Some 5) ''q'' ''r'' ''s'' sample_messages))"
  using messages_stay_unique [OF sample_messages_wf] by blast

theorem messages_since_exact_witness:
  "\<exists>rows. GetMessagesSinceChainIndex None rev ''r'' 6 0 sample_messages = Inr (map stored_of_row rows)
    \<and> map chain_key rows = [7]"
proof -
  obtain rows where rows: "GetMessagesSinceChainIndex None rev ''r'' 6 0 sample_messages = Inr (map stored_of_row rows)"
    "set rows = {r \<in> chat_rows sample_messages ''r''. int64_of 6 \<le> chain_key r}" "sorted_wrt (<) (map chain_key rows)"
    using messages_since_exact [OF sample_messages_wf map_order_rev, of 0 "''r''" 6] by auto
  have "set (map chain_key rows)
      = set (map chain_key (filter (\<lambda>r. int64_of 6 \<le> chain_key r) (t_rows sample_messages)))"
    using rows(2) by (simp add: sample_chat)
  also have "\<dots> = {7}"
    by (simp add: sample_messages_rows int64_of_numeral chain_key_def)
  finally have "set (map chain_key rows) = {7}" .
  then obtain k ks where ks: "map chain_key rows = k # ks" "set (k # ks) = {7}"
    by (cases "map chain_key rows") auto
  with rows(3) have "ks = []"
    by (cases ks) auto
  with ks have "map chain_key rows = [7]"
    by simp
  with rows(1) show ?thesis by (intro exI [of _ rows] conjI)
qed

theorem save_first_wins_witness:
  "\<exists>t1. SaveEnvelope None (Some [1]) (Some [2]) 20 ''chat'' (Some 5) ''p'' ''r'' ''s'' empty_table = (None, t1)
    \<and> SaveEnvelope None (Some [3]) (Some [4]) 21 ''chat'' (Some 5) ''q'' ''r'' ''s'' t1 = (None, t1)"
proof -
  obtain e t1 where s: "SaveEnvelope None (Some [1]) (Some [2]) 20 ''chat'' (Some 5) ''p'' ''r'' ''s'' empty_table = (e, t1)"
    by (cases "SaveEnvelope None (Some [1]) (Some [2]) 20 ''chat'' (Some 5) ''p'' ''r'' ''s'' empty_table")
  from save_first_wins [OF s] s show ?thesis by blast
qed

theorem saved_message_read_back_witness:
  "\<exists>t1 m ms. SaveEnvelope None (Some [1]) (Some [2]) 20 ''chat'' (Some 6) ''p'' ''r'' ''s'' sample_messages = (None, t1)
    \<and> GetMessagesSinceChainIndex None rev ''r'' 6 0 t1 = Inr (m # ms) \<and> st_Payload m = Some [2]"
proof -
  obtain e t1 where s: "SaveEnvelope None (Some [1]) (Some [2]) 20 ''chat'' (Some 6) ''p'' ''r'' ''s'' sample_messages = (e, t1)"
    by (cases "SaveEnvelope None (Some [1]) (Some [2]) 20 ''chat'' (Some 6) ''p'' ''r'' ''s'' sample_messages")
  have "\<forall>r \<in> set (t_rows sample_messages). room_chain r \<noteq> Some (''r'', int64_of 6)"
    by (simp add: sample_messages_rows room_chain_def int64_of_numeral)
  from saved_message_read_back [OF sample_messages_wf map_order_rev this s] s show ?thesis
    by (metis stored_message.select_convs(9))
qed

theorem latest_index_is_max_witness:
  "GetLatestChainIndex None rev ''r'' sample_messages = Inr (uint64_of 7)"
proof -
  have "chain_key ` chat_rows sample_messages ''r'' = {5, 7}" "chat_rows sample_messages ''r'' \<noteq> {}"
    unfolding sample_chat by (auto simp: sample_messages_rows chain_key_def)
  then show ?thesis
    by (simp add: latest_index_is_max)
qed

theorem latest_messages_are_oldest_witness:
  "\<exists>rows. GetLatestMessages None rev ''r'' 1 sample_messages = Inr (map stored_of_row rows)
    \<and> length rows = 1 \<and> (\<forall>r \<in> set rows. chain_key r = 5)"
proof -
  have "nat 1 \<le> card (chat_rows sample_messages ''r'')"
    unfolding sample_chat by (simp add: sample_messages_rows)
  from latest_messages_are_oldest [OF sample_messages_wf map_order_rev _ this] obtain rows where
    rows: "GetLatestMessages None rev ''r'' 1 sample_messages = Inr (map stored_of_row rows)"
    "length rows = 1" "set rows \<subseteq> chat_rows sample_messages ''r''"
    "\<forall>r \<in> set rows. \<forall>s \<in> chat_rows sample_messages ''r'' - set rows. chain_key r < chain_key s"
    by auto
  from rows(2) obtain r where r: "rows = [r]" by (cases rows) auto
  with rows(3,4) have "chain_key r = 5"
    unfolding sample_chat by (auto simp: sample_messages_rows chain_key_def)
  with rows(1) r show ?thesis by (intro exI [of _ rows]) simp
qed

end
