(* ===== verification/Peer_Store.thy ===== *)
theory Peer_Store
  imports Tables
begin

text \<open>
  The peers table of internal/storage (peer_manager.go): the users met so far with their public
  keys, one row per peer ID.
\<close>

record peer_row =
  pe_id :: int
  pe_peer_id :: string
  pe_dilithium_pub :: bytes
  pe_kyber_pub :: bytes
  pe_libp2p_pub :: bytes
  pe_username :: string
  pe_color :: string
  pe_last_seen :: int
  pe_synced :: int

type_synonym peer_table = "peer_row sql_table"

definition wf_peers :: "peer_table \<Rightarrow> bool" where
  "wf_peers t \<longleftrightarrow> ids_ok pe_id t \<and> unique_key (\<lambda>r. Some (pe_peer_id r)) (t_rows t)"

text \<open>
  \<open>INSERT OR REPLACE\<close>: rows with the peer ID go, a nil key breaks a NOT NULL column that has no
  default, which aborts the statement with the engine's error \<open>notNull\<close>.
\<close>

definition SaveUser ::
  "fault \<Rightarrow> go_error \<Rightarrow> int \<Rightarrow> user \<Rightarrow> peer_table \<Rightarrow> go_error option \<times> peer_table"
where
  "SaveUser fault notNull now u t =
     (case fault of
        Some err \<Rightarrow> (Some (wrapf ''insert user: '' err), t)
      | None \<Rightarrow>
          (case (u_DilithiumPub u, u_KyberPub u, u_Libp2pPub u) of
             (Some dil, Some kyber, Some libp2p) \<Rightarrow>
               (None, sql_insert (\<lambda>i.
                  \<lparr>pe_id = i, pe_peer_id = u_PeerID u, pe_dilithium_pub = dil, pe_kyber_pub = kyber,
                   pe_libp2p_pub = libp2p, pe_username = u_Username u, pe_color = u_PreferredColor u,
                   pe_last_seen = now, pe_synced = 1\<rparr>)
                 (sql_delete (\<lambda>r. pe_peer_id r = u_PeerID u) t))
           | _ \<Rightarrow> (Some (wrapf ''insert user: '' notNull), t)))"

definition user_of_row :: "peer_row \<Rightarrow> user" where
  "user_of_row r =
     \<lparr>u_DilithiumPub = Some (pe_dilithium_pub r), u_KyberPub = Some (pe_kyber_pub r),
      u_Libp2pPub = Some (pe_libp2p_pub r), u_PeerID = pe_peer_id r, u_Username = pe_username r,
      u_PreferredColor = pe_color r\<rparr>"

text \<open>No row is no error: the user is nil then.\<close>

definition GetUserByID :: "fault \<Rightarrow> string \<Rightarrow> peer_table \<Rightarrow> user option result" where
  "GetUserByID fault peerID t =
     (case fault of
        Some err \<Rightarrow> Inl (wrapf ''select user by id: '' err)
      | None \<Rightarrow> Inr (map_option user_of_row (find (\<lambda>r. pe_peer_id r = peerID) (t_rows t))))"

text \<open>
  \<open>Rows.Scan\<close> with nine destinations on a row of eight columns: the loop over the rows ends with
  that error at the first row.
\<close>

definition scan_mismatch :: go_error where
  "scan_mismatch = Errorf ''sql: expected 8 destination arguments in Scan, not 9''"

definition scan_all :: "peer_row list \<Rightarrow> user list result" where
  "scan_all rows = (case rows of [] \<Rightarrow> Inr [] | r # _ \<Rightarrow> Inl (wrapf ''scan: '' scan_mismatch))"

definition GetAllUsers :: "fault \<Rightarrow> peer_table \<Rightarrow> user list result" where
  "GetAllUsers fault t =
     (case fault of
        Some err \<Rightarrow> Inl (wrapf ''select all users: '' err) | None \<Rightarrow> scan_all (t_rows t))"

definition GetLastSeenUsers :: "fault \<Rightarrow> int \<Rightarrow> peer_table \<Rightarrow> user list result" where
  "GetLastSeenUsers fault since t =
     (case fault of
        Some err \<Rightarrow> Inl (wrapf ''select users by last seen: '' err)
      | None \<Rightarrow> scan_all (filter (\<lambda>r. pe_last_seen r \<ge> since) (t_rows t)))"

section \<open>The invariant\<close>

lemma wf_peers_empty [simp]: "wf_peers empty_table"
  by (simp add: wf_peers_def)

lemma wf_SaveUser:
  assumes "wf_peers t"
  shows "wf_peers (snd (SaveUser fault nn now u t))"
proof (cases "\<exists>e. SaveUser fault nn now u t = (e, t)")
  case False
  then obtain row where row: "SaveUser fault nn now u t
      = (None, sql_insert row (sql_delete (\<lambda>r. pe_peer_id r = u_PeerID u) t))"
    "\<And>i. pe_id (row i) = i" "\<And>i. pe_peer_id (row i) = u_PeerID u"
    by (auto simp: SaveUser_def split: option.splits)
  have "ids_ok pe_id (sql_delete (\<lambda>r. pe_peer_id r = u_PeerID u) t)"
    using assms by (simp add: wf_peers_def ids_ok_delete)
  with assms row show ?thesis
    by (auto simp: wf_peers_def unique_key_append unique_key_filter intro!: ids_ok_insert)
qed (use assms in auto)

lemma find_filter_other:
  "(\<And>r. Q r \<Longrightarrow> P r) \<Longrightarrow> find Q (filter P rs) = find Q rs"
  by (induction rs) auto

lemma find_append: "find Q (rs @ [r]) = (case find Q rs of None \<Rightarrow> if Q r then Some r else None | Some x \<Rightarrow> Some x)"
  by (induction rs) auto

definition has_keys :: "user \<Rightarrow> bool" where
  "has_keys u \<longleftrightarrow> u_DilithiumPub u \<noteq> None \<and> u_KyberPub u \<noteq> None \<and> u_Libp2pPub u \<noteq> None"

lemma SaveUser_GetUserByID:
  assumes "has_keys u"
  shows "\<exists>t'. SaveUser None nn now u t = (None, t') \<and> GetUserByID None (u_PeerID u) t' = Inr (Some u)
    \<and> (\<forall>p. p \<noteq> u_PeerID u \<longrightarrow> GetUserByID None p t' = GetUserByID None p t)"
proof -
  obtain d k l where keys: "u_DilithiumPub u = Some d" "u_KyberPub u = Some k" "u_Libp2pPub u = Some l"
    using assms by (auto simp: has_keys_def)
  define row where "row = (\<lambda>i. \<lparr>pe_id = i, pe_peer_id = u_PeerID u, pe_dilithium_pub = d, pe_kyber_pub = k,
    pe_libp2p_pub = l, pe_username = u_Username u, pe_color = u_PreferredColor u, pe_last_seen = now,
    pe_synced = 1\<rparr>)"
  let ?t = "sql_insert row (sql_delete (\<lambda>r. pe_peer_id r = u_PeerID u) t)"
  have row: "user_of_row (row i) = u" "pe_peer_id (row i) = u_PeerID u" for i
    using keys by (simp_all add: row_def user_of_row_def)
  have "SaveUser None nn now u t = (None, ?t)"
    using keys by (simp add: SaveUser_def row_def)
  moreover have "find (\<lambda>r. pe_peer_id r = u_PeerID u) (filter (\<lambda>r. pe_peer_id r \<noteq> u_PeerID u) (t_rows t)) = None"
    by (simp add: find_None_iff)
  then have "GetUserByID None (u_PeerID u) ?t = Inr (Some u)"
    by (simp add: GetUserByID_def find_append row)
  moreover have "GetUserByID None p ?t = GetUserByID None p t" if "p \<noteq> u_PeerID u" for p
  proof -
    have "find (\<lambda>r. pe_peer_id r = p) (filter (\<lambda>r. pe_peer_id r \<noteq> u_PeerID u) (t_rows t))
        = find (\<lambda>r. pe_peer_id r = p) (t_rows t)"
      using that by (intro find_filter_other) auto
    with that show ?thesis
      by (simp add: GetUserByID_def find_append row split: option.split)
  qed
  ultimately show ?thesis by blast
qed

section \<open>Properties\<close>

text \<open>
  Listing all users fails as soon as one is stored, and so does listing those seen since a
  time as soon as there is one: the scan has one destination too many.
\<close>

theorem listing_users_fails:
  assumes "r \<in> set (t_rows t)"
  shows "(\<exists>err. GetAllUsers None t = Inl err)
    \<and> (since \<le> pe_last_seen r \<longrightarrow> (\<exists>err. GetLastSeenUsers None since t = Inl err))"
proof -
  have "\<exists>err. scan_all rows = Inl err" if "r \<in> set rows" for rows
    using that by (cases rows) (auto simp: scan_all_def)
  with assms show ?thesis by (simp add: GetAllUsers_def GetLastSeenUsers_def)
qed

section \<open>Instances of the properties\<close>

definition sample_peer_user :: user where
  "sample_peer_user = zero_user\<lparr>u_PeerID := ''p'', u_DilithiumPub := Some [1], u_KyberPub := Some [2],
     u_Libp2pPub := Some [3]\<rparr>"

lemma sample_peer_user_keys [simp]: "has_keys sample_peer_user" "u_PeerID sample_peer_user = ''p''"
  by (simp_all add: has_keys_def sample_peer_user_def)

theorem listing_users_fails_witness:
  "\<exists>err. GetAllUsers None (snd (SaveUser None (Errorf []) 5 sample_peer_user empty_table)) = Inl err"
proof -
  let ?t = "snd (SaveUser None (Errorf []) 5 sample_peer_user empty_table)"
  have "t_rows ?t \<noteq> []" by (simp add: SaveUser_def sample_peer_user_def)
  then have "hd (t_rows ?t) \<in> set (t_rows ?t)" by (rule hd_in_set)
  from listing_users_fails [OF this] show ?thesis by blast
qed

end
