(* ===== verification/Write_Queue.thy ===== *)
theory Write_Queue
  imports Errors
begin

text \<open>
  The write queue of internal/storage, as both \<open>HistoryManager\<close> and \<open>PeerManager\<close> have it: a bounded
  channel, a worker that collects requests into a batch and saves the batch in order when it is
  full, when a timer fires, and when it is told to stop and has drained the channel. One rule
  per branch of the worker's selects; what the channel accepted is recorded beside the state.
  The interface \<open>save_target\<close> is what the worker needs of the operation that saves a request.
\<close>

text \<open>Saving takes what the outside contributes to the call (the clock, a failure of the engine).\<close>

type_synonym ('e, 'r, 'd) saver = "'e \<Rightarrow> 'r \<Rightarrow> 'd \<Rightarrow> go_error option \<times> 'd"

datatype worker_mode = Running | Draining | Stopped

record ('r, 'd) worker =
  wk_queue :: "'r list"
  wk_capacity :: nat
  wk_batch :: "'r list"
  wk_batchSize :: nat
  wk_target :: 'd
  wk_mode :: worker_mode
  wk_stop :: bool
  wk_results :: "('r \<times> go_error option) list"
  wk_accepted :: "'r list"

definition new_worker :: "nat \<Rightarrow> nat \<Rightarrow> 'd \<Rightarrow> ('r, 'd) worker" where
  "new_worker capacity batchSize d =
     \<lparr>wk_queue = [], wk_capacity = capacity, wk_batch = [], wk_batchSize = batchSize, wk_target = d,
      wk_mode = Running, wk_stop = False, wk_results = [], wk_accepted = []\<rparr>"

text \<open>Sending on the channel without blocking: a full queue refuses.\<close>

definition enqueue :: "string \<Rightarrow> 'r \<Rightarrow> ('r, 'd) worker \<Rightarrow> go_error option \<times> ('r, 'd) worker" where
  "enqueue full r w =
     (if length (wk_queue w) < wk_capacity w
      then (None, w\<lparr>wk_queue := wk_queue w @ [r], wk_accepted := wk_accepted w @ [r]\<rparr>)
      else (Some (Errorf full), w))"

text \<open>
  Being told to stop: closing the channel again would panic (\<open>None\<close>). The caller then waits until the
  worker has stopped.
\<close>

definition StopWorker :: "('r, 'd) worker \<Rightarrow> ('r, 'd) worker option" where
  "StopWorker w = (if wk_stop w then None else Some (w\<lparr>wk_stop := True\<rparr>))"

text \<open>Saving the requests of a batch one after the other; an error does not stop the batch.\<close>

fun save_batch ::
  "('e, 'r, 'd) saver \<Rightarrow> (nat \<Rightarrow> 'e) \<Rightarrow> 'r list \<Rightarrow> 'd \<Rightarrow> ('r \<times> go_error option) list \<times> 'd"
where
  "save_batch save fault [] d = ([], d)"
| "save_batch save fault (r # rs) d =
     (let (e, d1) = save (fault 0) r d; (es, d2) = save_batch save (\<lambda>n. fault (Suc n)) rs d1
      in ((r, e) # es, d2))"

definition flush ::
  "('e, 'r, 'd) saver \<Rightarrow> (nat \<Rightarrow> 'e) \<Rightarrow> ('r, 'd) worker \<Rightarrow> ('r, 'd) worker"
where
  "flush save fault w =
     (let (res, d) = save_batch save fault (wk_batch w) (wk_target w)
      in w\<lparr>wk_batch := [], wk_target := d, wk_results := wk_results w @ res\<rparr>)"

text \<open>A request received from the channel: into the batch, which is saved when it is full.\<close>

definition receive ::
  "('e, 'r, 'd) saver \<Rightarrow> (nat \<Rightarrow> 'e) \<Rightarrow> 'r \<Rightarrow> 'r list \<Rightarrow> ('r, 'd) worker \<Rightarrow> ('r, 'd) worker"
where
  "receive save fault r rest w =
     (let w1 = w\<lparr>wk_queue := rest, wk_batch := wk_batch w @ [r]\<rparr>
      in if length (wk_batch w1) \<ge> wk_batchSize w1 then flush save fault w1 else w1)"

inductive worker_step :: "('e, 'r, 'd) saver \<Rightarrow> ('r, 'd) worker \<Rightarrow> ('r, 'd) worker \<Rightarrow> bool"
  for save
where
  send: "enqueue full r w = (e, w') \<Longrightarrow> worker_step save w w'"
| stop: "worker_step save w (w\<lparr>wk_stop := True\<rparr>)"
| take: "wk_mode w \<noteq> Stopped \<Longrightarrow> wk_queue w = r # rest \<Longrightarrow>
     worker_step save w (receive save fault r rest w)"
| tick: "wk_mode w = Running \<Longrightarrow> worker_step save w (flush save fault w)"
| stopping: "wk_mode w = Running \<Longrightarrow> wk_stop w \<Longrightarrow> worker_step save w (w\<lparr>wk_mode := Draining\<rparr>)"
| drained: "wk_mode w = Draining \<Longrightarrow> wk_queue w = [] \<Longrightarrow>
     worker_step save w ((flush save fault w)\<lparr>wk_mode := Stopped\<rparr>)"

inductive_cases worker_stepE: "worker_step save w w'"

definition worker_reachable :: "('e, 'r, 'd) saver \<Rightarrow> ('r, 'd) worker \<Rightarrow> ('r, 'd) worker \<Rightarrow> bool" where
  "worker_reachable save w0 w \<longleftrightarrow> (worker_step save)\<^sup>*\<^sup>* w0 w"

section \<open>First in, first out, each once\<close>

lemma save_batch_requests [simp]: "map fst (fst (save_batch save fault rs d)) = rs"
  by (induction rs arbitrary: fault d) (simp_all add: Let_def case_prod_unfold)

lemma save_batch_target:
  "snd (save_batch save fault (r # rs) d) = snd (save_batch save (\<lambda>n. fault (Suc n)) rs (snd (save (fault 0) r d)))"
  by (simp add: Let_def case_prod_unfold)

lemma save_batch_append:
  "save_batch save fault (rs @ ss) d =
    (let (a, d1) = save_batch save fault rs d;
         (b, d2) = save_batch save (\<lambda>n. fault (length rs + n)) ss d1
     in (a @ b, d2))"
  by (induction rs arbitrary: fault d) (simp_all add: Let_def case_prod_unfold)

text \<open>What a state has done is what saving its processed requests in order, from the start, does.\<close>

definition processed :: "('r, 'd) worker \<Rightarrow> 'r list" where
  "processed w = map fst (wk_results w)"

definition fifo :: "('e, 'r, 'd) saver \<Rightarrow> 'd \<Rightarrow> ('r, 'd) worker \<Rightarrow> bool" where
  "fifo save d0 w \<longleftrightarrow>
     wk_accepted w = processed w @ wk_batch w @ wk_queue w
     \<and> (\<exists>fault. save_batch save fault (processed w) d0 = (wk_results w, wk_target w))"

definition bounded :: "('r, 'd) worker \<Rightarrow> bool" where
  "bounded w \<longleftrightarrow>
     length (wk_queue w) \<le> wk_capacity w
     \<and> 0 < wk_batchSize w \<and> length (wk_batch w) < wk_batchSize w
     \<and> (wk_mode w = Stopped \<longrightarrow> wk_batch w = [])"

lemma save_batch_faults:
  assumes "\<And>n. n < length rs \<Longrightarrow> f n = g n"
  shows "save_batch save f rs d = save_batch save g rs d"
  using assms
proof (induction rs arbitrary: f g d)
  case (Cons r rs)
  have "save_batch save (\<lambda>n. f (Suc n)) rs d' = save_batch save (\<lambda>n. g (Suc n)) rs d'" for d'
    using Cons.prems by (intro Cons.IH) simp
  moreover have "f 0 = g 0" using Cons.prems by simp
  ultimately show ?case by simp
qed simp

lemma flush_history:
  assumes "save_batch save f0 (processed w) d0 = (wk_results w, wk_target w)"
  shows "\<exists>f. save_batch save f (processed (flush save fault w)) d0
      = (wk_results (flush save fault w), wk_target (flush save fault w))"
proof -
  obtain res d where res: "save_batch save fault (wk_batch w) (wk_target w) = (res, d)"
    by (cases "save_batch save fault (wk_batch w) (wk_target w)")
  have batch: "map fst res = wk_batch w"
    using save_batch_requests [of save fault "wk_batch w" "wk_target w"] res by simp
  let ?f = "\<lambda>n. if n < length (processed w) then f0 n else fault (n - length (processed w))"
  have "save_batch save ?f (processed w) d0 = (wk_results w, wk_target w)"
    using save_batch_faults [of "processed w" ?f f0 save d0] assms by simp
  moreover have "save_batch save (\<lambda>n. ?f (length (processed w) + n)) (wk_batch w) (wk_target w) = (res, d)"
    using res by simp
  ultimately have "save_batch save ?f (processed w @ wk_batch w) d0 = (wk_results w @ res, d)"
    by (simp add: save_batch_append)
  moreover have "processed (flush save fault w) = processed w @ wk_batch w"
    "wk_results (flush save fault w) = wk_results w @ res" "wk_target (flush save fault w) = d"
    using res batch by (simp_all add: flush_def processed_def)
  ultimately show ?thesis by metis
qed

lemma flush_fields:
  "wk_queue (flush save fault w) = wk_queue w" "wk_capacity (flush save fault w) = wk_capacity w"
  "wk_batch (flush save fault w) = []" "wk_batchSize (flush save fault w) = wk_batchSize w"
  "wk_mode (flush save fault w) = wk_mode w" "wk_accepted (flush save fault w) = wk_accepted w"
  "wk_stop (flush save fault w) = wk_stop w"
  "processed (flush save fault w) = processed w @ wk_batch w"
  using save_batch_requests [of save fault "wk_batch w" "wk_target w"]
  by (simp_all add: flush_def processed_def case_prod_unfold Let_def)

lemma fifo_flush: "fifo save d0 w \<Longrightarrow> fifo save d0 (flush save fault w)"
  using flush_history [of save _ w d0 fault] by (auto simp: fifo_def flush_fields)

lemma bounded_flush: "length (wk_queue w) \<le> wk_capacity w \<Longrightarrow> 0 < wk_batchSize w \<Longrightarrow> bounded (flush save fault w)"
  by (simp add: bounded_def flush_fields)

lemma receive_ok:
  assumes "fifo save d0 w" "bounded w" "wk_queue w = r # rest" "wk_mode w \<noteq> Stopped"
  shows "fifo save d0 (receive save fault r rest w) \<and> bounded (receive save fault r rest w)"
proof -
  let ?w1 = "w\<lparr>wk_queue := rest, wk_batch := wk_batch w @ [r]\<rparr>"
  have fifo: "fifo save d0 ?w1"
    using assms(1,3) by (simp add: fifo_def processed_def)
  have q: "length (wk_queue ?w1) \<le> wk_capacity ?w1" "0 < wk_batchSize ?w1"
    using assms(2,3) by (simp_all add: bounded_def)
  show ?thesis
  proof (cases "length (wk_batch ?w1) \<ge> wk_batchSize ?w1")
    case True
    then show ?thesis
      using fifo_flush [OF fifo] bounded_flush [OF q] by (simp add: receive_def Let_def)
  next
    case False
    with fifo q assms(4) show ?thesis by (simp add: receive_def Let_def bounded_def not_le)
  qed
qed

lemma worker_step_ok:
  assumes "worker_step save w w'" "fifo save d0 w" "bounded w"
  shows "fifo save d0 w' \<and> bounded w'"
  using assms(1)
proof cases
  case (send full r e)
  then show ?thesis
    using assms(2,3) by (auto simp: enqueue_def fifo_def bounded_def processed_def split: if_split_asm)
next
  case stop
  then show ?thesis using assms(2,3) by (simp add: fifo_def bounded_def processed_def)
next
  case (take r rest fault)
  then show ?thesis using receive_ok [OF assms(2,3)] by blast
next
  case (tick fault)
  then show ?thesis
    using fifo_flush [OF assms(2)] bounded_flush assms(3) by (auto simp: bounded_def)
next
  case stopping
  then show ?thesis using assms(2,3) by (simp add: fifo_def bounded_def processed_def)
next
  case (drained fault)
  let ?f = "flush save fault w"
  have "fifo save d0 ?f" "bounded ?f"
    using fifo_flush [OF assms(2)] bounded_flush assms(3) by (auto simp: bounded_def)
  with drained show ?thesis by (simp add: fifo_def bounded_def processed_def flush_fields)
qed

lemma worker_reachable_ok:
  assumes "worker_reachable save w0 w" "fifo save d0 w0" "bounded w0"
  shows "fifo save d0 w \<and> bounded w"
  using assms(1) unfolding worker_reachable_def
proof (induction rule: rtranclp_induct)
  case base
  show ?case using assms(2,3) by simp
next
  case (step w1 w2)
  show ?case
    by (rule worker_step_ok [OF step.hyps(2) conjunct1 [OF step.IH] conjunct2 [OF step.IH]])
qed

lemma new_worker_ok: "0 < n \<Longrightarrow> fifo save d (new_worker c n d) \<and> bounded (new_worker c n d)"
  by (simp add: fifo_def bounded_def new_worker_def processed_def)

section \<open>Stopping\<close>

lemma worker_reachable_step:
  "worker_reachable save w0 w \<Longrightarrow> worker_step save w w' \<Longrightarrow> worker_reachable save w0 w'"
  unfolding worker_reachable_def by simp

lemma receive_fields:
  "wk_queue (receive save fault r rest w) = rest" "wk_mode (receive save fault r rest w) = wk_mode w"
  "wk_accepted (receive save fault r rest w) = wk_accepted w" "wk_stop (receive save fault r rest w) = wk_stop w"
  by (simp_all add: receive_def Let_def flush_fields)

text \<open>A draining worker runs to its end: it takes what is queued and saves the last batch.\<close>

lemma draining_finishes:
  "wk_mode w = Draining \<Longrightarrow> \<exists>w'. (worker_step save)\<^sup>*\<^sup>* w w' \<and> wk_mode w' = Stopped \<and> wk_queue w' = []
     \<and> wk_accepted w' = wk_accepted w"
proof (induction "length (wk_queue w)" arbitrary: w)
  case 0
  let ?w' = "(flush save (\<lambda>_. undefined) w)\<lparr>wk_mode := Stopped\<rparr>"
  have "worker_step save w ?w'" using 0 by (intro worker_step.drained) simp_all
  with 0 show ?case by (intro exI [of _ ?w']) (simp add: flush_fields)
next
  case (Suc n)
  then obtain r rest where q: "wk_queue w = r # rest" by (cases "wk_queue w") auto
  let ?w1 = "receive save (\<lambda>_. undefined) r rest w"
  have step: "worker_step save w ?w1" using Suc.prems q by (intro worker_step.take) simp_all
  have "n = length (wk_queue ?w1)" "wk_mode ?w1 = Draining"
    using Suc.hyps(2) Suc.prems q by (simp_all add: receive_fields)
  from Suc.hyps(1) [OF this] obtain w' where
    "(worker_step save)\<^sup>*\<^sup>* ?w1 w'" "wk_mode w' = Stopped" "wk_queue w' = []" "wk_accepted w' = wk_accepted ?w1"
    by blast
  with step show ?case
    by (intro exI [of _ w']) (simp add: receive_fields converse_rtranclp_into_rtranclp)
qed

lemma stop_finishes:
  assumes "wk_mode w \<noteq> Stopped"
  shows "\<exists>w'. (worker_step save)\<^sup>*\<^sup>* w w' \<and> wk_mode w' = Stopped \<and> wk_queue w' = [] \<and> wk_accepted w' = wk_accepted w"
proof (cases "wk_mode w")
  case Running
  let ?w1 = "w\<lparr>wk_stop := True\<rparr>" and ?w2 = "w\<lparr>wk_stop := True, wk_mode := Draining\<rparr>"
  have "worker_step save w ?w1" by (rule worker_step.stop)
  moreover have "worker_step save ?w1 ?w2"
    using worker_step.stopping [of ?w1 save] Running by simp
  moreover obtain w' where "(worker_step save)\<^sup>*\<^sup>* ?w2 w'" "wk_mode w' = Stopped" "wk_queue w' = []"
    "wk_accepted w' = wk_accepted w"
    using draining_finishes [of ?w2 save] by auto
  ultimately show ?thesis
    by (meson converse_rtranclp_into_rtranclp)
next
  case Draining
  then show ?thesis by (rule draining_finishes)
qed (use assms in simp)

text \<open>A worker that was not told to stop runs, so who tells it to does not wait in vain.\<close>

lemma runs_until_stopped:
  assumes "worker_reachable save (new_worker c n d) w" "\<not> wk_stop w"
  shows "wk_mode w = Running"
proof -
  have "wk_stop w \<or> wk_mode w = Running"
    using assms(1) unfolding worker_reachable_def
  proof (induction rule: rtranclp_induct)
    case base
    show ?case by (simp add: new_worker_def)
  next
    case (step v w)
    from step.hyps(2) step.IH show ?case
      by (cases rule: worker_step.cases) (auto simp: enqueue_def receive_fields flush_fields split: if_splits)
  qed
  with assms(2) show ?thesis by simp
qed

lemma StopWorker_returns:
  assumes "worker_reachable save (new_worker c n d) w" "StopWorker w = Some w1"
  shows "\<exists>w2. worker_reachable save (new_worker c n d) w2 \<and> (worker_step save)\<^sup>*\<^sup>* w1 w2
    \<and> wk_mode w2 = Stopped \<and> wk_queue w2 = [] \<and> wk_accepted w2 = wk_accepted w"
proof -
  have w1: "w1 = w\<lparr>wk_stop := True\<rparr>" "\<not> wk_stop w"
    using assms(2) by (auto simp: StopWorker_def split: if_splits)
  then have "wk_mode w1 \<noteq> Stopped" using runs_until_stopped [OF assms(1)] by simp
  from stop_finishes [OF this] obtain w2 where "(worker_step save)\<^sup>*\<^sup>* w1 w2" "wk_mode w2 = Stopped"
    "wk_queue w2 = []" "wk_accepted w2 = wk_accepted w1" by blast
  moreover have "worker_reachable save (new_worker c n d) w1"
    unfolding w1(1) by (rule worker_reachable_step [OF assms(1) worker_step.stop])
  ultimately show ?thesis
    using w1(1) by (auto simp: worker_reachable_def intro: rtranclp_trans)
qed

text \<open>However it got there, a worker that has stopped has processed what was accepted before it had.\<close>

lemma stopped_has_processed:
  assumes "(worker_step save)\<^sup>*\<^sup>* w w'" "fifo save d0 w" "bounded w" "wk_mode w \<noteq> Stopped"
  shows "fifo save d0 w' \<and> bounded w' \<and> (\<exists>rest. wk_accepted w' = wk_accepted w @ rest)
    \<and> (wk_mode w' = Stopped \<longrightarrow> (\<exists>rest. processed w' = wk_accepted w @ rest))"
  using assms(1)
proof (induction rule: rtranclp_induct)
  case base
  show ?case using assms(2-4) by simp
next
  case (step v v')
  from step.IH have ok: "fifo save d0 v" "bounded v" by blast+
  from step.IH obtain rest where acc: "wk_accepted v = wk_accepted w @ rest" by blast
  have "(\<exists>rest. wk_accepted v' = wk_accepted w @ rest)
    \<and> (wk_mode v' = Stopped \<longrightarrow> (\<exists>rest. processed v' = wk_accepted w @ rest))"
    using step.hyps(2)
  proof cases
    case (drained fault)
    then have "processed v' = wk_accepted v" "wk_accepted v' = wk_accepted v"
      using ok(1) flush_fields(6,8) [of save fault v] by (simp_all add: fifo_def processed_def)
    with acc show ?thesis by simp
  next
    case (take r rest' fault)
    with acc show ?thesis by (simp add: receive_fields)
  next
    case (tick fault)
    with acc show ?thesis by (simp add: flush_fields)
  qed (use acc step.IH in \<open>auto simp: enqueue_def processed_def split: if_split_asm\<close>)
  then show ?case using worker_step_ok [OF step.hyps(2) ok] by blast
qed

section \<open>The interface of what is written to\<close>

text \<open>A change of the target that saving does not look at makes no difference to the worker.\<close>

locale target_view =
  fixes save :: "('e, 'r, 'd) saver" and view :: "'d \<Rightarrow> 'd"
  assumes save_view: "save fault r (view d) = (fst (save fault r d), view (snd (save fault r d)))"
begin

lemma save_batch_view:
  "save_batch save fault rs (view d) = (fst (save_batch save fault rs d), view (snd (save_batch save fault rs d)))"
  by (induction rs arbitrary: fault d) (simp_all add: save_view Let_def case_prod_unfold)

lemma flush_view:
  "flush save fault (w\<lparr>wk_target := view (wk_target w)\<rparr>)
    = (flush save fault w)\<lparr>wk_target := view (wk_target (flush save fault w))\<rparr>"
  by (simp add: flush_def save_batch_view Let_def case_prod_unfold)

lemma receive_view:
  "receive save fault r rest (w\<lparr>wk_target := view (wk_target w)\<rparr>)
    = (receive save fault r rest w)\<lparr>wk_target := view (wk_target (receive save fault r rest w))\<rparr>"
  by (cases w) (simp add: receive_def flush_def save_batch_view Let_def case_prod_unfold)

lemma worker_step_view:
  assumes "worker_step save w w'"
  shows "worker_step save (w\<lparr>wk_target := view (wk_target w)\<rparr>) (w'\<lparr>wk_target := view (wk_target w')\<rparr>)"
  using assms
proof cases
  case (send full r e)
  then have "enqueue full r (w\<lparr>wk_target := view (wk_target w)\<rparr>) = (e, w'\<lparr>wk_target := view (wk_target w')\<rparr>)"
    by (auto simp: enqueue_def split: if_splits)
  then show ?thesis by (rule worker_step.send)
next
  case stop
  have "w'\<lparr>wk_target := view (wk_target w')\<rparr> = (w\<lparr>wk_target := view (wk_target w)\<rparr>)\<lparr>wk_stop := True\<rparr>"
    using stop by (cases w) simp
  then show ?thesis by (simp only: worker_step.stop)
next
  case (take r rest fault)
  then show ?thesis
    using worker_step.take [of "w\<lparr>wk_target := view (wk_target w)\<rparr>" r rest save fault] by (simp add: receive_view)
next
  case (tick fault)
  then show ?thesis
    using worker_step.tick [of "w\<lparr>wk_target := view (wk_target w)\<rparr>" save fault] by (simp add: flush_view)
next
  case stopping
  have "w'\<lparr>wk_target := view (wk_target w')\<rparr> = (w\<lparr>wk_target := view (wk_target w)\<rparr>)\<lparr>wk_mode := Draining\<rparr>"
    using stopping by (cases w) simp
  moreover have "wk_mode (w\<lparr>wk_target := view (wk_target w)\<rparr>) = Running" "wk_stop (w\<lparr>wk_target := view (wk_target w)\<rparr>)"
    using stopping by simp_all
  ultimately show ?thesis by (simp only: worker_step.stopping)
next
  case (drained fault)
  have "w'\<lparr>wk_target := view (wk_target w')\<rparr>
    = (flush save fault (w\<lparr>wk_target := view (wk_target w)\<rparr>))\<lparr>wk_mode := Stopped\<rparr>"
    using drained by (simp add: flush_view)
  moreover have "wk_mode (w\<lparr>wk_target := view (wk_target w)\<rparr>) = Draining" "wk_queue (w\<lparr>wk_target := view (wk_target w)\<rparr>) = []"
    using drained by simp_all
  ultimately show ?thesis by (simp only: worker_step.drained)
qed

end


text \<open>Saving keeps an invariant of the target, whatever fails; then the worker keeps it.\<close>

locale save_target =
  fixes save :: "('e, 'r, 'd) saver" and ok :: "'d \<Rightarrow> bool"
  assumes save_ok: "ok d \<Longrightarrow> ok (snd (save fault r d))"
begin

lemma batch_ok: "ok d \<Longrightarrow> ok (snd (save_batch save fault rs d))"
proof (induction rs arbitrary: fault d)
  case (Cons r rs)
  have "ok (snd (save (fault 0) r d))" using Cons.prems by (rule save_ok)
  then show ?case unfolding save_batch_target by (rule Cons.IH)
qed simp

lemma worker_target_ok:
  assumes "worker_reachable save (new_worker c n d) w" "0 < n" "ok d"
  shows "ok (wk_target w)"
proof -
  have "fifo save d w"
    by (rule conjunct1 [OF worker_reachable_ok [OF assms(1)
          conjunct1 [OF new_worker_ok [OF assms(2)]] conjunct2 [OF new_worker_ok [OF assms(2)]]]])
  then obtain fault where "save_batch save fault (processed w) d = (wk_results w, wk_target w)"
    by (auto simp: fifo_def)
  with batch_ok [OF assms(3), of fault "processed w"] show ?thesis by simp
qed

end

end
