(* ===== verification/Frame.thy ===== *)
theory Frame
  imports Errors
begin

text \<open>
  internal/storage/helpers.go: frames of a catch-up payload, an 8-byte big-endian length and the
  data. Reading takes a stream, that is the bytes it still delivers and the error that ends it.
\<close>

section \<open>Big-endian lengths\<close>

text \<open>The loop of \<open>writeFrame\<close>: from the last byte of the buffer to the first.\<close>

fun length_bytes :: "nat \<Rightarrow> u64 \<Rightarrow> bytes \<Rightarrow> bytes" where
  "length_bytes 0 l buf = buf"
| "length_bytes (Suc n) l buf = length_bytes n (drop_bit 8 l) (ucast (and l 0xff) # buf)"

definition writeFrame :: "bytes \<Rightarrow> bytes" where
  "writeFrame data = length_bytes 8 (of_nat (length data)) [] @ data"

text \<open>The loop of \<open>readFrame\<close>: shift in one byte after the other.\<close>

definition frame_length :: "bytes \<Rightarrow> u64" where
  "frame_length buf = foldl (\<lambda>l b. or (push_bit 8 l) (ucast b)) 0 buf"

section \<open>Reading\<close>

datatype read_error = EOF | UnexpectedEOF | ReadError go_error

type_synonym stream = "bytes \<times> read_error"

text \<open>
  \<open>io.ReadFull\<close>: the end of the stream after some but not all bytes is unexpected; no bytes at
  all gives the stream's own error, and asking for none succeeds.
\<close>

definition read_full :: "nat \<Rightarrow> stream \<Rightarrow> (read_error + bytes) \<times> stream" where
  "read_full n s =
     (let (bs, e) = s in
      if n \<le> length bs then (Inr (take n bs), (drop n bs, e))
      else (Inl (if e = EOF \<and> bs \<noteq> [] then UnexpectedEOF else e), ([], e)))"

text \<open>The largest length \<open>make\<close> accepts on a 64-bit platform; a larger one panics.\<close>

definition maxAlloc :: nat where
  "maxAlloc = 2 ^ 48"

definition readFrame :: "stream \<Rightarrow> ((read_error + bytes) \<times> stream) go" where
  "readFrame s =
     (case read_full 8 s of
        (Inl e, s') \<Rightarrow> Ret (Inl e, s')
      | (Inr lenBuf, s') \<Rightarrow>
          (let l = unat (frame_length lenBuf) in
           if l > maxAlloc then Panic Makeslice_Length else Ret (read_full l s')))"

section \<open>Reading back what was written\<close>

lemma length_bytes_append: "length_bytes n l (a @ b) = length_bytes n l a @ b"
  by (induction n arbitrary: l a) (simp_all flip: append_Cons)

lemma frame_length_snoc: "frame_length (bs @ [b]) = or (push_bit 8 (frame_length bs)) (ucast b)"
  by (simp add: frame_length_def)

lemma length_length_bytes [simp]: "length (length_bytes n l buf) = n + length buf"
  by (induction n arbitrary: l buf) simp_all

lemma frame_length_bytes:
  assumes "n \<le> 8"
  shows "frame_length (length_bytes n l []) = take_bit (8 * n) l"
  using assms
proof (induction n arbitrary: l)
  case 0
  then show ?case by (simp add: frame_length_def)
next
  case (Suc n)
  have split: "length_bytes (Suc n) l [] = length_bytes n (drop_bit 8 l) [] @ [ucast (and l 0xff)]"
    using length_bytes_append [of n "drop_bit 8 l" "[]" "[ucast (and l 0xff)]"] by simp
  have IH: "frame_length (length_bytes n (drop_bit 8 l) []) = take_bit (8 * n) (drop_bit 8 l)"
    using Suc.prems by (intro Suc.IH) simp
  have "frame_length (length_bytes (Suc n) l [])
      = or (push_bit 8 (take_bit (8 * n) (drop_bit 8 l))) (ucast (ucast (and l 0xff) :: byte))"
    unfolding split frame_length_snoc IH ..
  also have "\<dots> = take_bit (8 * Suc n) l"
  proof (rule bit_eqI)
    fix m
    assume "possible_bit TYPE(u64) m"
    then have m: "m < 64" by simp
    have ff: "(0xff :: u64) = mask 8" by (simp add: mask_eq_exp_minus_1)
    show "bit (or (push_bit 8 (take_bit (8 * n) (drop_bit 8 l))) (ucast (ucast (and l 0xff) :: byte))) m
        = bit (take_bit (8 * Suc n) l) m"
      using m unfolding ff by (cases "m < 8") (auto simp: bit_simps)
  qed
  finally show ?case .
qed

lemma frame_length_writeFrame: "frame_length (length_bytes 8 l []) = l"
  using frame_length_bytes [of 8 l] by (simp add: take_bit_length_eq [where 'a = 64, simplified])

lemma readFrame_writeFrame:
  assumes "length data \<le> maxAlloc"
  shows "readFrame (writeFrame data @ rest, e) = Ret (Inr data, (rest, e))"
proof -
  have "unat (of_nat (length data) :: u64) = length data"
    using assms by (simp add: unat_of_nat maxAlloc_def)
  then show ?thesis
    using assms
    by (simp add: readFrame_def writeFrame_def read_full_def frame_length_writeFrame Let_def)
qed

lemma readFrame_end: "readFrame ([], e) = Ret (Inl e, ([], e))"
  by (simp add: readFrame_def read_full_def)

text \<open>A frame takes at least the eight bytes of its length, so a stream has finitely many.\<close>

lemma readFrame_shorter: "readFrame s = Ret (Inr data, s') \<Longrightarrow> length (fst s') < length (fst s)"
  by (auto simp: readFrame_def read_full_def Let_def split: prod.splits if_splits)

end
