(* ===== verification/Base64.thy ===== *)
theory Base64
  imports Prelude
begin

text \<open>
  Go's \<open>base64.StdEncoding\<close>, which \<open>encoding/json\<close> uses for every \<open>[]byte\<close> field of the
  models: the encoder, the decoder (line breaks skipped, padding required), and their
  round trip.
\<close>

definition b64_char :: "nat \<Rightarrow> char" where
  "b64_char n =
     (if n < 26 then char_of (65 + n)
      else if n < 52 then char_of (71 + n)
      else if n < 62 then char_of (n - 4)
      else if n = 62 then CHR ''+'' else CHR ''/'')"

definition b64_value :: "char \<Rightarrow> nat option" where
  "b64_value c =
     (let n = of_char c in
      if 65 \<le> n \<and> n \<le> 90 then Some (n - 65)
      else if 97 \<le> n \<and> n \<le> 122 then Some (n - 71)
      else if 48 \<le> n \<and> n \<le> 57 then Some (n + 4)
      else if c = CHR ''+'' then Some 62
      else if c = CHR ''/'' then Some 63
      else None)"

definition b64_pad :: char where
  "b64_pad = CHR ''=''"

fun b64_enc :: "bytes \<Rightarrow> string" where
  "b64_enc [] = []"
| "b64_enc [a] =
     [b64_char (unat a div 4), b64_char (unat a mod 4 * 16), b64_pad, b64_pad]"
| "b64_enc [a, b] =
     [b64_char (unat a div 4), b64_char (unat a mod 4 * 16 + unat b div 16),
      b64_char (unat b mod 16 * 4), b64_pad]"
| "b64_enc (a # b # c # r) =
     b64_char (unat a div 4) # b64_char (unat a mod 4 * 16 + unat b div 16)
       # b64_char (unat b mod 16 * 4 + unat c div 64) # b64_char (unat c mod 64) # b64_enc r"

text \<open>Four characters of six bits are three bytes; padding ends the text.\<close>

definition b64_byte1 :: "nat \<Rightarrow> nat \<Rightarrow> byte" where
  "b64_byte1 x1 x2 = of_nat (x1 * 4 + x2 div 16)"

definition b64_byte2 :: "nat \<Rightarrow> nat \<Rightarrow> byte" where
  "b64_byte2 x2 x3 = of_nat (x2 * 16 + x3 div 4)"

definition b64_byte3 :: "nat \<Rightarrow> nat \<Rightarrow> byte" where
  "b64_byte3 x3 x4 = of_nat (x3 * 64 + x4)"

fun b64_quads :: "string \<Rightarrow> bytes option" where
  "b64_quads [] = Some []"
| "b64_quads (c1 # c2 # c3 # c4 # r) =
     (case (b64_value c1, b64_value c2, b64_value c3, b64_value c4) of
        (Some x1, Some x2, Some x3, Some x4) \<Rightarrow>
          map_option (\<lambda>bs. b64_byte1 x1 x2 # b64_byte2 x2 x3 # b64_byte3 x3 x4 # bs) (b64_quads r)
      | (Some x1, Some x2, Some x3, None) \<Rightarrow>
          (if c4 = b64_pad \<and> r = [] then Some [b64_byte1 x1 x2, b64_byte2 x2 x3] else None)
      | (Some x1, Some x2, None, None) \<Rightarrow>
          (if c3 = b64_pad \<and> c4 = b64_pad \<and> r = [] then Some [b64_byte1 x1 x2] else None)
      | _ \<Rightarrow> None)"
| "b64_quads _ = None"

definition b64_break :: "char \<Rightarrow> bool" where
  "b64_break c \<longleftrightarrow> of_char c = (10::nat) \<or> of_char c = (13::nat)"

definition b64_dec :: "string \<Rightarrow> bytes option" where
  "b64_dec s = b64_quads (filter (\<lambda>c. \<not> b64_break c) s)"

text \<open>The alphabet: 64 characters with distinct values, none of them padding or a break.\<close>

lemma b64_value_char [simp]: "n < 64 \<Longrightarrow> b64_value (b64_char n) = Some n"
  by (auto simp: b64_value_def b64_char_def Let_def)

lemma b64_char_neq_pad [simp]: "b64_char n \<noteq> b64_pad"
proof -
  have "b64_value b64_pad = None"
    by (simp add: b64_value_def b64_pad_def)
  moreover have "b64_value (b64_char n) \<noteq> None"
    by (auto simp: b64_value_def b64_char_def Let_def)
  ultimately show ?thesis by metis
qed

lemma b64_char_no_break [simp]: "\<not> b64_break (b64_char n)"
  by (auto simp: b64_break_def b64_char_def)

lemma b64_pad_no_break [simp]: "\<not> b64_break b64_pad"
  by (simp add: b64_break_def b64_pad_def)

lemma b64_enc_no_break: "filter (\<lambda>c. \<not> b64_break c) (b64_enc bs) = b64_enc bs"
  by (induction bs rule: b64_enc.induct) (simp_all add: Let_def)

lemma byte_lt_256: "unat (b :: byte) < 256"
  using unsigned_less [of b] by simp

lemma b64_value_pad [simp]: "b64_value b64_pad = None"
  by (simp add: b64_value_def b64_pad_def)

lemma of_nat_byte:
  assumes "n mod 256 = unat b"
  shows "(of_nat n :: byte) = b"
proof -
  have "unat (of_nat n :: byte) = unat b"
    using assms by (simp add: unat_of_nat)
  then show ?thesis by (rule unsigned_word_eqI)
qed

lemma b64_byte1_enc: "y < 16 \<Longrightarrow> b64_byte1 (unat a div 4) (unat a mod 4 * 16 + y) = a"
  unfolding b64_byte1_def by (rule of_nat_byte) (use byte_lt_256 [of a] in simp)

lemma b64_byte2_enc:
  assumes "y < 4"
  shows "b64_byte2 (x * 16 + unat b div 16) (unat b mod 16 * 4 + y) = b"
  unfolding b64_byte2_def
proof (rule of_nat_byte)
  have "(unat b mod 16 * 4 + y) div 4 = unat b mod 16"
    using assms by simp
  moreover have "(x * 16 + unat b div 16) * 16 + unat b mod 16 = x * 256 + unat b"
    by (simp add: distrib_right)
  ultimately show "((x * 16 + unat b div 16) * 16 + (unat b mod 16 * 4 + y) div 4) mod 256 = unat b"
    using byte_lt_256 [of b] by simp
qed

lemma b64_byte3_enc: "b64_byte3 (x * 4 + unat c div 64) (unat c mod 64) = c"
  unfolding b64_byte3_def
proof (rule of_nat_byte)
  have "(x * 4 + unat c div 64) * 64 + unat c mod 64 = x * 256 + unat c"
    by (simp add: distrib_right)
  then show "((x * 4 + unat c div 64) * 64 + unat c mod 64) mod 256 = unat c"
    using byte_lt_256 [of c] by simp
qed

lemma b64_sextets:
  "unat a div 4 < 64" "unat b div 16 < 16" "unat c div 64 < 4"
  "y < 16 \<Longrightarrow> n mod 4 * 16 + y < 64" "z < 4 \<Longrightarrow> n mod 16 * 4 + z < 64" "m mod 64 < (64::nat)"
  for a b c :: byte and n m y z :: nat
proof -
  show "unat a div 4 < 64" using byte_lt_256 [of a] by simp
  show "unat b div 16 < 16" using byte_lt_256 [of b] by simp
  show "unat c div 64 < 4" using byte_lt_256 [of c] by simp
  show "n mod 4 * 16 + y < 64" if "y < 16"
    using that mod_less_divisor [of 4 n] by linarith
  show "n mod 16 * 4 + z < 64" if "z < 4"
    using that mod_less_divisor [of 16 n] by linarith
  show "m mod 64 < 64" by simp
qed

lemmas b64_bytes_enc =
  b64_byte1_enc b64_byte1_enc [where y = 0, simplified]
  b64_byte2_enc b64_byte2_enc [where y = 0, simplified] b64_byte3_enc

lemma b64_quads_enc: "b64_quads (b64_enc bs) = Some bs"
proof (induction bs rule: b64_enc.induct)
  case (2 a)
  show ?case
    using b64_sextets(1) [of a] b64_sextets(4) [of 0 "unat a"] by (simp add: b64_bytes_enc)
next
  case (3 a b)
  show ?case
    using b64_sextets(1) [of a] b64_sextets(2) [of b] b64_sextets(5) [of 0 "unat b"]
      b64_sextets(4) [of "unat b div 16" "unat a"]
    by (simp add: b64_bytes_enc)
next
  case (4 a b c r)
  then show ?case
    using b64_sextets(1) [of a] b64_sextets(2) [of b] b64_sextets(3) [of c]
      b64_sextets(4) [of "unat b div 16" "unat a"] b64_sextets(5) [of "unat c div 64" "unat b"]
    by (simp add: b64_bytes_enc)
qed simp

text \<open>Every byte string is read back from its encoding.\<close>

theorem b64_round_trip [simp]: "b64_dec (b64_enc bs) = Some bs"
  by (simp add: b64_dec_def b64_enc_no_break b64_quads_enc)

end
