(* ===== verification/Json_String.thy ===== *)
theory Json_String
  imports Base64
begin

text \<open>
  JSON string literals as Go's \<open>encoding/json\<close> writes and reads them. Go strings are byte
  strings that hold UTF-8. The encoder escapes quotes, backslashes, control characters, the
  three characters HTML cares about and the two line separators, copies every other valid
  rune, and replaces an invalid byte by U+FFFD. The decoder undoes all of that.
\<close>

section \<open>UTF-8\<close>

abbreviation code :: "char \<Rightarrow> nat" where
  "code c \<equiv> of_char c"

definition utf8_cont :: "string \<Rightarrow> nat \<Rightarrow> nat \<Rightarrow> nat \<Rightarrow> bool" where
  "utf8_cont cs i lo hi \<longleftrightarrow> i < length cs \<and> lo \<le> code (cs ! i) \<and> code (cs ! i) \<le> hi"

text \<open>
  The width of the rune at the head (\<open>utf8.DecodeRuneInString\<close>): 0 for an invalid encoding
  (overlong forms, surrogates, values past U+10FFFF, a truncated sequence).
\<close>

fun utf8_size :: "string \<Rightarrow> nat" where
  "utf8_size [] = 0"
| "utf8_size (c # cs) =
     (let b = code c in
      if b < 128 then 1
      else if 194 \<le> b \<and> b \<le> 223 then (if utf8_cont cs 0 128 191 then 2 else 0)
      else if b = 224 then (if utf8_cont cs 0 160 191 \<and> utf8_cont cs 1 128 191 then 3 else 0)
      else if b = 237 then (if utf8_cont cs 0 128 159 \<and> utf8_cont cs 1 128 191 then 3 else 0)
      else if 225 \<le> b \<and> b \<le> 239 then
        (if utf8_cont cs 0 128 191 \<and> utf8_cont cs 1 128 191 then 3 else 0)
      else if b = 240 then
        (if utf8_cont cs 0 144 191 \<and> utf8_cont cs 1 128 191 \<and> utf8_cont cs 2 128 191 then 4 else 0)
      else if 241 \<le> b \<and> b \<le> 243 then
        (if utf8_cont cs 0 128 191 \<and> utf8_cont cs 1 128 191 \<and> utf8_cont cs 2 128 191 then 4 else 0)
      else if b = 244 then
        (if utf8_cont cs 0 128 143 \<and> utf8_cont cs 1 128 191 \<and> utf8_cont cs 2 128 191 then 4 else 0)
      else 0)"

function utf8_valid :: "string \<Rightarrow> bool" where
  "utf8_valid [] = True"
| "utf8_valid (c # cs) =
     (let n = utf8_size (c # cs) in n \<noteq> 0 \<and> utf8_valid (drop (n - 1) cs))"
  by pat_completeness auto
termination
  by (relation "measure length") (auto simp: less_Suc_eq_le)

text \<open>\<open>utf8.EncodeRune\<close>; surrogates and values past U+10FFFF become U+FFFD.\<close>

definition rune_error :: string where
  "rune_error = [char_of (239::nat), char_of (191::nat), char_of (189::nat)]"

definition utf8_encode :: "nat \<Rightarrow> string" where
  "utf8_encode r =
     (if r < 128 then [char_of r]
      else if r < 2048 then [char_of (192 + r div 64), char_of (128 + r mod 64)]
      else if 55296 \<le> r \<and> r < 57344 then rune_error
      else if r < 65536 then
        [char_of (224 + r div 4096), char_of (128 + r div 64 mod 64), char_of (128 + r mod 64)]
      else if r < 1114112 then
        [char_of (240 + r div 262144), char_of (128 + r div 4096 mod 64),
         char_of (128 + r div 64 mod 64), char_of (128 + r mod 64)]
      else rune_error)"

section \<open>Writing a string literal\<close>

definition hex_char :: "nat \<Rightarrow> char" where
  "hex_char n = (if n < 10 then char_of (48 + n) else char_of (87 + n))"

definition u_escape :: "nat \<Rightarrow> string" where
  "u_escape r =
     [CHR 0x5C, CHR ''u'', hex_char (r div 4096), hex_char (r div 256 mod 16),
      hex_char (r div 16 mod 16), hex_char (r mod 16)]"

text \<open>One ASCII character (\<open>appendString\<close> with HTML escaping on).\<close>

definition json_escape :: "char \<Rightarrow> string" where
  "json_escape c =
     (if c = CHR 0x22 then [CHR 0x5C, CHR 0x22]
      else if c = CHR 0x5C then [CHR 0x5C, CHR 0x5C]
      else if code c = 8 then [CHR 0x5C, CHR ''b'']
      else if code c = 12 then [CHR 0x5C, CHR ''f'']
      else if code c = 10 then [CHR 0x5C, CHR ''n'']
      else if code c = 13 then [CHR 0x5C, CHR ''r'']
      else if code c = 9 then [CHR 0x5C, CHR ''t'']
      else if code c < 32 \<or> c = CHR ''<'' \<or> c = CHR ''>'' \<or> c = CHR 0x26 then u_escape (code c)
      else [c])"

text \<open>U+2028 and U+2029 are the bytes E2 80 A8 and E2 80 A9.\<close>

definition line_separator :: "string \<Rightarrow> nat option" where
  "line_separator s =
     (case s of a # b # c # _ \<Rightarrow>
        (if code a = 226 \<and> code b = 128 \<and> (code c = 168 \<or> code c = 169)
         then Some (8064 + code c) else None)
      | _ \<Rightarrow> None)"

function jstr_enc :: "string \<Rightarrow> string" where
  "jstr_enc [] = []"
| "jstr_enc (c # cs) =
     (if code c < 128 then json_escape c @ jstr_enc cs
      else let n = utf8_size (c # cs) in
        if n = 0 then u_escape 65533 @ jstr_enc cs
        else (case line_separator (c # cs) of
            Some r \<Rightarrow> u_escape r @ jstr_enc (drop 2 cs)
          | None \<Rightarrow> take n (c # cs) @ jstr_enc (drop (n - 1) cs)))"
  by pat_completeness auto
termination
  by (relation "measure length") (auto simp: less_Suc_eq_le)

section \<open>Reading a string literal\<close>

definition hex_value :: "char \<Rightarrow> nat option" where
  "hex_value c =
     (let n = code c in
      if 48 \<le> n \<and> n \<le> 57 then Some (n - 48)
      else if 97 \<le> n \<and> n \<le> 102 then Some (n - 87)
      else if 65 \<le> n \<and> n \<le> 70 then Some (n - 55)
      else None)"

text \<open>Four hexadecimal digits and the text after them (\<open>getu4\<close>).\<close>

fun hex4 :: "string \<Rightarrow> (nat \<times> string) option" where
  "hex4 (a # b # c # d # cs) =
     (case (hex_value a, hex_value b, hex_value c, hex_value d) of
        (Some x, Some y, Some z, Some w) \<Rightarrow> Some (x * 4096 + y * 256 + z * 16 + w, cs)
      | _ \<Rightarrow> None)"
| "hex4 _ = None"

definition simple_escape :: "char \<Rightarrow> char option" where
  "simple_escape e =
     (if e = CHR 0x22 \<or> e = CHR 0x5C \<or> e = CHR ''/'' then Some e
      else if e = CHR ''b'' then Some (char_of (8::nat))
      else if e = CHR ''f'' then Some (char_of (12::nat))
      else if e = CHR ''n'' then Some (char_of (10::nat))
      else if e = CHR ''r'' then Some (char_of (13::nat))
      else if e = CHR ''t'' then Some (char_of (9::nat))
      else None)"

text \<open>
  After \<open>\u\<close>: a surrogate pair is one rune (\<open>utf16.DecodeRune\<close>), a lone surrogate is U+FFFD
  and only its own escape is consumed.
\<close>

definition u_unescape :: "string \<Rightarrow> (string \<times> string) option" where
  "u_unescape es =
     (case hex4 es of None \<Rightarrow> None
      | Some (r, es1) \<Rightarrow>
          if 55296 \<le> r \<and> r < 57344 then
            (if take 2 es1 = [CHR 0x5C, CHR ''u''] then
               (case hex4 (drop 2 es1) of
                  Some (r2, es2) \<Rightarrow>
                    if r < 56320 \<and> 56320 \<le> r2 \<and> r2 < 57344
                    then Some (utf8_encode ((r - 55296) * 1024 + (r2 - 56320) + 65536), es2)
                    else Some (rune_error, es1)
                | None \<Rightarrow> Some (rune_error, es1))
             else Some (rune_error, es1))
          else Some (utf8_encode r, es1))"

lemma hex4_length: "hex4 s = Some (r, t) \<Longrightarrow> length t < length s"
  by (induction s rule: hex4.induct) (auto split: option.splits)

lemma u_unescape_length: "u_unescape s = Some (d, t) \<Longrightarrow> length t < length s"
  by (auto simp: u_unescape_def split: option.splits if_splits dest!: hex4_length)

text \<open>The text after the opening quote: the string and what follows the closing quote.\<close>

function jstr_dec :: "string \<Rightarrow> (string \<times> string) option" where
  "jstr_dec [] = None"
| "jstr_dec (c # cs) =
     (if c = CHR 0x22 then Some ([], cs)
      else if c = CHR 0x5C then
        (case cs of [] \<Rightarrow> None
         | e # es \<Rightarrow>
             if e = CHR ''u'' then
               (case u_unescape es of None \<Rightarrow> None
                | Some (d, es') \<Rightarrow> map_option (apfst ((@) d)) (jstr_dec es'))
             else
               (case simple_escape e of None \<Rightarrow> None
                | Some d \<Rightarrow> map_option (apfst ((#) d)) (jstr_dec es)))
      else if code c < 32 then None
      else if code c < 128 then map_option (apfst ((#) c)) (jstr_dec cs)
      else let n = utf8_size (c # cs) in
        if n = 0 then map_option (apfst ((@) rune_error)) (jstr_dec cs)
        else map_option (apfst ((@) (take n (c # cs)))) (jstr_dec (drop (n - 1) cs)))"
  by pat_completeness auto
termination
  by (relation "measure length") (auto simp: less_Suc_eq_le dest!: u_unescape_length)

declare utf8_size.simps(2) [simp del] utf8_valid.simps(2) [simp del] jstr_enc.simps(2) [simp del] jstr_dec.simps(2) [simp del]

section \<open>Round trip\<close>

lemma utf8_cont_length: "utf8_cont cs i lo hi \<Longrightarrow> i < length cs"
  by (simp add: utf8_cont_def)

lemma utf8_size_length: "utf8_size (c # cs) \<le> Suc (length cs)"
  by (auto simp: utf8_size.simps(2) Let_def Suc_le_eq dest!: utf8_cont_length)

lemma utf8_size_le_4: "utf8_size s \<le> 4"
  by (cases s) (auto simp: utf8_size.simps(2) Let_def)

lemma utf8_cont_take_append:
  "i < m \<Longrightarrow> m \<le> length cs \<Longrightarrow> utf8_cont (take m cs @ t) i lo hi = utf8_cont cs i lo hi"
  by (auto simp: utf8_cont_def nth_append)

text \<open>The width of a rune is decided by its own bytes.\<close>

lemma utf8_size_take_append:
  assumes "utf8_size (c # cs) = Suc m"
  shows "utf8_size (c # take m cs @ t) = Suc m"
proof -
  have m: "m \<le> length cs" "m < 4"
    using utf8_size_length [of c cs] utf8_size_le_4 [of "c # cs"] assms by simp_all
  consider "m = 0" | "m = 1" | "m = 2" | "m = 3"
    using m(2) by linarith
  then show ?thesis
  proof cases
    case 1
    with assms show ?thesis by (auto simp: utf8_size.simps(2) Let_def split: if_splits)
  next
    case 2
    with assms m(1) show ?thesis
      by (auto simp: utf8_size.simps(2) Let_def utf8_cont_take_append split: if_splits)
  next
    case 3
    with assms m(1) show ?thesis
      by (auto simp: utf8_size.simps(2) Let_def utf8_cont_take_append split: if_splits)
  next
    case 4
    with assms m(1) show ?thesis
      by (auto simp: utf8_size.simps(2) Let_def utf8_cont_take_append split: if_splits)
  qed
qed

lemma hex_value_char [simp]: "n < 16 \<Longrightarrow> hex_value (hex_char n) = Some n"
  by (auto simp: hex_value_def hex_char_def Let_def)

lemma hex_digits_sum:
  "r div 4096 * 4096 + r div 256 mod 16 * 256 + r div 16 mod 16 * 16 + r mod 16 = (r :: nat)"
proof -
  have "r div 4096 * 16 + r div 256 mod 16 = r div 256"
    using div_mult_mod_eq [of "r div 256" 16] by (simp add: div_mult2_eq [symmetric])
  moreover have "r div 256 * 16 + r div 16 mod 16 = r div 16"
    using div_mult_mod_eq [of "r div 16" 16] by (simp add: div_mult2_eq [symmetric])
  moreover have "r div 16 * 16 + r mod 16 = r"
    by simp
  ultimately show ?thesis by linarith
qed

lemma hex4_u_escape:
  assumes "r < 65536"
  shows "hex4 (drop 2 (u_escape r) @ t) = Some (r, t)"
proof -
  have "r div 4096 < 16"
    using assms by simp
  then show ?thesis
    by (simp add: u_escape_def hex_digits_sum)
qed

lemma jstr_dec_u_escape:
  assumes "r < 65536" and "\<not> (55296 \<le> r \<and> r < 57344)"
  shows "jstr_dec (u_escape r @ t) = map_option (apfst ((@) (utf8_encode r))) (jstr_dec t)"
proof -
  have "jstr_dec (u_escape r @ t) = jstr_dec (CHR 0x5C # CHR ''u'' # drop 2 (u_escape r) @ t)"
    by (simp add: u_escape_def)
  moreover have "u_unescape (drop 2 (u_escape r) @ t) = Some (utf8_encode r, t)"
    using assms(2) by (auto simp: u_unescape_def hex4_u_escape [OF assms(1)])
  ultimately show ?thesis
    by (simp add: jstr_dec.simps(2))
qed

lemma char_of_code [simp]: "char_of (code c) = c"
  by simp

lemma jstr_dec_plain:
  assumes "32 \<le> code c" "code c < 128" "c \<noteq> CHR 0x22" "c \<noteq> CHR 0x5C"
  shows "jstr_dec (c # t) = map_option (apfst ((#) c)) (jstr_dec t)"
  using assms by (simp add: jstr_dec.simps(2))

lemma jstr_dec_simple:
  assumes "simple_escape e = Some d" and "e \<noteq> CHR ''u''"
  shows "jstr_dec (CHR 0x5C # e # t) = map_option (apfst ((#) d)) (jstr_dec t)"
  using assms by (simp add: jstr_dec.simps(2))

lemma code_eqD: "code c = n \<Longrightarrow> c = char_of n"
  by auto

lemma jstr_dec_escape:
  assumes "code c < 128"
  shows "jstr_dec (json_escape c @ t) = map_option (apfst ((#) c)) (jstr_dec t)"
proof -
  consider (quote) "c = CHR 0x22" | (backslash) "c = CHR 0x5C" | (b) "code c = 8"
    | (f) "code c = 12" | (n) "code c = 10" | (r) "code c = 13" | (t) "code c = 9"
    | (u) "json_escape c = u_escape (code c)"
    | (plain) "32 \<le> code c" "c \<noteq> CHR 0x22" "c \<noteq> CHR 0x5C" "json_escape c = [c]"
    using json_escape_def [of c] by (cases "32 \<le> code c") (auto split: if_splits)
  then show ?thesis
  proof cases
    case u
    have "(@) [c] = (#) c" by auto
    with u assms jstr_dec_u_escape [of "code c" t] show ?thesis
      by (simp add: utf8_encode_def)
  next
    case plain
    with assms show ?thesis by (simp add: jstr_dec_plain)
  qed (auto simp: json_escape_def jstr_dec_simple simple_escape_def dest!: code_eqD)
qed

lemma line_separator_Some:
  assumes "line_separator (c # cs) = Some r"
  shows "r < 65536 \<and> \<not> (55296 \<le> r \<and> r < 57344) \<and> c # cs = utf8_encode r @ drop 2 cs"
proof -
  obtain b d ds where cs: "cs = b # d # ds" and "code c = 226" "code b = 128"
    and third: "code d = 168 \<or> code d = 169" and r: "r = 8064 + code d"
    using assms by (auto simp: line_separator_def split: list.splits if_splits)
  then have "c = char_of (226::nat)" "b = char_of (128::nat)"
    by (auto dest: code_eqD)
  moreover from third have "d = char_of (168::nat) \<or> d = char_of (169::nat)"
    by (auto dest: code_eqD)
  ultimately show ?thesis
    using third r by (auto simp: cs utf8_encode_def)
qed

lemma line_separator_size:
  assumes "line_separator (c # cs) = Some r" and "utf8_size (c # cs) = Suc m"
  shows "m = 2"
  using assms
  by (auto simp: line_separator_def utf8_size.simps(2) utf8_cont_def split: list.splits if_splits)

lemma jstr_dec_rune:
  assumes "utf8_size (c # cs) = Suc m" and "128 \<le> code c"
  shows "jstr_dec (c # take m cs @ t) = map_option (apfst ((@) (c # take m cs))) (jstr_dec t)"
proof -
  have m: "m \<le> length cs"
    using utf8_size_length [of c cs] assms(1) by simp
  have "c \<noteq> CHR 0x22" "c \<noteq> CHR 0x5C" "\<not> code c < 32" "\<not> code c < 128"
    using assms(2) by auto
  then show ?thesis
    using m by (simp add: jstr_dec.simps(2) utf8_size_take_append [OF assms(1), of t])
qed

text \<open>A valid UTF-8 string is read back from its literal, and reading stops at the quote.\<close>

theorem jstr_round_trip:
  "utf8_valid s \<Longrightarrow> jstr_dec (jstr_enc s @ CHR 0x22 # t) = Some (s, t)"
proof (induction s rule: jstr_enc.induct)
  case 1
  then show ?case by (simp add: jstr_dec.simps(2))
next
  case (2 c cs)
  show ?case
  proof (cases "code c < 128")
    case True
    then have "utf8_valid cs"
      using "2.prems" by (simp add: utf8_valid.simps(2) utf8_size.simps(2))
    with "2.IH"(1) True show ?thesis
      by (simp add: jstr_enc.simps(2) jstr_dec_escape)
  next
    case False
    obtain m where m: "utf8_size (c # cs) = Suc m"
      using "2.prems" by (cases "utf8_size (c # cs)") (auto simp: utf8_valid.simps(2) Let_def)
    have valid: "utf8_valid (drop m cs)"
      using "2.prems" m by (simp add: utf8_valid.simps(2) Let_def)
    show ?thesis
    proof (cases "line_separator (c # cs)")
      case None
      have "jstr_dec (jstr_enc (drop m cs) @ CHR 0x22 # t) = Some (drop m cs, t)"
        using "2.IH"(3) [OF False refl _ None] m valid by simp
      then show ?thesis
        using False m None jstr_dec_rune [OF m, of "jstr_enc (drop m cs) @ CHR 0x22 # t"]
        by (simp add: jstr_enc.simps(2) Let_def)
    next
      case (Some r)
      note sep = line_separator_Some [OF Some]
      have "m = 2"
        using m by (rule line_separator_size [OF Some])
      then have "jstr_dec (jstr_enc (drop 2 cs) @ CHR 0x22 # t) = Some (drop 2 cs, t)"
        using "2.IH"(4) [OF False refl _ Some] m valid by simp
      then have "jstr_dec (u_escape r @ jstr_enc (drop 2 cs) @ CHR 0x22 # t)
          = Some (utf8_encode r @ drop 2 cs, t)"
        using sep by (simp add: jstr_dec_u_escape)
      moreover have "jstr_enc (c # cs) = u_escape r @ jstr_enc (drop 2 cs)"
        using False m Some by (simp add: jstr_enc.simps(2))
      ultimately show ?thesis
        using sep by (metis append_assoc)
    qed
  qed
qed

end
