(* ===== verification/Json.thy ===== *)
theory Json
  imports Json_String
begin

text \<open>
  JSON text as \<open>encoding/json\<close> writes and reads it. A value keeps, for every member of an
  object, the text of the member's value beside the value itself: that text is what a
  \<open>json.RawMessage\<close> field receives, and what writing one emits. Numbers are kept as their
  literals, which the typed decoders read.
\<close>

datatype json =
    JNull
  | JBool bool
  | JNum string
  | JStr string
  | JArr "json list"
  | JObj "(string \<times> string \<times> json) list"

section \<open>Writing\<close>

fun join_commas :: "string list \<Rightarrow> string" where
  "join_commas [] = []"
| "join_commas [s] = s"
| "join_commas (s # t # r) = s @ CHR '','' # join_commas (t # r)"

definition jquote :: "string \<Rightarrow> string" where
  "jquote s = CHR 0x22 # jstr_enc s @ [CHR 0x22]"

fun jprint :: "json \<Rightarrow> string" where
  "jprint JNull = ''null''"
| "jprint (JBool b) = (if b then ''true'' else ''false'')"
| "jprint (JNum n) = n"
| "jprint (JStr s) = jquote s"
| "jprint (JArr js) = CHR ''['' # join_commas (map jprint js) @ '']''"
| "jprint (JObj ms) =
     CHR ''{'' # join_commas (map (\<lambda>(k, raw, _). jquote k @ CHR '':'' # raw) ms) @ ''}''"

definition jmember :: "string \<Rightarrow> json \<Rightarrow> string \<times> string \<times> json" where
  "jmember k v = (k, jprint v, v)"

section \<open>Reading\<close>

definition json_space :: "char \<Rightarrow> bool" where
  "json_space c \<longleftrightarrow> code c = 32 \<or> code c = 9 \<or> code c = 10 \<or> code c = 13"

definition skip_space :: "string \<Rightarrow> string" where
  "skip_space s = dropWhile json_space s"

definition is_digit :: "char \<Rightarrow> bool" where
  "is_digit c \<longleftrightarrow> 48 \<le> code c \<and> code c \<le> 57"

text \<open>
  The longest prefix that is a number of the JSON grammar: sign, integer part without leading
  zeros, optional fraction, optional exponent.
\<close>

definition scan_digits :: "string \<Rightarrow> (string \<times> string) option" where
  "scan_digits s =
     (let ds = takeWhile is_digit s in if ds = [] then None else Some (ds, dropWhile is_digit s))"

definition scan_int :: "string \<Rightarrow> (string \<times> string) option" where
  "scan_int s =
     (case s of [] \<Rightarrow> None
      | c # cs \<Rightarrow> if c = CHR ''0'' then Some ([c], cs) else scan_digits s)"

definition scan_frac :: "string \<Rightarrow> (string \<times> string) option" where
  "scan_frac s =
     (case s of c # cs \<Rightarrow>
        if c = CHR ''.'' then map_option (apfst ((#) c)) (scan_digits cs) else Some ([], s)
      | [] \<Rightarrow> Some ([], s))"

definition scan_exp :: "string \<Rightarrow> (string \<times> string) option" where
  "scan_exp s =
     (case s of c # cs \<Rightarrow>
        if c = CHR ''e'' \<or> c = CHR ''E'' then
          (case cs of d # ds \<Rightarrow>
             if d = CHR ''+'' \<or> d = CHR ''-''
             then map_option (apfst (\<lambda>x. c # d # x)) (scan_digits ds)
             else map_option (apfst ((#) c)) (scan_digits cs)
           | [] \<Rightarrow> None)
        else Some ([], s)
      | [] \<Rightarrow> Some ([], s))"

definition scan_number :: "string \<Rightarrow> (string \<times> string) option" where
  "scan_number s =
     (let sign = (if take 1 s = ''-'' then ''-'' else []);
          s1 = (if take 1 s = ''-'' then drop 1 s else s)
      in case scan_int s1 of None \<Rightarrow> None
         | Some (i, s2) \<Rightarrow>
             (case scan_frac s2 of None \<Rightarrow> None
              | Some (f, s3) \<Rightarrow>
                  (case scan_exp s3 of None \<Rightarrow> None
                   | Some (e, s4) \<Rightarrow> Some (sign @ i @ f @ e, s4))))"

definition scan_literal :: "string \<Rightarrow> (json \<times> string) option" where
  "scan_literal s =
     (if take 4 s = ''null'' then Some (JNull, drop 4 s)
      else if take 4 s = ''true'' then Some (JBool True, drop 4 s)
      else if take 5 s = ''false'' then Some (JBool False, drop 5 s)
      else map_option (apfst JNum) (scan_number s))"

text \<open>
  The key of a member and the text of its value; after an element, whether a comma announces
  another one or the closing bracket ends the list.
\<close>

definition jkey :: "string \<Rightarrow> (string \<times> string) option" where
  "jkey s =
     (case skip_space s of [] \<Rightarrow> None
      | q # qs \<Rightarrow>
          if q \<noteq> CHR 0x22 then None
          else (case jstr_dec qs of None \<Rightarrow> None
            | Some (k, s1) \<Rightarrow>
                if take 1 (skip_space s1) = '':''
                then Some (k, skip_space (drop 1 (skip_space s1))) else None))"

definition jnext :: "char \<Rightarrow> string \<Rightarrow> (bool \<times> string) option" where
  "jnext close s =
     (case skip_space s of [] \<Rightarrow> None
      | c # cs \<Rightarrow>
          if c = CHR '','' then Some (True, cs) else if c = close then Some (False, cs) else None)"

text \<open>
  Reading a value, the elements of a non-empty array and the members of a non-empty object,
  each with the text that follows. The first argument is fuel: two units per character are
  enough (\<open>jvalue_fuel\<close> below), and that is what the entry points give.
\<close>

fun jvalue :: "nat \<Rightarrow> string \<Rightarrow> (json \<times> string) option"
  and jelems :: "nat \<Rightarrow> string \<Rightarrow> (json list \<times> string) option"
  and jmembers :: "nat \<Rightarrow> string \<Rightarrow> ((string \<times> string \<times> json) list \<times> string) option" where
  "jvalue 0 s = None"
| "jvalue (Suc n) s =
     (case skip_space s of [] \<Rightarrow> None
      | c # cs \<Rightarrow>
          if c = CHR 0x22 then map_option (apfst JStr) (jstr_dec cs)
          else if c = CHR ''['' then
            (if take 1 (skip_space cs) = '']'' then Some (JArr [], drop 1 (skip_space cs))
             else map_option (apfst JArr) (jelems n cs))
          else if c = CHR ''{'' then
            (if take 1 (skip_space cs) = ''}'' then Some (JObj [], drop 1 (skip_space cs))
             else map_option (apfst JObj) (jmembers n cs))
          else scan_literal (c # cs))"
| "jelems 0 s = None"
| "jelems (Suc n) s =
     (case jvalue n s of None \<Rightarrow> None
      | Some (v, s1) \<Rightarrow>
          (case jnext (CHR '']'') s1 of None \<Rightarrow> None
           | Some (more, s2) \<Rightarrow>
               if more then map_option (apfst ((#) v)) (jelems n s2) else Some ([v], s2)))"
| "jmembers 0 s = None"
| "jmembers (Suc n) s =
     (case jkey s of None \<Rightarrow> None
      | Some (k, s1) \<Rightarrow>
          (case jvalue n s1 of None \<Rightarrow> None
           | Some (v, s2) \<Rightarrow>
               let m = (k, take (length s1 - length s2) s1, v) in
               (case jnext (CHR ''}'') s2 of None \<Rightarrow> None
                | Some (more, s3) \<Rightarrow>
                    if more then map_option (apfst ((#) m)) (jmembers n s3) else Some ([m], s3))))"

declare jvalue.simps(2) [simp del] jelems.simps(2) [simp del] jmembers.simps(2) [simp del]

text \<open>\<open>Decoder.Decode\<close> reads one value of a stream, \<open>json.Unmarshal\<close> a whole text.\<close>

definition json_decode :: "string \<Rightarrow> (json \<times> string) option" where
  "json_decode s = jvalue (2 * length s + 2) s"

definition json_parse :: "string \<Rightarrow> json option" where
  "json_parse s =
     (case json_decode s of None \<Rightarrow> None
      | Some (v, r) \<Rightarrow> if skip_space r = [] then Some v else None)"

section \<open>Enough fuel\<close>

lemma length_skip_space: "length (skip_space s) \<le> length s"
  by (simp add: skip_space_def length_dropWhile_le)

lemma scan_digits_length: "scan_digits s = Some (d, r) \<Longrightarrow> s = d @ r \<and> d \<noteq> []"
  by (auto simp: scan_digits_def Let_def split: if_splits)

lemma scan_int_length: "scan_int s = Some (d, r) \<Longrightarrow> s = d @ r \<and> d \<noteq> []"
  by (auto simp: scan_int_def split: list.splits if_splits dest: scan_digits_length)

lemma scan_frac_length: "scan_frac s = Some (d, r) \<Longrightarrow> s = d @ r"
  by (auto simp: scan_frac_def split: list.splits if_splits dest: scan_digits_length)

lemma scan_exp_length: "scan_exp s = Some (d, r) \<Longrightarrow> s = d @ r"
  by (auto simp: scan_exp_def split: list.splits if_splits dest: scan_digits_length)

lemma scan_number_length: "scan_number s = Some (d, r) \<Longrightarrow> s = d @ r \<and> d \<noteq> []"
  by (cases s)
    (auto simp: scan_number_def Let_def split: option.splits if_splits
      dest!: scan_int_length scan_frac_length scan_exp_length)

lemma jstr_dec_step:
  assumes "jstr_dec (c # cs) = Some (d, r)"
  shows "r = cs \<or> (\<exists>t d'. length t \<le> length cs \<and> jstr_dec t = Some (d', r))"
proof -
  consider (quote) "c = CHR 0x22" | (escape) "c = CHR 0x5C"
    | (other) "c \<noteq> CHR 0x22" "c \<noteq> CHR 0x5C"
    by blast
  then show ?thesis
  proof cases
    case quote
    with assms show ?thesis by (simp add: jstr_dec.simps(2))
  next
    case escape
    with assms show ?thesis
      by (fastforce simp: jstr_dec.simps(2) less_imp_le
          split: list.splits if_splits option.splits dest!: u_unescape_length)
  next
    case other
    with assms obtain t d' where "jstr_dec t = Some (d', r)" "t = cs \<or> (\<exists>n. t = drop n cs)"
      by (auto simp: jstr_dec.simps(2) Let_def split: if_splits)
    then show ?thesis by fastforce
  qed
qed

lemma jstr_dec_length: "jstr_dec s = Some (d, r) \<Longrightarrow> length r < length s"
proof (induction s arbitrary: d rule: length_induct)
  case (1 s)
  then obtain c cs where s: "s = c # cs"
    by (cases s) auto
  from jstr_dec_step [OF "1.prems" [unfolded s]] show ?case
  proof
    assume "\<exists>t d'. length t \<le> length cs \<and> jstr_dec t = Some (d', r)"
    then obtain t d' where "length t \<le> length cs" "jstr_dec t = Some (d', r)"
      by blast
    moreover from this "1.IH" have "length r < length t"
      by (simp add: s)
    ultimately show ?thesis by (simp add: s)
  qed (simp add: s)
qed

lemma length_skip_Cons: "skip_space s = c # cs \<Longrightarrow> length cs < length s"
  using length_skip_space [of s] by simp

lemma scan_literal_length:
  assumes "scan_literal (c # cs) = Some (v, r)"
  shows "length r < length (c # cs)"
proof -
  have "length r < length (c # cs)" if "scan_number (c # cs) = Some (d, r)" for d
  proof -
    from scan_number_length [OF that] have "length (c # cs) = length d + length r" "d \<noteq> []"
      by (metis length_append, simp)
    then show ?thesis by (cases d) auto
  qed
  with assms show ?thesis
    by (auto simp: scan_literal_def split: if_splits)
qed

lemma length_drop1_skip:
  "take 1 (skip_space s) = [c] \<Longrightarrow> length (drop 1 (skip_space s)) < length s"
  using length_skip_space [of s] by (cases "skip_space s") auto

lemma jkey_length: "jkey s = Some (k, r) \<Longrightarrow> length r < length s"
proof -
  assume key: "jkey s = Some (k, r)"
  then obtain qs s1 where sk: "skip_space s = CHR 0x22 # qs"
      and k: "jstr_dec qs = Some (k, s1)" and colon: "take 1 (skip_space s1) = '':''"
      and r: "r = skip_space (drop 1 (skip_space s1))"
    by (auto simp: jkey_def split: list.splits if_splits option.splits)
  then show ?thesis
    using length_skip_Cons [OF sk] jstr_dec_length [OF k] length_drop1_skip [OF colon]
      length_skip_space [of "drop 1 (skip_space s1)"]
    by simp
qed

lemma jnext_length: "jnext c s = Some (b, r) \<Longrightarrow> length r < length s"
  by (auto simp: jnext_def split: list.splits if_splits dest: length_skip_Cons)

text \<open>Reading consumes text.\<close>

lemma jread_length:
  "(\<forall>s v r. jvalue n s = Some (v, r) \<longrightarrow> length r < length s) \<and>
   (\<forall>s v r. jelems n s = Some (v, r) \<longrightarrow> length r < length s) \<and>
   (\<forall>s v r. jmembers n s = Some (v, r) \<longrightarrow> length r < length s)"
proof (induction n)
  case 0
  then show ?case by simp
next
  case (Suc n)
  then have IHv: "\<And>s v r. jvalue n s = Some (v, r) \<Longrightarrow> length r < length s"
    and IHe: "\<And>s v r. jelems n s = Some (v, r) \<Longrightarrow> length r < length s"
    and IHm: "\<And>s v r. jmembers n s = Some (v, r) \<Longrightarrow> length r < length s"
    by blast+
  have "length r < length s" if v: "jvalue (Suc n) s = Some (v, r)" for s v r
  proof -
    from v obtain c cs where sk: "skip_space s = c # cs"
      by (auto simp: jvalue.simps(2) split: list.splits)
    have "length r \<le> length cs"
      using v sk length_drop1_skip [of cs]
      by (auto simp: jvalue.simps(2) less_imp_le split: if_splits
          dest!: jstr_dec_length IHe IHm scan_literal_length)
    then show ?thesis
      using length_skip_Cons [OF sk] by simp
  qed
  moreover have "length r < length s" if "jelems (Suc n) s = Some (v, r)" for s v r
    using that
    by (fastforce simp: jelems.simps(2) split: option.splits if_splits
        dest!: IHv IHe jnext_length)
  moreover have "length r < length s" if "jmembers (Suc n) s = Some (v, r)" for s v r
    using that
    by (fastforce simp: jmembers.simps(2) Let_def split: option.splits if_splits
        dest!: IHv IHm jnext_length jkey_length)
  ultimately show ?case by blast
qed

lemmas jvalue_length = jread_length [THEN conjunct1, rule_format]

text \<open>With two units of fuel per character, more fuel changes nothing.\<close>

lemma jread_fuel_step:
  "(\<forall>s. 2 * length s + 1 \<le> n \<longrightarrow> jvalue (Suc n) s = jvalue n s) \<and>
   (\<forall>s. 2 * length s + 2 \<le> n \<longrightarrow> jelems (Suc n) s = jelems n s) \<and>
   (\<forall>s. 2 * length s + 2 \<le> n \<longrightarrow> jmembers (Suc n) s = jmembers n s)"
proof (induction n)
  case 0
  then show ?case by simp
next
  case (Suc n)
  have "jvalue (Suc (Suc n)) s = jvalue (Suc n) s" if len: "2 * length s + 1 \<le> Suc n" for s
  proof (cases "skip_space s")
    case (Cons c cs)
    have "2 * length cs + 2 \<le> n"
      using length_skip_Cons [OF Cons] len by linarith
    with Suc.IH have "jelems (Suc n) cs = jelems n cs" "jmembers (Suc n) cs = jmembers n cs"
      by blast+
    with Cons show ?thesis by (simp add: jvalue.simps(2))
  qed (simp add: jvalue.simps(2))
  moreover have "jelems (Suc (Suc n)) s = jelems (Suc n) s" if len: "2 * length s + 2 \<le> Suc n" for s
  proof -
    have "jvalue (Suc n) s = jvalue n s"
      using Suc.IH len by simp
    moreover have "jelems (Suc n) s2 = jelems n s2"
      if "jvalue n s = Some (v, s1)" "jnext c s1 = Some (b, s2)" for v s1 c b s2
      using Suc.IH len jvalue_length [OF that(1)] jnext_length [OF that(2)] by simp
    ultimately show ?thesis
      by (auto simp: jelems.simps(2) split: option.splits)
  qed
  moreover have "jmembers (Suc (Suc n)) s = jmembers (Suc n) s"
    if len: "2 * length s + 2 \<le> Suc n" for s
  proof -
    have "jvalue (Suc n) s1 = jvalue n s1" if "jkey s = Some (k, s1)" for k s1
      using Suc.IH len jkey_length [OF that] by simp
    moreover have "jmembers (Suc n) s3 = jmembers n s3"
      if "jkey s = Some (k, s1)" "jvalue n s1 = Some (v, s2)" "jnext c s2 = Some (b, s3)"
      for k s1 v s2 c b s3
      using Suc.IH len jkey_length [OF that(1)] jvalue_length [OF that(2)]
        jnext_length [OF that(3)] by simp
    ultimately show ?thesis
      by (auto simp: jmembers.simps(2) Let_def split: option.splits)
  qed
  ultimately show ?case by blast
qed

theorem jvalue_fuel:
  assumes "2 * length s + 1 \<le> n"
  shows "jvalue n s = json_decode s"
proof -
  have "jvalue (2 * length s + 1 + k) s = jvalue (2 * length s + 1) s" for k
  proof (induction k)
    case (Suc k)
    have "jvalue (Suc (2 * length s + 1 + k)) s = jvalue (2 * length s + 1 + k) s"
      using jread_fuel_step [of "2 * length s + 1 + k"] by simp
    with Suc show ?case by simp
  qed simp
  from this [of "n - (2 * length s + 1)"] this [of 1] show ?thesis
    using assms by (simp add: json_decode_def)
qed

section \<open>Round trip\<close>

text \<open>Integer literals without leading zeros, the only numbers the program writes.\<close>

definition digits_ok :: "string \<Rightarrow> bool" where
  "digits_ok ds \<longleftrightarrow> ds \<noteq> [] \<and> list_all is_digit ds \<and> (hd ds = CHR ''0'' \<longrightarrow> tl ds = [])"

definition int_literal :: "string \<Rightarrow> bool" where
  "int_literal n \<longleftrightarrow> digits_ok (if take 1 n = ''-'' then drop 1 n else n)"

fun wf_json :: "json \<Rightarrow> bool" where
  "wf_json JNull = True"
| "wf_json (JBool b) = True"
| "wf_json (JNum n) = int_literal n"
| "wf_json (JStr s) = utf8_valid s"
| "wf_json (JArr js) = (\<forall>j \<in> set js. wf_json j)"
| "wf_json (JObj ms) =
     (\<forall>m \<in> set ms. utf8_valid (fst m) \<and> fst (snd m) = jprint (snd (snd m)) \<and> wf_json (snd (snd m)))"

text \<open>What may follow a value: no character that would extend a number.\<close>

definition value_end :: "string \<Rightarrow> bool" where
  "value_end s \<longleftrightarrow>
     (case s of [] \<Rightarrow> True
      | c # _ \<Rightarrow> \<not> is_digit c \<and> c \<noteq> CHR ''.'' \<and> c \<noteq> CHR ''e'' \<and> c \<noteq> CHR ''E'')"

lemma value_end_simps [simp]:
  "value_end []" "value_end (CHR '','' # s)" "value_end (CHR '']'' # s)" "value_end (CHR ''}'' # s)"
  by (simp_all add: value_end_def is_digit_def)

lemma scan_frac_exp_end: "value_end s \<Longrightarrow> scan_frac s = Some ([], s) \<and> scan_exp s = Some ([], s)"
  by (auto simp: value_end_def scan_frac_def scan_exp_def split: list.splits)

lemma takeWhile_digits:
  "list_all is_digit ds \<Longrightarrow> value_end s \<Longrightarrow>
   takeWhile is_digit (ds @ s) = ds \<and> dropWhile is_digit (ds @ s) = s"
  by (induction ds) (auto simp: value_end_def split: list.splits)

lemma scan_int_digits:
  assumes "digits_ok ds" and "value_end s"
  shows "scan_int (ds @ s) = Some (ds, s)"
proof (cases ds)
  case (Cons d r)
  show ?thesis
  proof (cases "d = CHR ''0''")
    case True
    with assms(1) show ?thesis by (simp add: Cons scan_int_def digits_ok_def)
  next
    case False
    have "list_all is_digit ds"
      using assms(1) by (simp add: digits_ok_def)
    with assms(2) False show ?thesis
      using takeWhile_digits [of ds s] by (simp add: Cons scan_int_def scan_digits_def Let_def)
  qed
qed (use assms in \<open>simp add: digits_ok_def\<close>)

lemma digits_ok_hd: "digits_ok ds \<Longrightarrow> \<exists>c cs. ds = c # cs \<and> is_digit c"
  by (cases ds) (auto simp: digits_ok_def)

lemma int_literal_head:
  assumes "int_literal n"
  shows "\<exists>c cs. n = c # cs \<and> (is_digit c \<or> c = CHR ''-'')"
  using assms by (cases n) (auto simp: int_literal_def dest: digits_ok_hd split: if_splits)

lemma scan_literal_int:
  assumes "int_literal n" and "value_end s"
  shows "scan_literal (n @ s) = Some (JNum n, s)"
proof -
  obtain c cs where n: "n = c # cs" and c: "is_digit c \<or> c = CHR ''-''"
    using int_literal_head [OF assms(1)] by blast
  then have "c \<noteq> CHR ''n''" "c \<noteq> CHR ''t''" "c \<noteq> CHR ''f''"
    by (auto simp: is_digit_def)
  moreover have "scan_number (n @ s) = Some (n, s)"
  proof (cases "c = CHR ''-''")
    case True
    with assms show ?thesis
      by (simp add: n scan_number_def int_literal_def scan_int_digits scan_frac_exp_end)
  next
    case False
    with assms scan_int_digits [of n s] show ?thesis
      by (simp add: n scan_number_def int_literal_def scan_frac_exp_end)
  qed
  ultimately show ?thesis by (simp add: scan_literal_def n)
qed

text \<open>Every printed value starts with a character that is neither space nor a closing bracket.\<close>

lemma jprint_head:
  assumes "wf_json j"
  shows "\<exists>c cs. jprint j = c # cs \<and> \<not> json_space c \<and> c \<noteq> CHR '']'' \<and> c \<noteq> CHR ''}''"
proof (cases j)
  case (JNum n)
  with assms obtain c cs where n: "n = c # cs" and c: "is_digit c \<or> c = CHR ''-''"
    using int_literal_head [of n] by auto
  from c have "\<not> json_space c" "c \<noteq> CHR '']''" "c \<noteq> CHR ''}''"
    by (auto simp: is_digit_def json_space_def)
  with n JNum show ?thesis by simp
next
  case (JBool b)
  then show ?thesis by (cases b) (simp_all add: json_space_def)
qed (simp_all add: json_space_def jquote_def)

lemma skip_space_jprint [simp]: "wf_json j \<Longrightarrow> skip_space (jprint j @ s) = jprint j @ s"
  using jprint_head [of j] by (auto simp: skip_space_def)

lemma skip_space_Cons [simp]: "\<not> json_space c \<Longrightarrow> skip_space (c # s) = c # s"
  by (simp add: skip_space_def)

lemma not_space [simp]:
  "\<not> json_space (CHR 0x22)" "\<not> json_space (CHR '','')" "\<not> json_space (CHR '':'')"
  "\<not> json_space (CHR ''['')" "\<not> json_space (CHR '']'')"
  "\<not> json_space (CHR ''{'')" "\<not> json_space (CHR ''}'')"
  by (simp_all add: json_space_def)

lemma jnext_comma [simp]: "jnext c (CHR '','' # s) = Some (True, s)"
  by (simp add: jnext_def)

lemma jnext_close [simp]:
  "jnext (CHR '']'') (CHR '']'' # s) = Some (False, s)"
  "jnext (CHR ''}'') (CHR ''}'' # s) = Some (False, s)"
  by (simp_all add: jnext_def)

lemma jkey_print:
  assumes "utf8_valid k" and "wf_json j"
  shows "jkey (jquote k @ CHR '':'' # jprint j @ s) = Some (k, jprint j @ s)"
  using assms by (simp add: jkey_def jquote_def jstr_round_trip)

definition reads_back :: "json \<Rightarrow> bool" where
  "reads_back j \<longleftrightarrow>
     (\<forall>s n. value_end s \<longrightarrow> 2 * length (jprint j @ s) + 1 \<le> n \<longrightarrow> jvalue n (jprint j @ s) = Some (j, s))"

lemma reads_backI:
  assumes "\<And>s n. value_end s \<Longrightarrow> 2 * length (jprint j @ s) \<le> n \<Longrightarrow>
    jvalue (Suc n) (jprint j @ s) = Some (j, s)"
  shows "reads_back j"
  unfolding reads_back_def
proof (intro allI impI)
  fix s n
  assume s: "value_end s" and n: "2 * length (jprint j @ s) + 1 \<le> n"
  then obtain m where "n = Suc m" by (cases n) auto
  with assms [OF s, of m] n show "jvalue n (jprint j @ s) = Some (j, s)" by simp
qed

lemma jelems_print:
  assumes "\<forall>j \<in> set js. reads_back j" and "js \<noteq> []"
    and "2 * length (join_commas (map jprint js) @ CHR '']'' # s) + 2 \<le> n"
  shows "jelems n (join_commas (map jprint js) @ CHR '']'' # s) = Some (js, s)"
  using assms
proof (induction js arbitrary: n rule: induct_list012)
  case (2 j)
  then obtain m where n: "n = Suc m" by (cases n) auto
  with 2 have "jvalue m (jprint j @ CHR '']'' # s) = Some (j, CHR '']'' # s)"
    by (simp add: reads_back_def)
  then show ?case by (simp add: n jelems.simps(2))
next
  case (3 j k js)
  then obtain m where n: "n = Suc m" by (cases n) auto
  let ?r = "join_commas (map jprint (k # js)) @ CHR '']'' # s"
  have "jvalue m (jprint j @ CHR '','' # ?r) = Some (j, CHR '','' # ?r)"
    using "3.prems" by (simp add: reads_back_def n)
  moreover have "jelems m ?r = Some (k # js, s)"
    using "3.IH"(2) [of m] "3.prems" by (simp add: n)
  ultimately show ?case by (simp add: n jelems.simps(2))
qed simp

abbreviation print_member :: "string \<times> string \<times> json \<Rightarrow> string" where
  "print_member \<equiv> \<lambda>(k, raw, _). jquote k @ CHR '':'' # raw"

definition member_ok :: "string \<times> string \<times> json \<Rightarrow> bool" where
  "member_ok m \<longleftrightarrow> utf8_valid (fst m) \<and> fst (snd m) = jprint (snd (snd m))
     \<and> wf_json (snd (snd m)) \<and> reads_back (snd (snd m))"

lemma jmembers_print:
  assumes "\<forall>m \<in> set ms. member_ok m" and "ms \<noteq> []"
    and "2 * length (join_commas (map print_member ms) @ CHR ''}'' # s) + 2 \<le> n"
  shows "jmembers n (join_commas (map print_member ms) @ CHR ''}'' # s) = Some (ms, s)"
  using assms
proof (induction ms arbitrary: n rule: induct_list012)
  case (2 m)
  obtain k j where m: "m = (k, jprint j, j)" and "utf8_valid k" "wf_json j" "reads_back j"
    using "2.prems"(1) by (cases m) (auto simp: member_ok_def)
  moreover obtain n' where n: "n = Suc n'" using "2.prems"(3) by (cases n) auto
  moreover have "jvalue n' (jprint j @ CHR ''}'' # s) = Some (j, CHR ''}'' # s)"
    using \<open>reads_back j\<close> "2.prems"(3) by (simp add: reads_back_def n m)
  ultimately show ?case by (simp add: jmembers.simps(2) jkey_print)
next
  case (3 m m' ms)
  obtain k j where m: "m = (k, jprint j, j)" and kj: "utf8_valid k" "wf_json j" "reads_back j"
    using "3.prems"(1) by (cases m) (auto simp: member_ok_def)
  obtain n' where n: "n = Suc n'" using "3.prems"(3) by (cases n) auto
  let ?r = "join_commas (map print_member (m' # ms)) @ CHR ''}'' # s"
  have "jvalue n' (jprint j @ CHR '','' # ?r) = Some (j, CHR '','' # ?r)"
    using kj(3) "3.prems"(3) by (simp add: reads_back_def n m)
  moreover have "jmembers n' ?r = Some (m' # ms, s)"
    using "3.IH"(2) [of n'] "3.prems" by (simp add: n)
  ultimately show ?case
    using jkey_print [OF kj(1,2), of "CHR '','' # ?r"] by (simp add: n m jmembers.simps(2))
qed simp

lemma take1_skip_join:
  assumes "wf_json j"
  shows "take 1 (skip_space (join_commas (jprint j # ss) @ t)) \<noteq> '']''"
proof -
  obtain c cs where "jprint j = c # cs" "\<not> json_space c" "c \<noteq> CHR '']''"
    using jprint_head [OF assms] by blast
  then show ?thesis by (cases ss) simp_all
qed

lemma take1_skip_members:
  "take 1 (skip_space (join_commas (map print_member (m # ms)) @ t)) \<noteq> ''}''"
  by (cases m; cases ms) (simp_all add: jquote_def)

lemma wf_json_reads_back: "wf_json j \<Longrightarrow> reads_back j"
proof (induction j rule: wf_json.induct)
  case 1
  show ?case
    by (rule reads_backI)
      (simp add: jvalue.simps(2) scan_literal_def skip_space_def json_space_def)
next
  case (2 b)
  show ?case
    by (rule reads_backI)
      (simp add: jvalue.simps(2) scan_literal_def skip_space_def json_space_def)
next
  case (3 x)
  then obtain c cs where x: "x = c # cs" and "is_digit c \<or> c = CHR ''-''"
    using int_literal_head [of x] by auto
  then have "\<not> json_space c" "c \<noteq> CHR 0x22" "c \<noteq> CHR ''[''" "c \<noteq> CHR ''{''"
    by (auto simp: is_digit_def json_space_def)
  moreover from 3 have "scan_literal (x @ s) = Some (JNum x, s)" if "value_end s" for s
    using that by (simp add: scan_literal_int)
  ultimately show ?case
    by (intro reads_backI) (simp add: jvalue.simps(2) x)
next
  case (4 x)
  then show ?case
    by (intro reads_backI) (simp add: jvalue.simps(2) jquote_def jstr_round_trip)
next
  case (5 js)
  have all: "\<forall>j \<in> set js. reads_back j"
    using 5 by simp
  show ?case
  proof (rule reads_backI)
    fix s n
    assume n: "2 * length (jprint (JArr js) @ s) \<le> n"
    show "jvalue (Suc n) (jprint (JArr js) @ s) = Some (JArr js, s)"
    proof (cases js)
      case (Cons j r)
      have "jelems n (join_commas (map jprint js) @ CHR '']'' # s) = Some (js, s)"
        by (rule jelems_print) (use all Cons n in simp_all)
      moreover have "take 1 (skip_space (join_commas (map jprint js) @ CHR '']'' # s)) \<noteq> '']''"
        using 5 Cons take1_skip_join [of j] by simp
      ultimately show ?thesis by (simp add: jvalue.simps(2))
    qed (simp add: jvalue.simps(2))
  qed
next
  case (6 ms)
  have all: "\<forall>m \<in> set ms. member_ok m"
    using 6 by (simp add: member_ok_def)
  show ?case
  proof (rule reads_backI)
    fix s n
    assume n: "2 * length (jprint (JObj ms) @ s) \<le> n"
    show "jvalue (Suc n) (jprint (JObj ms) @ s) = Some (JObj ms, s)"
    proof (cases ms)
      case (Cons x r)
      have "jmembers n (join_commas (map print_member ms) @ CHR ''}'' # s) = Some (ms, s)"
        by (rule jmembers_print) (use all Cons n in simp_all)
      moreover have "take 1 (skip_space (join_commas (map print_member ms) @ CHR ''}'' # s)) \<noteq> ''}''"
        using Cons take1_skip_members [of x r] by simp
      ultimately show ?thesis by (simp add: jvalue.simps(2))
    qed (simp add: jvalue.simps(2))
  qed
qed

text \<open>A well-formed value is read back from its text, member texts included.\<close>

theorem json_round_trip:
  assumes "wf_json j"
  shows "json_parse (jprint j) = Some j"
  using wf_json_reads_back [OF assms]
  by (auto simp: reads_back_def json_parse_def json_decode_def skip_space_def dest: spec [where x = "[]"])

end
