(* ===== verification/Json_Codec.thy ===== *)
theory Json_Codec
  imports Json
begin

text \<open>
  How \<open>encoding/json\<close> maps Go values to JSON values: integers, strings, byte slices, pointers,
  slices and structs with field tags. A decoder takes the value the target already holds and
  returns whether it reported a type error together with the target afterwards: decoding
  continues past a type error, fields that are absent keep what they held, a later duplicate
  of a field wins, and names match without regard to case when none matches exactly.
\<close>

section \<open>Integers\<close>

fun nat_literal :: "nat \<Rightarrow> string" where
  "nat_literal n =
     (if n < 10 then [char_of (48 + n)] else nat_literal (n div 10) @ [char_of (48 + n mod 10)])"

declare nat_literal.simps [simp del]

definition literal_of_int :: "int \<Rightarrow> string" where
  "literal_of_int i = (if i < 0 then CHR ''-'' # nat_literal (nat (- i)) else nat_literal (nat i))"

definition digits_value :: "string \<Rightarrow> nat" where
  "digits_value ds = foldl (\<lambda>a c. a * 10 + (code c - 48)) 0 ds"

text \<open>\<open>strconv.ParseInt\<close> on a number literal: fractions and exponents are errors.\<close>

definition int_of_literal :: "string \<Rightarrow> int option" where
  "int_of_literal n =
     (let neg = take 1 n = ''-''; ds = (if neg then drop 1 n else n) in
      if ds \<noteq> [] \<and> list_all is_digit ds
      then Some (if neg then - int (digits_value ds) else int (digits_value ds)) else None)"

lemma is_digit_char [simp]: "n < 10 \<Longrightarrow> is_digit (char_of (48 + n))" for n :: nat
  by (simp add: is_digit_def)

lemma nat_literal_digits: "nat_literal n \<noteq> [] \<and> list_all is_digit (nat_literal n)"
proof (induction n rule: nat_literal.induct)
  case (1 n)
  then show ?case by (subst (1 2) nat_literal.simps) simp
qed

lemma digits_value_snoc [simp]: "digits_value (ds @ [c]) = digits_value ds * 10 + (code c - 48)"
  by (simp add: digits_value_def)

lemma digits_value_literal [simp]: "digits_value (nat_literal n) = n"
proof (induction n rule: nat_literal.induct)
  case (1 n)
  show ?case
  proof (cases "n < 10")
    case True
    then show ?thesis by (simp add: nat_literal.simps [of n] digits_value_def)
  next
    case False
    with "1.IH" show ?thesis by (simp add: nat_literal.simps [of n])
  qed
qed

lemma nat_literal_hd: "0 < n \<Longrightarrow> hd (nat_literal n) \<noteq> CHR ''0''"
proof (induction n rule: nat_literal.induct)
  case (1 n)
  show ?case
  proof (cases "n < 10")
    case True
    have "char_of (48 + n) \<noteq> CHR ''0''"
    proof
      assume "char_of (48 + n) = CHR ''0''"
      then have "code (char_of (48 + n)) = code (CHR ''0'')" by simp
      with True "1.prems" show False by simp
    qed
    with True show ?thesis by (simp add: nat_literal.simps [of n])
  next
    case False
    with "1.IH" nat_literal_digits [of "n div 10"] show ?thesis
      by (simp add: nat_literal.simps [of n])
  qed
qed

lemma digits_ok_nat_literal [simp]: "digits_ok (nat_literal n)"
proof (cases "n = 0")
  case True
  then show ?thesis by (simp add: nat_literal.simps digits_ok_def is_digit_def)
next
  case False
  then show ?thesis
    using nat_literal_digits [of n] nat_literal_hd [of n] by (simp add: digits_ok_def)
qed

lemma nat_literal_not_minus: "take 1 (nat_literal n) \<noteq> ''-''"
  using nat_literal_digits [of n] by (cases "nat_literal n") (auto simp: is_digit_def)

lemma int_literal_of_int [simp]: "int_literal (literal_of_int i)"
  using nat_literal_not_minus by (auto simp: int_literal_def literal_of_int_def)

lemma int_of_literal_of_int [simp]: "int_of_literal (literal_of_int i) = Some i"
  using nat_literal_digits nat_literal_not_minus
  by (auto simp: int_of_literal_def literal_of_int_def Let_def)

section \<open>Scalars, slices and pointers\<close>

type_synonym 'a decoder = "json \<Rightarrow> 'a \<Rightarrow> bool \<times> 'a"

definition enc_int :: "int \<Rightarrow> json" where
  "enc_int i = JNum (literal_of_int i)"

definition dec_int :: "int \<Rightarrow> int \<Rightarrow> int decoder" where
  "dec_int lo hi j old =
     (case j of
        JNull \<Rightarrow> (True, old)
      | JNum n \<Rightarrow>
          (case int_of_literal n of
             Some i \<Rightarrow> if lo \<le> i \<and> i \<le> hi then (True, i) else (False, old)
           | None \<Rightarrow> (False, old))
      | _ \<Rightarrow> (False, old))"

definition dec_int64 :: "int decoder" where
  "dec_int64 = dec_int (- (2 ^ 63)) (2 ^ 63 - 1)"

definition in_int64 :: "int \<Rightarrow> bool" where
  "in_int64 i \<longleftrightarrow> - (2 ^ 63) \<le> i \<and> i \<le> 2 ^ 63 - 1"

definition enc_uint64 :: "u64 \<Rightarrow> json" where
  "enc_uint64 w = enc_int (uint w)"

definition dec_uint64 :: "u64 decoder" where
  "dec_uint64 j old = apsnd word_of_int (dec_int 0 (2 ^ 64 - 1) j (uint old))"

definition enc_string :: "string \<Rightarrow> json" where
  "enc_string s = JStr s"

definition dec_string :: "string decoder" where
  "dec_string j old =
     (case j of JNull \<Rightarrow> (True, old) | JStr s \<Rightarrow> (True, s) | _ \<Rightarrow> (False, old))"

text \<open>A byte slice is null or base64; the decoder also accepts an array of small integers.\<close>

definition enc_bytes :: "slice \<Rightarrow> json" where
  "enc_bytes s = (case s of None \<Rightarrow> JNull | Some b \<Rightarrow> JStr (b64_enc b))"

definition dec_bytes :: "slice decoder" where
  "dec_bytes j old =
     (case j of
        JNull \<Rightarrow> (True, None)
      | JStr s \<Rightarrow> (case b64_dec s of Some b \<Rightarrow> (True, Some b) | None \<Rightarrow> (False, old))
      | JArr js \<Rightarrow>
          (let rs = map (\<lambda>e. dec_int 0 255 e 0) js
           in (list_all fst rs, Some (map (\<lambda>r. word_of_int (snd r)) rs)))
      | _ \<Rightarrow> (False, old))"

definition enc_ptr :: "('a \<Rightarrow> json) \<Rightarrow> 'a option \<Rightarrow> json" where
  "enc_ptr enc p = (case p of None \<Rightarrow> JNull | Some x \<Rightarrow> enc x)"

definition dec_ptr :: "'a decoder \<Rightarrow> 'a \<Rightarrow> 'a option decoder" where
  "dec_ptr dec zero j old =
     (case j of JNull \<Rightarrow> (True, None)
      | _ \<Rightarrow> apsnd Some (dec j (case old of None \<Rightarrow> zero | Some x \<Rightarrow> x)))"

definition enc_list :: "('a \<Rightarrow> json) \<Rightarrow> 'a list \<Rightarrow> json" where
  "enc_list enc xs = JArr (map enc xs)"

definition dec_list :: "'a decoder \<Rightarrow> 'a \<Rightarrow> 'a list decoder" where
  "dec_list dec zero j old =
     (case j of
        JNull \<Rightarrow> (True, [])
      | JArr js \<Rightarrow> (let rs = map (\<lambda>e. dec e zero) js in (list_all fst rs, map snd rs))
      | _ \<Rightarrow> (False, old))"

section \<open>Structs\<close>

text \<open>The decoder of a field sees the text of the value (for \<open>json.RawMessage\<close>) and the value.\<close>

type_synonym 's field_decoder = "string \<times> (string \<Rightarrow> json \<Rightarrow> 's \<Rightarrow> bool \<times> 's)"

definition on_field :: "'a decoder \<Rightarrow> ('s \<Rightarrow> 'a) \<Rightarrow> ('a \<Rightarrow> 's \<Rightarrow> 's) \<Rightarrow> string \<Rightarrow> json \<Rightarrow> 's \<Rightarrow> bool \<times> 's"
where
  "on_field dec get put raw j s = (let (ok, y) = dec j (get s) in (ok, put y s))"

definition raw_field :: "(string \<Rightarrow> 's \<Rightarrow> 's) \<Rightarrow> string \<Rightarrow> json \<Rightarrow> 's \<Rightarrow> bool \<times> 's" where
  "raw_field put raw j s = (True, put raw s)"

definition fold_char :: "char \<Rightarrow> char" where
  "fold_char c = (if 65 \<le> code c \<and> code c \<le> 90 then char_of (code c + 32) else c)"

definition find_field :: "'s field_decoder list \<Rightarrow> string \<Rightarrow> (string \<Rightarrow> json \<Rightarrow> 's \<Rightarrow> bool \<times> 's) option"
where
  "find_field fs k =
     (case map_of fs k of Some d \<Rightarrow> Some d
      | None \<Rightarrow> map_option snd (find (\<lambda>(name, _). map fold_char name = map fold_char k) fs))"

fun dec_members :: "'s field_decoder list \<Rightarrow> (string \<times> string \<times> json) list \<Rightarrow> 's \<Rightarrow> bool \<times> 's" where
  "dec_members fs [] s = (True, s)"
| "dec_members fs ((k, raw, v) # ms) s =
     (case find_field fs k of None \<Rightarrow> dec_members fs ms s
      | Some d \<Rightarrow>
          (let (ok, s1) = d raw v s; (ok', s2) = dec_members fs ms s1 in (ok \<and> ok', s2)))"

definition dec_struct :: "'s field_decoder list \<Rightarrow> 's decoder" where
  "dec_struct fs j s =
     (case j of JNull \<Rightarrow> (True, s) | JObj ms \<Rightarrow> dec_members fs ms s | _ \<Rightarrow> (False, s))"

definition omitempty :: "bool \<Rightarrow> string \<times> string \<times> json \<Rightarrow> (string \<times> string \<times> json) list" where
  "omitempty zero m = (if zero then [] else [m])"

text \<open>
  \<open>json.Marshal\<close> is \<open>jprint\<close> after the encoder; \<open>json.Unmarshal\<close> checks the syntax of the
  whole text first and leaves the target alone when it is wrong.
\<close>

definition unmarshal_into :: "'a decoder \<Rightarrow> string \<Rightarrow> 'a \<Rightarrow> bool \<times> 'a" where
  "unmarshal_into dec s old = (case json_parse s of None \<Rightarrow> (False, old) | Some j \<Rightarrow> dec j old)"

section \<open>Round trips of the parts\<close>

named_theorems codec_simps \<open>decoding what an encoder wrote\<close>
named_theorems wf_codec \<open>encoders produce well-formed JSON\<close>

lemma dec_int_enc [codec_simps]: "lo \<le> i \<Longrightarrow> i \<le> hi \<Longrightarrow> dec_int lo hi (enc_int i) old = (True, i)"
  by (simp add: dec_int_def enc_int_def)

lemma dec_int64_enc [codec_simps]: "in_int64 i \<Longrightarrow> dec_int64 (enc_int i) old = (True, i)"
  by (simp add: dec_int64_def in_int64_def dec_int_enc)

lemma dec_uint64_enc [codec_simps]: "dec_uint64 (enc_uint64 w) old = (True, w)"
proof -
  have "uint w < 2 ^ 64"
    using uint_bounded [of w] by simp
  then show ?thesis
    by (simp add: dec_uint64_def enc_uint64_def dec_int_enc)
qed

lemma dec_string_enc [codec_simps]: "dec_string (enc_string s) old = (True, s)"
  by (simp add: dec_string_def enc_string_def)

lemma dec_bytes_enc [codec_simps]: "dec_bytes (enc_bytes s) old = (True, s)"
  by (cases s) (simp_all add: dec_bytes_def enc_bytes_def)

lemma enc_uint64_not_null [simp]: "enc_uint64 w \<noteq> JNull"
  by (simp add: enc_uint64_def enc_int_def)

lemma dec_ptr_enc:
  assumes "\<And>x. enc x \<noteq> JNull" and "\<And>x old. p = Some x \<Longrightarrow> dec (enc x) old = (True, x)"
  shows "dec_ptr dec zero (enc_ptr enc p) old = (True, p)"
proof (cases p)
  case None
  then show ?thesis by (simp add: dec_ptr_def enc_ptr_def)
next
  case (Some x)
  then show ?thesis
    using assms(1) [of x] assms(2) [OF Some]
    by (cases "enc x") (simp_all add: dec_ptr_def enc_ptr_def)
qed

lemma dec_ptr_uint64 [codec_simps]:
  "dec_ptr dec_uint64 zero (enc_ptr enc_uint64 p) old = (True, p)"
  by (rule dec_ptr_enc) (simp_all add: dec_uint64_enc)

lemma dec_list_enc:
  assumes "\<And>x. x \<in> set xs \<Longrightarrow> dec (enc x) zero = (True, x)"
  shows "dec_list dec zero (enc_list enc xs) old = (True, xs)"
  using assms by (simp add: dec_list_def enc_list_def Let_def list_all_iff map_idI)

lemmas struct_simps [codec_simps] =
  dec_struct_def on_field_def raw_field_def jmember_def find_field_def

lemma omitempty_simps [simp]: "omitempty True m = []" "omitempty False m = [m]"
  by (simp_all add: omitempty_def)

lemma utf8_valid_ascii: "list_all (\<lambda>c. code c < 128) s \<Longrightarrow> utf8_valid s"
  by (induction s) (simp_all add: utf8_valid.simps(2) utf8_size.simps(2))

lemma b64_char_ascii [simp]: "code (b64_char n) < 128"
  by (auto simp: b64_char_def)

lemma b64_enc_ascii: "list_all (\<lambda>c. code c < 128) (b64_enc bs)"
  by (induction bs rule: b64_enc.induct) (simp_all add: b64_pad_def)

lemma wf_enc_int [wf_codec]: "wf_json (enc_int i)"
  by (simp add: enc_int_def)

lemma wf_enc_uint64 [wf_codec]: "wf_json (enc_uint64 w)"
  by (simp add: enc_uint64_def wf_codec)

lemma wf_enc_string [wf_codec]: "wf_json (enc_string s) = utf8_valid s"
  by (simp add: enc_string_def)

lemma wf_enc_bytes [wf_codec]: "wf_json (enc_bytes s)"
  by (cases s) (simp_all add: enc_bytes_def utf8_valid_ascii b64_enc_ascii)

lemma wf_enc_ptr: "(\<And>x. p = Some x \<Longrightarrow> wf_json (enc x)) \<Longrightarrow> wf_json (enc_ptr enc p)"
  by (cases p) (simp_all add: enc_ptr_def)

lemma wf_enc_ptr_uint64 [wf_codec]: "wf_json (enc_ptr enc_uint64 p)"
  by (rule wf_enc_ptr) (simp add: wf_codec)

lemma wf_enc_list [wf_codec]: "wf_json (enc_list enc xs) = (\<forall>x \<in> set xs. wf_json (enc x))"
  by (simp add: enc_list_def)

lemma jmember_parts [wf_codec]:
  "fst (jmember k v) = k" "fst (snd (jmember k v)) = jprint v" "snd (snd (jmember k v)) = v"
  by (simp_all add: jmember_def)

lemma unmarshal_print:
  "wf_json j \<Longrightarrow> unmarshal_into dec (jprint j) old = dec j old"
  by (simp add: unmarshal_into_def json_round_trip)

end
