(* ===== verification/Model_Codec.thy ===== *)
theory Model_Codec
  imports Json_Codec Models
begin

text \<open>
  The JSON form of the exchanged structs, field by field from their tags, and the fact that
  decoding what was encoded gives the value back. A field marked \<open>omitempty\<close> is left out when
  its value is empty and then keeps what the target held, so those structs are decoded into
  zero values.
\<close>

section \<open>Users\<close>

definition enc_user :: "user \<Rightarrow> json" where
  "enc_user x = JObj
    [jmember ''dilithium_pub'' (enc_bytes (u_DilithiumPub x)),
      jmember ''kyber_pub'' (enc_bytes (u_KyberPub x)),
      jmember ''libp2p_pub'' (enc_bytes (u_Libp2pPub x)),
      jmember ''peer_id'' (enc_string (u_PeerID x)),
      jmember ''username'' (enc_string (u_Username x)),
      jmember ''preferred_color'' (enc_string (u_PreferredColor x))]"

definition user_fields :: "user field_decoder list" where
  "user_fields =
    [(''dilithium_pub'', on_field dec_bytes u_DilithiumPub
        (\<lambda>y. u_DilithiumPub_update (\<lambda>_. y))),
     (''kyber_pub'', on_field dec_bytes u_KyberPub (\<lambda>y. u_KyberPub_update (\<lambda>_. y))),
     (''libp2p_pub'', on_field dec_bytes u_Libp2pPub
        (\<lambda>y. u_Libp2pPub_update (\<lambda>_. y))),
     (''peer_id'', on_field dec_string u_PeerID (\<lambda>y. u_PeerID_update (\<lambda>_. y))),
     (''username'', on_field dec_string u_Username (\<lambda>y. u_Username_update (\<lambda>_. y))),
     (''preferred_color'', on_field dec_string u_PreferredColor
        (\<lambda>y. u_PreferredColor_update (\<lambda>_. y)))]"

definition dec_user :: "user decoder" where
  "dec_user = dec_struct user_fields"

definition wf_user :: "user \<Rightarrow> bool" where
  "wf_user u \<longleftrightarrow> utf8_valid (u_PeerID u) \<and> utf8_valid (u_Username u) \<and> utf8_valid (u_PreferredColor u)"

lemma dec_enc_user [codec_simps]: "dec_user (enc_user u) old = (True, u)"
  by (simp add: dec_user_def enc_user_def user_fields_def codec_simps)

lemma wf_enc_user [wf_codec]: "wf_json (enc_user u) = wf_user u"
  by (simp add: enc_user_def wf_user_def wf_codec utf8_valid_ascii)

section \<open>Message payloads\<close>

definition enc_chat_message :: "chat_message \<Rightarrow> json" where
  "enc_chat_message x = JObj
    [jmember ''chain_index'' (enc_uint64 (cm_ChainIndex x)),
      jmember ''ciphertext'' (enc_bytes (cm_Ciphertext x))]"

definition chat_message_fields :: "chat_message field_decoder list" where
  "chat_message_fields =
    [(''chain_index'', on_field dec_uint64 cm_ChainIndex
        (\<lambda>y. cm_ChainIndex_update (\<lambda>_. y))),
     (''ciphertext'', on_field dec_bytes cm_Ciphertext
        (\<lambda>y. cm_Ciphertext_update (\<lambda>_. y)))]"

definition dec_chat_message :: "chat_message decoder" where
  "dec_chat_message = dec_struct chat_message_fields"

definition enc_join_message :: "join_message \<Rightarrow> json" where
  "enc_join_message x = JObj
    ([jmember ''user'' (enc_user (jm_User x))]
     @ omitempty (slice_bytes (jm_EncKey x) = []) (jmember ''enc_key'' (enc_bytes (jm_EncKey x))))"

definition join_message_fields :: "join_message field_decoder list" where
  "join_message_fields =
    [(''user'', on_field dec_user jm_User (\<lambda>y. jm_User_update (\<lambda>_. y))),
     (''enc_key'', on_field dec_bytes jm_EncKey (\<lambda>y. jm_EncKey_update (\<lambda>_. y)))]"

definition dec_join_message :: "join_message decoder" where
  "dec_join_message = dec_struct join_message_fields"

definition enc_leave_message :: "leave_message \<Rightarrow> json" where
  "enc_leave_message x = JObj
    [jmember ''peer_id'' (enc_string (lm_PeerID x))]"

definition leave_message_fields :: "leave_message field_decoder list" where
  "leave_message_fields =
    [(''peer_id'', on_field dec_string lm_PeerID (\<lambda>y. lm_PeerID_update (\<lambda>_. y)))]"

definition dec_leave_message :: "leave_message decoder" where
  "dec_leave_message = dec_struct leave_message_fields"

definition enc_rekey_entry :: "rekey_entry \<Rightarrow> json" where
  "enc_rekey_entry x = JObj
    [jmember ''peer_id'' (enc_string (re_PeerID x)),
      jmember ''ciphertext'' (enc_bytes (re_Ciph x))]"

definition rekey_entry_fields :: "rekey_entry field_decoder list" where
  "rekey_entry_fields =
    [(''peer_id'', on_field dec_string re_PeerID (\<lambda>y. re_PeerID_update (\<lambda>_. y))),
     (''ciphertext'', on_field dec_bytes re_Ciph (\<lambda>y. re_Ciph_update (\<lambda>_. y)))]"

definition dec_rekey_entry :: "rekey_entry decoder" where
  "dec_rekey_entry = dec_struct rekey_entry_fields"

definition zero_rekey_entry :: rekey_entry where
  "zero_rekey_entry = \<lparr>re_PeerID = [], re_Ciph = None\<rparr>"

definition enc_rekey_message :: "rekey_message \<Rightarrow> json" where
  "enc_rekey_message x = JObj
    [jmember ''entries'' (enc_ptr (enc_list enc_rekey_entry) (rk_Entries x))]"

definition rekey_message_fields :: "rekey_message field_decoder list" where
  "rekey_message_fields =
    [(''entries'', on_field (dec_ptr (dec_list dec_rekey_entry zero_rekey_entry) []) rk_Entries
        (\<lambda>y. rk_Entries_update (\<lambda>_. y)))]"

definition dec_rekey_message :: "rekey_message decoder" where
  "dec_rekey_message = dec_struct rekey_message_fields"

definition enc_catch_up_request :: "catch_up_request \<Rightarrow> json" where
  "enc_catch_up_request x = JObj
    (omitempty (cq_SinceIndex x = 0) (jmember ''since_index'' (enc_uint64 (cq_SinceIndex x))))"

definition catch_up_request_fields :: "catch_up_request field_decoder list" where
  "catch_up_request_fields =
    [(''since_index'', on_field dec_uint64 cq_SinceIndex
        (\<lambda>y. cq_SinceIndex_update (\<lambda>_. y)))]"

definition dec_catch_up_request :: "catch_up_request decoder" where
  "dec_catch_up_request = dec_struct catch_up_request_fields"

definition enc_catch_up_response :: "catch_up_response \<Rightarrow> json" where
  "enc_catch_up_response x = JObj
    ([jmember ''master_room_key'' (enc_bytes (cr_MasterRoomKey x)),
      jmember ''master_room_key_base'' (enc_bytes (cr_MasterRoomKeyBase x)),
      jmember ''chain_index'' (enc_uint64 (cr_ChainIndex x)),
      jmember ''catchup_messages'' (enc_bytes (cr_CatchUpMessages x))]
     @ omitempty (cr_Error x = []) (jmember ''error'' (enc_string (cr_Error x))))"

definition catch_up_response_fields :: "catch_up_response field_decoder list" where
  "catch_up_response_fields =
    [(''master_room_key'', on_field dec_bytes cr_MasterRoomKey
        (\<lambda>y. cr_MasterRoomKey_update (\<lambda>_. y))),
     (''master_room_key_base'', on_field dec_bytes cr_MasterRoomKeyBase
        (\<lambda>y. cr_MasterRoomKeyBase_update (\<lambda>_. y))),
     (''chain_index'', on_field dec_uint64 cr_ChainIndex
        (\<lambda>y. cr_ChainIndex_update (\<lambda>_. y))),
     (''catchup_messages'', on_field dec_bytes cr_CatchUpMessages
        (\<lambda>y. cr_CatchUpMessages_update (\<lambda>_. y))),
     (''error'', on_field dec_string cr_Error (\<lambda>y. cr_Error_update (\<lambda>_. y)))]"

definition dec_catch_up_response :: "catch_up_response decoder" where
  "dec_catch_up_response = dec_struct catch_up_response_fields"

definition enc_user_update :: "user_update \<Rightarrow> json" where
  "enc_user_update x = JObj
    [jmember ''user'' (enc_user (uu_User x))]"

definition user_update_fields :: "user_update field_decoder list" where
  "user_update_fields =
    [(''user'', on_field dec_user uu_User (\<lambda>y. uu_User_update (\<lambda>_. y)))]"

definition dec_user_update :: "user_update decoder" where
  "dec_user_update = dec_struct user_update_fields"

text \<open>\<open>json.Marshal\<close> of the concrete value behind the interface.\<close>

fun enc_message :: "message \<Rightarrow> json" where
  "enc_message (ChatMessage m) = enc_chat_message m"
| "enc_message (JoinMessage m) = enc_join_message m"
| "enc_message (LeaveMessage m) = enc_leave_message m"
| "enc_message (RekeyMessage m) = enc_rekey_message m"
| "enc_message (CatchUpRequest m) = enc_catch_up_request m"
| "enc_message (CatchUpResponse m) = enc_catch_up_response m"
| "enc_message (UserUpdate m) = enc_user_update m"

text \<open>
  What JSON can carry: text fields are UTF-8, and a slice left out when empty is not an empty
  non-nil one.
\<close>

fun wf_message :: "message \<Rightarrow> bool" where
  "wf_message (ChatMessage m) = True"
| "wf_message (JoinMessage m) = (wf_user (jm_User m) \<and> jm_EncKey m \<noteq> Some [])"
| "wf_message (LeaveMessage m) = utf8_valid (lm_PeerID m)"
| "wf_message (RekeyMessage m) =
     (\<forall>es. rk_Entries m = Some es \<longrightarrow> (\<forall>e \<in> set es. utf8_valid (re_PeerID e)))"
| "wf_message (CatchUpRequest m) = True"
| "wf_message (CatchUpResponse m) = utf8_valid (cr_Error m)"
| "wf_message (UserUpdate m) = wf_user (uu_User m)"

lemma dec_enc_chat_message [codec_simps]: "dec_chat_message (enc_chat_message m) old = (True, m)"
  by (simp add: dec_chat_message_def enc_chat_message_def chat_message_fields_def codec_simps)

lemma dec_enc_join_message [codec_simps]:
  "jm_EncKey m \<noteq> Some [] \<Longrightarrow> jm_EncKey old = None \<Longrightarrow>
   dec_join_message (enc_join_message m) old = (True, m)"
  by (cases "jm_EncKey m")
    (auto simp add: dec_join_message_def enc_join_message_def join_message_fields_def codec_simps)

lemma dec_enc_leave_message [codec_simps]:
  "dec_leave_message (enc_leave_message m) old = (True, m)"
  by (simp add: dec_leave_message_def enc_leave_message_def leave_message_fields_def codec_simps)

lemma dec_enc_rekey_entry [codec_simps]: "dec_rekey_entry (enc_rekey_entry e) old = (True, e)"
  by (simp add: dec_rekey_entry_def enc_rekey_entry_def rekey_entry_fields_def codec_simps)

lemma dec_enc_entries [codec_simps]:
  "dec_ptr (dec_list dec_rekey_entry z) z' (enc_ptr (enc_list enc_rekey_entry) p) old = (True, p)"
  by (rule dec_ptr_enc) (simp_all add: enc_list_def dec_list_enc [unfolded enc_list_def] codec_simps)

lemma dec_enc_rekey_message [codec_simps]:
  "dec_rekey_message (enc_rekey_message m) old = (True, m)"
  by (simp add: dec_rekey_message_def enc_rekey_message_def rekey_message_fields_def codec_simps)

lemma dec_enc_catch_up_request [codec_simps]:
  "cq_SinceIndex old = 0 \<Longrightarrow> dec_catch_up_request (enc_catch_up_request m) old = (True, m)"
  by (cases "cq_SinceIndex m = 0")
    (simp_all add: dec_catch_up_request_def enc_catch_up_request_def catch_up_request_fields_def
      codec_simps)

lemma dec_enc_catch_up_response [codec_simps]:
  "cr_Error old = [] \<Longrightarrow> dec_catch_up_response (enc_catch_up_response m) old = (True, m)"
  by (cases "cr_Error m = []")
    (simp_all add: dec_catch_up_response_def enc_catch_up_response_def catch_up_response_fields_def
      codec_simps)

lemma dec_enc_user_update [codec_simps]: "dec_user_update (enc_user_update m) old = (True, m)"
  by (simp add: dec_user_update_def enc_user_update_def user_update_fields_def codec_simps)

lemma wf_enc_rekey_entry [wf_codec]: "wf_json (enc_rekey_entry e) = utf8_valid (re_PeerID e)"
  by (simp add: enc_rekey_entry_def wf_codec utf8_valid_ascii)

lemma wf_enc_entries [wf_codec]:
  "wf_json (enc_ptr (enc_list enc_rekey_entry) p) =
   (\<forall>es. p = Some es \<longrightarrow> (\<forall>e \<in> set es. utf8_valid (re_PeerID e)))"
  by (cases p) (simp_all add: enc_ptr_def wf_codec)

lemmas message_encoders = enc_chat_message_def enc_join_message_def enc_leave_message_def
  enc_rekey_message_def enc_catch_up_request_def enc_catch_up_response_def enc_user_update_def

lemma wf_enc_message [wf_codec]: "wf_message m \<Longrightarrow> wf_json (enc_message m)"
  by (cases m) (auto simp add: message_encoders omitempty_def wf_codec utf8_valid_ascii)

section \<open>Stored messages\<close>

definition enc_stored_message :: "stored_message \<Rightarrow> json" where
  "enc_stored_message x = JObj
    (omitempty (st_ID x = 0) (jmember ''id'' (enc_int (st_ID x)))
     @ [jmember ''room_id'' (enc_string (st_RoomID x))]
     @ omitempty (st_ServerID x = []) (jmember ''server_id'' (enc_string (st_ServerID x)))
     @ [jmember ''chain_index'' (enc_ptr enc_uint64 (st_ChainIndex x)),
      jmember ''msg_type'' (enc_string (st_MsgType x)),
      jmember ''sender_id'' (enc_string (st_SenderID x)),
      jmember ''timestamp'' (enc_int (st_Timestamp x)),
      jmember ''signature'' (enc_bytes (st_Signature x)),
      jmember ''payload'' (enc_bytes (st_Payload x))])"

definition stored_message_fields :: "stored_message field_decoder list" where
  "stored_message_fields =
    [(''id'', on_field dec_int64 st_ID (\<lambda>y. st_ID_update (\<lambda>_. y))),
     (''room_id'', on_field dec_string st_RoomID (\<lambda>y. st_RoomID_update (\<lambda>_. y))),
     (''server_id'', on_field dec_string st_ServerID
        (\<lambda>y. st_ServerID_update (\<lambda>_. y))),
     (''chain_index'', on_field (dec_ptr dec_uint64 0) st_ChainIndex
        (\<lambda>y. st_ChainIndex_update (\<lambda>_. y))),
     (''msg_type'', on_field dec_string st_MsgType (\<lambda>y. st_MsgType_update (\<lambda>_. y))),
     (''sender_id'', on_field dec_string st_SenderID
        (\<lambda>y. st_SenderID_update (\<lambda>_. y))),
     (''timestamp'', on_field dec_int64 st_Timestamp
        (\<lambda>y. st_Timestamp_update (\<lambda>_. y))),
     (''signature'', on_field dec_bytes st_Signature
        (\<lambda>y. st_Signature_update (\<lambda>_. y))),
     (''payload'', on_field dec_bytes st_Payload (\<lambda>y. st_Payload_update (\<lambda>_. y)))]"

definition dec_stored_message :: "stored_message decoder" where
  "dec_stored_message = dec_struct stored_message_fields"

definition zero_stored_message :: stored_message where
  "zero_stored_message = \<lparr>st_ID = 0, st_RoomID = [], st_ServerID = [], st_ChainIndex = None,
     st_MsgType = [], st_SenderID = [], st_Timestamp = 0, st_Signature = None, st_Payload = None\<rparr>"

definition wf_stored_message :: "stored_message \<Rightarrow> bool" where
  "wf_stored_message m \<longleftrightarrow>
     utf8_valid (st_RoomID m) \<and> utf8_valid (st_ServerID m) \<and> utf8_valid (st_MsgType m)
     \<and> utf8_valid (st_SenderID m) \<and> in_int64 (st_ID m) \<and> in_int64 (st_Timestamp m)"

lemma dec_enc_stored_message:
  assumes "wf_stored_message m"
  shows "dec_stored_message (enc_stored_message m) zero_stored_message = (True, m)"
  using assms
  by (cases "st_ID m = 0"; cases "st_ServerID m = []")
    (simp_all add: dec_stored_message_def enc_stored_message_def stored_message_fields_def
      wf_stored_message_def zero_stored_message_def codec_simps)

lemma wf_enc_stored_message [wf_codec]:
  assumes "wf_stored_message m"
  shows "wf_json (enc_stored_message m)"
  using assms
  by (cases "st_ID m = 0"; cases "st_ServerID m = []")
    (simp_all add: enc_stored_message_def wf_stored_message_def wf_codec utf8_valid_ascii)

end
