(* ===== verification/History.thy ===== *)
theory History
  imports Msg_Store Peer_Store Write_Queue Frame Model_Codec
begin

text \<open>
  internal/storage/history.go and peer_manager.go: the two managers as instances of the write
  queue, the cache of last chain indices with its lock, and the catch-up payload, which is the
  gzipped frames of a room's stored messages as JSON.
\<close>

section \<open>The history manager\<close>

text \<open>
  What the manager's goroutines share: the table, the cache, and how many readers hold the cache's
  lock.
\<close>

record history =
  hi_db :: msg_table
  hi_lastIndex :: "(string, u64) gomap"
  hi_readers :: nat

text \<open>A request: the message to store; its result goes where the worker records results.\<close>

type_synonym messageWriteRequest = stored_message

definition raise_last_index :: "string \<Rightarrow> u64 \<Rightarrow> (string, u64) gomap \<Rightarrow> (string, u64) gomap" where
  "raise_last_index room idx m =
     (case mget m room of
        Some existing \<Rightarrow> if idx > existing then mput room idx m else m
      | None \<Rightarrow> mput room idx m)"

text \<open>\<open>Lock\<close> waits for readers; with one that does not go away it waits for ever (None).\<close>

definition setLastIndex :: "string \<Rightarrow> u64 \<Rightarrow> history \<Rightarrow> history option" where
  "setLastIndex room idx h =
     (if hi_readers h > 0 then None
      else Some (h\<lparr>hi_lastIndex := raise_last_index room idx (hi_lastIndex h)\<rparr>))"

text \<open>
  \<open>GetLastIndex\<close> holds the read lock to its end, also while it caches what it found in the
  database: then it waits for itself. A reader that waits like this keeps new readers out too, as a
  writer that is waiting does. \<open>hi_readers\<close> counts such readers.
\<close>

definition GetLastIndex ::
  "fault \<Rightarrow> (message_row list \<Rightarrow> message_row list) \<Rightarrow> string \<Rightarrow> history \<Rightarrow> (u64 result \<times> history) option"
where
  "GetLastIndex fault met room h =
     (if hi_readers h > 0 then None else
      let h1 = h\<lparr>hi_readers := hi_readers h + 1\<rparr>;
          unlock = (\<lambda>h'. h'\<lparr>hi_readers := hi_readers h' - 1\<rparr>) in
      case mget (hi_lastIndex h1) room of
        Some v \<Rightarrow> Some (Inr v, unlock h1)
      | None \<Rightarrow>
          (case GetLatestChainIndex fault met room (hi_db h1) of
             Inl err \<Rightarrow> Some (Inl err, unlock h1)
           | Inr idx \<Rightarrow> map_option (\<lambda>h2. (Inr idx, unlock h2)) (setLastIndex room idx h1)))"

text \<open>
  The body of \<open>flush\<close> for one request, with the cache's lock free; \<open>history_step\<close> below has the
  worker wait for it.
\<close>

definition history_save :: "(fault, messageWriteRequest, history) saver" where
  "history_save fault m h =
     (let (err, db) = SaveEnvelope fault (st_Signature m) (st_Payload m) (st_Timestamp m) (st_MsgType m)
        (st_ChainIndex m) (st_SenderID m) (st_RoomID m) (st_ServerID m) (hi_db h);
          h1 = h\<lparr>hi_db := db\<rparr> in
      case err of
        Some e \<Rightarrow> (Some e, h1)
      | None \<Rightarrow>
          (None,
           case st_ChainIndex m of
             Some c \<Rightarrow>
               if st_RoomID m \<noteq> [] then h1\<lparr>hi_lastIndex := raise_last_index (st_RoomID m) c (hi_lastIndex h1)\<rparr>
               else h1
           | None \<Rightarrow> h1))"

text \<open>
  The manager as its goroutines run it. A message that is saved and has a room and an index takes
  the cache's lock; when a reader holds it for ever, the worker cannot get past such a message. (What
  the batch has written before it is not told apart.) A call of \<open>GetLastIndex\<close> that never
  returns leaves the lock held.
\<close>

definition takes_lock :: "messageWriteRequest \<times> go_error option \<Rightarrow> bool" where
  "takes_lock res \<longleftrightarrow> snd res = None \<and> st_ChainIndex (fst res) \<noteq> None \<and> st_RoomID (fst res) \<noteq> []"

definition waits_for_lock ::
  "(messageWriteRequest, history) worker \<Rightarrow> (messageWriteRequest, history) worker \<Rightarrow> bool"
where
  "waits_for_lock w w' \<longleftrightarrow>
     hi_readers (wk_target w) > 0 \<and> list_ex takes_lock (drop (length (wk_results w)) (wk_results w'))"

inductive history_step ::
  "(messageWriteRequest, history) worker \<Rightarrow> (messageWriteRequest, history) worker \<Rightarrow> bool"
where
  works: "worker_step history_save w w' \<Longrightarrow> \<not> waits_for_lock w w' \<Longrightarrow> history_step w w'"
| stuck: "GetLastIndex fault met room (wk_target w) = None \<Longrightarrow>
    history_step w (w\<lparr>wk_target := (wk_target w)\<lparr>hi_readers := hi_readers (wk_target w) + 1\<rparr>\<rparr>)"

definition NewHistoryManager :: "nat \<Rightarrow> msg_table \<Rightarrow> (messageWriteRequest, history) worker" where
  "NewHistoryManager writeQSize db =
     new_worker writeQSize 50 \<lparr>hi_db = db, hi_lastIndex = [], hi_readers = 0\<rparr>"

definition EnqueueEnvelope ::
  "slice \<Rightarrow> slice \<Rightarrow> int \<Rightarrow> message_type \<Rightarrow> u64 option \<Rightarrow> string \<Rightarrow> string \<Rightarrow> string
     \<Rightarrow> (messageWriteRequest, history) worker
     \<Rightarrow> go_error option \<times> (messageWriteRequest, history) worker"
where
  "EnqueueEnvelope signature payload timestamp msgType chainIndex sender_id roomID serverID =
     enqueue ''history write queue full''
       \<lparr>st_ID = 0, st_RoomID = roomID, st_ServerID = serverID, st_ChainIndex = chainIndex,
        st_MsgType = msgType, st_SenderID = sender_id, st_Timestamp = timestamp,
        st_Signature = signature, st_Payload = payload\<rparr>"

section \<open>The peer manager\<close>

definition peer_save :: "go_error \<Rightarrow> (fault \<times> int, user, peer_table) saver" where
  "peer_save notNull env u t = SaveUser (fst env) notNull (snd env) u t"

definition NewPeerManager :: "nat \<Rightarrow> peer_table \<Rightarrow> (user, peer_table) worker" where
  "NewPeerManager writeQSize t = new_worker writeQSize 1 t"

definition EnqueueUserEntry :: "user \<Rightarrow> (user, peer_table) worker \<Rightarrow> go_error option \<times> (user, peer_table) worker"
where
  "EnqueueUserEntry u = enqueue ''peer manager write queue full'' u"

text \<open>The worker of the peer manager is the same loop around another operation.\<close>

definition peerWriteWorker :: "go_error \<Rightarrow> (user, peer_table) worker \<Rightarrow> (user, peer_table) worker \<Rightarrow> bool" where
  "peerWriteWorker notNull = worker_step (peer_save notNull)"

section \<open>The managers keep their tables well formed\<close>

lemma hi_db_history_save:
  "hi_db (snd (history_save fault m h)) =
     snd (SaveEnvelope fault (st_Signature m) (st_Payload m) (st_Timestamp m) (st_MsgType m)
       (st_ChainIndex m) (st_SenderID m) (st_RoomID m) (st_ServerID m) (hi_db h))"
  by (simp add: history_save_def Let_def case_prod_unfold split: option.split)

text \<open>The cache is never behind: it holds at least every index that went through the worker.\<close>

definition cached_at_least :: "string \<Rightarrow> u64 \<Rightarrow> history \<Rightarrow> bool" where
  "cached_at_least room c h \<longleftrightarrow> (\<exists>v. mget (hi_lastIndex h) room = Some v \<and> c \<le> v)"

lemma raise_last_index_at_least:
  "\<exists>v. mget (raise_last_index room idx m) room = Some v \<and> idx \<le> v
     \<and> (\<forall>w. mget m room = Some w \<longrightarrow> w \<le> v)"
  by (auto simp: raise_last_index_def map_simps not_less split: option.split)

lemma raise_last_index_other: "room \<noteq> room' \<Longrightarrow> mget (raise_last_index room' idx m) room = mget m room"
  by (auto simp: raise_last_index_def map_simps split: option.split)

lemma cached_history_save:
  assumes "cached_at_least room c h"
  shows "cached_at_least room c (snd (history_save fault m h))"
proof -
  obtain v where v: "mget (hi_lastIndex h) room = Some v" "c \<le> v"
    using assms by (auto simp: cached_at_least_def)
  show ?thesis
  proof (cases "hi_lastIndex (snd (history_save fault m h)) = hi_lastIndex h")
    case False
    then obtain c' where c': "hi_lastIndex (snd (history_save fault m h))
        = raise_last_index (st_RoomID m) c' (hi_lastIndex h)"
      by (auto simp: history_save_def Let_def case_prod_unfold split: option.splits if_splits)
    show ?thesis
    proof (cases "st_RoomID m = room")
      case True
      with raise_last_index_at_least [of room c' "hi_lastIndex h"] v c' show ?thesis
        by (force simp: cached_at_least_def)
    next
      case False
      with raise_last_index_other [of room "st_RoomID m" c' "hi_lastIndex h"] v c' show ?thesis
        by (simp add: cached_at_least_def)
    qed
  qed (use v in \<open>simp add: cached_at_least_def\<close>)
qed

interpretation message_writer: save_target history_save "\<lambda>h. wf_messages (hi_db h)"
  by unfold_locales (simp add: hi_db_history_save wf_SaveEnvelope)

interpretation cache_writer: save_target history_save "cached_at_least room c" for room c
  by unfold_locales (rule cached_history_save)

interpretation peer_writer: save_target "peer_save notNull" wf_peers for notNull
  by unfold_locales (simp add: peer_save_def wf_SaveUser)

interpretation free_lock: target_view history_save "\<lambda>h. h\<lparr>hi_readers := k\<rparr>" for k
  by unfold_locales (simp add: history_save_def Let_def case_prod_unfold split: option.split)

section \<open>What the worker has done\<close>

text \<open>A message of a room with an index that went through without an error is in the cache.\<close>

lemma saved_is_cached:
  assumes "(m, None) \<in> set (fst (save_batch history_save fault ms h))"
    "st_ChainIndex m = Some c" "st_RoomID m \<noteq> []"
  shows "cached_at_least (st_RoomID m) c (snd (save_batch history_save fault ms h))"
  using assms(1)
proof (induction ms arbitrary: fault h)
  case (Cons m1 ms)
  let ?h1 = "snd (history_save (fault 0) m1 h)"
  show ?case
  proof (cases "(m, None) \<in> set (fst (save_batch history_save (\<lambda>n. fault (Suc n)) ms ?h1))")
    case True
    then show ?thesis unfolding save_batch_target by (rule Cons.IH)
  next
    case False
    with Cons.prems have m1: "m = m1" "fst (history_save (fault 0) m1 h) = None"
      by (auto simp: Let_def case_prod_unfold)
    then have "cached_at_least (st_RoomID m) c ?h1"
      using assms(2,3) raise_last_index_at_least [of "st_RoomID m" c "hi_lastIndex h"]
      by (auto simp: history_save_def Let_def case_prod_unfold cached_at_least_def split: option.splits)
    then show ?thesis unfolding save_batch_target by (rule cache_writer.batch_ok)
  qed
qed simp

text \<open>It is in the table too, unless its signature or payload is nil, which \<open>OR IGNORE\<close> skips.\<close>

definition has_row :: "string \<Rightarrow> u64 \<Rightarrow> history \<Rightarrow> bool" where
  "has_row room c h \<longleftrightarrow> (\<exists>r \<in> set (t_rows (hi_db h)). room_chain r = Some (room, int64_of c))"

lemma SaveEnvelope_rows: "set (t_rows t) \<subseteq> set (t_rows (snd (SaveEnvelope fault sg pay ts mt ci who rid sid t)))"
  by (auto simp: SaveEnvelope_def Let_def split: option.splits)

interpretation row_writer: save_target history_save "has_row room c" for room c
  using SaveEnvelope_rows by unfold_locales (fastforce simp: has_row_def hi_db_history_save)

lemma history_save_row:
  assumes "fst (history_save fault m h) = None" "st_ChainIndex m = Some c"
    "st_Signature m = Some sg" "st_Payload m = Some pay"
  shows "has_row (st_RoomID m) c (snd (history_save fault m h))"
proof -
  have "fault = None"
    using assms(1) by (auto simp: history_save_def SaveEnvelope_def Let_def split: option.splits)
  with assms(2-4) show ?thesis
    by (auto simp: has_row_def hi_db_history_save SaveEnvelope_def Let_def room_chain_def)
qed

lemma saved_has_row:
  assumes "(m, None) \<in> set (fst (save_batch history_save fault ms h))"
    "st_ChainIndex m = Some c" "st_Signature m = Some sg" "st_Payload m = Some pay"
  shows "has_row (st_RoomID m) c (snd (save_batch history_save fault ms h))"
  using assms(1)
proof (induction ms arbitrary: fault h)
  case (Cons m1 ms)
  let ?h1 = "snd (history_save (fault 0) m1 h)"
  show ?case
  proof (cases "(m, None) \<in> set (fst (save_batch history_save (\<lambda>n. fault (Suc n)) ms ?h1))")
    case True
    then show ?thesis unfolding save_batch_target by (rule Cons.IH)
  next
    case False
    with Cons.prems have "m = m1" "fst (history_save (fault 0) m1 h) = None"
      by (auto simp: Let_def case_prod_unfold)
    then have "has_row (st_RoomID m) c ?h1" using history_save_row [of "fault 0" m1 h c sg pay] assms(2-4) by simp
    then show ?thesis unfolding save_batch_target by (rule row_writer.batch_ok)
  qed
qed simp

text \<open>Every row of the table was there at the start or is that of a message that was saved.\<close>

definition row_of :: "message_row \<Rightarrow> stored_message \<Rightarrow> bool" where
  "row_of r m \<longleftrightarrow> (stored_of_row r)\<lparr>st_ID := 0\<rparr> = m\<lparr>st_ID := 0\<rparr>"

lemma history_save_rows:
  assumes "r \<in> set (t_rows (hi_db (snd (history_save fault m h))))"
  shows "r \<in> set (t_rows (hi_db h)) \<or> fst (history_save fault m h) = None \<and> row_of r m"
  using assms unfolding hi_db_history_save
  by (cases "st_ChainIndex m")
    (auto simp: SaveEnvelope_def history_save_def row_of_def stored_of_row_def Let_def split: option.splits if_splits)

lemma saved_rows:
  "r \<in> set (t_rows (hi_db (snd (save_batch history_save fault ms h)))) \<Longrightarrow>
   r \<in> set (t_rows (hi_db h)) \<or> (\<exists>m. (m, None) \<in> set (fst (save_batch history_save fault ms h)) \<and> row_of r m)"
proof (induction ms arbitrary: fault h)
  case (Cons m ms)
  from Cons.IH [of "\<lambda>n. fault (Suc n)" "snd (history_save (fault 0) m h)"] Cons.prems
    history_save_rows [of r "fault 0" m h] show ?case
    by (auto simp: Let_def case_prod_unfold)
qed simp

lemma history_worker_ok:
  assumes "worker_reachable history_save (NewHistoryManager n db) w"
  shows "fifo history_save \<lparr>hi_db = db, hi_lastIndex = [], hi_readers = 0\<rparr> w \<and> bounded w"
  using assms unfolding NewHistoryManager_def
  by (rule worker_reachable_ok) (simp_all add: new_worker_ok)

section \<open>The lock\<close>

definition history_reachable :: "nat \<Rightarrow> msg_table \<Rightarrow> (messageWriteRequest, history) worker \<Rightarrow> bool" where
  "history_reachable n db w \<longleftrightarrow> history_step\<^sup>*\<^sup>* (NewHistoryManager n db) w"

text \<open>Apart from the lock, what the manager does is what a worker does that nobody keeps waiting.\<close>

definition unlocked :: "(messageWriteRequest, history) worker \<Rightarrow> (messageWriteRequest, history) worker" where
  "unlocked w = w\<lparr>wk_target := (wk_target w)\<lparr>hi_readers := 0\<rparr>\<rparr>"

lemma unlocked_fields [simp]:
  "wk_mode (unlocked w) = wk_mode w" "wk_accepted (unlocked w) = wk_accepted w" "wk_results (unlocked w) = wk_results w"
  "wk_queue (unlocked w) = wk_queue w" "wk_batch (unlocked w) = wk_batch w" "wk_stop (unlocked w) = wk_stop w"
  "processed (unlocked w) = processed w" "wk_target (unlocked w) = (wk_target w)\<lparr>hi_readers := 0\<rparr>"
  by (simp_all add: unlocked_def processed_def)

lemma unlocked_step: "history_step w w' \<Longrightarrow> (worker_step history_save)\<^sup>*\<^sup>* (unlocked w) (unlocked w')"
proof (induction rule: history_step.induct)
  case (works w w')
  from free_lock.worker_step_view [OF works(1), of 0] show ?case by (simp add: unlocked_def)
qed (simp add: unlocked_def)

lemma unlocked_run: "history_step\<^sup>*\<^sup>* w w' \<Longrightarrow> (worker_step history_save)\<^sup>*\<^sup>* (unlocked w) (unlocked w')"
  by (induction rule: rtranclp_induct) (auto dest: unlocked_step)

lemma history_reachable_worker:
  "history_reachable n db w \<Longrightarrow> worker_reachable history_save (NewHistoryManager n db) (unlocked w)"
  using unlocked_run [of "NewHistoryManager n db" w]
  by (simp add: history_reachable_def worker_reachable_def unlocked_def NewHistoryManager_def new_worker_def)

lemma readers_save: "hi_readers (snd (history_save fault m h)) = hi_readers h"
  by (simp add: history_save_def Let_def case_prod_unfold split: option.split)

lemma readers_batch: "hi_readers (snd (save_batch history_save fault ms h)) = hi_readers h"
  by (induction ms arbitrary: fault h) (simp_all add: Let_def case_prod_unfold readers_save)

lemma readers_flush: "hi_readers (wk_target (flush history_save fault w)) = hi_readers (wk_target w)"
  by (simp add: flush_def Let_def case_prod_unfold readers_batch)

lemma readers_step:
  "worker_step history_save w w' \<Longrightarrow> hi_readers (wk_target w') = hi_readers (wk_target w)"
  by (erule worker_stepE) (auto simp: enqueue_def receive_def Let_def readers_flush split: if_splits)

text \<open>With nobody holding the lock the worker never waits.\<close>

lemma free_run:
  "(worker_step history_save)\<^sup>*\<^sup>* w w' \<Longrightarrow> hi_readers (wk_target w) = 0 \<Longrightarrow>
   history_step\<^sup>*\<^sup>* w w' \<and> hi_readers (wk_target w') = 0"
proof (induction rule: rtranclp_induct)
  case (step v v')
  then have "history_step v v'" by (intro history_step.works) (simp_all add: waits_for_lock_def)
  moreover have "history_step\<^sup>*\<^sup>* w v" "hi_readers (wk_target v) = 0" using step.IH step.prems by simp_all
  ultimately show ?case using readers_step [OF step.hyps(2)] by (simp add: rtranclp.rtrancl_into_rtrancl)
qed simp



lemma worker_step_sizes:
  "worker_step save w w' \<Longrightarrow> wk_capacity w' = wk_capacity w \<and> wk_batchSize w' = wk_batchSize w"
  by (erule worker_stepE)
    (auto simp: enqueue_def receive_def Let_def flush_fields split: if_splits)

lemma worker_sizes:
  assumes "worker_reachable save w0 w"
  shows "wk_capacity w = wk_capacity w0 \<and> wk_batchSize w = wk_batchSize w0"
  using assms unfolding worker_reachable_def
  by (induction rule: rtranclp_induct) (auto dest: worker_step_sizes)

section \<open>Properties\<close>


text \<open>
  The peer manager saves each request when it receives it: its batch is always empty, and what it
  accepted is what it has processed, in order, and then what is in the queue.
\<close>

lemma peer_queue_unbatched:
  assumes "(peerWriteWorker notNull)\<^sup>*\<^sup>* (NewPeerManager n t) w"
  shows "wk_batch w = [] \<and> wk_accepted w = map fst (wk_results w) @ wk_queue w \<and> length (wk_queue w) \<le> n"
proof -
  have run: "worker_reachable (peer_save notNull) (new_worker n 1 t) w"
    using assms by (simp add: peerWriteWorker_def worker_reachable_def NewPeerManager_def)
  then have "fifo (peer_save notNull) t w \<and> bounded w"
    by (rule worker_reachable_ok) (simp_all add: new_worker_ok)
  with worker_sizes [OF run] show ?thesis
    by (auto simp: fifo_def bounded_def processed_def new_worker_def)
qed

text \<open>
  C23. The cache of last indices and the table are never behind the worker: for a chat message of a
  room that was saved without an error, the cache holds an index at least as large, and if the
  message had a signature and a payload the table has a row with its room and index. That row was
  in the table from the start or is, field by field, that of a message that was saved: the message's
  own, unless one with the same room and index came before, which \<open>OR IGNORE\<close> then keeps.
\<close>

theorem saved_messages_visible:
  assumes "history_reachable n db w"
    and "(m, None) \<in> set (wk_results w)" "st_ChainIndex m = Some c" "st_RoomID m \<noteq> []"
  shows "(\<exists>v. mget (hi_lastIndex (wk_target w)) (st_RoomID m) = Some v \<and> c \<le> v)
    \<and> (st_Signature m \<noteq> None \<and> st_Payload m \<noteq> None \<longrightarrow>
        (\<exists>r \<in> set (t_rows (hi_db (wk_target w))). room_chain r = Some (st_RoomID m, int64_of c)
          \<and> (r \<in> set (t_rows db) \<or> (\<exists>m'. (m', None) \<in> set (wk_results w) \<and> row_of r m'))))
    \<and> (st_Signature m \<noteq> None \<and> st_Payload m \<noteq> None
        \<and> (\<forall>r \<in> set (t_rows db). room_chain r \<noteq> Some (st_RoomID m, int64_of c))
        \<and> (\<forall>(m', e) \<in> set (wk_results w). e = None \<and> st_RoomID m' = st_RoomID m \<and> st_ChainIndex m' = Some c \<longrightarrow> m' = m)
        \<longrightarrow> (\<exists>r \<in> set (t_rows (hi_db (wk_target w))). row_of r m))"
proof -
  let ?h0 = "\<lparr>hi_db = db, hi_lastIndex = [], hi_readers = 0\<rparr>"
  obtain fault where run: "save_batch history_save fault (processed w) ?h0 = (wk_results w, (wk_target w)\<lparr>hi_readers := 0\<rparr>)"
    using history_worker_ok [OF history_reachable_worker [OF assms(1)]] by (auto simp: fifo_def)
  have m: "(m, None) \<in> set (fst (save_batch history_save fault (processed w) ?h0))" using assms(2) run by simp
  have cached: "cached_at_least (st_RoomID m) c (snd (save_batch history_save fault (processed w) ?h0))"
    using saved_is_cached [OF m assms(3,4)] .
  have row: "\<exists>r \<in> set (t_rows (hi_db (wk_target w))). room_chain r = Some (st_RoomID m, int64_of c)
      \<and> (r \<in> set (t_rows db) \<or> (\<exists>m'. (m', None) \<in> set (wk_results w) \<and> row_of r m'))"
    if "st_Signature m = Some sg" "st_Payload m = Some pay" for sg pay
    using saved_has_row [OF m assms(3) that] saved_rows [of _ fault "processed w" ?h0] run
    by (force simp: has_row_def)
  have "st_RoomID m' = st_RoomID m \<and> st_ChainIndex m' = Some c"
    if "row_of r m'" "room_chain r = Some (st_RoomID m, int64_of c)" for r m'
    using that by (cases m') (auto simp: row_of_def stored_of_row_def room_chain_def)
  note same = this
  let ?rows = "t_rows (hi_db (wk_target w))" and ?filled = "st_Signature m \<noteq> None \<and> st_Payload m \<noteq> None"
  have kept: "\<exists>r \<in> set ?rows. room_chain r = Some (st_RoomID m, int64_of c)
      \<and> (r \<in> set (t_rows db) \<or> (\<exists>m'. (m', None) \<in> set (wk_results w) \<and> row_of r m'))" if ?filled
    using row that by blast
  moreover have "\<exists>r \<in> set ?rows. row_of r m"
    if filled: ?filled and fresh: "\<forall>r \<in> set (t_rows db). room_chain r \<noteq> Some (st_RoomID m, int64_of c)"
      and only: "\<forall>(m', e) \<in> set (wk_results w). e = None \<and> st_RoomID m' = st_RoomID m \<and> st_ChainIndex m' = Some c \<longrightarrow> m' = m"
  proof -
    from kept [OF filled] fresh obtain r m' where r: "r \<in> set ?rows" "room_chain r = Some (st_RoomID m, int64_of c)"
      "(m', None) \<in> set (wk_results w)" "row_of r m'" by blast
    with same [OF r(4,2)] only have "m' = m" by fastforce
    with r show ?thesis by blast
  qed
  ultimately show ?thesis using cached run by (simp add: cached_at_least_def)
qed

text \<open>
  Both managers keep their tables well formed whatever is enqueued, in whatever order the worker
  takes its branches and whatever fails: no room gets two messages with one index, and no peer
  two rows.
\<close>

theorem managers_keep_tables:
  assumes "wf_messages db" "wf_peers t"
    and "worker_reachable history_save (NewHistoryManager n db) w"
    and "worker_reachable (peer_save notNull) (NewPeerManager k t) v"
  shows "wf_messages (hi_db (wk_target w)) \<and> wf_peers (wk_target v)"
  using message_writer.worker_target_ok [OF assms(3) [unfolded NewHistoryManager_def]]
    peer_writer.worker_target_ok [OF assms(4) [unfolded NewPeerManager_def]] assms(1,2)
  by simp


text \<open>
  Reading the last index of a room waits for ever exactly when another call does so already or the
  cache does not have the room but the table has a chat message of it: the value found is cached under a lock the same call
  still holds for reading. In every other case it returns, with the largest index when there is one.
\<close>

theorem get_last_index_blocks:
  assumes "map_order met"
  shows "GetLastIndex None met room h = None
    \<longleftrightarrow> hi_readers h > 0 \<or> mget (hi_lastIndex h) room = None \<and> chat_rows (hi_db h) room \<noteq> {}"
proof -
  let ?f = "filter (\<lambda>r. mr_room_id r = room \<and> mr_chain_index r \<noteq> None) (t_rows (hi_db h))"
  have set: "set (sql_order_desc met chain_key ?f) = chat_rows (hi_db h) room"
    by (auto simp: sql_order_desc_def chat_rows_def map_order_set [OF assms])
  show ?thesis
  proof (cases "sql_order_desc met chain_key ?f")
    case Nil
    with set show ?thesis
      by (simp add: GetLastIndex_def GetLatestChainIndex_def sql_limit_def Let_def split: option.split)
  next
    case (Cons r rs)
    with set show ?thesis
      by (auto simp: GetLastIndex_def GetLatestChainIndex_def sql_limit_def setLastIndex_def Let_def
          split: option.split)
  qed
qed

section \<open>Instances of the properties\<close>

definition sample_request :: messageWriteRequest where
  "sample_request = \<lparr>st_ID = 0, st_RoomID = ''r'', st_ServerID = ''s'', st_ChainIndex = Some 5,
     st_MsgType = ''chat'', st_SenderID = ''p'', st_Timestamp = 20, st_Signature = Some [1], st_Payload = Some [2]\<rparr>"

definition sample_queued :: "(messageWriteRequest, history) worker" where
  "sample_queued = snd (EnqueueEnvelope (Some [1]) (Some [2]) 20 ''chat'' (Some 5) ''p'' ''r'' ''s''
     (NewHistoryManager 2 empty_table))"

definition sample_taken :: "(messageWriteRequest, history) worker" where
  "sample_taken = receive history_save (\<lambda>_. None) sample_request [] sample_queued"

definition sample_flushed :: "(messageWriteRequest, history) worker" where
  "sample_flushed = flush history_save (\<lambda>_. None) sample_taken"

lemmas sample_worker_defs = sample_queued_def sample_taken_def sample_flushed_def EnqueueEnvelope_def
  NewHistoryManager_def new_worker_def enqueue_def receive_def Let_def flush_def

lemma sample_queued_fields: "wk_queue sample_queued = [sample_request]" "wk_mode sample_queued = Running"
  by (simp_all add: sample_worker_defs sample_request_def)

lemma sample_worker_reachable:
  "worker_reachable history_save (NewHistoryManager 2 empty_table) sample_queued"
  "worker_reachable history_save (NewHistoryManager 2 empty_table) sample_flushed"
proof -
  have 1: "worker_step history_save (NewHistoryManager 2 empty_table) sample_queued"
    unfolding sample_queued_def EnqueueEnvelope_def by (rule worker_step.send) (rule prod.collapse [symmetric])
  have 2: "worker_step history_save sample_queued sample_taken"
    unfolding sample_taken_def by (rule worker_step.take) (simp_all add: sample_queued_fields)
  have "wk_mode sample_taken = Running"
    by (simp add: sample_taken_def receive_fields sample_queued_fields)
  then have 3: "worker_step history_save sample_taken sample_flushed"
    unfolding sample_flushed_def by (rule worker_step.tick)
  show "worker_reachable history_save (NewHistoryManager 2 empty_table) sample_queued"
    using 1 by (simp add: worker_reachable_def r_into_rtranclp)
  with 2 3 show "worker_reachable history_save (NewHistoryManager 2 empty_table) sample_flushed"
    by (metis worker_reachable_step)
qed

lemma sample_history_reachable:
  "history_reachable 2 empty_table sample_queued" "history_reachable 2 empty_table sample_flushed"
  using sample_worker_reachable [unfolded worker_reachable_def, THEN free_run]
  by (simp_all add: history_reachable_def NewHistoryManager_def new_worker_def)

lemma sample_flushed_results: "wk_results sample_flushed = [(sample_request, None)]"
  by (simp add: sample_worker_defs sample_request_def history_save_def SaveEnvelope_def)


theorem saved_messages_visible_witness:
  "(\<exists>v. mget (hi_lastIndex (wk_target sample_flushed)) ''r'' = Some v \<and> 5 \<le> v)
   \<and> (\<exists>r \<in> set (t_rows (hi_db (wk_target sample_flushed))). row_of r sample_request)"
proof -
  have m: "(sample_request, None) \<in> set (wk_results sample_flushed)" by (simp add: sample_flushed_results)
  have "st_ChainIndex sample_request = Some 5" "st_RoomID sample_request \<noteq> []"
    by (simp_all add: sample_request_def)
  from saved_messages_visible [OF sample_history_reachable(2) m this] show ?thesis
    by (simp add: sample_request_def [symmetric] sample_flushed_results) (simp add: sample_request_def empty_table_def)
qed

theorem managers_keep_tables_witness:
  "wf_messages (hi_db (wk_target sample_flushed)) \<and> wf_peers (wk_target (NewPeerManager 3 empty_table))"
proof -
  have "worker_reachable (peer_save (Errorf [])) (NewPeerManager 3 empty_table) (NewPeerManager 3 empty_table)"
    by (simp add: worker_reachable_def)
  from managers_keep_tables [OF wf_messages_empty wf_peers_empty sample_worker_reachable(2) this] show ?thesis .
qed


theorem get_last_index_blocks_witness:
  "GetLastIndex None rev ''r'' ((wk_target sample_flushed)\<lparr>hi_lastIndex := []\<rparr>) = None"
proof -
  have "chat_rows (hi_db (wk_target sample_flushed)) ''r'' \<noteq> {}"
    by (simp add: sample_worker_defs sample_request_def history_save_def SaveEnvelope_def chat_rows_def)
  then show ?thesis
    by (simp add: get_last_index_blocks)
qed

end
