(* ===== verification/Catch_Up_Payload.thy ===== *)
theory Catch_Up_Payload
  imports History
begin

text \<open>
  BuildCatchUpPayload and DecompressCatchUpPayload of internal/storage/history.go. Compression is
  outside the repository: \<open>gzip_lib\<close> has what \<open>gzip.Writer\<close> leaves in the buffer after \<open>Close\<close>, and
  the stream (or the error) \<open>gzip.NewReader\<close> makes of a payload.
\<close>

record gzip_lib =
  gz_compress :: "bytes \<Rightarrow> bytes"
  gz_NewReader :: "bytes \<Rightarrow> stream result"

text \<open>Reading what was written gives the bytes back, then the end; the header alone is not empty.\<close>

definition gzip_ok :: "gzip_lib \<Rightarrow> bool" where
  "gzip_ok L \<longleftrightarrow> (\<forall>b. gz_compress L b \<noteq> [] \<and> gz_NewReader L (gz_compress L b) = Inr (b, EOF))"

record catch_up_messages =
  cu_ReturnedMessages :: "stored_message list"
  cu_SenderID :: string

section \<open>Building\<close>

definition marshal_stored :: "stored_message \<Rightarrow> bytes" where
  "marshal_stored m = string_bytes (jprint (enc_stored_message m))"

text \<open>The loop over the messages: the frames written so far and the last chain index.\<close>

fun build_frames :: "stored_message list \<Rightarrow> bytes \<Rightarrow> u64 \<Rightarrow> bytes \<times> u64" where
  "build_frames [] buf lastIndex = (buf, lastIndex)"
| "build_frames (m # ms) buf lastIndex =
     build_frames ms (buf @ writeFrame (marshal_stored m))
       (case st_ChainIndex m of None \<Rightarrow> 0 | Some c \<Rightarrow> c)"

text \<open>The payload, the last index, the error and the messages; None when it waits for ever.\<close>

type_synonym build_result = "slice \<times> u64 \<times> go_error option \<times> stored_message list"

definition BuildCatchUpPayload ::
  "gzip_lib \<Rightarrow> fault \<Rightarrow> fault \<Rightarrow> (message_row list \<Rightarrow> message_row list) \<Rightarrow> string \<Rightarrow> u64 \<Rightarrow> int \<Rightarrow> history
     \<Rightarrow> (build_result \<times> history) option"
where
  "BuildCatchUpPayload L fault fault2 met roomID sinceIndex limit h =
     (case GetMessagesSinceChainIndex fault met roomID sinceIndex limit (hi_db h) of
        Inl err \<Rightarrow> Some ((None, 0, Some err, []), h)
      | Inr msgs \<Rightarrow>
          if msgs = []
          then map_option (\<lambda>(latest, h1). ((None, case latest of Inl e \<Rightarrow> 0 | Inr i \<Rightarrow> i, None, []), h1))
                 (GetLastIndex fault2 met roomID h)
          else (let (buf, lastIndex) = build_frames msgs [] 0
                in Some ((Some (gz_compress L buf), lastIndex, None, msgs), h)))"

section \<open>Reading\<close>

text \<open>An entry decodes into a pointer, which null leaves nil; the identifier is not copied.\<close>

definition entry_message :: "bytes \<Rightarrow> stored_message result go" where
  "entry_message entry =
     (let (ok, dec) = unmarshal_into (dec_ptr dec_stored_message zero_stored_message) (bytes_string entry) None in
      if \<not> ok then Ret (Inl json_error)
      else (case dec of None \<Rightarrow> Panic Nil_Dereference | Some m \<Rightarrow> Ret (Inr (m\<lparr>st_ID := 0\<rparr>))))"

function read_entries :: "stream \<Rightarrow> stored_message list \<Rightarrow> stored_message list result go" where
  "read_entries s acc =
     (case readFrame s of
        Panic p \<Rightarrow> Panic p
      | Ret (Inl (ReadError err), s') \<Rightarrow> Ret (Inl err)
      | Ret (Inl e, s') \<Rightarrow> Ret (Inr acc)
      | Ret (Inr entry, s') \<Rightarrow>
          (case entry_message entry of
             Panic p \<Rightarrow> Panic p
           | Ret (Inl err) \<Rightarrow> Ret (Inl err)
           | Ret (Inr m) \<Rightarrow> read_entries s' (acc @ [m])))"
  by pat_completeness auto
termination
  by (relation "measure (\<lambda>(s, acc). length (fst s))") (auto dest: readFrame_shorter)

declare read_entries.simps [simp del]

definition DecompressCatchUpPayload :: "gzip_lib \<Rightarrow> slice \<Rightarrow> catch_up_messages result go" where
  "DecompressCatchUpPayload L payload =
     (if slice_bytes payload = [] then Ret (Inr \<lparr>cu_ReturnedMessages = [], cu_SenderID = []\<rparr>)
      else
        (case gz_NewReader L (slice_bytes payload) of
           Inl err \<Rightarrow> Ret (Inl err)
         | Inr gr \<Rightarrow>
             go_bind (read_entries gr [])
               (\<lambda>r. Ret (case r of Inl err \<Rightarrow> Inl err
                  | Inr ms \<Rightarrow> Inr \<lparr>cu_ReturnedMessages = ms, cu_SenderID = []\<rparr>))))"

section \<open>Reading what was built\<close>

lemma build_frames_parts:
  "build_frames ms buf l =
    (buf @ concat (map (\<lambda>m. writeFrame (marshal_stored m)) ms),
     if ms = [] then l else case st_ChainIndex (last ms) of None \<Rightarrow> 0 | Some c \<Rightarrow> c)"
  by (induction ms arbitrary: buf l) simp_all

lemma enc_stored_not_null [simp]: "enc_stored_message m \<noteq> JNull"
  by (simp add: enc_stored_message_def)

lemma entry_message_marshal:
  assumes "wf_stored_message m"
  shows "entry_message (marshal_stored m) = Ret (Inr (m\<lparr>st_ID := 0\<rparr>))"
proof -
  have "dec_ptr dec_stored_message zero_stored_message (enc_stored_message m) None = (True, Some m)"
    using dec_enc_stored_message [OF assms]
    by (cases "enc_stored_message m") (simp_all add: dec_ptr_def enc_stored_message_def)
  then show ?thesis
    using assms by (simp add: entry_message_def marshal_stored_def unmarshal_print wf_enc_stored_message)
qed

lemma read_entries_frame:
  assumes "wf_stored_message m" "length (marshal_stored m) \<le> maxAlloc"
  shows "read_entries (writeFrame (marshal_stored m) @ rest, e) acc
    = read_entries (rest, e) (acc @ [m\<lparr>st_ID := 0\<rparr>])"
  using readFrame_writeFrame [OF assms(2)] entry_message_marshal [OF assms(1)]
  by (simp add: read_entries.simps [of "(writeFrame (marshal_stored m) @ rest, e)"])

lemma read_entries_frames:
  assumes "\<forall>m \<in> set ms. wf_stored_message m \<and> length (marshal_stored m) \<le> maxAlloc"
  shows "read_entries (concat (map (\<lambda>m. writeFrame (marshal_stored m)) ms), EOF) acc
    = Ret (Inr (acc @ map (st_ID_update (\<lambda>_. 0)) ms))"
  using assms
proof (induction ms arbitrary: acc)
  case Nil
  then show ?case by (simp add: read_entries.simps readFrame_end)
next
  case (Cons m ms)
  then show ?case by (simp add: read_entries_frame)
qed

lemma Build_Decompress:
  assumes "gzip_ok L"
    and "BuildCatchUpPayload L fault fault2 met rid since limit h = Some ((payload, lastIndex, None, msgs), h')"
    and "\<forall>m \<in> set msgs. wf_stored_message m \<and> length (marshal_stored m) \<le> maxAlloc"
  shows "DecompressCatchUpPayload L payload
    = Ret (Inr \<lparr>cu_ReturnedMessages = map (st_ID_update (\<lambda>_. 0)) msgs, cu_SenderID = []\<rparr>)"
proof (cases "msgs = []")
  case True
  with assms(2) have "payload = None"
    by (auto simp: BuildCatchUpPayload_def build_frames_parts Let_def split: sum.splits if_splits)
      (metis old.sum.exhaust)
  with True show ?thesis by (simp add: DecompressCatchUpPayload_def)
next
  case False
  with assms(2) have "payload = Some (gz_compress L (concat (map (\<lambda>m. writeFrame (marshal_stored m)) msgs)))"
    by (auto simp: BuildCatchUpPayload_def build_frames_parts Let_def split: sum.splits if_splits)
  with assms(1,3) show ?thesis
    by (simp add: DecompressCatchUpPayload_def gzip_ok_def read_entries_frames)
qed

lemma entry_message_panic: "entry_message entry = Panic p \<Longrightarrow> p = Nil_Dereference"
  by (auto simp: entry_message_def Let_def split: prod.splits option.splits if_splits)

lemma readFrame_panic: "readFrame s = Panic p \<Longrightarrow> p = Makeslice_Length"
  by (auto simp: readFrame_def Let_def split: prod.splits sum.splits if_splits)

lemma read_entries_panic: "read_entries s acc = Panic p \<Longrightarrow> p \<in> {Nil_Dereference, Makeslice_Length}"
proof (induction s acc rule: read_entries.induct)
  case (1 s acc)
  then show ?case
    by (subst (asm) (2) read_entries.simps)
      (auto dest: readFrame_panic entry_message_panic split: go.splits prod.splits sum.splits read_error.splits)
qed

lemma read_entries_null:
  "read_entries (writeFrame (string_bytes ''null'') @ rest, e) acc = Panic Nil_Dereference"
proof -
  have "unmarshal_into (dec_ptr dec_stored_message zero_stored_message) (jprint JNull) None = (True, None)"
    by (subst unmarshal_print) (simp_all add: dec_ptr_def)
  then have "entry_message (string_bytes ''null'') = Panic Nil_Dereference"
    by (simp add: entry_message_def)
  moreover have "readFrame (writeFrame (string_bytes ''null'') @ rest, e) = Ret (Inr (string_bytes ''null''), (rest, e))"
    by (rule readFrame_writeFrame) (simp add: maxAlloc_def)
  ultimately show ?thesis
    by (simp add: read_entries.simps [of "(writeFrame (string_bytes ''null'') @ rest, e)"])
qed

lemma read_entries_huge: "read_entries (replicate 8 255 @ rest, e) acc = Panic Makeslice_Length"
proof -
  have "unat (frame_length (replicate 8 255)) > maxAlloc"
  proof -
    have "frame_length (replicate 8 255) = 18446744073709551615" by code_simp
    then show ?thesis by (simp add: maxAlloc_def)
  qed
  then have "readFrame (replicate 8 255 @ rest, e) = Panic Makeslice_Length"
    by (simp add: readFrame_def read_full_def Let_def)
  then show ?thesis
    by (simp add: read_entries.simps [of "(replicate 8 255 @ rest, e)"])
qed

section \<open>Properties\<close>

text \<open>
  C30. A catch-up payload carries the messages it was built from: what the requester decompresses
  is the list of messages the query returned, in order, with all fields but the row identifiers,
  which are cleared. The frames, the JSON of the messages and the end of the stream are read back.
\<close>

theorem catch_up_round_trip:
  assumes "gzip_ok L"
    and "BuildCatchUpPayload L fault fault2 met rid since limit h = Some ((payload, lastIndex, None, msgs), h')"
    and "\<forall>m \<in> set msgs. wf_stored_message m \<and> length (marshal_stored m) \<le> maxAlloc"
  shows "DecompressCatchUpPayload L payload
    = Ret (Inr \<lparr>cu_ReturnedMessages = map (st_ID_update (\<lambda>_. 0)) msgs, cu_SenderID = []\<rparr>)"
  using assms by (rule Build_Decompress)

text \<open>
  Reading a payload panics for nothing but two kinds of entry a peer can send, and for those it
  does: an entry that is the JSON text null, and a length no slice can have. Everything else
  gives messages or an error.
\<close>

theorem hostile_payload_panics:
  assumes "gzip_ok L"
  shows "DecompressCatchUpPayload L (Some (gz_compress L (writeFrame (string_bytes ''null'') @ rest)))
      = Panic Nil_Dereference
    \<and> DecompressCatchUpPayload L (Some (gz_compress L (replicate 8 255 @ rest))) = Panic Makeslice_Length
    \<and> (\<forall>p q. DecompressCatchUpPayload L p = Panic q \<longrightarrow> q \<in> {Nil_Dereference, Makeslice_Length})"
proof (intro conjI allI impI)
  fix p q
  assume "DecompressCatchUpPayload L p = Panic q"
  then obtain gr where "read_entries gr [] = Panic q"
    by (auto simp: DecompressCatchUpPayload_def split: if_splits sum.splits elim: go_bind.elims)
  then show "q \<in> {Nil_Dereference, Makeslice_Length}" by (rule read_entries_panic)
next
  show "DecompressCatchUpPayload L (Some (gz_compress L (writeFrame (string_bytes ''null'') @ rest)))
      = Panic Nil_Dereference"
    using assms by (simp add: DecompressCatchUpPayload_def gzip_ok_def read_entries_null)
  show "DecompressCatchUpPayload L (Some (gz_compress L (replicate 8 255 @ rest))) = Panic Makeslice_Length"
    using assms read_entries_huge [of rest EOF "[]"]
    unfolding DecompressCatchUpPayload_def gzip_ok_def by simp
qed

section \<open>Instances of the properties\<close>

definition sample_gzip :: gzip_lib where
  "sample_gzip = \<lparr>gz_compress = (\<lambda>b. 31 # b), gz_NewReader = (\<lambda>b. Inr (drop 1 b, EOF))\<rparr>"

lemma sample_gzip_ok [simp]: "gzip_ok sample_gzip"
  by (simp add: gzip_ok_def sample_gzip_def)

definition sample_history :: history where
  "sample_history =
     \<lparr>hi_db = snd (SaveEnvelope None (Some [1]) (Some [2]) 20 ''chat'' (Some 5) ''p'' ''r'' ''s'' empty_table),
      hi_lastIndex = [], hi_readers = 0\<rparr>"

definition sample_stored :: stored_message where
  "sample_stored = \<lparr>st_ID = 1, st_RoomID = ''r'', st_ServerID = ''s'', st_ChainIndex = Some 5,
     st_MsgType = ''chat'', st_SenderID = ''p'', st_Timestamp = 20, st_Signature = Some [1], st_Payload = Some [2]\<rparr>"

lemma sample_history_since:
  "GetMessagesSinceChainIndex None rev ''r'' 0 100 (hi_db sample_history) = Inr [sample_stored]"
  by (simp add: GetMessagesSinceChainIndex_def sample_history_def SaveEnvelope_def Let_def sql_order_def
      chain_key_def stored_of_row_def sample_stored_def sql_limit_def int64_of_numeral)
    (simp add: uint64_of_def)

theorem catch_up_round_trip_witness:
  "\<exists>payload. BuildCatchUpPayload sample_gzip None None rev ''r'' 0 100 sample_history
      = Some ((payload, 5, None, [sample_stored]), sample_history)
    \<and> DecompressCatchUpPayload sample_gzip payload
      = Ret (Inr \<lparr>cu_ReturnedMessages = [sample_stored\<lparr>st_ID := 0\<rparr>], cu_SenderID = []\<rparr>)"
proof -
  have build: "BuildCatchUpPayload sample_gzip None None rev ''r'' 0 100 sample_history
      = Some ((Some (gz_compress sample_gzip (writeFrame (marshal_stored sample_stored))), 5, None, [sample_stored]), sample_history)"
    by (simp add: BuildCatchUpPayload_def sample_history_since) (simp add: sample_stored_def)
  have "length (marshal_stored sample_stored) \<le> 1000"
    unfolding marshal_stored_def sample_stored_def length_string_bytes by code_simp
  then have "length (marshal_stored sample_stored) \<le> maxAlloc"
    by (simp add: maxAlloc_def)
  moreover have "wf_stored_message sample_stored"
    unfolding sample_stored_def wf_stored_message_def by code_simp
  ultimately show ?thesis
    using catch_up_round_trip [OF sample_gzip_ok build] build by auto
qed

theorem hostile_payload_panics_witness:
  "DecompressCatchUpPayload sample_gzip (Some (gz_compress sample_gzip (replicate 8 255 @ [7]))) = Panic Makeslice_Length"
  using hostile_payload_panics [OF sample_gzip_ok] by blast

end
