(* ===== verification/Misc.thy ===== *)
theory Misc
  imports Prelude
begin

text \<open>
  internal/utils/misc.go and validation.go: identifiers, colours, page predicates. Random
  bytes and random indices are arguments.
\<close>

section \<open>Identifiers\<close>

definition hex_digit :: "nat \<Rightarrow> char" where
  "hex_digit n = ''0123456789abcdef'' ! n"

fun hex_EncodeToString :: "bytes \<Rightarrow> string" where
  "hex_EncodeToString [] = []"
| "hex_EncodeToString (b # bs) =
     hex_digit (unat b div 16) # hex_digit (unat b mod 16) # hex_EncodeToString bs"

text \<open>\<open>GenerateRandomID\<close> on the eight bytes that \<open>rand.Read\<close> delivers.\<close>

definition GenerateRandomID :: "bytes \<Rightarrow> string" where
  "GenerateRandomID b = hex_EncodeToString (take 8 b)"

section \<open>Colours, pages and file names\<close>

definition BaseXtermAnsiColorNames :: "string list" where
  "BaseXtermAnsiColorNames =
     [''black'', ''maroon'', ''green'', ''olive'', ''navy'', ''purple'', ''teal'', ''silver'',
      ''gray'', ''red'', ''lime'', ''yellow'', ''blue'', ''fuchsia'', ''aqua'', ''white'']"

text \<open>\<open>rand.Intn(n)\<close> is some index below \<open>n\<close>: here a drawn number modulo \<open>n\<close>.\<close>

definition GenerateRandomColor :: "nat \<Rightarrow> string" where
  "GenerateRandomColor r =
     BaseXtermAnsiColorNames ! (r mod length BaseXtermAnsiColorNames)"

definition Contains :: "string list \<Rightarrow> string \<Rightarrow> bool" where
  "Contains s color \<longleftrightarrow> List.member s color"

definition IsChatPageActive :: "string \<Rightarrow> bool" where
  "IsChatPageActive page \<longleftrightarrow>
     page = ''chat'' \<or> page = ''createRoom'' \<or> page = ''toast'' \<or> page = ''joinRoom'' \<or> page = ''error''"

definition IsBrowsePageActive :: "string \<Rightarrow> bool" where
  "IsBrowsePageActive page \<longleftrightarrow> page = ''browse'' \<or> page = ''createServer'' \<or> page = ''toast''"

definition HasSuffix :: "string \<Rightarrow> string \<Rightarrow> bool" where
  "HasSuffix s suf \<longleftrightarrow> length suf \<le> length s \<and> drop (length s - length suf) s = suf"

definition IsJSONFile :: "string \<Rightarrow> bool" where
  "IsJSONFile filename \<longleftrightarrow> HasSuffix filename ''.json''"

section \<open>Facts\<close>

lemma less_16_cases: "n < 16 \<Longrightarrow> n \<in> {0, 1, 2, 3, 4, 5, 6, 7, 8, 9, 10, 11, 12, 13, 14, 15 :: nat}"
  by (simp, presburger)

lemma hex_digit_inj: "m < 16 \<Longrightarrow> n < 16 \<Longrightarrow> hex_digit m = hex_digit n \<longleftrightarrow> m = n"
  by (drule less_16_cases, drule less_16_cases) (auto simp: hex_digit_def)

lemma hex_digit_no_slash: "n < 16 \<Longrightarrow> hex_digit n \<noteq> CHR ''/''"
  by (drule less_16_cases) (auto simp: hex_digit_def)

lemma byte_nibbles: "unat (b :: byte) div 16 < 16" "unat (b :: byte) mod 16 < 16"
  using unsigned_less [of b, where 'a = nat] by auto

lemma length_hex [simp]: "length (hex_EncodeToString bs) = 2 * length bs"
  by (induction bs) simp_all

lemma byte_eq_nibbles:
  assumes "unat (a :: byte) div 16 = unat b div 16" "unat a mod 16 = unat b mod 16"
  shows "a = b"
proof -
  have "unat a = unat b"
    using assms by (metis div_mult_mod_eq)
  then show ?thesis by (rule word_unat_eq_iff [THEN iffD2])
qed

lemma hex_inj: "hex_EncodeToString as = hex_EncodeToString bs \<Longrightarrow> as = bs"
proof (induction as arbitrary: bs)
  case Nil
  then show ?case by (cases bs) simp_all
next
  case (Cons a as)
  then show ?case
    by (cases bs) (auto simp: hex_digit_inj byte_nibbles intro: byte_eq_nibbles)
qed

lemma hex_no_slash: "CHR ''/'' \<notin> set (hex_EncodeToString bs)"
  using hex_digit_no_slash [OF byte_nibbles(1)] hex_digit_no_slash [OF byte_nibbles(2)]
  by (induction bs) (auto dest!: not_sym [THEN notE])

lemma GenerateRandomID_no_slash: "CHR ''/'' \<notin> set (GenerateRandomID b)"
  by (simp add: GenerateRandomID_def hex_no_slash)

lemma GenerateRandomID_inj:
  "length a = 8 \<Longrightarrow> length b = 8 \<Longrightarrow> GenerateRandomID a = GenerateRandomID b \<longleftrightarrow> a = b"
  by (auto simp: GenerateRandomID_def dest: hex_inj)

lemma GenerateRandomID_length: "length b = 8 \<Longrightarrow> length (GenerateRandomID b) = 16"
  by (simp add: GenerateRandomID_def)

end
