(* ===== verification/Crypto_Lib.thy ===== *)
theory Crypto_Lib
  imports Sha256 Errors Misc
begin

text \<open>
  internal/crypto: keys, signatures, passwords and authenticated encryption. The functions of
  the packages the code calls (HKDF, ChaCha20-Poly1305, Dilithium, Kyber, Argon2, libp2p keys)
  are parameters; what the code relies on is stated as named conditions on them. SHA-256 and
  HMAC are the standard library's and are computed. Random bytes are an argument: for every
  number of bytes asked, an error or the bytes.
\<close>

type_synonym entropy = "nat \<Rightarrow> bytes result"

text \<open>A value of the interface \<open>cipher.AEAD\<close>; sealing and opening take nonce and text.\<close>

record aead =
  ae_NonceSize :: nat
  ae_Seal :: "bytes \<Rightarrow> bytes \<Rightarrow> bytes"
  ae_Open :: "bytes \<Rightarrow> bytes \<Rightarrow> bytes result"

text \<open>A key object of the scheme interface: a Dilithium2 key, possibly nil, or some other type.\<close>

datatype sign_key = Mode2 "bytes option" | OtherScheme

record crypto_lib =
  cl_hkdf :: "bytes \<Rightarrow> bytes \<Rightarrow> bytes"
  cl_hkdf_error :: go_error
  cl_chacha_New :: "bytes \<Rightarrow> aead result"
  cl_UnmarshalPriv :: "slice \<Rightarrow> sign_key result"
  cl_UnmarshalPub :: "slice \<Rightarrow> sign_key result"
  cl_SignatureSize :: nat
  cl_SignTo :: "bytes \<Rightarrow> bytes \<Rightarrow> bytes"
  cl_Verify :: "bytes option \<Rightarrow> bytes \<Rightarrow> bytes \<Rightarrow> bool"
  cl_IDKey :: "bytes \<Rightarrow> bytes \<Rightarrow> nat \<Rightarrow> nat \<Rightarrow> nat \<Rightarrow> nat \<Rightarrow> bytes"

section \<open>What the code relies on\<close>

text \<open>The HKDF stream is long enough for a key and a nonce (its limit is 255 blocks).\<close>

definition hkdf_ok :: "crypto_lib \<Rightarrow> bool" where
  "hkdf_ok cl \<longleftrightarrow> (\<forall>secret info. 44 \<le> length (cl_hkdf cl secret info))"

definition aead_ok :: "aead \<Rightarrow> bool" where
  "aead_ok a \<longleftrightarrow> (\<forall>n p. length n = ae_NonceSize a \<longrightarrow> ae_Open a n (ae_Seal a n p) = Inr p)"

text \<open>ChaCha20-Poly1305 takes 32-byte keys and 12-byte nonces and rejects other key lengths.\<close>

definition chacha_ok :: "crypto_lib \<Rightarrow> bool" where
  "chacha_ok cl \<longleftrightarrow>
     (\<forall>k. if length k = 32 then (\<exists>a. cl_chacha_New cl k = Inr a \<and> ae_NonceSize a = 12 \<and> aead_ok a)
          else (\<exists>e. cl_chacha_New cl k = Inl e))"

text \<open>The two halves of a key pair: what one signs the other verifies.\<close>

definition key_pair :: "crypto_lib \<Rightarrow> slice \<Rightarrow> slice \<Rightarrow> bool" where
  "key_pair cl priv pub \<longleftrightarrow>
     pub \<noteq> None
     \<and> (\<exists>sk pk. cl_UnmarshalPriv cl priv = Inr (Mode2 (Some sk)) \<and> cl_UnmarshalPub cl pub = Inr (Mode2 pk)
          \<and> (\<forall>m. cl_Verify cl pk m (cl_SignTo cl sk m)))"

section \<open>Signatures (messages.go)\<close>

definition Sign :: "crypto_lib \<Rightarrow> bytes \<Rightarrow> slice \<Rightarrow> bytes result" where
  "Sign cl message pkBlob =
     (case cl_UnmarshalPriv cl pkBlob of
        Inl err \<Rightarrow> Inl (WithDetails ErrSigningFailed (Error_text err))
      | Inr OtherScheme \<Rightarrow> Inl (WithDetails ErrSigningFailed ''invalid private key type'')
      | Inr (Mode2 None) \<Rightarrow> Inr (replicate (cl_SignatureSize cl) 0)
      | Inr (Mode2 (Some sk)) \<Rightarrow> Inr (cl_SignTo cl sk message))"

definition ValidateSignature :: "crypto_lib \<Rightarrow> slice \<Rightarrow> bytes \<Rightarrow> slice \<Rightarrow> go_error option" where
  "ValidateSignature cl pubKeyBlob message signature =
     (if pubKeyBlob = None then Some (WithDetails ErrSignatureInvalid ''public key is nil'')
      else
        (case cl_UnmarshalPub cl pubKeyBlob of
           Inl err \<Rightarrow> Some (WithDetails ErrSignatureInvalid (Error_text err))
         | Inr OtherScheme \<Rightarrow>
             Some (WithDetails ErrSignatureInvalid ''invalid public key type, isn't Dilithium2'')
         | Inr (Mode2 pk) \<Rightarrow>
             if \<not> cl_Verify cl pk message (slice_bytes signature)
             then Some (WithDetails ErrSignatureInvalid ''INVALID SIGNATURE'') else None))"

lemma signature_accepted:
  assumes "key_pair cl priv pub" "Sign cl m priv = Inr sig"
  shows "ValidateSignature cl pub m (Some sig) = None"
  using assms by (auto simp: key_pair_def Sign_def ValidateSignature_def)

lemma key_pair_signs: "key_pair cl priv pub \<Longrightarrow> \<exists>sig. Sign cl m priv = Inr sig"
  by (auto simp: key_pair_def Sign_def)

section \<open>Keys (keys.go)\<close>

definition GenerateRoomKey :: "entropy \<Rightarrow> (bytes \<times> bytes) result" where
  "GenerateRoomKey rnd =
     (case rnd 32 of Inl err \<Rightarrow> Inl err | Inr key \<Rightarrow> Inr (key, sha256 key))"

text \<open>
  The branch for a nil salt declares a new variable of the same name: the random bytes are
  dropped, and the outer salt is used and returned as it came.
\<close>

definition GenPasskeys :: "crypto_lib \<Rightarrow> entropy \<Rightarrow> string \<Rightarrow> slice \<Rightarrow> (bytes \<times> bytes \<times> slice) result" where
  "GenPasskeys cl rnd pass salt =
     (let derive = Inr
        (cl_IDKey cl (string_bytes pass) (slice_bytes salt) 1 (64 * 1024) 4 32,
         cl_IDKey cl (string_bytes pass) (slice_bytes salt) 3 (8 * 1024) 2 32,
         salt)
      in if salt = None then (case rnd 16 of Inl err \<Rightarrow> Inl err | Inr shadowed \<Rightarrow> derive) else derive)"

text \<open>\<open>GenKEMKey\<close> and \<open>GenSignKey\<close>: generate a pair, marshal the public and the private key.\<close>

definition GenKEMKey ::
  "('pub \<times> 'priv) result \<Rightarrow> ('pub \<Rightarrow> bytes result) \<Rightarrow> ('priv \<Rightarrow> bytes result) \<Rightarrow> (bytes \<times> bytes) result"
where
  "GenKEMKey generate marshalPub marshalPriv =
     (case generate of
        Inl err \<Rightarrow> Inl err
      | Inr (pub, priv) \<Rightarrow>
          (case marshalPub pub of
             Inl err \<Rightarrow> Inl err
           | Inr pubBytes \<Rightarrow>
               (case marshalPriv priv of
                  Inl err \<Rightarrow> Inl err | Inr privBytes \<Rightarrow> Inr (pubBytes, privBytes))))"

definition GenSignKey ::
  "('pub \<times> 'priv) result \<Rightarrow> ('pub \<Rightarrow> bytes result) \<Rightarrow> ('priv \<Rightarrow> bytes result) \<Rightarrow> (bytes \<times> bytes) result"
where
  "GenSignKey generate marshalPub marshalPriv =
     (case generate of
        Inl err \<Rightarrow> Inl err
      | Inr (pub, priv) \<Rightarrow>
          (case marshalPub pub of
             Inl err \<Rightarrow> Inl err
           | Inr pubBytes \<Rightarrow>
               (case marshalPriv priv of
                  Inl err \<Rightarrow> Inl err | Inr privBytes \<Rightarrow> Inr (pubBytes, privBytes))))"

definition GenP2PKey ::
  "('priv \<times> 'pub) result \<Rightarrow> ('priv \<Rightarrow> bytes result) \<Rightarrow> ('pub \<Rightarrow> bytes result) \<Rightarrow> ('priv \<Rightarrow> string result)
     \<Rightarrow> (bytes \<times> bytes \<times> string) result"
where
  "GenP2PKey generate marshalPriv marshalPub peerIDOf =
     (case generate of
        Inl err \<Rightarrow> Inl err
      | Inr (priv, pub) \<Rightarrow>
          (case marshalPriv priv of
             Inl err \<Rightarrow> Inl err
           | Inr privBytes \<Rightarrow>
               (case marshalPub pub of
                  Inl err \<Rightarrow> Inl err
                | Inr pubBytes \<Rightarrow>
                    (case peerIDOf priv of
                       Inl err \<Rightarrow> Inl err | Inr peerID \<Rightarrow> Inr (privBytes, pubBytes, peerID)))))"

definition DeriveChaChaKey :: "crypto_lib \<Rightarrow> bytes \<Rightarrow> aead result" where
  "DeriveChaChaKey cl passkey = cl_chacha_New cl passkey"

text \<open>
  \<open>DeriveSignKey\<close> and \<open>DeriveKEMKey\<close>: unmarshal the private key, take its public key and check
  its type (\<open>None\<close> is a value of another type), marshal the public key.
\<close>

definition DeriveSignKey ::
  "('any result) \<Rightarrow> ('any \<Rightarrow> 'pub option) \<Rightarrow> ('any \<Rightarrow> 'priv option) \<Rightarrow> ('pub \<Rightarrow> bytes result)
     \<Rightarrow> ('priv \<times> 'pub \<times> bytes) result"
where
  "DeriveSignKey unmarshalled publicOf privateOf marshalPub =
     (case unmarshalled of
        Inl err \<Rightarrow> Inl err
      | Inr privKey \<Rightarrow>
          (case publicOf privKey of
             None \<Rightarrow> Inl (WithDetails ErrBadKey ''invalid dilithium private key'')
           | Some pubKey \<Rightarrow>
               (case privateOf privKey of
                  None \<Rightarrow> Inl (WithDetails ErrBadKey ''invalid dilithium private key'')
                | Some privKeyCast \<Rightarrow>
                    (case marshalPub pubKey of
                       Inl err \<Rightarrow> Inl err
                     | Inr pubKeyBytes \<Rightarrow> Inr (privKeyCast, pubKey, pubKeyBytes)))))"

definition DeriveKEMKey ::
  "('any result) \<Rightarrow> ('any \<Rightarrow> 'pub option) \<Rightarrow> ('pub \<Rightarrow> bytes result) \<Rightarrow> ('any \<times> 'pub \<times> bytes) result"
where
  "DeriveKEMKey unmarshalled publicOf marshalPub =
     (case unmarshalled of
        Inl err \<Rightarrow> Inl err
      | Inr privKey \<Rightarrow>
          (case publicOf privKey of
             None \<Rightarrow> Inl ErrBadKey
           | Some pubKey \<Rightarrow>
               (case marshalPub pubKey of
                  Inl err \<Rightarrow> Inl err | Inr pubKeyBytes \<Rightarrow> Inr (privKey, pubKey, pubKeyBytes))))"

text \<open>All results are returned with the last error.\<close>

definition DeriveP2PKey ::
  "('priv result) \<Rightarrow> ('priv \<Rightarrow> 'pub) \<Rightarrow> ('pub \<Rightarrow> slice \<times> go_error option)
     \<Rightarrow> ('priv \<times> 'pub \<times> slice) option \<times> go_error option"
where
  "DeriveP2PKey unmarshalled publicOf marshalPub =
     (case unmarshalled of
        Inl err \<Rightarrow> (None, Some err)
      | Inr privKey \<Rightarrow>
          (let pubKey = publicOf privKey; (pubKeyBytes, err) = marshalPub pubKey
           in (Some (privKey, pubKey, pubKeyBytes), err)))"

section \<open>Passwords and sealed data (auth.go, aead_utils.go)\<close>

definition HashPassword :: "string \<Rightarrow> bytes" where
  "HashPassword password = sha256 (string_bytes password)"

definition SealAEAD :: "entropy \<Rightarrow> bytes \<Rightarrow> aead \<Rightarrow> bytes result" where
  "SealAEAD rnd data a =
     (case rnd (ae_NonceSize a) of
        Inl err \<Rightarrow> Inl err | Inr nonce \<Rightarrow> Inr (nonce @ ae_Seal a nonce data))"

text \<open>Slicing panics when the data is shorter than a nonce.\<close>

definition OpenAEAD :: "bytes \<Rightarrow> aead \<Rightarrow> bytes result go" where
  "OpenAEAD encData a =
     (if length encData < ae_NonceSize a then Panic Index_Out_Of_Range
      else Ret (ae_Open a (take (ae_NonceSize a) encData) (drop (ae_NonceSize a) encData)))"

text \<open>\<open>rand.Read\<close> fills the buffer it is given.\<close>

definition entropy_ok :: "entropy \<Rightarrow> bool" where
  "entropy_ok rnd \<longleftrightarrow> (\<forall>n b. rnd n = Inr b \<longrightarrow> length b = n)"

lemma open_sealed:
  assumes "aead_ok a" "entropy_ok rnd" "SealAEAD rnd data a = Inr ct"
  shows "OpenAEAD ct a = Ret (Inr data)"
proof (cases "rnd (ae_NonceSize a)")
  case (Inr nonce)
  with assms(2) have "length nonce = ae_NonceSize a" by (auto simp: entropy_ok_def)
  with assms Inr show ?thesis by (auto simp: SealAEAD_def OpenAEAD_def aead_ok_def)
qed (use assms(3) in \<open>simp add: SealAEAD_def\<close>)

section \<open>A library that meets the conditions\<close>

text \<open>
  The conditions can hold together: an instance for evaluating the model, without any claim to
  secrecy. Its streams depend on the info, its signatures are the key and the message.
\<close>

definition sample_aead :: aead where
  "sample_aead = \<lparr>ae_NonceSize = 12, ae_Seal = (\<lambda>n p. rev p), ae_Open = (\<lambda>n c. Inr (rev c))\<rparr>"

definition sample_lib :: crypto_lib where
  "sample_lib =
     \<lparr>cl_hkdf = (\<lambda>secret info. info @ replicate 44 0),
      cl_hkdf_error = Errorf ''hkdf: entropy limit reached'',
      cl_chacha_New = (\<lambda>k. if length k = 32 then Inr sample_aead else Inl (Errorf ''bad key length'')),
      cl_UnmarshalPriv = (\<lambda>s. case s of None \<Rightarrow> Inl (Errorf ''no key'') | Some k \<Rightarrow> Inr (Mode2 (Some k))),
      cl_UnmarshalPub = (\<lambda>s. case s of None \<Rightarrow> Inl (Errorf ''no key'') | Some k \<Rightarrow> Inr (Mode2 (Some k))),
      cl_SignatureSize = 4,
      cl_SignTo = (\<lambda>k m. k @ m),
      cl_Verify = (\<lambda>k m s. case k of None \<Rightarrow> False | Some k \<Rightarrow> s = k @ m),
      cl_IDKey = (\<lambda>pass salt time memory threads len. take len (pass @ salt @ replicate len 0))\<rparr>"

lemma sample_lib_ok [simp]:
  "hkdf_ok sample_lib" "chacha_ok sample_lib" "aead_ok sample_aead"
  "key_pair sample_lib (Some k) (Some k)"
  by (auto simp: hkdf_ok_def chacha_ok_def aead_ok_def key_pair_def sample_lib_def sample_aead_def)

end
