(* ===== verification/Ratchet.thy ===== *)
theory Ratchet
  imports Crypto_Lib
begin

text \<open>
  internal/crypto/ratchetkey.go and \<open>EncryptMessage\<close>: the symmetric ratchet of a room. The
  interface \<open>counted_chain\<close> is what the loops over a ratchet rely on: a step advances an index
  by one, and a loop that steps until the index has passed a target.
\<close>

record room_ratchet =
  rr_ChainKey :: slice
  rr_Index :: u64

text \<open>\<open>io.ReadFull\<close> on the HKDF stream: all bytes asked for, or an error.\<close>

definition ReadFull :: "crypto_lib \<Rightarrow> nat \<Rightarrow> bytes \<Rightarrow> (bytes \<times> bytes) result" where
  "ReadFull cl n stream =
     (if length stream < n then Inl (cl_hkdf_error cl) else Inr (take n stream, drop n stream))"

definition NextKey :: "crypto_lib \<Rightarrow> room_ratchet \<Rightarrow> (bytes \<times> bytes) result \<times> room_ratchet" where
  "NextKey cl r =
     (let info = be64_bytes (rr_Index r);
          hk = cl_hkdf cl (slice_bytes (rr_ChainKey r)) info in
      case ReadFull cl 32 hk of
        Inl err \<Rightarrow> (Inl err, r)
      | Inr (msgKey, hk') \<Rightarrow>
          (case ReadFull cl 12 hk' of
             Inl err \<Rightarrow> (Inl err, r)
           | Inr (nonce, _) \<Rightarrow>
               (Inr (msgKey, nonce),
                r\<lparr>rr_ChainKey := Some (hmac_sha256 (slice_bytes (rr_ChainKey r)) (string_bytes ''ratchet'')),
                  rr_Index := rr_Index r + 1\<rparr>)))"

definition Clone :: "room_ratchet option \<Rightarrow> room_ratchet option" where
  "Clone r =
     (case r of None \<Rightarrow> None
      | Some r \<Rightarrow> Some \<lparr>rr_ChainKey = Some (slice_bytes (rr_ChainKey r)), rr_Index = rr_Index r\<rparr>)"

definition EncryptMessage ::
  "crypto_lib \<Rightarrow> room_ratchet \<Rightarrow> bytes \<Rightarrow> (bytes \<times> bytes) result \<times> room_ratchet"
where
  "EncryptMessage cl r plaintext =
     (case NextKey cl r of
        (Inl err, r') \<Rightarrow> (Inl (WithDetails ErrEncryptionFailed (Error_text err)), r')
      | (Inr (key, nonce), r') \<Rightarrow>
          (case cl_chacha_New cl key of
             Inl err \<Rightarrow> (Inl (WithDetails ErrEncryptionFailed (Error_text err)), r')
           | Inr a \<Rightarrow> (Inr (ae_Seal a nonce plaintext, nonce), r')))"

section \<open>The ratchet as a chain of states\<close>

definition advance :: "room_ratchet \<Rightarrow> room_ratchet" where
  "advance r =
     \<lparr>rr_ChainKey = Some (hmac_sha256 (slice_bytes (rr_ChainKey r)) (string_bytes ''ratchet'')),
      rr_Index = rr_Index r + 1\<rparr>"

definition ratchet_key :: "crypto_lib \<Rightarrow> room_ratchet \<Rightarrow> bytes \<times> bytes" where
  "ratchet_key cl r =
     (let hk = cl_hkdf cl (slice_bytes (rr_ChainKey r)) (be64_bytes (rr_Index r))
      in (take 32 hk, take 12 (drop 32 hk)))"

lemma NextKey_ok: "hkdf_ok cl \<Longrightarrow> NextKey cl r = (Inr (ratchet_key cl r), advance r)"
proof -
  assume "hkdf_ok cl"
  then have "44 \<le> length (cl_hkdf cl (slice_bytes (rr_ChainKey r)) (be64_bytes (rr_Index r)))"
    by (simp add: hkdf_ok_def)
  then show ?thesis
    by (cases r) (simp add: NextKey_def ReadFull_def ratchet_key_def advance_def Let_def)
qed

lemma ratchet_key_lengths:
  assumes "hkdf_ok cl"
  shows "length (fst (ratchet_key cl r)) = 32" "length (snd (ratchet_key cl r)) = 12"
proof -
  have "44 \<le> length (cl_hkdf cl (slice_bytes (rr_ChainKey r)) (be64_bytes (rr_Index r)))"
    using assms by (simp add: hkdf_ok_def)
  then show "length (fst (ratchet_key cl r)) = 32" "length (snd (ratchet_key cl r)) = 12"
    by (simp_all add: ratchet_key_def Let_def)
qed

lemma Index_advance [simp]: "rr_Index (advance r) = rr_Index r + 1"
  by (simp add: advance_def)

text \<open>The states that share a chain: the key of an index is the same for all of them.\<close>

definition same_chain :: "room_ratchet \<Rightarrow> room_ratchet \<Rightarrow> bool" where
  "same_chain r s \<longleftrightarrow> slice_bytes (rr_ChainKey r) = slice_bytes (rr_ChainKey s) \<and> rr_Index r = rr_Index s"

lemma same_chain_refl [simp]: "same_chain r r"
  by (simp add: same_chain_def)

lemma same_chain_key: "same_chain r s \<Longrightarrow> ratchet_key cl r = ratchet_key cl s"
  by (simp add: same_chain_def ratchet_key_def)

lemma same_chain_advance: "same_chain r s \<Longrightarrow> advance r = advance s"
  by (simp add: same_chain_def advance_def)

lemma same_chain_funpow: "same_chain r s \<Longrightarrow> same_chain ((advance ^^ n) r) ((advance ^^ n) s)"
  by (cases n) (simp_all add: same_chain_advance funpow_swap1 del: funpow.simps(2) add: funpow_Suc_right)

lemma Clone_same_chain: "Clone (Some r) = Some c \<Longrightarrow> same_chain r c"
  by (auto simp: Clone_def same_chain_def)

section \<open>The interface of the loops\<close>

locale counted_chain =
  fixes step :: "'s \<Rightarrow> 's" and index :: "'s \<Rightarrow> u64"
  assumes index_step: "index (step s) = index s + 1"
begin

lemma index_steps: "index ((step ^^ n) s) = index s + of_nat n"
  by (induction n) (simp_all add: index_step)

lemma unat_index_steps:
  assumes "unat (index s) + n < 2 ^ 64"
  shows "unat (index ((step ^^ n) s)) = unat (index s) + n"
proof -
  have "unat (index s + of_nat n) = (unat (index s) + unat (of_nat n :: u64)) mod 2 ^ 64"
    by (simp add: unat_word_ariths)
  also have "unat (of_nat n :: u64) = n"
    using assms by (simp add: unat_of_nat)
  finally show ?thesis
    using assms by (simp add: index_steps)
qed

end

text \<open>
  A loop that steps while the index is at most a target and keeps what the last step gave.
  \<open>ready\<close> is the condition under which a step cannot fail.
\<close>

locale chain_loop = counted_chain +
  fixes ready :: bool and key_at :: "'a \<Rightarrow> 'o" and loop :: "'a \<Rightarrow> u64 \<Rightarrow> 'o option \<Rightarrow> ('o option \<times> 'a) option"
  assumes loop_unfold: "ready \<Longrightarrow>
    loop s t prev = (if index s \<le> t then loop (step s) t (Some (key_at s)) else Some (prev, s))"
begin

lemma loop_passed: "ready \<Longrightarrow> t < index s \<Longrightarrow> loop s t prev = Some (prev, s)"
  by (auto simp: loop_unfold [of s t prev] dest: leD)

lemma loop_reaches:
  assumes "ready" "unat (index s) + n = unat t" "unat t < 2 ^ 64 - 1"
  shows "loop s t prev = Some (Some (key_at ((step ^^ n) s)), (step ^^ Suc n) s)"
  using assms(2)
proof (induction n arbitrary: s prev)
  case 0
  then have t: "t = index s" by (simp add: word_unat_eq_iff)
  have "unat (index (step s)) = unat (index s) + 1"
    using unat_index_steps [of s 1] assms(3) 0 by simp
  then have "t < index (step s)" by (simp add: word_less_nat_alt t)
  with t show ?case
    by (simp add: loop_unfold [OF assms(1), of s] loop_passed [OF assms(1)])
next
  case (Suc n)
  have "unat (index (step s)) = unat (index s) + 1"
    using unat_index_steps [of s 1] assms(3) Suc.prems by simp
  moreover have "index s \<le> t"
    using Suc.prems by (simp add: word_le_nat_alt)
  ultimately show ?case
    using Suc.IH [of "step s"] Suc.prems
    by (simp add: loop_unfold [OF assms(1), of s] funpow_swap1)
qed

end

interpretation ratchet: counted_chain advance rr_Index
  by unfold_locales simp

end
