(* ===== verification/Decrypt.thy ===== *)
theory Decrypt
  imports Ratchet Models
begin

text \<open>
  \<open>Client.decryptMessage\<close> (client/handlers.go): a room keeps a main ratchet and a backup ratchet
  that trails it. A message at or past the main index advances both; an older one is read with
  the backup ratchet, which the code advances in place. The loops compare 64-bit indices and
  need not end: a result of \<open>None\<close> is a call that never returns.
\<close>

record ratchets =
  rs_Main :: room_ratchet
  rs_Backup :: room_ratchet

section \<open>The loops\<close>

text \<open>The backup follows until it is less than ten behind.\<close>

partial_function (option) backup_loop ::
  "crypto_lib \<Rightarrow> room_ratchet \<Rightarrow> u64 \<Rightarrow> (unit result \<times> room_ratchet) option"
where
  "backup_loop cl b main =
     (if rr_Index b + 10 \<le> main then
        (case NextKey cl b of
           (Inl err, b') \<Rightarrow> Some (Inl (wrapf ''failed to Get next backup key: '' err), b')
         | (Inr _, b') \<Rightarrow> backup_loop cl b' main)
      else Some (Inr (), b))"

partial_function (option) main_loop ::
  "crypto_lib \<Rightarrow> ratchets \<Rightarrow> u64 \<Rightarrow> (bytes \<times> bytes) option
     \<Rightarrow> ((bytes \<times> bytes) option result \<times> ratchets) option"
where
  "main_loop cl rs idx key =
     (if rr_Index (rs_Main rs) \<le> idx then
        (case NextKey cl (rs_Main rs) of
           (Inl err, m) \<Rightarrow> Some (Inl (wrapf ''failed to Get next key: '' err), rs\<lparr>rs_Main := m\<rparr>)
         | (Inr k, m) \<Rightarrow>
             Option.bind (backup_loop cl (rs_Backup rs) (rr_Index m))
               (\<lambda>(r, b).
                  case r of
                    Inl err \<Rightarrow> Some (Inl err, \<lparr>rs_Main = m, rs_Backup = b\<rparr>)
                  | Inr _ \<Rightarrow> main_loop cl \<lparr>rs_Main = m, rs_Backup = b\<rparr> idx (Some k)))
      else Some (Inr key, rs))"

partial_function (option) old_loop ::
  "crypto_lib \<Rightarrow> room_ratchet \<Rightarrow> u64 \<Rightarrow> (bytes \<times> bytes) option
     \<Rightarrow> ((bytes \<times> bytes) option result \<times> room_ratchet) option"
where
  "old_loop cl rr idx key =
     (if rr_Index rr \<le> idx then
        (case NextKey cl rr of
           (Inl err, rr') \<Rightarrow> Some (Inl (wrapf ''failed to Get next key: '' err), rr')
         | (Inr k, rr') \<Rightarrow> old_loop cl rr' idx (Some k))
      else Some (Inr key, rr))"

section \<open>decryptMessage\<close>

text \<open>Keys and nonces start as nil, which is what opening gets when no loop body ran.\<close>

definition open_with ::
  "crypto_lib \<Rightarrow> (bytes \<times> bytes) option \<Rightarrow> slice \<Rightarrow> bytes result"
where
  "open_with cl k ciphertext =
     (let (key, nonce) = (case k of None \<Rightarrow> ([], []) | Some k \<Rightarrow> k) in
      case cl_chacha_New cl key of
        Inl err \<Rightarrow> Inl (Errorf (''failed to create AEAD: '' @ Error_text err @ '' , '' @ hex_EncodeToString key))
      | Inr a \<Rightarrow> ae_Open a nonce (slice_bytes ciphertext))"

definition decryptMessage ::
  "crypto_lib \<Rightarrow> ratchets \<Rightarrow> chat_message \<Rightarrow> (bytes result \<times> ratchets) option"
where
  "decryptMessage cl rs cm =
     (if rr_Index (rs_Main rs) \<le> cm_ChainIndex cm then
        Option.bind (main_loop cl rs (cm_ChainIndex cm) None)
          (\<lambda>(r, rs').
             Some (case r of
                 Inl err \<Rightarrow> (Inl err, rs')
               | Inr k \<Rightarrow> (open_with cl k (cm_Ciphertext cm), rs')))
      else
        Option.bind (old_loop cl (rs_Backup rs) (cm_ChainIndex cm) None)
          (\<lambda>(r, b).
             Some (case r of
                 Inl err \<Rightarrow> (Inl err, rs\<lparr>rs_Backup := b\<rparr>)
               | Inr k \<Rightarrow> (open_with cl k (cm_Ciphertext cm), rs\<lparr>rs_Backup := b\<rparr>))))"

section \<open>The loop over the backup\<close>

definition old_loop_keys ::
  "crypto_lib \<Rightarrow> room_ratchet \<Rightarrow> u64 \<Rightarrow> (bytes \<times> bytes) option
     \<Rightarrow> ((bytes \<times> bytes) option \<times> room_ratchet) option"
where
  "old_loop_keys cl rr idx key =
     (case old_loop cl rr idx key of Some (Inr k, rr') \<Rightarrow> Some (k, rr') | _ \<Rightarrow> None)"

lemma old_loop_step:
  assumes "hkdf_ok cl"
  shows "old_loop cl rr idx key =
    (if rr_Index rr \<le> idx then old_loop cl (advance rr) idx (Some (ratchet_key cl rr))
     else Some (Inr key, rr))"
  by (subst old_loop.simps) (simp add: NextKey_ok [OF assms])

interpretation old_chain: chain_loop advance rr_Index "hkdf_ok cl" "ratchet_key cl" "old_loop_keys cl"
  for cl
  by unfold_locales (subst old_loop_keys_def, subst old_loop_step, simp_all add: old_loop_keys_def)

lemma old_loop_keys_Some:
  "old_loop_keys cl rr idx key = Some (k, rr') \<longleftrightarrow> old_loop cl rr idx key = Some (Inr k, rr')"
  by (auto simp: old_loop_keys_def split: option.splits sum.splits)

lemma old_loop_reaches:
  assumes "hkdf_ok cl" "unat (rr_Index b) + n = unat idx" "unat idx < 2 ^ 64 - 1"
  shows "old_loop cl b idx key =
    Some (Inr (Some (ratchet_key cl ((advance ^^ n) b))), (advance ^^ Suc n) b)"
  using old_chain.loop_reaches [OF assms] old_loop_keys_Some by blast

section \<open>The loop over both\<close>

text \<open>The backup after following to an index: as far as nine below it.\<close>

definition follow :: "room_ratchet \<Rightarrow> nat \<Rightarrow> room_ratchet" where
  "follow b m = (advance ^^ (m - 9 - unat (rr_Index b))) b"

lemma backup_loop_follows:
  assumes "hkdf_ok cl" "unat main < 2 ^ 64 - 10" "unat (rr_Index b) \<le> unat main"
  shows "backup_loop cl b main = Some (Inr (), follow b (unat main))"
  using assms(3)
proof (induction "unat main - unat (rr_Index b)" arbitrary: b rule: less_induct)
  case less
  have plus: "unat (rr_Index b + 10) = unat (rr_Index b) + 10"
    using assms(2) less.prems by (simp add: unat_word_ariths)
  show ?case
  proof (cases "rr_Index b + 10 \<le> main")
    case True
    then have le: "unat (rr_Index b) + 10 \<le> unat main" by (simp add: word_le_nat_alt plus)
    have idx: "unat (rr_Index (advance b)) = unat (rr_Index b) + 1"
      using ratchet.unat_index_steps [of b 1] assms(2) le by simp
    have "backup_loop cl (advance b) main = Some (Inr (), follow (advance b) (unat main))"
      using less.hyps [of "advance b"] idx le by simp
    moreover have "follow (advance b) (unat main) = follow b (unat main)"
    proof -
      have "unat main - 9 - unat (rr_Index b) = Suc (unat main - 9 - unat (rr_Index (advance b)))"
        using idx le by simp
      then show ?thesis by (simp add: follow_def funpow_swap1)
    qed
    ultimately show ?thesis
      using True by (subst backup_loop.simps) (simp add: NextKey_ok [OF assms(1)])
  next
    case False
    then have "unat main - 9 - unat (rr_Index b) = 0"
      by (simp add: word_le_nat_alt plus)
    with False show ?thesis
      by (subst backup_loop.simps) (simp add: follow_def)
  qed
qed

lemma follow_index:
  assumes "unat (rr_Index b) \<le> m" "m < 2 ^ 64"
  shows "unat (rr_Index (follow b m)) = max (unat (rr_Index b)) (m - 9)"
  using ratchet.unat_index_steps [of b "m - 9 - unat (rr_Index b)"] assms
  by (simp add: follow_def)

lemma follow_follow:
  assumes "unat (rr_Index b) \<le> m" "m \<le> m'" "m' < 2 ^ 64"
  shows "follow (follow b m) m' = follow b m'"
proof -
  have "follow (follow b m) m' = (advance ^^ (m' - 9 - unat (rr_Index (follow b m)) + (m - 9 - unat (rr_Index b)))) b"
    by (simp add: follow_def funpow_add)
  also have "m' - 9 - unat (rr_Index (follow b m)) + (m - 9 - unat (rr_Index b)) = m' - 9 - unat (rr_Index b)"
    using follow_index [of b m] assms by (simp add: max_def) linarith
  finally show ?thesis by (simp add: follow_def)
qed

text \<open>
  The loop ends for every index that leaves room for the comparison with the backup, with the
  key of that index, the main ratchet just past it and the backup nine or fewer behind.
\<close>

lemma main_loop_reaches:
  assumes "hkdf_ok cl" "unat idx < 2 ^ 64 - 11"
    and "unat (rr_Index (rs_Main rs)) + n = unat idx"
    and "unat (rr_Index (rs_Backup rs)) \<le> unat (rr_Index (rs_Main rs))"
  shows "main_loop cl rs idx key =
    Some (Inr (Some (ratchet_key cl ((advance ^^ n) (rs_Main rs)))),
      \<lparr>rs_Main = (advance ^^ Suc n) (rs_Main rs), rs_Backup = follow (rs_Backup rs) (unat idx + 1)\<rparr>)"
  using assms(3,4)
proof (induction n arbitrary: rs key)
  case 0
  let ?m = "advance (rs_Main rs)" and ?b = "follow (rs_Backup rs) (unat idx + 1)"
  have m: "unat (rr_Index ?m) = unat idx + 1"
    using ratchet.unat_index_steps [of "rs_Main rs" 1] 0 assms(2) by simp
  have "backup_loop cl (rs_Backup rs) (rr_Index ?m) = Some (Inr (), ?b)"
    using backup_loop_follows [OF assms(1), of "rr_Index ?m" "rs_Backup rs"] m 0 assms(2) by simp
  moreover have "\<not> rr_Index ?m \<le> idx"
    using m by (simp add: word_le_nat_alt)
  then have "main_loop cl \<lparr>rs_Main = ?m, rs_Backup = ?b\<rparr> idx k
      = Some (Inr k, \<lparr>rs_Main = ?m, rs_Backup = ?b\<rparr>)" for k
    by (subst main_loop.simps) simp
  moreover have "rr_Index (rs_Main rs) \<le> idx" using 0 by (simp add: word_le_nat_alt)
  ultimately show ?case
    by (subst main_loop.simps) (simp add: NextKey_ok [OF assms(1)])
next
  case (Suc n)
  let ?m = "advance (rs_Main rs)"
  let ?b = "follow (rs_Backup rs) (unat (rr_Index ?m))"
  have m: "unat (rr_Index ?m) = unat (rr_Index (rs_Main rs)) + 1"
    using ratchet.unat_index_steps [of "rs_Main rs" 1] Suc.prems assms(2) by simp
  have loop: "backup_loop cl (rs_Backup rs) (rr_Index ?m) = Some (Inr (), ?b)"
    using backup_loop_follows [OF assms(1), of "rr_Index ?m" "rs_Backup rs"] m Suc.prems assms(2) by simp
  have b: "unat (rr_Index ?b) \<le> unat (rr_Index ?m)"
    using follow_index [of "rs_Backup rs" "unat (rr_Index ?m)"] m Suc.prems assms(2) by simp
  have ff: "follow ?b (unat idx + 1) = follow (rs_Backup rs) (unat idx + 1)"
    using m Suc.prems assms(2) by (intro follow_follow) simp_all
  have "main_loop cl \<lparr>rs_Main = ?m, rs_Backup = ?b\<rparr> idx (Some (ratchet_key cl (rs_Main rs))) =
    Some (Inr (Some (ratchet_key cl ((advance ^^ n) ?m))),
      \<lparr>rs_Main = (advance ^^ Suc n) ?m, rs_Backup = follow (rs_Backup rs) (unat idx + 1)\<rparr>)"
    using Suc.IH [of "\<lparr>rs_Main = ?m, rs_Backup = ?b\<rparr>"] m b Suc.prems ff by simp
  moreover have "rr_Index (rs_Main rs) \<le> idx" using Suc.prems by (simp add: word_le_nat_alt)
  ultimately show ?case
    by (subst main_loop.simps) (simp add: NextKey_ok [OF assms(1)] loop [simplified] funpow_swap1)
qed

section \<open>Opening what was sealed\<close>

lemma EncryptMessage_ok:
  assumes "hkdf_ok cl" "chacha_ok cl"
  obtains ct where "EncryptMessage cl r pt = (Inr (ct, snd (ratchet_key cl r)), advance r)"
    "open_with cl (Some (ratchet_key cl r)) (Some ct) = Inr pt"
proof -
  obtain key nonce where k: "ratchet_key cl r = (key, nonce)" by (cases "ratchet_key cl r")
  with ratchet_key_lengths [OF assms(1), of r] have len: "length key = 32" "length nonce = 12"
    by simp_all
  from assms(2) len(1) obtain a where
    a: "cl_chacha_New cl key = Inr a" "ae_NonceSize a = 12" "aead_ok a"
    unfolding chacha_ok_def by metis
  have "EncryptMessage cl r pt = (Inr (ae_Seal a nonce pt, nonce), advance r)"
    by (simp add: EncryptMessage_def NextKey_ok [OF assms(1)] k a)
  moreover have "open_with cl (Some (ratchet_key cl r)) (Some (ae_Seal a nonce pt)) = Inr pt"
    using a len by (simp add: open_with_def k aead_ok_def)
  ultimately show ?thesis using that k by simp
qed

lemma open_without_key:
  assumes "chacha_ok cl"
  shows "\<exists>err. open_with cl None ct = Inl err"
proof -
  from assms have "\<exists>e. cl_chacha_New cl [] = Inl e"
    unfolding chacha_ok_def by (metis list.size(3) zero_neq_numeral)
  then show ?thesis by (auto simp: open_with_def)
qed

lemma decrypt_ahead:
  assumes "hkdf_ok cl" "unat (cm_ChainIndex cm) < 2 ^ 64 - 11"
    and "unat (rr_Index (rs_Main rs)) + n = unat (cm_ChainIndex cm)"
    and "unat (rr_Index (rs_Backup rs)) \<le> unat (rr_Index (rs_Main rs))"
  shows "decryptMessage cl rs cm =
    Some (open_with cl (Some (ratchet_key cl ((advance ^^ n) (rs_Main rs)))) (cm_Ciphertext cm),
      \<lparr>rs_Main = (advance ^^ Suc n) (rs_Main rs),
       rs_Backup = follow (rs_Backup rs) (unat (cm_ChainIndex cm) + 1)\<rparr>)"
proof -
  have "rr_Index (rs_Main rs) \<le> cm_ChainIndex cm"
    using assms(3) by (simp add: word_le_nat_alt)
  then show ?thesis
    by (simp add: decryptMessage_def main_loop_reaches [OF assms] del: funpow.simps)
qed

lemma decrypt_late:
  assumes "hkdf_ok cl" "cm_ChainIndex cm < rr_Index (rs_Main rs)"
    and "unat (rr_Index (rs_Backup rs)) + n = unat (cm_ChainIndex cm)"
  shows "decryptMessage cl rs cm =
    Some (open_with cl (Some (ratchet_key cl ((advance ^^ n) (rs_Backup rs)))) (cm_Ciphertext cm),
      rs\<lparr>rs_Backup := (advance ^^ Suc n) (rs_Backup rs)\<rparr>)"
proof -
  have "unat (cm_ChainIndex cm) < 2 ^ 64 - 1"
    using assms(2) unsigned_less [of "rr_Index (rs_Main rs)", where 'a = nat]
    by (simp add: word_less_nat_alt)
  from old_loop_reaches [OF assms(1,3) this] assms(2) show ?thesis
    by (simp add: decryptMessage_def linorder_not_less [symmetric] del: funpow.simps)
qed

lemma decrypt_too_late:
  assumes "cm_ChainIndex cm < rr_Index (rs_Backup rs)" "cm_ChainIndex cm < rr_Index (rs_Main rs)"
  shows "decryptMessage cl rs cm = Some (open_with cl None (cm_Ciphertext cm), rs)"
proof -
  have "old_loop cl (rs_Backup rs) (cm_ChainIndex cm) None = Some (Inr None, rs_Backup rs)"
    using assms(1) by (subst old_loop.simps) (simp add: linorder_not_less [symmetric])
  with assms(2) show ?thesis by (simp add: decryptMessage_def linorder_not_less [symmetric])
qed

lemma backup_loop_result:
  assumes "backup_loop cl b main = Some y"
  shows "hkdf_ok cl \<longrightarrow> fst y = Inr ()"
proof (rule backup_loop.raw_induct [of "\<lambda>cl b main y. hkdf_ok cl \<longrightarrow> fst y = Inr ()", OF _ assms])
  fix loop :: "crypto_lib \<Rightarrow> room_ratchet \<Rightarrow> u64 \<Rightarrow> (unit result \<times> room_ratchet) option" and cl b main y
  assume IH: "\<And>cl b main y. loop cl b main = Some y \<Longrightarrow> hkdf_ok cl \<longrightarrow> fst y = Inr ()"
    and body: "(if rr_Index b + 10 \<le> main
      then case NextKey cl b of
             (Inl err, b') \<Rightarrow> Some (Inl (wrapf ''failed to Get next backup key: '' err), b')
           | (Inr _, b') \<Rightarrow> loop cl b' main
      else Some (Inr (), b)) = Some y"
  show "hkdf_ok cl \<longrightarrow> fst y = Inr ()"
    using body IH [of cl "advance b" main y] by (auto simp: NextKey_ok split: if_split_asm)
qed

text \<open>No result of the main loop for the largest index.\<close>

lemma main_loop_largest:
  assumes "main_loop cl rs idx key = Some y"
  shows "hkdf_ok cl \<longrightarrow> idx \<noteq> - 1"
proof (rule main_loop.raw_induct [of "\<lambda>cl rs idx key y. hkdf_ok cl \<longrightarrow> idx \<noteq> - 1", OF _ assms])
  fix loop cl rs key and y :: "(bytes \<times> bytes) option result \<times> ratchets" and idx :: u64
  assume IH: "\<And>cl rs idx key y. loop cl rs idx key = Some y \<Longrightarrow> hkdf_ok cl \<longrightarrow> idx \<noteq> - 1"
    and body: "(if rr_Index (rs_Main rs) \<le> idx
      then case NextKey cl (rs_Main rs) of
             (Inl err, m) \<Rightarrow> Some (Inl (wrapf ''failed to Get next key: '' err), rs\<lparr>rs_Main := m\<rparr>)
           | (Inr k, m) \<Rightarrow>
               Option.bind (backup_loop cl (rs_Backup rs) (rr_Index m))
                (\<lambda>(r, b). case r of
                    Inl err \<Rightarrow> Some (Inl err, \<lparr>rs_Main = m, rs_Backup = b\<rparr>)
                  | Inr _ \<Rightarrow> loop cl \<lparr>rs_Main = m, rs_Backup = b\<rparr> idx (Some k))
      else Some (Inr key, rs)) = Some y"
  show "hkdf_ok cl \<longrightarrow> idx \<noteq> - 1"
  proof (intro impI notI)
    assume ok: "hkdf_ok cl" and idx: "idx = - 1"
    have "rr_Index (rs_Main rs) \<le> - 1" by (simp add: word_order.extremum)
    with body ok idx obtain r b where
      r: "backup_loop cl (rs_Backup rs) (rr_Index (advance (rs_Main rs))) = Some (r, b)"
      "(case r of Inl err \<Rightarrow> Some (Inl err, \<lparr>rs_Main = advance (rs_Main rs), rs_Backup = b\<rparr>)
        | Inr _ \<Rightarrow> loop cl \<lparr>rs_Main = advance (rs_Main rs), rs_Backup = b\<rparr> idx
            (Some (ratchet_key cl (rs_Main rs)))) = Some y"
      by (auto simp: NextKey_ok bind_eq_Some_conv simp del: Index_advance)
    from backup_loop_result [OF r(1)] ok r(2) have
      "loop cl \<lparr>rs_Main = advance (rs_Main rs), rs_Backup = b\<rparr> idx (Some (ratchet_key cl (rs_Main rs))) = Some y"
      by simp
    from IH [OF this] ok idx show False by blast
  qed
qed

section \<open>Properties\<close>

text \<open>The state of a room's chain after \<open>n\<close> messages, and a sender and receiver on one chain.\<close>

definition chain_at :: "room_ratchet \<Rightarrow> nat \<Rightarrow> room_ratchet" where
  "chain_at r n = (advance ^^ n) r"

lemma chain_at_index:
  "unat (rr_Index r) + n < 2 ^ 64 \<Longrightarrow> unat (rr_Index (chain_at r n)) = unat (rr_Index r) + n"
  by (simp add: chain_at_def ratchet.unat_index_steps)

lemma chain_at_advance: "(advance ^^ m) (chain_at r n) = chain_at r (m + n)"
  by (simp add: chain_at_def funpow_add)

lemma ahead_message_decrypts:
  assumes "hkdf_ok cl" "chacha_ok cl" "j \<le> k" "b \<le> j" "unat (rr_Index r) + k < 2 ^ 64 - 11"
  shows "\<exists>ct nonce. EncryptMessage cl (chain_at r k) pt = (Inr (ct, nonce), chain_at r (k + 1))
    \<and> decryptMessage cl \<lparr>rs_Main = chain_at r j, rs_Backup = chain_at r b\<rparr>
        \<lparr>cm_ChainIndex = rr_Index (chain_at r (k + 1)) - 1, cm_Ciphertext = Some ct\<rparr>
      = Some (Inr pt, \<lparr>rs_Main = chain_at r (k + 1),
          rs_Backup = chain_at r (max b (k - 8))\<rparr>)"
proof -
  let ?rs = "\<lparr>rs_Main = chain_at r j, rs_Backup = chain_at r b\<rparr>"
  obtain ct where ct: "EncryptMessage cl (chain_at r k) pt
      = (Inr (ct, snd (ratchet_key cl (chain_at r k))), advance (chain_at r k))"
    "open_with cl (Some (ratchet_key cl (chain_at r k))) (Some ct) = Inr pt"
    using EncryptMessage_ok [OF assms(1,2)] by blast
  have nxt: "advance (chain_at r k) = chain_at r (k + 1)"
    by (simp add: chain_at_def)
  have sent: "rr_Index (chain_at r (k + 1)) - 1 = rr_Index (chain_at r k)"
    by (subst nxt [symmetric]) simp
  let ?cm = "\<lparr>cm_ChainIndex = rr_Index (chain_at r k), cm_Ciphertext = Some ct\<rparr>"
  have idx: "unat (rr_Index (chain_at r n)) = unat (rr_Index r) + n" if "n \<le> k" for n
    using that assms(5) by (intro chain_at_index) simp
  have "decryptMessage cl ?rs ?cm =
    Some (open_with cl (Some (ratchet_key cl ((advance ^^ (k - j)) (rs_Main ?rs)))) (cm_Ciphertext ?cm),
      \<lparr>rs_Main = (advance ^^ Suc (k - j)) (rs_Main ?rs),
       rs_Backup = follow (rs_Backup ?rs) (unat (cm_ChainIndex ?cm) + 1)\<rparr>)"
    by (rule decrypt_ahead [OF assms(1)]) (use idx assms(3,4,5) in simp_all)
  also have "\<dots> = Some (Inr pt, \<lparr>rs_Main = chain_at r (k + 1), rs_Backup = follow (chain_at r b) (unat (rr_Index r) + k + 1)\<rparr>)"
    using assms(3) ct(2) idx [of k] by (simp add: chain_at_advance Suc_diff_le del: funpow.simps)
  also have "follow (chain_at r b) (unat (rr_Index r) + k + 1)
      = chain_at r (max b (k - 8))"
  proof -
    have "k + 1 - 9 - b + b = max b (k - 8)" unfolding max_def by arith
    moreover have "unat (rr_Index r) + k + 1 - 9 - (unat (rr_Index r) + b) = k + 1 - 9 - b" by simp
    moreover have "unat (rr_Index (chain_at r b)) = unat (rr_Index r) + b"
      using idx [of b] assms(3,4) by simp
    ultimately show ?thesis
      by (simp only: follow_def chain_at_advance)
  qed
  finally show ?thesis
    using ct(1) nxt sent by auto
qed

text \<open>
  A message encrypted with the chain at position \<open>k\<close> and sent with that state's index is
  decrypted by every receiver that is at position \<open>k\<close> or before, however many messages it
  missed: it gets the plaintext, its main ratchet moves just past the message, and its backup
  follows to nine positions behind.
\<close>

theorem sent_message_decrypts:
  assumes "hkdf_ok cl" "chacha_ok cl" "j \<le> k" "b \<le> j" "unat (rr_Index r) + k < 2 ^ 64 - 11"
  shows "\<exists>ct nonce. EncryptMessage cl (chain_at r k) pt = (Inr (ct, nonce), chain_at r (k + 1))
    \<and> decryptMessage cl \<lparr>rs_Main = chain_at r j, rs_Backup = chain_at r b\<rparr>
        \<lparr>cm_ChainIndex = rr_Index (chain_at r (k + 1)) - 1, cm_Ciphertext = Some ct\<rparr>
      = Some (Inr pt, \<lparr>rs_Main = chain_at r (k + 1),
          rs_Backup = chain_at r (max b (k - 8))\<rparr>)"
  using assms by (rule ahead_message_decrypts)

text \<open>
  A message that arrives late, after the receiver's main ratchet has passed it, is still
  decrypted as long as the backup has not passed it; the main ratchet does not move, and the
  backup moves just past the message.
\<close>

theorem late_message_decrypts:
  assumes "hkdf_ok cl" "chacha_ok cl" "b \<le> k" "k < j" "unat (rr_Index r) + j < 2 ^ 64"
  shows "\<exists>ct nonce. EncryptMessage cl (chain_at r k) pt = (Inr (ct, nonce), chain_at r (k + 1))
    \<and> decryptMessage cl \<lparr>rs_Main = chain_at r j, rs_Backup = chain_at r b\<rparr>
        \<lparr>cm_ChainIndex = rr_Index (chain_at r k), cm_Ciphertext = Some ct\<rparr>
      = Some (Inr pt, \<lparr>rs_Main = chain_at r j, rs_Backup = chain_at r (k + 1)\<rparr>)"
proof -
  let ?rs = "\<lparr>rs_Main = chain_at r j, rs_Backup = chain_at r b\<rparr>"
  obtain ct where ct: "EncryptMessage cl (chain_at r k) pt
      = (Inr (ct, snd (ratchet_key cl (chain_at r k))), advance (chain_at r k))"
    "open_with cl (Some (ratchet_key cl (chain_at r k))) (Some ct) = Inr pt"
    using EncryptMessage_ok [OF assms(1,2)] by blast
  have nxt: "advance (chain_at r k) = chain_at r (k + 1)"
    by (simp add: chain_at_def)
  let ?cm = "\<lparr>cm_ChainIndex = rr_Index (chain_at r k), cm_Ciphertext = Some ct\<rparr>"
  have idx: "unat (rr_Index (chain_at r n)) = unat (rr_Index r) + n" if "n \<le> j" for n
    using that assms(5) by (intro chain_at_index) simp
  have "decryptMessage cl ?rs ?cm =
    Some (open_with cl (Some (ratchet_key cl ((advance ^^ (k - b)) (rs_Backup ?rs)))) (cm_Ciphertext ?cm),
      ?rs\<lparr>rs_Backup := (advance ^^ Suc (k - b)) (rs_Backup ?rs)\<rparr>)"
    by (rule decrypt_late [OF assms(1)]) (use idx assms(3,4) in \<open>simp_all add: word_less_nat_alt\<close>)
  then show ?thesis
    using assms(3) ct nxt by (auto simp add: chain_at_advance Suc_diff_le simp del: funpow.simps)
qed

text \<open>
  A message older than the backup cannot be decrypted any more: the call returns an error
  and leaves both ratchets as they were.
\<close>

theorem too_old_message_rejected:
  assumes "chacha_ok cl" "k < b" "b \<le> j" "unat (rr_Index r) + j < 2 ^ 64"
  shows "\<exists>err. decryptMessage cl \<lparr>rs_Main = chain_at r j, rs_Backup = chain_at r b\<rparr>
        \<lparr>cm_ChainIndex = rr_Index (chain_at r k), cm_Ciphertext = ct\<rparr>
      = Some (Inl err, \<lparr>rs_Main = chain_at r j, rs_Backup = chain_at r b\<rparr>)"
proof -
  have idx: "unat (rr_Index (chain_at r n)) = unat (rr_Index r) + n" if "n \<le> j" for n
    using that assms(4) by (intro chain_at_index) simp
  obtain err where "open_with cl None ct = Inl err"
    using open_without_key [OF assms(1)] by blast
  moreover have "rr_Index (chain_at r k) < rr_Index (chain_at r b)"
    "rr_Index (chain_at r k) < rr_Index (chain_at r j)"
    using idx assms(2,3) by (simp_all add: word_less_nat_alt)
  ultimately show ?thesis
    by (simp add: decrypt_too_late)
qed

text \<open>
  Of two messages that are both late and both within reach of the backup, reading the newer
  one first makes the older one unreadable, since the backup is advanced in place.
\<close>

theorem late_message_blocks_older:
  assumes "hkdf_ok cl" "chacha_ok cl" "b \<le> i" "i < k" "k < j" "unat (rr_Index r) + j < 2 ^ 64"
  shows "\<exists>res rs err. decryptMessage cl \<lparr>rs_Main = chain_at r j, rs_Backup = chain_at r b\<rparr>
        \<lparr>cm_ChainIndex = rr_Index (chain_at r k), cm_Ciphertext = ct\<rparr> = Some (res, rs)
    \<and> decryptMessage cl rs \<lparr>cm_ChainIndex = rr_Index (chain_at r i), cm_Ciphertext = ct'\<rparr>
      = Some (Inl err, rs)"
proof -
  let ?rs = "\<lparr>rs_Main = chain_at r j, rs_Backup = chain_at r b\<rparr>"
  let ?cm = "\<lparr>cm_ChainIndex = rr_Index (chain_at r k), cm_Ciphertext = ct\<rparr>"
  have idx: "unat (rr_Index (chain_at r n)) = unat (rr_Index r) + n" if "n \<le> j" for n
    using that assms(6) by (intro chain_at_index) simp
  have "decryptMessage cl ?rs ?cm =
    Some (open_with cl (Some (ratchet_key cl ((advance ^^ (k - b)) (rs_Backup ?rs)))) (cm_Ciphertext ?cm),
      ?rs\<lparr>rs_Backup := (advance ^^ Suc (k - b)) (rs_Backup ?rs)\<rparr>)"
    by (rule decrypt_late [OF assms(1)]) (use idx assms(3,4,5) in \<open>simp_all add: word_less_nat_alt\<close>)
  also have "?rs\<lparr>rs_Backup := (advance ^^ Suc (k - b)) (rs_Backup ?rs)\<rparr>
      = \<lparr>rs_Main = chain_at r j, rs_Backup = chain_at r (k + 1)\<rparr>"
    using assms(3,4) by (simp add: chain_at_advance Suc_diff_le del: funpow.simps)
  finally have first: "decryptMessage cl ?rs ?cm = Some (open_with cl (Some (ratchet_key cl
      ((advance ^^ (k - b)) (rs_Backup ?rs)))) (cm_Ciphertext ?cm),
      \<lparr>rs_Main = chain_at r j, rs_Backup = chain_at r (k + 1)\<rparr>)" .
  obtain err where "open_with cl None ct' = Inl err"
    using open_without_key [OF assms(2)] by blast
  moreover have "rr_Index (chain_at r i) < rr_Index (chain_at r (k + 1))"
    "rr_Index (chain_at r i) < rr_Index (chain_at r j)"
    using idx assms(4,5) by (simp_all add: word_less_nat_alt)
  ultimately have "decryptMessage cl \<lparr>rs_Main = chain_at r j, rs_Backup = chain_at r (k + 1)\<rparr>
      \<lparr>cm_ChainIndex = rr_Index (chain_at r i), cm_Ciphertext = ct'\<rparr>
    = Some (Inl err, \<lparr>rs_Main = chain_at r j, rs_Backup = chain_at r (k + 1)\<rparr>)"
    by (simp add: decrypt_too_late)
  with first show ?thesis by blast
qed

text \<open>
  C39. A message that claims the largest index makes the call run forever, whatever its
  ciphertext: no main index exceeds it, so the loop condition stays true. Anybody who may
  publish in the room can send one.
\<close>

theorem largest_index_never_returns:
  assumes "hkdf_ok cl" "cm_ChainIndex cm = - 1"
  shows "decryptMessage cl rs cm = None"
proof -
  have "rr_Index (rs_Main rs) \<le> - 1"
    by (simp add: word_order.extremum)
  moreover have "main_loop cl rs (- 1) None = None"
    using main_loop_largest [of cl rs "- 1" None] assms(1) by (cases "main_loop cl rs (- 1) None") auto
  ultimately show ?thesis
    using assms(2) by (simp add: decryptMessage_def)
qed

section \<open>Instances of the properties\<close>

definition sample_ratchet :: room_ratchet where
  "sample_ratchet = \<lparr>rr_ChainKey = Some [1, 2, 3], rr_Index = 0\<rparr>"

lemma sample_ratchet_index [simp]: "unat (rr_Index sample_ratchet) = 0"
  by (simp add: sample_ratchet_def)

theorem sent_message_decrypts_witness:
  "\<exists>ct nonce. EncryptMessage sample_lib (chain_at sample_ratchet 20) [7, 8] = (Inr (ct, nonce), chain_at sample_ratchet 21)
    \<and> decryptMessage sample_lib \<lparr>rs_Main = chain_at sample_ratchet 3, rs_Backup = chain_at sample_ratchet 1\<rparr>
        \<lparr>cm_ChainIndex = rr_Index (chain_at sample_ratchet 21) - 1, cm_Ciphertext = Some ct\<rparr>
      = Some (Inr [7, 8], \<lparr>rs_Main = chain_at sample_ratchet 21, rs_Backup = chain_at sample_ratchet 12\<rparr>)"
  using sent_message_decrypts [of sample_lib 3 20 1 sample_ratchet "[7, 8]"] by simp

theorem late_message_decrypts_witness:
  "\<exists>ct nonce. EncryptMessage sample_lib (chain_at sample_ratchet 15) [7] = (Inr (ct, nonce), chain_at sample_ratchet 16)
    \<and> decryptMessage sample_lib \<lparr>rs_Main = chain_at sample_ratchet 20, rs_Backup = chain_at sample_ratchet 11\<rparr>
        \<lparr>cm_ChainIndex = rr_Index (chain_at sample_ratchet 15), cm_Ciphertext = Some ct\<rparr>
      = Some (Inr [7], \<lparr>rs_Main = chain_at sample_ratchet 20, rs_Backup = chain_at sample_ratchet 16\<rparr>)"
  using late_message_decrypts [of sample_lib 11 15 20 sample_ratchet "[7]"] by simp

theorem too_old_message_rejected_witness:
  "\<exists>err. decryptMessage sample_lib \<lparr>rs_Main = chain_at sample_ratchet 20, rs_Backup = chain_at sample_ratchet 11\<rparr>
        \<lparr>cm_ChainIndex = rr_Index (chain_at sample_ratchet 5), cm_Ciphertext = Some [1]\<rparr>
      = Some (Inl err, \<lparr>rs_Main = chain_at sample_ratchet 20, rs_Backup = chain_at sample_ratchet 11\<rparr>)"
  using too_old_message_rejected [of sample_lib 5 11 20 sample_ratchet "Some [1]"] by simp

theorem late_message_blocks_older_witness:
  "\<exists>res rs err. decryptMessage sample_lib \<lparr>rs_Main = chain_at sample_ratchet 20, rs_Backup = chain_at sample_ratchet 11\<rparr>
        \<lparr>cm_ChainIndex = rr_Index (chain_at sample_ratchet 15), cm_Ciphertext = Some [1]\<rparr> = Some (res, rs)
    \<and> decryptMessage sample_lib rs \<lparr>cm_ChainIndex = rr_Index (chain_at sample_ratchet 13), cm_Ciphertext = Some [2]\<rparr>
      = Some (Inl err, rs)"
  using late_message_blocks_older [of sample_lib 11 13 15 20 sample_ratchet "Some [1]" "Some [2]"] by simp

theorem largest_index_never_returns_witness:
  "decryptMessage sample_lib \<lparr>rs_Main = sample_ratchet, rs_Backup = sample_ratchet\<rparr>
     \<lparr>cm_ChainIndex = - 1, cm_Ciphertext = Some [1]\<rparr> = None"
  by (rule largest_index_never_returns) simp_all

end
