(* ===== verification/Envelope.thy ===== *)
theory Envelope
  imports Model_Codec Crypto_Lib
begin

text \<open>
  client/messages.go and client/validation.go: a message is put into an envelope with its sender,
  the time and a signature of its JSON text, and an envelope that arrives is taken apart and
  validated. The clock is an argument.
\<close>

section \<open>The JSON form\<close>

definition enc_envelope :: "envelope \<Rightarrow> json \<Rightarrow> json" where
  "enc_envelope e payload = JObj
    [jmember ''type'' (enc_string (env_Type e)), jmember ''sender'' (enc_user (env_Sender e)),
     jmember ''timestamp'' (enc_int (env_Timestamp e)), jmember ''signature'' (enc_bytes (env_Signature e)),
     jmember ''payload'' payload]"

definition envelope_fields :: "envelope field_decoder list" where
  "envelope_fields =
    [(''type'', on_field dec_string env_Type (\<lambda>y. env_Type_update (\<lambda>_. y))),
     (''sender'', on_field dec_user env_Sender (\<lambda>y. env_Sender_update (\<lambda>_. y))),
     (''timestamp'', on_field dec_int64 env_Timestamp (\<lambda>y. env_Timestamp_update (\<lambda>_. y))),
     (''signature'', on_field dec_bytes env_Signature (\<lambda>y. env_Signature_update (\<lambda>_. y))),
     (''payload'', raw_field (\<lambda>y. env_Payload_update (\<lambda>_. y)))]"

definition dec_envelope :: "envelope decoder" where
  "dec_envelope = dec_struct envelope_fields"

definition zero_envelope :: envelope where
  "zero_envelope = \<lparr>env_Type = [], env_Sender = zero_user, env_Timestamp = 0, env_Signature = None,
     env_Payload = []\<rparr>"

section \<open>MarshalEnvelope and UnmarshalEnvelope\<close>

definition MarshalEnvelope ::
  "crypto_lib \<Rightarrow> int \<Rightarrow> message \<Rightarrow> user \<Rightarrow> slice \<Rightarrow> (bytes \<times> envelope) result"
where
  "MarshalEnvelope cl now msg sender sigPKBlob =
     (let payload = jprint (enc_message msg) in
      case Sign cl (string_bytes payload) sigPKBlob of
        Inl err \<Rightarrow> Inl err
      | Inr sig \<Rightarrow>
          (let env = \<lparr>env_Type = message_Type msg, env_Sender = sender, env_Timestamp = now,
                  env_Signature = Some sig, env_Payload = payload\<rparr>
           in Inr (string_bytes (jprint (enc_envelope env (enc_message msg))), env)))"

text \<open>Decoding a payload into a new value of the type the envelope names.\<close>

definition decode_as :: "('a \<Rightarrow> message) \<Rightarrow> 'a decoder \<Rightarrow> 'a \<Rightarrow> string \<Rightarrow> message result" where
  "decode_as con dec zero payload =
     (let (ok, m) = unmarshal_into dec payload zero in if ok then Inr (con m) else Inl json_error)"

definition decode_payload :: "message_type \<Rightarrow> string \<Rightarrow> message result" where
  "decode_payload t payload =
     (if t = MsgTypeChat then decode_as ChatMessage dec_chat_message \<lparr>cm_ChainIndex = 0, cm_Ciphertext = None\<rparr> payload
      else if t = MsgTypeJoin then decode_as JoinMessage dec_join_message \<lparr>jm_User = zero_user, jm_EncKey = None\<rparr> payload
      else if t = MsgTypeLeave then decode_as LeaveMessage dec_leave_message \<lparr>lm_PeerID = []\<rparr> payload
      else if t = MsgTypeRekey then decode_as RekeyMessage dec_rekey_message \<lparr>rk_Entries = None\<rparr> payload
      else if t = MsgTypeCatchUpReq then decode_as CatchUpRequest dec_catch_up_request \<lparr>cq_SinceIndex = 0\<rparr> payload
      else if t = MsgTypeCatchUpResp then decode_as CatchUpResponse dec_catch_up_response
        \<lparr>cr_MasterRoomKey = None, cr_MasterRoomKeyBase = None, cr_ChainIndex = 0, cr_CatchUpMessages = None, cr_Error = []\<rparr> payload
      else if t = MsgTypeUserUpdate then decode_as UserUpdate dec_user_update \<lparr>uu_User = zero_user\<rparr> payload
      else Inl (Errorf (''unknown message type: '' @ t)))"

text \<open>Callers look at the envelope and the message only when there is no error.\<close>

definition UnmarshalEnvelope :: "bytes \<Rightarrow> (envelope \<times> message) result" where
  "UnmarshalEnvelope data =
     (let (ok, env) = unmarshal_into dec_envelope (bytes_string data) zero_envelope in
      if \<not> ok then Inl json_error
      else
        (case decode_payload (env_Type env) (env_Payload env) of
           Inl err \<Rightarrow> Inl err | Inr msg \<Rightarrow> Inr (env, msg)))"

section \<open>Validation\<close>

definition validateChatMessageIntegrity :: "envelope \<Rightarrow> chat_message \<Rightarrow> int \<Rightarrow> go_error option \<times> envelope" where
  "validateChatMessageIntegrity env msg nowSeconds =
     (if slice_bytes (cm_Ciphertext msg) = [] then (Some (ValidationError ''Chat message content cannot be empty''), env)
      else if length (slice_bytes (cm_Ciphertext msg)) > 10000
      then (Some (ValidationError ''Chat message content exceeds maximum length of 10000 characters''), env)
      else (None, if env_Timestamp env = 0 then env\<lparr>env_Timestamp := nowSeconds\<rparr> else env))"

text \<open>The texts of numbers in the error for a time in the future: both in microseconds.\<close>

definition validateMessageSecurity :: "crypto_lib \<Rightarrow> int \<Rightarrow> envelope \<Rightarrow> string \<Rightarrow> go_error option" where
  "validateMessageSecurity cl now env strSenderID =
     (if u_PeerID (env_Sender env) \<noteq> strSenderID
      then Some (SecurityError ''Sender ID does not match the message sender'')
      else if env_Timestamp env > now
      then Some (SecurityError (''Message timestamp '' @ literal_of_int (env_Timestamp env)
        @ '' is in the future, now is '' @ literal_of_int now))
      else
        (case ValidateSignature cl (u_DilithiumPub (env_Sender env)) (string_bytes (env_Payload env)) (env_Signature env) of
           Some verify \<Rightarrow> Some (SecurityError (Error_text verify))
         | None \<Rightarrow> None))"

text \<open>The clock in microseconds; in seconds it is the quotient.\<close>

definition validateChatMessage ::
  "crypto_lib \<Rightarrow> int \<Rightarrow> envelope \<Rightarrow> chat_message \<Rightarrow> string \<Rightarrow> go_error option \<times> envelope"
where
  "validateChatMessage cl now env msg senderID =
     (case validateChatMessageIntegrity env msg (now div 1000000) of
        (Some err, env') \<Rightarrow> (Some err, env')
      | (None, env') \<Rightarrow> (validateMessageSecurity cl now env' senderID, env'))"

section \<open>What is sent is read back\<close>

lemma message_type_distinct [simp]:
  "MsgTypeChat \<noteq> MsgTypeJoin" "MsgTypeChat \<noteq> MsgTypeLeave" "MsgTypeChat \<noteq> MsgTypeRekey"
  "MsgTypeChat \<noteq> MsgTypeCatchUpReq" "MsgTypeChat \<noteq> MsgTypeCatchUpResp" "MsgTypeChat \<noteq> MsgTypeUserUpdate"
  "MsgTypeJoin \<noteq> MsgTypeChat" "MsgTypeLeave \<noteq> MsgTypeChat" "MsgTypeLeave \<noteq> MsgTypeJoin"
  "MsgTypeRekey \<noteq> MsgTypeChat" "MsgTypeRekey \<noteq> MsgTypeJoin" "MsgTypeRekey \<noteq> MsgTypeLeave"
  "MsgTypeCatchUpReq \<noteq> MsgTypeChat" "MsgTypeCatchUpReq \<noteq> MsgTypeJoin" "MsgTypeCatchUpReq \<noteq> MsgTypeLeave"
  "MsgTypeCatchUpReq \<noteq> MsgTypeRekey" "MsgTypeCatchUpResp \<noteq> MsgTypeChat" "MsgTypeCatchUpResp \<noteq> MsgTypeJoin"
  "MsgTypeCatchUpResp \<noteq> MsgTypeLeave" "MsgTypeCatchUpResp \<noteq> MsgTypeRekey" "MsgTypeCatchUpResp \<noteq> MsgTypeCatchUpReq"
  "MsgTypeUserUpdate \<noteq> MsgTypeChat" "MsgTypeUserUpdate \<noteq> MsgTypeJoin" "MsgTypeUserUpdate \<noteq> MsgTypeLeave"
  "MsgTypeUserUpdate \<noteq> MsgTypeRekey" "MsgTypeUserUpdate \<noteq> MsgTypeCatchUpReq" "MsgTypeUserUpdate \<noteq> MsgTypeCatchUpResp"
  by (simp_all add: MsgTypeChat_def MsgTypeJoin_def MsgTypeLeave_def MsgTypeRekey_def MsgTypeCatchUpReq_def
      MsgTypeCatchUpResp_def MsgTypeUserUpdate_def)

lemma message_Type_ascii [simp]: "utf8_valid (message_Type m)"
  by (cases m) (simp_all add: MsgTypeChat_def MsgTypeJoin_def MsgTypeLeave_def MsgTypeRekey_def
      MsgTypeCatchUpReq_def MsgTypeCatchUpResp_def MsgTypeUserUpdate_def utf8_valid_ascii)

lemma decode_as_print:
  assumes "wf_json j" "dec j zero = (True, m)"
  shows "decode_as con dec zero (jprint j) = Inr (con m)"
  using assms by (simp add: decode_as_def unmarshal_print)

lemma decode_payload_print:
  assumes "wf_message m"
  shows "decode_payload (message_Type m) (jprint (enc_message m)) = Inr m"
proof -
  have wf: "wf_json (enc_message m)" using assms by (rule wf_enc_message)
  show ?thesis
    using assms wf
    by (cases m) (simp_all add: decode_payload_def decode_as_print codec_simps)
qed

lemma wf_enc_envelope [wf_codec]:
  "wf_json (enc_envelope e p) \<longleftrightarrow> utf8_valid (env_Type e) \<and> wf_user (env_Sender e) \<and> wf_json p"
  by (auto simp add: enc_envelope_def wf_codec utf8_valid_ascii)

lemma dec_enc_envelope [codec_simps]:
  "in_int64 (env_Timestamp e) \<Longrightarrow> dec_envelope (enc_envelope e p) old = (True, e\<lparr>env_Payload := jprint p\<rparr>)"
  by (simp add: dec_envelope_def enc_envelope_def envelope_fields_def codec_simps)

lemma MarshalEnvelope_cases:
  assumes "MarshalEnvelope cl now msg sender priv = Inr (data, env)"
  obtains sig where "Sign cl (string_bytes (jprint (enc_message msg))) priv = Inr sig"
    "env = \<lparr>env_Type = message_Type msg, env_Sender = sender, env_Timestamp = now,
       env_Signature = Some sig, env_Payload = jprint (enc_message msg)\<rparr>"
    "data = string_bytes (jprint (enc_envelope env (enc_message msg)))"
  using assms by (auto simp: MarshalEnvelope_def Let_def split: sum.splits)

lemma Unmarshal_Marshal:
  assumes "MarshalEnvelope cl now msg sender priv = Inr (data, env)"
    "wf_message msg" "wf_user sender" "in_int64 now"
  shows "UnmarshalEnvelope data = Inr (env, msg)"
  using assms(1)
proof (cases rule: MarshalEnvelope_cases)
  case (1 sig)
  have "wf_json (enc_envelope env (enc_message msg))"
    using 1 assms(2,3) by (simp add: wf_codec)
  moreover have "dec_envelope (enc_envelope env (enc_message msg)) zero_envelope = (True, env)"
    using 1 assms(4) by (simp add: codec_simps)
  ultimately show ?thesis
    using 1 assms(2) by (simp add: UnmarshalEnvelope_def unmarshal_print decode_payload_print)
qed

section \<open>Properties\<close>

text \<open>
  C18. An envelope that a user with a key pair makes is taken apart by every receiver into the same
  envelope and message, of every message type, and passes the security validation at the
  sender's own peer ID from then on.
\<close>

theorem envelope_round_trip:
  assumes "key_pair cl priv (u_DilithiumPub sender)" "wf_message msg" "wf_user sender" "in_int64 now" "now \<le> later"
  shows "\<exists>data env. MarshalEnvelope cl now msg sender priv = Inr (data, env)
    \<and> UnmarshalEnvelope data = Inr (env, msg)
    \<and> validateMessageSecurity cl later env (u_PeerID sender) = None"
proof -
  obtain sig where sig: "Sign cl (string_bytes (jprint (enc_message msg))) priv = Inr sig"
    using key_pair_signs [OF assms(1)] by blast
  then obtain data env where env: "MarshalEnvelope cl now msg sender priv = Inr (data, env)"
    by (simp add: MarshalEnvelope_def Let_def)
  then have "env_Sender env = sender" "env_Timestamp env = now" "env_Signature env = Some sig"
    "env_Payload env = jprint (enc_message msg)"
    using sig by (auto simp: MarshalEnvelope_def Let_def)
  then have "validateMessageSecurity cl later env (u_PeerID sender) = None"
    using signature_accepted [OF assms(1) sig] assms(5) by (simp add: validateMessageSecurity_def)
  with env Unmarshal_Marshal [OF env assms(2-4)] show ?thesis by blast
qed

text \<open>
  C38. A chat message passes validation exactly if its ciphertext has between 1 and 10000 bytes, the
  sender it names is the peer it came from, its time is not in the future (a time of zero stands
  for now) and its payload carries a signature valid under the key it brings along.
\<close>

theorem chat_validation_exact:
  assumes "0 \<le> now"
  shows "fst (validateChatMessage cl now env msg senderID) = None
    \<longleftrightarrow> 1 \<le> length (slice_bytes (cm_Ciphertext msg)) \<and> length (slice_bytes (cm_Ciphertext msg)) \<le> 10000
      \<and> u_PeerID (env_Sender env) = senderID \<and> env_Timestamp env \<le> now
      \<and> ValidateSignature cl (u_DilithiumPub (env_Sender env)) (string_bytes (env_Payload env)) (env_Signature env) = None"
proof -
  have "now div 1000000 \<le> now" using zdiv_mono2 [of now 1 1000000] assms by simp
  with assms show ?thesis
    by (auto simp: validateChatMessage_def validateChatMessageIntegrity_def validateMessageSecurity_def
        Suc_le_eq split: option.splits if_splits)
qed

text \<open>
  The signature covers the payload only: whoever relays an envelope that passes the security
  validation can give it any message type, any name and colour of the sender and any earlier
  time, and it still passes.
\<close>

theorem header_not_signed:
  assumes "validateMessageSecurity cl now env senderID = None" "ts \<le> now"
  shows "validateMessageSecurity cl now
      (env\<lparr>env_Type := t, env_Timestamp := ts,
        env_Sender := (env_Sender env)\<lparr>u_Username := name, u_PreferredColor := colour\<rparr>\<rparr>) senderID = None"
  using assms by (auto simp: validateMessageSecurity_def split: option.splits if_splits)

section \<open>Instances of the properties\<close>

definition sample_sender :: user where
  "sample_sender = zero_user\<lparr>u_DilithiumPub := Some [9], u_PeerID := ''p''\<rparr>"

definition sample_chat_message :: chat_message where
  "sample_chat_message = \<lparr>cm_ChainIndex = 4, cm_Ciphertext = Some [1, 2, 3]\<rparr>"

lemma sample_sender_ok [simp]:
  "key_pair sample_lib (Some [9]) (u_DilithiumPub sample_sender)" "wf_user sample_sender"
  "u_PeerID sample_sender = ''p''"
  by (simp_all add: sample_sender_def wf_user_def zero_user_def utf8_valid_ascii)

theorem envelope_round_trip_witness:
  "\<exists>data env. MarshalEnvelope sample_lib 1000 (ChatMessage sample_chat_message) sample_sender (Some [9]) = Inr (data, env)
    \<and> UnmarshalEnvelope data = Inr (env, ChatMessage sample_chat_message)
    \<and> validateMessageSecurity sample_lib 2000 env ''p'' = None"
  using envelope_round_trip [OF sample_sender_ok(1), of "ChatMessage sample_chat_message" 1000 2000]
  by (simp add: in_int64_def)

definition sample_envelope :: envelope where
  "sample_envelope = \<lparr>env_Type = MsgTypeChat, env_Sender = sample_sender, env_Timestamp = 1000,
     env_Signature = Some [9, 123, 125], env_Payload = ''{}''\<rparr>"

lemma sample_envelope_valid:
  "ValidateSignature sample_lib (u_DilithiumPub (env_Sender sample_envelope))
     (string_bytes (env_Payload sample_envelope)) (env_Signature sample_envelope) = None"
  unfolding sample_envelope_def sample_sender_def by code_simp

theorem chat_validation_exact_witness:
  "fst (validateChatMessage sample_lib 1000 sample_envelope sample_chat_message ''p'') = None"
  using chat_validation_exact [of 1000 sample_lib sample_envelope sample_chat_message "''p''"] sample_envelope_valid
  by (simp add: sample_envelope_def sample_chat_message_def)

theorem header_not_signed_witness:
  "validateMessageSecurity sample_lib 1000
     (sample_envelope\<lparr>env_Type := MsgTypeLeave, env_Timestamp := 1,
       env_Sender := (env_Sender sample_envelope)\<lparr>u_Username := ''x'', u_PreferredColor := ''red''\<rparr>\<rparr>) ''p'' = None"
proof -
  have "validateMessageSecurity sample_lib 1000 sample_envelope ''p'' = None"
    using sample_envelope_valid by (simp add: validateMessageSecurity_def) (simp add: sample_envelope_def)
  from header_not_signed [OF this, of 1] show ?thesis by simp
qed

end
