(* ===== verification/Topics.thy ===== *)
theory Topics
  imports Misc
begin

text \<open>
  internal/p2p/pubsub_topics.go and the rendezvous string of dht.go: the names under which
  peers meet. A topic name is a path of segments; identifiers without a slash make different
  topics different names, so that no two rooms and no two channels of a room share a topic.
\<close>

definition topicRoot :: string where
  "topicRoot = ''/hillside''"

definition ServersTopic :: string where
  "ServersTopic = topicRoot @ ''/servers''"

definition ServerMetaTopic :: "string \<Rightarrow> string" where
  "ServerMetaTopic sid = topicRoot @ ''/servers/'' @ sid @ ''/meta''"

definition RoomsTopic :: "string \<Rightarrow> string" where
  "RoomsTopic sid = topicRoot @ ''/servers/'' @ sid @ ''/rooms''"

definition RoomMetaTopic :: "string \<Rightarrow> string \<Rightarrow> string" where
  "RoomMetaTopic sid rid = topicRoot @ ''/servers/'' @ sid @ ''/rooms/'' @ rid @ ''/meta''"

definition ChatTopic :: "string \<Rightarrow> string \<Rightarrow> string" where
  "ChatTopic sid rid = topicRoot @ ''/servers/'' @ sid @ ''/rooms/'' @ rid @ ''/chat''"

definition RekeyTopic :: "string \<Rightarrow> string \<Rightarrow> string" where
  "RekeyTopic sid rid = topicRoot @ ''/servers/'' @ sid @ ''/rooms/'' @ rid @ ''/rekey''"

definition MembersTopic :: "string \<Rightarrow> string \<Rightarrow> string" where
  "MembersTopic sid rid = topicRoot @ ''/servers/'' @ sid @ ''/rooms/'' @ rid @ ''/members''"

definition UserUpdateTopic :: "string \<Rightarrow> string \<Rightarrow> string" where
  "UserUpdateTopic sid rid =
     topicRoot @ ''/servers/'' @ sid @ ''/rooms/'' @ rid @ ''/user_update''"

definition HistoryReqTopic :: "string \<Rightarrow> string \<Rightarrow> string" where
  "HistoryReqTopic sid rid =
     topicRoot @ ''/servers/'' @ sid @ ''/rooms/'' @ rid @ ''/history/req''"

definition HistoryRespTopic :: "string \<Rightarrow> string \<Rightarrow> string \<Rightarrow> string" where
  "HistoryRespTopic sid rid pid =
     topicRoot @ ''/servers/'' @ sid @ ''/rooms/'' @ rid @ ''/history/resp/'' @ pid"

definition TypingTopic :: "string \<Rightarrow> string \<Rightarrow> string" where
  "TypingTopic sid rid = topicRoot @ ''/servers/'' @ sid @ ''/rooms/'' @ rid @ ''/typing''"

definition CatchUpRequestTopic :: "string \<Rightarrow> string \<Rightarrow> string" where
  "CatchUpRequestTopic sid rid =
     topicRoot @ ''/servers/'' @ sid @ ''/rooms/'' @ rid @ ''/catchup/request''"

definition CatchUpResponseTopic :: "string \<Rightarrow> string \<Rightarrow> string \<Rightarrow> string" where
  "CatchUpResponseTopic sid rid pid =
     topicRoot @ ''/servers/'' @ sid @ ''/rooms/'' @ rid @ ''/catchup/'' @ pid"

definition RendezvousString :: "string \<Rightarrow> string \<Rightarrow> string" where
  "RendezvousString serverID roomID = ''/hillside/rendezvous/'' @ serverID @ ''/'' @ roomID"

lemmas topic_defs = topicRoot_def ServersTopic_def ServerMetaTopic_def RoomsTopic_def
  RoomMetaTopic_def ChatTopic_def RekeyTopic_def MembersTopic_def UserUpdateTopic_def
  HistoryReqTopic_def HistoryRespTopic_def TypingTopic_def CatchUpRequestTopic_def
  CatchUpResponseTopic_def RendezvousString_def

section \<open>Names as paths\<close>

definition slash_free :: "string \<Rightarrow> bool" where
  "slash_free s \<longleftrightarrow> CHR ''/'' \<notin> set s"

fun path :: "string list \<Rightarrow> string" where
  "path [] = []"
| "path (s # ss) = CHR ''/'' # s @ path ss"

lemma path_Nil_iff [simp]: "path ss = [] \<longleftrightarrow> ss = []" "[] = path ss \<longleftrightarrow> ss = []"
  by (cases ss; simp)+

lemma path_inj:
  "list_all slash_free as \<Longrightarrow> list_all slash_free bs \<Longrightarrow> path as = path bs \<longleftrightarrow> as = bs"
proof (induction as arbitrary: bs)
  case Nil
  then show ?case by (cases bs) simp_all
next
  case (Cons a as)
  show ?case
  proof (cases bs)
    case Nil
    then show ?thesis by simp
  next
    case (Cons b bs')
    have split: "takeWhile (\<lambda>c. c \<noteq> CHR ''/'') (s @ path ss) = s"
      if "slash_free s" for s ss
      using that by (cases ss) (auto simp: slash_free_def takeWhile_tail)
    have "a @ path as = b @ path bs' \<longleftrightarrow> a = b \<and> path as = path bs'"
      using Cons.prems Cons split [of a as] split [of b bs'] by auto
    with Cons.prems Cons.IH [of bs'] Cons show ?thesis by auto
  qed
qed

text \<open>Every channel of the program, with the name the code gives it.\<close>

datatype topic =
    Servers | ServerMeta string | Rooms string | RoomMeta string string | Chat string string
  | Rekey string string | Members string string | UserUpdates string string
  | HistoryReq string string | HistoryResp string string string | Typing string string
  | CatchUpReq string string | CatchUpResp string string string

fun topic_name :: "topic \<Rightarrow> string" where
  "topic_name Servers = ServersTopic"
| "topic_name (ServerMeta s) = ServerMetaTopic s"
| "topic_name (Rooms s) = RoomsTopic s"
| "topic_name (RoomMeta s r) = RoomMetaTopic s r"
| "topic_name (Chat s r) = ChatTopic s r"
| "topic_name (Rekey s r) = RekeyTopic s r"
| "topic_name (Members s r) = MembersTopic s r"
| "topic_name (UserUpdates s r) = UserUpdateTopic s r"
| "topic_name (HistoryReq s r) = HistoryReqTopic s r"
| "topic_name (HistoryResp s r p) = HistoryRespTopic s r p"
| "topic_name (Typing s r) = TypingTopic s r"
| "topic_name (CatchUpReq s r) = CatchUpRequestTopic s r"
| "topic_name (CatchUpResp s r p) = CatchUpResponseTopic s r p"

fun topic_segments :: "topic \<Rightarrow> string list" where
  "topic_segments Servers = []"
| "topic_segments (ServerMeta s) = [s, ''meta'']"
| "topic_segments (Rooms s) = [s, ''rooms'']"
| "topic_segments (RoomMeta s r) = [s, ''rooms'', r, ''meta'']"
| "topic_segments (Chat s r) = [s, ''rooms'', r, ''chat'']"
| "topic_segments (Rekey s r) = [s, ''rooms'', r, ''rekey'']"
| "topic_segments (Members s r) = [s, ''rooms'', r, ''members'']"
| "topic_segments (UserUpdates s r) = [s, ''rooms'', r, ''user_update'']"
| "topic_segments (HistoryReq s r) = [s, ''rooms'', r, ''history'', ''req'']"
| "topic_segments (HistoryResp s r p) = [s, ''rooms'', r, ''history'', ''resp'', p]"
| "topic_segments (Typing s r) = [s, ''rooms'', r, ''typing'']"
| "topic_segments (CatchUpReq s r) = [s, ''rooms'', r, ''catchup'', ''request'']"
| "topic_segments (CatchUpResp s r p) = [s, ''rooms'', r, ''catchup'', p]"

text \<open>Identifiers are free of slashes, and no peer is called \<open>request\<close>.\<close>

fun wf_topic :: "topic \<Rightarrow> bool" where
  "wf_topic (CatchUpResp s r p) =
     (slash_free s \<and> slash_free r \<and> slash_free p \<and> p \<noteq> ''request'')"
| "wf_topic t = list_all slash_free (topic_segments t)"

lemma topic_name_path: "topic_name t = path (''hillside'' # ''servers'' # topic_segments t)"
  by (cases t) (simp_all add: topic_defs)

lemma wf_topic_segments: "wf_topic t \<Longrightarrow> list_all slash_free (''hillside'' # ''servers'' # topic_segments t)"
  by (cases t) (simp_all add: slash_free_def)

lemma topic_segments_inj:
  "wf_topic t \<Longrightarrow> wf_topic u \<Longrightarrow> topic_segments t = topic_segments u \<longleftrightarrow> t = u"
  by (cases t; cases u) auto

lemma topic_name_inj: "wf_topic t \<Longrightarrow> wf_topic u \<Longrightarrow> topic_name t = topic_name u \<longleftrightarrow> t = u"
  by (simp only: topic_name_path path_inj [OF wf_topic_segments wf_topic_segments] list.inject
      topic_segments_inj simp_thms)

lemma slash_free_id [simp]: "slash_free (GenerateRandomID b)"
  by (simp add: slash_free_def GenerateRandomID_no_slash)

end
