(* ===== verification/Auth_Store.thy ===== *)
theory Auth_Store
  imports Tables
begin

text \<open>
  internal/storage/auth.go: the ratchet key of every room the user has joined or created, one
  row per room, with soft deletion and purging. Times are microseconds since the epoch.
\<close>

record auth_row =
  au_id :: int
  au_room_id :: string
  au_chain_index :: int
  au_key :: slice
  au_last_used :: int
  au_tombstone :: int
  au_synced :: int

type_synonym auth_table = "auth_row sql_table"

record room_auth =
  ra_RoomID :: string
  ra_ChainIndex :: u64
  ra_MasterRatchetKey :: slice
  ra_LastUsed :: int
  ra_Tombstone :: bool
  ra_Synced :: bool

definition wf_auths :: "auth_table \<Rightarrow> bool" where
  "wf_auths t \<longleftrightarrow> ids_ok au_id t \<and> unique_key (\<lambda>r. Some (au_room_id r)) (t_rows t)"

section \<open>Statements\<close>

definition SaveAuth :: "fault \<Rightarrow> string \<Rightarrow> int \<Rightarrow> slice \<Rightarrow> int \<Rightarrow> auth_table \<Rightarrow> go_error option \<times> auth_table"
where
  "SaveAuth fault roomID chainIdx masterKey lastUsed t =
     (case fault of
        Some err \<Rightarrow> (Some (wrapf ''save auth (auto inc): '' err), t)
      | None \<Rightarrow>
          (None,
           if \<exists>r \<in> set (t_rows t). au_room_id r = roomID
           then sql_update (\<lambda>r. au_room_id r = roomID)
             (\<lambda>r. r\<lparr>au_chain_index := chainIdx, au_key := masterKey, au_last_used := lastUsed,
                au_tombstone := 0, au_synced := 1\<rparr>) t
           else sql_insert (\<lambda>i.
             \<lparr>au_id = i, au_room_id = roomID, au_chain_index = chainIdx, au_key = masterKey,
              au_last_used = lastUsed, au_tombstone = 0, au_synced = 1\<rparr>) t))"

definition auth_of_row :: "auth_row \<Rightarrow> room_auth" where
  "auth_of_row r =
     \<lparr>ra_RoomID = au_room_id r, ra_ChainIndex = uint64_of (au_chain_index r),
      ra_MasterRatchetKey = au_key r, ra_LastUsed = au_last_used r,
      ra_Tombstone = (au_tombstone r \<noteq> 0), ra_Synced = (au_synced r \<noteq> 0)\<rparr>"

definition GetAuth :: "fault \<Rightarrow> string \<Rightarrow> auth_table \<Rightarrow> room_auth result" where
  "GetAuth fault roomID t =
     (case fault of
        Some err \<Rightarrow> Inl (wrapf ''get auth scan: '' err)
      | None \<Rightarrow>
          (case find (\<lambda>r. au_room_id r = roomID) (t_rows t) of
             None \<Rightarrow> Inl ErrNoRows | Some r \<Rightarrow> Inr (auth_of_row r)))"

definition DeleteAuth :: "fault \<Rightarrow> string \<Rightarrow> auth_table \<Rightarrow> go_error option \<times> auth_table" where
  "DeleteAuth fault roomID t =
     (case fault of
        Some err \<Rightarrow> (Some (wrapf ''delete auth: '' err), t)
      | None \<Rightarrow> (None, sql_delete (\<lambda>r. au_room_id r = roomID) t))"

definition SoftDeleteAuth :: "fault \<Rightarrow> string \<Rightarrow> auth_table \<Rightarrow> go_error option \<times> auth_table" where
  "SoftDeleteAuth fault roomID t =
     (case fault of
        Some err \<Rightarrow> (Some (wrapf ''soft delete auth: '' err), t)
      | None \<Rightarrow>
          (None, sql_update (\<lambda>r. au_room_id r = roomID) (\<lambda>r. r\<lparr>au_tombstone := 1, au_synced := 0\<rparr>) t))"

definition UpdateLastUsed :: "fault \<Rightarrow> string \<Rightarrow> int \<Rightarrow> auth_table \<Rightarrow> go_error option \<times> auth_table" where
  "UpdateLastUsed fault roomID lastUsed t =
     (case fault of
        Some err \<Rightarrow> (Some (wrapf ''update last_used: '' err), t)
      | None \<Rightarrow> (None, sql_update (\<lambda>r. au_room_id r = roomID) (\<lambda>r. r\<lparr>au_last_used := lastUsed\<rparr>) t))"

definition ListAuths ::
  "fault \<Rightarrow> (auth_row list \<Rightarrow> auth_row list) \<Rightarrow> bool \<Rightarrow> auth_table \<Rightarrow> room_auth list result"
where
  "ListAuths fault met includeTombstones t =
     (case fault of
        Some err \<Rightarrow> Inl (wrapf ''list auths: '' err)
      | None \<Rightarrow>
          Inr (map auth_of_row (sql_order_desc met au_last_used
            (if includeTombstones then t_rows t
             else filter (\<lambda>r. au_tombstone r = 0) (t_rows t)))))"

definition PurgeAuthsOlderThan :: "fault \<Rightarrow> int \<Rightarrow> auth_table \<Rightarrow> int result \<times> auth_table" where
  "PurgeAuthsOlderThan fault before t =
     (let P = (\<lambda>r. au_last_used r < before \<and> au_tombstone r = 1) in
      case fault of
        Some err \<Rightarrow> (Inl (wrapf ''purge auths older than: '' err), t)
      | None \<Rightarrow> (Inr (int (length (filter P (t_rows t)))), sql_delete P t))"

section \<open>The invariant\<close>

lemma wf_auths_empty [simp]: "wf_auths empty_table"
  by (simp add: wf_auths_def)

lemma wf_auths_update:
  "wf_auths t \<Longrightarrow> (\<And>r. au_id (f r) = au_id r \<and> au_room_id (f r) = au_room_id r) \<Longrightarrow>
   wf_auths (sql_update P f t)"
  by (simp add: wf_auths_def ids_ok_update unique_key_map)

lemma wf_auths_delete: "wf_auths t \<Longrightarrow> wf_auths (sql_delete P t)"
  by (simp add: wf_auths_def ids_ok_delete unique_key_filter)

lemma wf_SaveAuth: "wf_auths t \<Longrightarrow> wf_auths (snd (SaveAuth fault rid ci key lu t))"
  by (auto simp: SaveAuth_def intro!: wf_auths_update split: option.split)
    (auto simp: wf_auths_def unique_key_append intro!: ids_ok_insert)

lemma wf_auth_changes:
  assumes "wf_auths t"
  shows "wf_auths (snd (DeleteAuth fault rid t))" "wf_auths (snd (SoftDeleteAuth fault rid t))"
    "wf_auths (snd (UpdateLastUsed fault rid lu t))" "wf_auths (snd (PurgeAuthsOlderThan fault lu t))"
  using assms
  by (auto simp: DeleteAuth_def SoftDeleteAuth_def UpdateLastUsed_def PurgeAuthsOlderThan_def Let_def
      intro!: wf_auths_update wf_auths_delete split: option.split)

text \<open>Looking up a room after an update of the table.\<close>

lemma find_map_same:
  "(\<And>r. Q (f r) = Q r) \<Longrightarrow> find Q (map f rs) = map_option f (find Q rs)"
  by (induction rs) simp_all

lemma find_map_other:
  "(\<And>r. Q (f r) = Q r) \<Longrightarrow> (\<And>r. Q r \<Longrightarrow> f r = r) \<Longrightarrow> find Q (map f rs) = find Q rs"
  by (induction rs) auto

lemma find_append_new: "find Q rs = None \<Longrightarrow> find Q (rs @ [r]) = (if Q r then Some r else None)"
  by (induction rs) (auto split: if_splits)

lemma find_append_other: "\<not> Q r \<Longrightarrow> find Q (rs @ [r]) = find Q rs"
  by (induction rs) simp_all

text \<open>What is read after a save.\<close>

lemma SaveAuth_GetAuth:
  "\<exists>t'. SaveAuth None rid ci key lu t = (None, t')
    \<and> GetAuth None rid t' = Inr \<lparr>ra_RoomID = rid, ra_ChainIndex = uint64_of ci, ra_MasterRatchetKey = key,
        ra_LastUsed = lu, ra_Tombstone = False, ra_Synced = True\<rparr>
    \<and> (\<forall>other. other \<noteq> rid \<longrightarrow> GetAuth None other t' = GetAuth None other t)"
proof (cases "\<exists>r \<in> set (t_rows t). au_room_id r = rid")
  case True
  then obtain r where r: "find (\<lambda>r. au_room_id r = rid) (t_rows t) = Some r" "au_room_id r = rid"
    by (metis (mono_tags, lifting) find_None_iff find_Some_iff not_None_eq)
  let ?f = "\<lambda>r. if au_room_id r = rid then r\<lparr>au_chain_index := ci, au_key := key, au_last_used := lu,
      au_tombstone := 0, au_synced := 1\<rparr> else r"
  have "find (\<lambda>r. au_room_id r = rid) (map ?f (t_rows t)) = Some (?f r)"
    by (subst find_map_same) (simp_all add: r)
  moreover have "find (\<lambda>r. au_room_id r = other) (map ?f (t_rows t))
      = find (\<lambda>r. au_room_id r = other) (t_rows t)" if "other \<noteq> rid" for other
    using that by (intro find_map_other) auto
  ultimately show ?thesis
    using True r by (simp add: SaveAuth_def GetAuth_def auth_of_row_def)
next
  case False
  then have "find (\<lambda>r. au_room_id r = rid) (t_rows t) = None" by (simp add: find_None_iff)
  with False show ?thesis
    by (auto simp: SaveAuth_def GetAuth_def find_append_new find_append_other auth_of_row_def)
qed

section \<open>Purging and listing\<close>

text \<open>
  Purging removes exactly the rows that are soft-deleted and last used before the date, and
  reports how many they were: a live key is never purged, however old.
\<close>

lemma purge_exact:
  "\<exists>n t'. PurgeAuthsOlderThan None before t = (Inr n, t')
    \<and> n = int (length (t_rows t)) - int (length (t_rows t'))
    \<and> (\<forall>r. r \<in> set (t_rows t') \<longleftrightarrow> r \<in> set (t_rows t) \<and> \<not> (au_tombstone r = 1 \<and> au_last_used r < before))"
proof -
  let ?P = "\<lambda>r. au_last_used r < before \<and> au_tombstone r = 1"
  have "length (filter ?P rs) + length (filter (\<lambda>r. \<not> ?P r) rs) = length rs" for rs
    by (rule sum_length_filter_compl)
  from this [of "t_rows t"] show ?thesis
    by (auto simp: PurgeAuthsOlderThan_def Let_def simp flip: of_nat_add)
qed

text \<open>
  Listing gives every room once, most recently used first, without the soft-deleted ones
  unless they are asked for.
\<close>

lemma list_auths_sorted:
  assumes "wf_auths t" "map_order met"
  shows "\<exists>as. ListAuths None met incl t = Inr as
    \<and> sorted_wrt (\<ge>) (map ra_LastUsed as) \<and> distinct (map ra_RoomID as)
    \<and> set as = auth_of_row ` {r \<in> set (t_rows t). incl \<or> au_tombstone r = 0}"
proof -
  let ?rows = "if incl then t_rows t else filter (\<lambda>r. au_tombstone r = 0) (t_rows t)"
  define l where "l = sql_order_desc met au_last_used ?rows"
  have mset: "mset l = mset ?rows"
    unfolding l_def by (rule mset_sql_order_desc [OF assms(2)])
  have "distinct (map au_room_id (t_rows t))"
    using assms(1) by (simp add: wf_auths_def unique_key_Some)
  then have "distinct (map au_room_id ?rows)"
    by (simp add: distinct_map_filter_fst)
  then have "distinct (map au_room_id l)"
    using mset by (metis mset_map mset_eq_imp_distinct_iff)
  moreover have "set l = {r \<in> set (t_rows t). incl \<or> au_tombstone r = 0}"
    using mset_eq_setD [OF mset] by auto
  moreover have "sorted_wrt (\<ge>) (map au_last_used l)"
    unfolding l_def by (rule sorted_sql_order_desc)
  moreover have "ra_LastUsed \<circ> auth_of_row = au_last_used" "ra_RoomID \<circ> auth_of_row = au_room_id"
    by (auto simp: auth_of_row_def)
  ultimately show ?thesis
    by (intro exI [of _ "map auth_of_row l"]) (simp add: ListAuths_def l_def [symmetric])
qed

end
