(* ===== verification/Session.thy ===== *)
theory Session
  imports Catch_Up_Payload Decrypt Envelope Topics Auth_Store
begin

text \<open>
  client/models_session.go, session.go and accessors.go: what a client that has logged in keeps.
  The current room and server are pointers to sessions held in the maps by identifier, so they
  are identifiers here. A joined pubsub topic is known by its full name. What the user sees is
  kept as the error dialogs and the chat lines that were added.
\<close>

section \<open>Topic collections\<close>

type_synonym topic_collection = "(string, string) gomap"

definition NewTopicCollection :: topic_collection where
  "NewTopicCollection = []"

definition GetTopic :: "string \<Rightarrow> topic_collection \<Rightarrow> string option" where
  "GetTopic name tc = mget tc name"

definition SetTopic :: "string \<Rightarrow> string \<Rightarrow> topic_collection \<Rightarrow> topic_collection" where
  "SetTopic name topic tc = mput name topic tc"

definition HasTopic :: "string \<Rightarrow> topic_collection \<Rightarrow> bool" where
  "HasTopic name tc \<longleftrightarrow> mget tc name \<noteq> None"

definition RemoveTopic :: "string \<Rightarrow> topic_collection \<Rightarrow> topic_collection" where
  "RemoveTopic name tc = AList.delete name tc"

definition GetTopics :: "topic_collection \<Rightarrow> topic_collection" where
  "GetTopics tc = tc"

section \<open>Sessions\<close>

record room_session =
  ro_RoomMeta :: "room_meta option"
  ro_RoomRatchet :: "room_ratchet option"
  ro_BackupRatchet :: "room_ratchet option"
  ro_Members :: "user list"
  ro_Messages :: "decrypted_message list"
  ro_Topics :: topic_collection

record server_session =
  ss_ServerMeta :: "server_meta option"
  ss_Topics :: topic_collection

definition NewRoomSession :: room_session where
  "NewRoomSession = \<lparr>ro_RoomMeta = None, ro_RoomRatchet = None, ro_BackupRatchet = None,
     ro_Members = [], ro_Messages = [], ro_Topics = NewTopicCollection\<rparr>"

definition NewRoomSessionWithMeta :: "room_meta option \<Rightarrow> room_session" where
  "NewRoomSessionWithMeta meta = NewRoomSession\<lparr>ro_RoomMeta := meta\<rparr>"

definition NewServerSession :: server_session where
  "NewServerSession = \<lparr>ss_ServerMeta = None, ss_Topics = NewTopicCollection\<rparr>"

definition NewServerSessionWithMeta :: "server_meta option \<Rightarrow> server_session" where
  "NewServerSessionWithMeta meta = NewServerSession\<lparr>ss_ServerMeta := meta\<rparr>"

definition SetInitialRatchet :: "room_ratchet option \<Rightarrow> room_session \<Rightarrow> room_session" where
  "SetInitialRatchet ratchet rs = rs\<lparr>ro_RoomRatchet := ratchet, ro_BackupRatchet := Clone ratchet\<rparr>"

section \<open>The client\<close>

record client =
  cli_User :: user
  cli_DilithiumPriv :: slice
  cli_HostID :: string
  cli_HubID :: string
  cli_Servers :: "(string, server_session) gomap"
  cli_Rooms :: "(string, room_session) gomap"
  cli_Server :: "string option"
  cli_Room :: "string option"
  cli_History :: "(messageWriteRequest, history) worker"
  cli_Peers :: "(user, peer_table) worker"
  cli_Auth :: auth_table
  cli_Dialogs :: "(string \<times> string) list"
  cli_Lines :: "string list"

definition cur_room :: "client \<Rightarrow> room_session option" where
  "cur_room c = Option.bind (cli_Room c) (mget (cli_Rooms c))"

definition cur_server :: "client \<Rightarrow> server_session option" where
  "cur_server c = Option.bind (cli_Server c) (mget (cli_Servers c))"

text \<open>A write through the pointer to the current room.\<close>

definition upd_room :: "(room_session \<Rightarrow> room_session) \<Rightarrow> client \<Rightarrow> client" where
  "upd_room f c =
     (case (cli_Room c, cur_room c) of
        (Some k, Some r) \<Rightarrow> c\<lparr>cli_Rooms := mput k (f r) (cli_Rooms c)\<rparr> | _ \<Rightarrow> c)"

definition ShowError :: "string \<Rightarrow> string \<Rightarrow> client \<Rightarrow> client" where
  "ShowError title msg c = c\<lparr>cli_Dialogs := cli_Dialogs c @ [(title, msg)]\<rparr>"

text \<open>The tables the store of the session holds; messages are those of the history manager.\<close>

abbreviation cli_db :: "client \<Rightarrow> msg_table" where
  "cli_db c \<equiv> hi_db (wk_target (cli_History c))"

abbreviation cli_peer_db :: "client \<Rightarrow> peer_table" where
  "cli_peer_db c \<equiv> wk_target (cli_Peers c)"

text \<open>A statement of the store run by the client itself, not by the write queue.\<close>

definition set_cli_db :: "msg_table \<Rightarrow> client \<Rightarrow> client" where
  "set_cli_db t c =
     c\<lparr>cli_History := (cli_History c)\<lparr>wk_target := (wk_target (cli_History c))\<lparr>hi_db := t\<rparr>\<rparr>\<rparr>"

section \<open>Accessors\<close>

definition need :: "'a option \<Rightarrow> 'a go" where
  "need p = (case p of None \<Rightarrow> Panic Nil_Dereference | Some x \<Rightarrow> Ret x)"

definition GetServerName :: "client \<Rightarrow> string go" where
  "GetServerName c =
     (case cur_server c of None \<Rightarrow> Ret ''NO SERVER JOINED''
      | Some s \<Rightarrow> go_bind (need (ss_ServerMeta s)) (\<lambda>m. Ret (sm_Name m)))"

definition GetServerID :: "client \<Rightarrow> string go" where
  "GetServerID c =
     (case cur_server c of None \<Rightarrow> Ret ''NO SERVER JOINED''
      | Some s \<Rightarrow> go_bind (need (ss_ServerMeta s)) (\<lambda>m. Ret (sm_ID m)))"

definition GetRoomName :: "client \<Rightarrow> string go" where
  "GetRoomName c =
     (case cur_room c of None \<Rightarrow> Ret ''NO SERVER JOINED''
      | Some r \<Rightarrow> go_bind (need (ro_RoomMeta r)) (\<lambda>m. Ret (rm_Name m)))"

definition GetRoomID :: "client \<Rightarrow> string go" where
  "GetRoomID c =
     (case cur_room c of None \<Rightarrow> Ret ''NO SERVER JOINED''
      | Some r \<Rightarrow> go_bind (need (ro_RoomMeta r)) (\<lambda>m. Ret (rm_ID m)))"

section \<open>Reading back\<close>

lemma need_simps [simp]: "need (Some x) = Ret x" "need None = Panic Nil_Dereference"
  by (simp_all add: need_def)

lemma topic_simps [simp]:
  "\<not> HasTopic name NewTopicCollection" "HasTopic name (SetTopic name' t tc) \<longleftrightarrow> name = name' \<or> HasTopic name tc"
  "GetTopic name (SetTopic name' t tc) = (if name = name' then Some t else GetTopic name tc)"
  by (auto simp: HasTopic_def GetTopic_def SetTopic_def NewTopicCollection_def map_simps)

lemma cur_room_upd [simp]: "cur_room (upd_room f c) = map_option f (cur_room c)"
  by (auto simp: cur_room_def upd_room_def map_simps split: option.split bind_splits)

lemma upd_room_fields [simp]:
  "cli_User (upd_room f c) = cli_User c" "cli_DilithiumPriv (upd_room f c) = cli_DilithiumPriv c"
  "cli_Servers (upd_room f c) = cli_Servers c" "cli_Server (upd_room f c) = cli_Server c"
  "cli_Room (upd_room f c) = cli_Room c" "cli_History (upd_room f c) = cli_History c"
  "cli_Peers (upd_room f c) = cli_Peers c" "cli_Auth (upd_room f c) = cli_Auth c"
  "cli_Dialogs (upd_room f c) = cli_Dialogs c" "cli_Lines (upd_room f c) = cli_Lines c"
  "cli_HostID (upd_room f c) = cli_HostID c" "cli_HubID (upd_room f c) = cli_HubID c"
  by (simp_all add: upd_room_def split: option.split)

text \<open>An update of a field that is not about rooms.\<close>

lemma cur_room_simps [simp]:
  "cur_room (c\<lparr>cli_History := h\<rparr>) = cur_room c" "cur_room (c\<lparr>cli_Peers := p\<rparr>) = cur_room c"
  "cur_room (c\<lparr>cli_Lines := l\<rparr>) = cur_room c" "cur_room (ShowError t m c) = cur_room c"
  "cur_room (set_cli_db d c) = cur_room c" "cur_room (c\<lparr>cli_Server := s, cli_Servers := ss\<rparr>) = cur_room c"
  by (simp_all add: cur_room_def ShowError_def set_cli_db_def)

lemma ShowError_fields [simp]:
  "cli_History (ShowError t m c) = cli_History c" "cli_Peers (ShowError t m c) = cli_Peers c"
  "cli_Room (ShowError t m c) = cli_Room c" "cli_User (ShowError t m c) = cli_User c"
  "cli_Dialogs (ShowError t m c) = cli_Dialogs c @ [(t, m)]" "cli_Lines (ShowError t m c) = cli_Lines c"
  by (simp_all add: ShowError_def)

lemma cur_server_cong:
  "cli_Server c = cli_Server c' \<Longrightarrow> cli_Servers c = cli_Servers c' \<Longrightarrow> cur_server c = cur_server c'"
  by (simp add: cur_server_def)

lemma cur_server_simps [simp]:
  "cur_server (upd_room f c) = cur_server c" "cur_server (c\<lparr>cli_History := h\<rparr>) = cur_server c"
  "cur_server (c\<lparr>cli_Lines := l\<rparr>) = cur_server c" "cur_server (ShowError t m c) = cur_server c"
  "cur_server (set_cli_db d c) = cur_server c"
  by (simp_all add: cur_server_def ShowError_def set_cli_db_def)

end
