(* ===== verification/Rpc_Codec.thy ===== *)
theory Rpc_Codec
  imports Model_Codec
begin

text \<open>
  The JSON form of the hub's requests (internal/models/rpc_proto.go) and of the envelope that
  carries a method name and raw parameters: the client side writes it (client/rpc.go), the hub
  reads it (hub/server.go), and what the hub reads is what the client meant.
\<close>

section \<open>Requests\<close>

definition enc_create_server_request :: "create_server_request \<Rightarrow> json" where
  "enc_create_server_request x = JObj
    ([jmember ''name'' (enc_string (csr_Name x))]
     @ [jmember ''visibility'' (enc_int (csr_Visibility x))]
     @ [jmember ''description'' (enc_string (csr_Description x))]
     @ omitempty (slice_bytes (csr_PasswordHash x) = []) (jmember ''password_hash'' (enc_bytes (csr_PasswordHash x)))
     @ omitempty (slice_bytes (csr_PasswordSalt x) = []) (jmember ''password_salt'' (enc_bytes (csr_PasswordSalt x)))
     @ [jmember ''creator'' (enc_user (csr_Creator x))])"

definition create_server_request_fields :: "create_server_request field_decoder list" where
  "create_server_request_fields =
    [(''name'', on_field dec_string csr_Name (\<lambda>y. csr_Name_update (\<lambda>_. y))),
     (''visibility'', on_field dec_int64 csr_Visibility (\<lambda>y. csr_Visibility_update (\<lambda>_. y))),
     (''description'', on_field dec_string csr_Description (\<lambda>y. csr_Description_update (\<lambda>_. y))),
     (''password_hash'', on_field dec_bytes csr_PasswordHash
        (\<lambda>y. csr_PasswordHash_update (\<lambda>_. y))),
     (''password_salt'', on_field dec_bytes csr_PasswordSalt
        (\<lambda>y. csr_PasswordSalt_update (\<lambda>_. y))),
     (''creator'', on_field dec_user csr_Creator (\<lambda>y. csr_Creator_update (\<lambda>_. y)))]"

definition zero_create_server_request :: create_server_request where
  "zero_create_server_request = \<lparr>csr_Name = [], csr_Visibility = 0, csr_Description = [], csr_PasswordHash = None, csr_PasswordSalt = None, csr_Creator = zero_user\<rparr>"

definition dec_create_server_request :: "create_server_request decoder" where
  "dec_create_server_request = dec_struct create_server_request_fields"

definition wf_create_server_request :: "create_server_request \<Rightarrow> bool" where
  "wf_create_server_request x \<longleftrightarrow>
     utf8_valid (csr_Name x)
     \<and> in_int64 (csr_Visibility x)
     \<and> utf8_valid (csr_Description x)
     \<and> csr_PasswordHash x \<noteq> Some []
     \<and> csr_PasswordSalt x \<noteq> Some []
     \<and> wf_user (csr_Creator x)"

lemma dec_enc_create_server_request [codec_simps]:
  "wf_create_server_request x \<Longrightarrow> dec_create_server_request (enc_create_server_request x) zero_create_server_request = (True, x)"
  by (cases "csr_PasswordHash x"; cases "csr_PasswordSalt x";
    simp_all add: dec_create_server_request_def enc_create_server_request_def create_server_request_fields_def
      zero_create_server_request_def wf_create_server_request_def codec_simps)

lemma wf_enc_create_server_request [wf_codec]: "wf_create_server_request x \<Longrightarrow> wf_json (enc_create_server_request x)"
  by (auto simp add: enc_create_server_request_def wf_create_server_request_def omitempty_def wf_codec utf8_valid_ascii)

definition enc_list_rooms_request :: "list_rooms_request \<Rightarrow> json" where
  "enc_list_rooms_request x = JObj
    ([jmember ''server_id'' (enc_string (lrr_ServerID x))])"

definition list_rooms_request_fields :: "list_rooms_request field_decoder list" where
  "list_rooms_request_fields =
    [(''server_id'', on_field dec_string lrr_ServerID (\<lambda>y. lrr_ServerID_update (\<lambda>_. y)))]"

definition zero_list_rooms_request :: list_rooms_request where
  "zero_list_rooms_request = \<lparr>lrr_ServerID = []\<rparr>"

definition dec_list_rooms_request :: "list_rooms_request decoder" where
  "dec_list_rooms_request = dec_struct list_rooms_request_fields"

definition wf_list_rooms_request :: "list_rooms_request \<Rightarrow> bool" where
  "wf_list_rooms_request x \<longleftrightarrow>
     utf8_valid (lrr_ServerID x)"

lemma dec_enc_list_rooms_request [codec_simps]:
  "wf_list_rooms_request x \<Longrightarrow> dec_list_rooms_request (enc_list_rooms_request x) zero_list_rooms_request = (True, x)"
  by (simp add: dec_list_rooms_request_def enc_list_rooms_request_def list_rooms_request_fields_def
      zero_list_rooms_request_def wf_list_rooms_request_def codec_simps)

lemma wf_enc_list_rooms_request [wf_codec]: "wf_list_rooms_request x \<Longrightarrow> wf_json (enc_list_rooms_request x)"
  by (auto simp add: enc_list_rooms_request_def wf_list_rooms_request_def omitempty_def wf_codec utf8_valid_ascii)

definition enc_create_room_request :: "create_room_request \<Rightarrow> json" where
  "enc_create_room_request x = JObj
    ([jmember ''server_id'' (enc_string (crr_ServerID x))]
     @ [jmember ''room_name'' (enc_string (crr_RoomName x))]
     @ [jmember ''visibility'' (enc_int (crr_Visibility x))]
     @ omitempty (slice_bytes (crr_PasswordHash x) = []) (jmember ''password_hash'' (enc_bytes (crr_PasswordHash x)))
     @ omitempty (slice_bytes (crr_PasswordSalt x) = []) (jmember ''password_salt'' (enc_bytes (crr_PasswordSalt x)))
     @ omitempty (slice_bytes (crr_EncRoomKey x) = []) (jmember ''enc_room_key'' (enc_bytes (crr_EncRoomKey x))))"

definition create_room_request_fields :: "create_room_request field_decoder list" where
  "create_room_request_fields =
    [(''server_id'', on_field dec_string crr_ServerID (\<lambda>y. crr_ServerID_update (\<lambda>_. y))),
     (''room_name'', on_field dec_string crr_RoomName (\<lambda>y. crr_RoomName_update (\<lambda>_. y))),
     (''visibility'', on_field dec_int64 crr_Visibility (\<lambda>y. crr_Visibility_update (\<lambda>_. y))),
     (''password_hash'', on_field dec_bytes crr_PasswordHash
        (\<lambda>y. crr_PasswordHash_update (\<lambda>_. y))),
     (''password_salt'', on_field dec_bytes crr_PasswordSalt
        (\<lambda>y. crr_PasswordSalt_update (\<lambda>_. y))),
     (''enc_room_key'', on_field dec_bytes crr_EncRoomKey (\<lambda>y. crr_EncRoomKey_update (\<lambda>_. y)))]"

definition zero_create_room_request :: create_room_request where
  "zero_create_room_request = \<lparr>crr_ServerID = [], crr_RoomName = [], crr_Visibility = 0, crr_PasswordHash = None, crr_PasswordSalt = None, crr_EncRoomKey = None\<rparr>"

definition dec_create_room_request :: "create_room_request decoder" where
  "dec_create_room_request = dec_struct create_room_request_fields"

definition wf_create_room_request :: "create_room_request \<Rightarrow> bool" where
  "wf_create_room_request x \<longleftrightarrow>
     utf8_valid (crr_ServerID x)
     \<and> utf8_valid (crr_RoomName x)
     \<and> in_int64 (crr_Visibility x)
     \<and> crr_PasswordHash x \<noteq> Some []
     \<and> crr_PasswordSalt x \<noteq> Some []
     \<and> crr_EncRoomKey x \<noteq> Some []"

lemma dec_enc_create_room_request [codec_simps]:
  "wf_create_room_request x \<Longrightarrow> dec_create_room_request (enc_create_room_request x) zero_create_room_request = (True, x)"
  by (cases "crr_PasswordHash x"; cases "crr_PasswordSalt x"; cases "crr_EncRoomKey x";
    simp_all add: dec_create_room_request_def enc_create_room_request_def create_room_request_fields_def
      zero_create_room_request_def wf_create_room_request_def codec_simps)

lemma wf_enc_create_room_request [wf_codec]: "wf_create_room_request x \<Longrightarrow> wf_json (enc_create_room_request x)"
  by (auto simp add: enc_create_room_request_def wf_create_room_request_def omitempty_def wf_codec utf8_valid_ascii)

definition enc_join_server_request :: "join_server_request \<Rightarrow> json" where
  "enc_join_server_request x = JObj
    ([jmember ''server_id'' (enc_string (jsr_ServerID x))]
     @ omitempty (slice_bytes (jsr_PasswordHash x) = []) (jmember ''password_hash'' (enc_bytes (jsr_PasswordHash x))))"

definition join_server_request_fields :: "join_server_request field_decoder list" where
  "join_server_request_fields =
    [(''server_id'', on_field dec_string jsr_ServerID (\<lambda>y. jsr_ServerID_update (\<lambda>_. y))),
     (''password_hash'', on_field dec_bytes jsr_PasswordHash
        (\<lambda>y. jsr_PasswordHash_update (\<lambda>_. y)))]"

definition zero_join_server_request :: join_server_request where
  "zero_join_server_request = \<lparr>jsr_ServerID = [], jsr_PasswordHash = None\<rparr>"

definition dec_join_server_request :: "join_server_request decoder" where
  "dec_join_server_request = dec_struct join_server_request_fields"

definition wf_join_server_request :: "join_server_request \<Rightarrow> bool" where
  "wf_join_server_request x \<longleftrightarrow>
     utf8_valid (jsr_ServerID x)
     \<and> jsr_PasswordHash x \<noteq> Some []"

lemma dec_enc_join_server_request [codec_simps]:
  "wf_join_server_request x \<Longrightarrow> dec_join_server_request (enc_join_server_request x) zero_join_server_request = (True, x)"
  by (cases "jsr_PasswordHash x";
    simp_all add: dec_join_server_request_def enc_join_server_request_def join_server_request_fields_def
      zero_join_server_request_def wf_join_server_request_def codec_simps)

lemma wf_enc_join_server_request [wf_codec]: "wf_join_server_request x \<Longrightarrow> wf_json (enc_join_server_request x)"
  by (auto simp add: enc_join_server_request_def wf_join_server_request_def omitempty_def wf_codec utf8_valid_ascii)

definition enc_join_room_request :: "join_room_request \<Rightarrow> json" where
  "enc_join_room_request x = JObj
    ([jmember ''server_id'' (enc_string (jrr_ServerID x))]
     @ [jmember ''room_id'' (enc_string (jrr_RoomID x))]
     @ omitempty (slice_bytes (jrr_PasswordHash x) = []) (jmember ''password_hash'' (enc_bytes (jrr_PasswordHash x)))
     @ [jmember ''sender'' (enc_user (jrr_Sender x))])"

definition join_room_request_fields :: "join_room_request field_decoder list" where
  "join_room_request_fields =
    [(''server_id'', on_field dec_string jrr_ServerID (\<lambda>y. jrr_ServerID_update (\<lambda>_. y))),
     (''room_id'', on_field dec_string jrr_RoomID (\<lambda>y. jrr_RoomID_update (\<lambda>_. y))),
     (''password_hash'', on_field dec_bytes jrr_PasswordHash
        (\<lambda>y. jrr_PasswordHash_update (\<lambda>_. y))),
     (''sender'', on_field dec_user jrr_Sender (\<lambda>y. jrr_Sender_update (\<lambda>_. y)))]"

definition zero_join_room_request :: join_room_request where
  "zero_join_room_request = \<lparr>jrr_ServerID = [], jrr_RoomID = [], jrr_PasswordHash = None, jrr_Sender = zero_user\<rparr>"

definition dec_join_room_request :: "join_room_request decoder" where
  "dec_join_room_request = dec_struct join_room_request_fields"

definition wf_join_room_request :: "join_room_request \<Rightarrow> bool" where
  "wf_join_room_request x \<longleftrightarrow>
     utf8_valid (jrr_ServerID x)
     \<and> utf8_valid (jrr_RoomID x)
     \<and> jrr_PasswordHash x \<noteq> Some []
     \<and> wf_user (jrr_Sender x)"

lemma dec_enc_join_room_request [codec_simps]:
  "wf_join_room_request x \<Longrightarrow> dec_join_room_request (enc_join_room_request x) zero_join_room_request = (True, x)"
  by (cases "jrr_PasswordHash x";
    simp_all add: dec_join_room_request_def enc_join_room_request_def join_room_request_fields_def
      zero_join_room_request_def wf_join_room_request_def codec_simps)

lemma wf_enc_join_room_request [wf_codec]: "wf_join_room_request x \<Longrightarrow> wf_json (enc_join_room_request x)"
  by (auto simp add: enc_join_room_request_def wf_join_room_request_def omitempty_def wf_codec utf8_valid_ascii)

definition enc_list_room_members_request :: "list_room_members_request \<Rightarrow> json" where
  "enc_list_room_members_request x = JObj
    ([jmember ''server_id'' (enc_string (lmr_ServerID x))]
     @ [jmember ''room_id'' (enc_string (lmr_RoomID x))])"

definition list_room_members_request_fields :: "list_room_members_request field_decoder list" where
  "list_room_members_request_fields =
    [(''server_id'', on_field dec_string lmr_ServerID (\<lambda>y. lmr_ServerID_update (\<lambda>_. y))),
     (''room_id'', on_field dec_string lmr_RoomID (\<lambda>y. lmr_RoomID_update (\<lambda>_. y)))]"

definition zero_list_room_members_request :: list_room_members_request where
  "zero_list_room_members_request = \<lparr>lmr_ServerID = [], lmr_RoomID = []\<rparr>"

definition dec_list_room_members_request :: "list_room_members_request decoder" where
  "dec_list_room_members_request = dec_struct list_room_members_request_fields"

definition wf_list_room_members_request :: "list_room_members_request \<Rightarrow> bool" where
  "wf_list_room_members_request x \<longleftrightarrow>
     utf8_valid (lmr_ServerID x)
     \<and> utf8_valid (lmr_RoomID x)"

lemma dec_enc_list_room_members_request [codec_simps]:
  "wf_list_room_members_request x \<Longrightarrow> dec_list_room_members_request (enc_list_room_members_request x) zero_list_room_members_request = (True, x)"
  by (simp add: dec_list_room_members_request_def enc_list_room_members_request_def list_room_members_request_fields_def
      zero_list_room_members_request_def wf_list_room_members_request_def codec_simps)

lemma wf_enc_list_room_members_request [wf_codec]: "wf_list_room_members_request x \<Longrightarrow> wf_json (enc_list_room_members_request x)"
  by (auto simp add: enc_list_room_members_request_def wf_list_room_members_request_def omitempty_def wf_codec utf8_valid_ascii)

section \<open>The request envelope\<close>

record rpc_env =
  he_Method :: string
  he_Params :: string

definition zero_rpc_env :: rpc_env where
  "zero_rpc_env = \<lparr>he_Method = [], he_Params = []\<rparr>"

definition rpc_env_fields :: "rpc_env field_decoder list" where
  "rpc_env_fields =
    [(''method'', on_field dec_string he_Method (\<lambda>y. he_Method_update (\<lambda>_. y))),
     (''params'', raw_field (\<lambda>y. he_Params_update (\<lambda>_. y)))]"

definition dec_rpc_env :: "rpc_env decoder" where
  "dec_rpc_env = dec_struct rpc_env_fields"

definition enc_rpc_request :: "string \<Rightarrow> json \<Rightarrow> json" where
  "enc_rpc_request method params =
     JObj [jmember ''method'' (enc_string method), jmember ''params'' params]"

text \<open>What \<open>Node.SendRPC\<close> writes to the stream: the JSON encoder ends a value with a newline.\<close>

definition rpc_text :: "string \<Rightarrow> json \<Rightarrow> string" where
  "rpc_text method params = jprint (enc_rpc_request method params) @ [CHR 0x0A]"

lemma dec_enc_rpc_request [codec_simps]:
  "dec_rpc_env (enc_rpc_request m p) old = (True, \<lparr>he_Method = m, he_Params = jprint p\<rparr>)"
  by (simp add: dec_rpc_env_def enc_rpc_request_def rpc_env_fields_def codec_simps)

lemma wf_enc_rpc_request [wf_codec]:
  "wf_json (enc_rpc_request m p) \<longleftrightarrow> utf8_valid m \<and> wf_json p"
  by (simp add: enc_rpc_request_def wf_codec utf8_valid_ascii)

lemma json_decode_rpc_text:
  "utf8_valid m \<Longrightarrow> wf_json p \<Longrightarrow> json_decode (rpc_text m p) = Some (enc_rpc_request m p, [CHR 0x0A])"
proof -
  have "value_end [CHR 0x0A]" by (simp add: value_end_def is_digit_def)
  moreover assume "utf8_valid m" "wf_json p"
  ultimately show ?thesis
    using wf_json_reads_back [of "enc_rpc_request m p"]
    by (simp add: reads_back_def rpc_text_def json_decode_def wf_codec)
qed

end
