(* ===== verification/Client_Rpc.thy ===== *)
theory Client_Rpc
  imports Session Rpc_Codec
begin

text \<open>
  client/rpc.go: the requests to the hub. \<open>Node.SendRPC\<close> is an argument: from the method and the
  parameters to an error or the decoded response, which for the responses with an error field
  is a pair. What it writes is \<open>rpc_text\<close>.
\<close>

type_synonym 'a rpc = "string \<Rightarrow> json \<Rightarrow> 'a result"

definition requestServers :: "server_meta list rpc \<Rightarrow> server_meta list result" where
  "requestServers rpc = rpc ''ListServers'' (JObj [])"

definition requestCreateServer :: "string rpc \<Rightarrow> create_server_request \<Rightarrow> string result" where
  "requestCreateServer rpc req = rpc ''CreateServer'' (enc_create_server_request req)"

definition requestCreateRoom :: "(string \<times> string) rpc \<Rightarrow> create_room_request \<Rightarrow> string result" where
  "requestCreateRoom rpc req =
     (case rpc ''CreateRoom'' (enc_create_room_request req) of
        Inl err \<Rightarrow> Inl err
      | Inr (rid, e) \<Rightarrow> if e \<noteq> [] then Inl (Errorf e) else Inr rid)"

definition requestRooms :: "(room_meta list \<times> string) rpc \<Rightarrow> string \<Rightarrow> (room_meta list \<times> string) result" where
  "requestRooms rpc serverID = rpc ''ListRooms'' (enc_list_rooms_request \<lparr>lrr_ServerID = serverID\<rparr>)"

text \<open>A response without a server is read through the nil pointer, for the log.\<close>

definition requestJoinServer ::
  "(server_meta option \<times> string) rpc \<Rightarrow> string \<Rightarrow> string \<Rightarrow> client \<Rightarrow> (go_error option \<times> client) go"
where
  "requestJoinServer rpc serverID pass c =
     (let req = \<lparr>jsr_ServerID = serverID, jsr_PasswordHash = Some (HashPassword pass)\<rparr> in
      case rpc ''JoinServer'' (enc_join_server_request req) of
        Inl err \<Rightarrow> Ret (Some err, c)
      | Inr (server, e) \<Rightarrow>
          if e \<noteq> [] then Ret (Some (Errorf (''failed to join server: '' @ e)), c)
          else
            go_bind (need server) (\<lambda>s.
              Ret (None, c\<lparr>cli_Servers := mput (sm_ID s) (NewServerSessionWithMeta (Some s)) (cli_Servers c),
                cli_Server := Some (sm_ID s)\<rparr>)))"

text \<open>A session that is there already is kept.\<close>

definition add_room_session :: "room_meta \<Rightarrow> (string, room_session) gomap \<Rightarrow> (string, room_session) gomap" where
  "add_room_session r rooms =
     (if mget rooms (rm_ID r) \<noteq> None then rooms
      else mput (rm_ID r) (NewRoomSessionWithMeta (Some r)) rooms)"

definition requestJoinRoom ::
  "(room_meta option \<times> string) rpc \<Rightarrow> string \<Rightarrow> string \<Rightarrow> client \<Rightarrow> (go_error option \<times> client) go"
where
  "requestJoinRoom rpc roomID pass c =
     go_bind (GetServerID c) (\<lambda>sid.
       if sid = [] then Ret (Some (Errorf ''no server joined, cannot join room''), c)
       else
         (let req = \<lparr>jrr_ServerID = sid, jrr_RoomID = roomID, jrr_PasswordHash = Some (HashPassword pass),
              jrr_Sender = cli_User c\<rparr> in
          case rpc ''JoinRoom'' (enc_join_room_request req) of
            Inl err \<Rightarrow> Ret (Some err, c)
          | Inr (room, e) \<Rightarrow>
              if e \<noteq> [] then Ret (Some (Errorf e), c)
              else
                go_bind (need room) (\<lambda>r.
                  Ret (None, c\<lparr>cli_Rooms := add_room_session r (cli_Rooms c), cli_Room := Some (rm_ID r)\<rparr>))))"

definition requestListRoomMembers :: "(member list \<times> string) rpc \<Rightarrow> client \<Rightarrow> member list result go" where
  "requestListRoomMembers rpc c =
     (if cur_room c = None then Ret (Inl (Errorf ''no room joined, cannot list members''))
      else
        go_bind (GetServerID c) (\<lambda>sid. go_bind (GetRoomID c) (\<lambda>rid.
          Ret (case rpc ''ListRoomMembers''
                 (enc_list_room_members_request \<lparr>lmr_ServerID = sid, lmr_RoomID = rid\<rparr>) of
                 Inl err \<Rightarrow> Inl err
               | Inr (ms, e) \<Rightarrow> if e \<noteq> [] then Inl (Errorf e) else Inr ms))))"

section \<open>Sessions with metadata\<close>

text \<open>
  Every session the client holds was made from a response with its metadata, under the identifier
  that metadata has, and the current ones are held: then no accessor meets a nil pointer.
\<close>

definition sessions_ok :: "client \<Rightarrow> bool" where
  "sessions_ok c \<longleftrightarrow>
     (\<forall>k s. mget (cli_Servers c) k = Some s \<longrightarrow> (\<exists>m. ss_ServerMeta s = Some m \<and> sm_ID m = k))
     \<and> (\<forall>k r. mget (cli_Rooms c) k = Some r \<longrightarrow> (\<exists>m. ro_RoomMeta r = Some m \<and> rm_ID m = k))
     \<and> (\<forall>k. cli_Server c = Some k \<longrightarrow> mget (cli_Servers c) k \<noteq> None)
     \<and> (\<forall>k. cli_Room c = Some k \<longrightarrow> mget (cli_Rooms c) k \<noteq> None)"

lemma GetServerID_ok:
  assumes "sessions_ok c"
  shows "GetServerID c = Ret (case cli_Server c of None \<Rightarrow> ''NO SERVER JOINED'' | Some k \<Rightarrow> k)"
  using assms by (fastforce simp: sessions_ok_def GetServerID_def cur_server_def split: option.split bind_split)

lemma GetRoomID_ok:
  assumes "sessions_ok c"
  shows "GetRoomID c = Ret (case cli_Room c of None \<Rightarrow> ''NO SERVER JOINED'' | Some k \<Rightarrow> k)"
  using assms by (fastforce simp: sessions_ok_def GetRoomID_def cur_room_def split: option.split bind_split)

lemma sessions_ok_upd_room:
  assumes "sessions_ok c" "\<And>r. ro_RoomMeta (f r) = ro_RoomMeta r"
  shows "sessions_ok (upd_room f c)"
  using assms
  by (auto simp: sessions_ok_def upd_room_def cur_room_def map_simps split: option.split bind_split)

lemma sessions_ok_requestJoinServer:
  assumes "sessions_ok c" "requestJoinServer rpc sid pass c = Ret (e, c')"
  shows "sessions_ok c'"
  using assms
  by (auto simp: requestJoinServer_def Let_def need_def sessions_ok_def map_simps
      NewServerSessionWithMeta_def outcome_simps split: sum.splits if_splits option.splits)

lemma add_room_session_get:
  "mget (add_room_session r rooms) k =
    (if k = rm_ID r \<and> mget rooms k = None then Some (NewRoomSessionWithMeta (Some r)) else mget rooms k)"
  by (auto simp: add_room_session_def map_simps)

lemma requestJoinRoom_cases:
  assumes "requestJoinRoom rpc rid pass c = Ret (e, c')"
  obtains (no) err where "e = Some err" "c' = c"
  | (yes) r where "e = None"
      "c' = c\<lparr>cli_Rooms := add_room_session r (cli_Rooms c), cli_Room := Some (rm_ID r)\<rparr>"
  using assms
  by (auto simp: requestJoinRoom_def Let_def need_def outcome_simps split: sum.splits if_splits option.splits)

lemma sessions_ok_requestJoinRoom:
  assumes "sessions_ok c" "requestJoinRoom rpc rid pass c = Ret (e, c')"
  shows "sessions_ok c'"
  using assms(2)
proof (cases rule: requestJoinRoom_cases)
  case (yes r)
  with assms(1) show ?thesis
    by (auto simp: sessions_ok_def add_room_session_get NewRoomSessionWithMeta_def)
qed (use assms(1) in simp)

end
