(* ===== verification/Pretty_Time.thy ===== *)
theory Pretty_Time
  imports Json_Codec
begin

text \<open>
  \<open>FormatPrettyTime\<close> of internal/utils/misc.go. The calendar of the local time zone is the standard
  library's and an argument: what a point in time, the present and yesterday are in it.
\<close>

record calendar =
  ca_year :: int
  ca_month :: nat
  ca_day :: nat
  ca_hour :: nat
  ca_minute :: nat

definition two_digits :: "nat \<Rightarrow> string" where
  "two_digits n = (if n < 10 then ''0'' @ nat_literal n else nat_literal n)"

text \<open>The layouts \<open>15:04\<close> and \<open>Jan\<close>.\<close>

definition clock_time :: "calendar \<Rightarrow> string" where
  "clock_time t = two_digits (ca_hour t) @ '':'' @ two_digits (ca_minute t)"

definition month_name :: "calendar \<Rightarrow> string" where
  "month_name t =
     [''Jan'', ''Feb'', ''Mar'', ''Apr'', ''May'', ''Jun'', ''Jul'', ''Aug'', ''Sep'', ''Oct'',
      ''Nov'', ''Dec''] ! ((ca_month t - 1) mod 12)"

definition same_date :: "calendar \<Rightarrow> calendar \<Rightarrow> bool" where
  "same_date a b \<longleftrightarrow> ca_year a = ca_year b \<and> ca_month a = ca_month b \<and> ca_day a = ca_day b"

definition FormatPrettyTime :: "calendar \<Rightarrow> calendar \<Rightarrow> calendar \<Rightarrow> string" where
  "FormatPrettyTime now yesterday t =
     (if same_date t now then ''Today '' @ clock_time t
      else if same_date t yesterday then ''Yesterday '' @ clock_time t
      else if ca_year t = ca_year now
      then month_name t @ '' '' @ nat_literal (ca_day t) @ '' '' @ clock_time t
      else literal_of_int (ca_year t) @ '' '' @ month_name t @ '' '' @ two_digits (ca_day t) @ '' '' @ clock_time t)"

end
