(* ===== verification/Chat.thy ===== *)
theory Chat
  imports Client_Rpc Pretty_Time
begin

text \<open>
  client/chat.go with \<open>parseAndDisplayDBMessages\<close> of handlers.go: sending a message, the body of
  the loop that receives them, and showing what the database has. What the outside decides (the
  clock, the calendar, random draws, joining, subscribing and publishing, failures of the
  engine) is a \<open>client_env\<close>. A result of \<open>None\<close> is a call that never returns.
\<close>

record client_env =
  ce_lib :: crypto_lib
  ce_now :: int
  ce_calendar :: "int \<Rightarrow> calendar"
  ce_yesterday :: calendar
  ce_draw :: nat
  ce_join :: "string \<Rightarrow> go_error option"
  ce_subscribe :: "string \<Rightarrow> go_error option"
  ce_publish :: "string \<Rightarrow> go_error option"
  ce_fault :: fault
  ce_user_fault :: "string \<Rightarrow> fault"
  ce_met :: "message_row list \<Rightarrow> message_row list"
  ce_gzip :: gzip_lib
  ce_save_fault :: "stored_message \<Rightarrow> fault"
  ce_auth_fault :: fault

text \<open>An error (or none) with the client after the call.\<close>

type_synonym client_result = "(go_error option \<times> client) go option"

text \<open>A loop over messages that ends with the first error.\<close>

fun client_loop :: "('m \<Rightarrow> client \<Rightarrow> client_result) \<Rightarrow> 'm list \<Rightarrow> client \<Rightarrow> client_result" where
  "client_loop step [] c = Some (Ret (None, c))"
| "client_loop step (m # ms) c =
     (case step m c of Some (Ret (None, c1)) \<Rightarrow> client_loop step ms c1 | r \<Rightarrow> r)"

section \<open>Showing a message\<close>

definition chat_line :: "client_env \<Rightarrow> int \<Rightarrow> user \<Rightarrow> string \<Rightarrow> string" where
  "chat_line E timestamp sender content =
     (let formattedTime = FormatPrettyTime (ce_calendar E (ce_now E)) (ce_yesterday E) (ce_calendar E timestamp);
          prefColor = (if Contains BaseXtermAnsiColorNames (u_PreferredColor sender)
                       then u_PreferredColor sender else GenerateRandomColor (ce_draw E))
      in ''[yellow]['' @ formattedTime @ ''] ['' @ prefColor @ '']'' @ u_Username sender @ '':[white] '' @ content)"

definition DisplayMessage :: "client_env \<Rightarrow> int \<Rightarrow> user \<Rightarrow> decrypted_message \<Rightarrow> client \<Rightarrow> client" where
  "DisplayMessage E timestamp sender decMsg c =
     c\<lparr>cli_Lines := cli_Lines c @ [chat_line E timestamp sender (dm_Content decMsg)]\<rparr>"

text \<open>\<open>decryptMessage\<close> on the ratchets of the current room, either of which may be nil.\<close>

definition client_decrypt ::
  "crypto_lib \<Rightarrow> chat_message \<Rightarrow> client \<Rightarrow> (bytes result \<times> client) go option"
where
  "client_decrypt cl cm c =
     (case cur_room c of
        None \<Rightarrow> Some (Panic Nil_Dereference)
      | Some r \<Rightarrow>
          (case (ro_RoomRatchet r, ro_BackupRatchet r) of
             (Some m, Some b) \<Rightarrow>
               map_option
                 (\<lambda>(res, rs). Ret (res, upd_room (\<lambda>r. r\<lparr>ro_RoomRatchet := Some (rs_Main rs),
                    ro_BackupRatchet := Some (rs_Backup rs)\<rparr>) c))
                 (decryptMessage cl \<lparr>rs_Main = m, rs_Backup = b\<rparr> cm)
           | _ \<Rightarrow> Some (Panic Nil_Dereference)))"

section \<open>Receiving\<close>

text \<open>What follows the decryption: keep the message, queue the envelope for storage, show a line.\<close>

definition take_chat ::
  "client_env \<Rightarrow> envelope \<Rightarrow> chat_message \<Rightarrow> bytes \<Rightarrow> client \<Rightarrow> (go_error option \<times> client) go"
where
  "take_chat E env cm pt c =
     go_bind (GetRoomID c) (\<lambda>rid. go_bind (GetServerID c) (\<lambda>sid.
       let decMsg = \<lparr>dm_Sender = env_Sender env, dm_Timestamp = env_Timestamp env,
             dm_Content = bytes_string pt, dm_RoomID = rid, dm_ServerID = sid\<rparr>;
           c1 = upd_room (\<lambda>r. r\<lparr>ro_Messages := ro_Messages r @ [decMsg]\<rparr>) c;
           (err, h) = EnqueueEnvelope (env_Signature env) (Some (string_bytes (env_Payload env)))
             (env_Timestamp env) (env_Type env) (Some (cm_ChainIndex cm)) (u_PeerID (env_Sender env)) rid sid
             (cli_History c1);
           c2 = c1\<lparr>cli_History := h\<rparr>;
           c3 = (case err of Some e \<Rightarrow> ShowError ''Storage Error'' (''Failed to store message: '' @ Error_text e) c2
                 | None \<Rightarrow> c2)
       in Ret (None, DisplayMessage E (env_Timestamp env) (env_Sender env) decMsg c3)))"

text \<open>
  The body of the loop for a message from the topic. The type assertion comes first and panics on
  every other kind of message. A failed validation is shown, if it is recognised, and the
  message is then processed all the same.
\<close>

definition chat_step :: "client_env \<Rightarrow> string \<Rightarrow> bytes \<Rightarrow> client \<Rightarrow> client_result" where
  "chat_step E receivedFrom data c =
     (case UnmarshalEnvelope data of
        Inl err \<Rightarrow> Some (Ret (Some err, c))
      | Inr (env, ChatMessage cm) \<Rightarrow>
          (let (verr, env1) = validateChatMessage (ce_lib E) (ce_now E) env cm receivedFrom;
               c1 = (case verr of
                       None \<Rightarrow> c
                     | Some e \<Rightarrow>
                         (let c' = (if IsValidationError e then ShowError ''Validation Error'' (Error_text e) c else c)
                          in if IsSecurityError e then ShowError ''Security Error'' (Error_text e) c' else c'))
           in case client_decrypt (ce_lib E) cm c1 of
                None \<Rightarrow> None
              | Some (Panic p) \<Rightarrow> Some (Panic p)
              | Some (Ret (Inl err, c2)) \<Rightarrow>
                  Some (Ret (None, ShowError ''Decryption Error'' (''Failed to decrypt message: '' @ Error_text err) c2))
              | Some (Ret (Inr pt, c2)) \<Rightarrow> Some (take_chat E env1 cm pt c2))
      | Inr (env, _) \<Rightarrow> Some (Panic Type_Assertion))"

text \<open>The goroutine: the messages the subscription delivers, one after the other.\<close>

definition chat_loop :: "client_env \<Rightarrow> (string \<times> bytes) list \<Rightarrow> client \<Rightarrow> client_result" where
  "chat_loop E = client_loop (\<lambda>(receivedFrom, data). chat_step E receivedFrom data)"

section \<open>Sending\<close>

text \<open>The result, the client, and what was published: topic and data.\<close>

definition SendMessageHandler ::
  "client_env \<Rightarrow> string \<Rightarrow> client \<Rightarrow> (go_error option \<times> client \<times> (string \<times> bytes) list) go"
where
  "SendMessageHandler E txt c =
     go_bind (need (cur_room c)) (\<lambda>r.
       case ro_RoomRatchet r of
         None \<Rightarrow>
           Ret (Some (SendMessageError ''Room ratchet is not initialized. Join a room first.''),
                ShowError ''Error'' ''You must join a room before sending messages'' c, [])
       | Some rat \<Rightarrow>
           (let (enc, rat1) = EncryptMessage (ce_lib E) rat (string_bytes txt);
                c1 = upd_room (\<lambda>r. r\<lparr>ro_RoomRatchet := Some rat1\<rparr>) c in
            case enc of
              Inl err \<Rightarrow> Ret (Some err, c1, [])
            | Inr (ct, _) \<Rightarrow>
                (let msg = \<lparr>cm_ChainIndex = rr_Index rat1 - 1, cm_Ciphertext = Some ct\<rparr> in
                 case MarshalEnvelope (ce_lib E) (ce_now E) (ChatMessage msg) (cli_User c1) (cli_DilithiumPriv c1) of
                   Inl err \<Rightarrow> Ret (Some err, c1, [])
                 | Inr (data, env) \<Rightarrow>
                     (case GetTopic TopicChat (ro_Topics r) of
                        None \<Rightarrow> Ret (Some (WithDetails ErrNotInitialized ''chat topic is not initialized''), c1, [])
                      | Some topic \<Rightarrow>
                          (case ce_publish E topic of
                             Some err \<Rightarrow> Ret (Some err, c1, [])
                           | None \<Rightarrow>
                               go_bind (GetRoomID c1) (\<lambda>rid. go_bind (GetServerID c1) (\<lambda>sid.
                                 let (err, h) = EnqueueEnvelope (env_Signature env)
                                   (Some (string_bytes (env_Payload env))) (env_Timestamp env) (env_Type env)
                                   (Some (cm_ChainIndex msg)) (u_PeerID (env_Sender env)) rid sid (cli_History c1)
                                 in Ret (err, c1\<lparr>cli_History := h\<rparr>, [(topic, data)]))))))))"

section \<open>Showing what is stored\<close>

text \<open>A stored sender that the peers table does not know is a nil pointer, which is then read.\<close>

definition stored_sender :: "client_env \<Rightarrow> string \<Rightarrow> client \<Rightarrow> user option" where
  "stored_sender E senderID c =
     (case GetUserByID (ce_user_fault E senderID) senderID (cli_peer_db c) of
        Inl err \<Rightarrow> Some (zero_user\<lparr>u_PeerID := senderID, u_Username := ''Unknown''\<rparr>)
      | Inr u \<Rightarrow> u)"

definition display_one :: "client_env \<Rightarrow> stored_message \<Rightarrow> client \<Rightarrow> client_result" where
  "display_one E m c =
     (let (ok, cm) = unmarshal_into (dec_ptr dec_chat_message \<lparr>cm_ChainIndex = 0, cm_Ciphertext = None\<rparr>)
        (bytes_string (slice_bytes (st_Payload m))) None in
      if \<not> ok then Some (Ret (Some json_error, c))
      else case cm of
        None \<Rightarrow> Some (Panic Nil_Dereference)
      | Some cm \<Rightarrow>
          (case client_decrypt (ce_lib E) cm c of
             None \<Rightarrow> None
           | Some (Panic p) \<Rightarrow> Some (Panic p)
           | Some (Ret (Inl err, c1)) \<Rightarrow> Some (Ret (Some err, c1))
           | Some (Ret (Inr pt, c1)) \<Rightarrow>
               Some
                 (go_bind (need (stored_sender E (st_SenderID m) c1)) (\<lambda>sender.
                  go_bind (GetRoomID c1) (\<lambda>rid. go_bind (GetServerID c1) (\<lambda>sid.
                    let decMsg = \<lparr>dm_Sender = sender, dm_Timestamp = st_Timestamp m,
                          dm_Content = bytes_string pt, dm_RoomID = rid, dm_ServerID = sid\<rparr>
                    in Ret (None, upd_room (\<lambda>r. r\<lparr>ro_Messages := ro_Messages r @ [decMsg]\<rparr>)
                         (DisplayMessage E (st_Timestamp m) sender decMsg c1))))))))"

definition display_stored :: "client_env \<Rightarrow> stored_message list \<Rightarrow> client \<Rightarrow> client_result" where
  "display_stored E = client_loop (display_one E)"

definition parseAndDisplayDBMessages :: "client_env \<Rightarrow> string \<Rightarrow> client \<Rightarrow> client_result" where
  "parseAndDisplayDBMessages E roomID c =
     (case GetLatestMessages (ce_fault E) (ce_met E) roomID 200 (cli_db c) of
        Inl err \<Rightarrow> Some (Ret (Some err, c))
      | Inr msgs \<Rightarrow> display_stored E msgs c)"

text \<open>Joining the chat topic unless it is there, subscribing, showing the stored messages.\<close>

definition open_chat :: "client_env \<Rightarrow> string \<Rightarrow> client \<Rightarrow> client_result" where
  "open_chat E topic c =
     (case ce_subscribe E topic of
        Some err \<Rightarrow> Some (Ret (Some err, c))
      | None \<Rightarrow>
          (case GetRoomID c of
             Panic p \<Rightarrow> Some (Panic p) | Ret rid \<Rightarrow> parseAndDisplayDBMessages E rid c))"

definition chatHandler :: "client_env \<Rightarrow> client \<Rightarrow> client_result" where
  "chatHandler E c =
     (case cur_room c of
        None \<Rightarrow> Some (Panic Nil_Dereference)
      | Some r \<Rightarrow>
          (case GetTopic TopicChat (ro_Topics r) of
             Some topic \<Rightarrow> open_chat E topic c
           | None \<Rightarrow>
               (case go_bind (GetServerID c) (\<lambda>sid. go_bind (GetRoomID c) (\<lambda>rid. Ret (ChatTopic sid rid))) of
                  Panic p \<Rightarrow> Some (Panic p)
                | Ret topic \<Rightarrow>
                    (case ce_join E topic of
                       Some err \<Rightarrow> Some (Ret (Some err, c))
                     | None \<Rightarrow>
                         open_chat E topic
                           (upd_room (\<lambda>r. r\<lparr>ro_Topics := SetTopic TopicChat topic (ro_Topics r)\<rparr>) c)))))"

section \<open>What the operations do\<close>

lemma chat_validation_invisible:
  "validateChatMessage cl now env cm peer = (Some e, env1) \<Longrightarrow> \<not> IsValidationError e \<and> \<not> IsSecurityError e"
  by (auto simp: validateChatMessage_def validateChatMessageIntegrity_def validateMessageSecurity_def
      IsValidationError_def IsSecurityError_def ValidationError_def SecurityError_def
      split: option.splits if_splits)

text \<open>The envelope as it is processed: a time of zero has been set to the present, in seconds.\<close>

definition stamped :: "int \<Rightarrow> envelope \<Rightarrow> chat_message \<Rightarrow> envelope" where
  "stamped now env cm = snd (validateChatMessageIntegrity env cm (now div 1000000))"

lemma snd_validateChatMessage [simp]: "snd (validateChatMessage cl now env cm peer) = stamped now env cm"
  by (auto simp: validateChatMessage_def stamped_def split: prod.split option.split)

lemma stamped_fields [simp]:
  "env_Sender (stamped now env cm) = env_Sender env" "env_Payload (stamped now env cm) = env_Payload env"
  "env_Signature (stamped now env cm) = env_Signature env" "env_Type (stamped now env cm) = env_Type env"
  "env_Timestamp env \<noteq> 0 \<Longrightarrow> stamped now env cm = env"
  by (simp_all add: stamped_def validateChatMessageIntegrity_def)

text \<open>Validation leaves no trace: what happens next is decided by the decryption alone.\<close>

lemma chat_step_chat:
  assumes "UnmarshalEnvelope data = Inr (env, ChatMessage cm)"
  shows "chat_step E peer data c =
    (case client_decrypt (ce_lib E) cm c of
       None \<Rightarrow> None
     | Some (Panic p) \<Rightarrow> Some (Panic p)
     | Some (Ret (Inl err, c2)) \<Rightarrow>
         Some (Ret (None, ShowError ''Decryption Error'' (''Failed to decrypt message: '' @ Error_text err) c2))
     | Some (Ret (Inr pt, c2)) \<Rightarrow> Some (take_chat E (stamped (ce_now E) env cm) cm pt c2))"
proof -
  obtain verr env1 where v: "validateChatMessage (ce_lib E) (ce_now E) env cm peer = (verr, env1)"
    by (cases "validateChatMessage (ce_lib E) (ce_now E) env cm peer")
  then have "env1 = stamped (ce_now E) env cm"
    using snd_validateChatMessage [of "ce_lib E" "ce_now E" env cm peer] by simp
  moreover have "verr = Some e \<Longrightarrow> \<not> IsValidationError e \<and> \<not> IsSecurityError e" for e
    using chat_validation_invisible v by blast
  ultimately show ?thesis
    using v assms by (cases verr) (simp_all add: chat_step_def Let_def)
qed

end
