(* ===== verification/Catch_Up.thy ===== *)
theory Catch_Up
  imports Chat
begin

text \<open>
  client/helpers.go: catching up with a room. A newcomer asks on the catch-up topic, up to five
  times; a member answers with the room key and the stored messages; the newcomer validates
  every message against the key it has of its sender and stores it.
\<close>

section \<open>Taking a response in\<close>

definition validateCatchupMessageSecurity :: "client_env \<Rightarrow> stored_message \<Rightarrow> string \<Rightarrow> client \<Rightarrow> go_error option" where
  "validateCatchupMessageSecurity E msg senderID c =
     (case GetUserByID (ce_user_fault E senderID) senderID (cli_peer_db c) of
        Inl err \<Rightarrow> Some err
      | Inr None \<Rightarrow> Some (Errorf (''sender user not found for ID: '' @ senderID))
      | Inr (Some sender) \<Rightarrow>
          validateMessageSecurity (ce_lib E) (ce_now E)
            \<lparr>env_Type = st_MsgType msg, env_Sender = sender, env_Timestamp = st_Timestamp msg,
             env_Signature = st_Signature msg, env_Payload = bytes_string (slice_bytes (st_Payload msg))\<rparr> senderID)"

text \<open>
  The loop over the messages received. A failure to save is only logged, with the index of the
  message read through its pointer.
\<close>

fun save_caught_up :: "client_env \<Rightarrow> stored_message list \<Rightarrow> client \<Rightarrow> (go_error option \<times> client) go" where
  "save_caught_up E [] c = Ret (None, c)"
| "save_caught_up E (m # ms) c =
     (case validateCatchupMessageSecurity E m (st_SenderID m) c of
        Some v \<Rightarrow> Ret (Some (Errorf (''catch-up message security validation failed: '' @ Error_text v)), c)
      | None \<Rightarrow>
          (let (err, t) = SaveEnvelope (ce_save_fault E m) (st_Signature m) (st_Payload m) (st_Timestamp m)
             (st_MsgType m) (st_ChainIndex m) (st_SenderID m) (st_RoomID m) (st_ServerID m) (cli_db c) in
           if err \<noteq> None \<and> st_ChainIndex m = None then Panic Nil_Dereference
           else save_caught_up E ms (set_cli_db t c)))"

text \<open>A ratchet, if any, with an error, if any, and the client.\<close>

type_synonym catch_up_result = "((room_ratchet option \<times> go_error option) \<times> client) go"

text \<open>
  A decompression that fails returns a nil pointer next to its error, and the pointer is read for
  the log before the error is looked at.
\<close>

definition take_response :: "client_env \<Rightarrow> catch_up_response \<Rightarrow> client \<Rightarrow> catch_up_result" where
  "take_response E resp c =
     (let r = \<lparr>rr_ChainKey = cr_MasterRoomKey resp, rr_Index = cr_ChainIndex resp\<rparr> in
      case DecompressCatchUpPayload (ce_gzip E) (cr_CatchUpMessages resp) of
        Panic p \<Rightarrow> Panic p
      | Ret (Inl err) \<Rightarrow> Panic Nil_Dereference
      | Ret (Inr cu) \<Rightarrow>
          go_bind (save_caught_up E (cu_ReturnedMessages cu) c) (\<lambda>(e, c'). Ret ((Some r, e), c')))"

definition process_response :: "client_env \<Rightarrow> string \<Rightarrow> bytes \<Rightarrow> client \<Rightarrow> catch_up_result" where
  "process_response E receivedFrom data c =
     (case UnmarshalEnvelope data of
        Inl err \<Rightarrow> Ret ((None, Some err), c)
      | Inr (env, message) \<Rightarrow>
          (case validateMessageSecurity (ce_lib E) (ce_now E) env receivedFrom of
             Some err \<Rightarrow> Ret ((None, Some err), c)
           | None \<Rightarrow>
               (case message of
                  CatchUpResponse resp \<Rightarrow>
                    if cr_Error resp \<noteq> [] then Ret ((None, Some (Errorf (''catch-up error: '' @ cr_Error resp))), c)
                    else take_response E resp c
                | m \<Rightarrow> Ret ((None, Some (Errorf (''expected CatchUpResponse, got '' @ message_Type m))), c))))"

section \<open>Asking\<close>

text \<open>
  The attempts: what the subscription delivers in each second, if anything. After a silent one the
  request is published again, whose outcome is only logged.
\<close>

fun await_response :: "client_env \<Rightarrow> (string \<times> bytes) option list \<Rightarrow> client \<Rightarrow> catch_up_result" where
  "await_response E [] c =
     Ret ((None, Some (Errorf ''no catch-up response received after 5 attempts'')), c)"
| "await_response E (None # ws) c = await_response E ws c"
| "await_response E (Some (receivedFrom, data) # ws) c = process_response E receivedFrom data c"

definition maxRetries :: nat where
  "maxRetries = 5"

definition requestCatchUp :: "client_env \<Rightarrow> (nat \<Rightarrow> (string \<times> bytes) option) \<Rightarrow> client \<Rightarrow> catch_up_result" where
  "requestCatchUp E answers c =
     go_bind (GetServerID c) (\<lambda>sid. go_bind (GetRoomID c) (\<lambda>rid.
       let respTopic = CatchUpResponseTopic sid rid (cli_HostID c) in
       case ce_join E respTopic of
         Some err \<Rightarrow> Ret ((None, Some err), c)
       | None \<Rightarrow>
           (case ce_subscribe E respTopic of
              Some err \<Rightarrow> Ret ((None, Some err), c)
            | None \<Rightarrow>
                (case MarshalEnvelope (ce_lib E) (ce_now E) (CatchUpRequest \<lparr>cq_SinceIndex = 0\<rparr>)
                        (cli_User c) (cli_DilithiumPriv c) of
                   Inl err \<Rightarrow> Ret ((None, Some err), c)
                 | Inr (data, _) \<Rightarrow>
                     go_bind (need (cur_room c)) (\<lambda>room.
                       case GetTopic TopicCatchUp (ro_Topics room) of
                         None \<Rightarrow> Ret ((None, Some (Errorf ''catch up topic is not initialized'')), c)
                       | Some topic \<Rightarrow>
                           (case ce_publish E topic of
                              Some err \<Rightarrow> Ret ((None, Some err), c)
                            | None \<Rightarrow> await_response E (map answers [0..<maxRetries]) c))))))"

section \<open>Helping\<close>

definition catch_up_answer :: "slice \<Rightarrow> slice \<Rightarrow> go_error option \<Rightarrow> catch_up_response" where
  "catch_up_answer key payload dberr =
     \<lparr>cr_MasterRoomKey = key, cr_MasterRoomKeyBase = key, cr_ChainIndex = 0, cr_CatchUpMessages = payload,
      cr_Error = (case dberr of None \<Rightarrow> []
        | Some e \<Rightarrow> ''failed to build catch-up payload: '' @ Error_text e)\<rparr>"

text \<open>Sending the response: on a topic of the asking peer, joined for it and closed again.\<close>

definition send_answer ::
  "client_env \<Rightarrow> string \<Rightarrow> catch_up_response \<Rightarrow> client \<Rightarrow> (go_error option \<times> (string \<times> bytes) list) go"
where
  "send_answer E senderID resp c =
     go_bind (GetServerID c) (\<lambda>sid. go_bind (GetRoomID c) (\<lambda>rid.
       let respTopic = CatchUpResponseTopic sid rid senderID in
       case ce_join E respTopic of
         Some err \<Rightarrow> Ret (Some err, [])
       | None \<Rightarrow>
           (case MarshalEnvelope (ce_lib E) (ce_now E) (CatchUpResponse resp) (cli_User c) (cli_DilithiumPriv c) of
              Inl err \<Rightarrow> Ret (Some err, [])
            | Inr (data, _) \<Rightarrow>
                (case ce_publish E respTopic of
                   Some err \<Rightarrow> Ret (Some err, []) | None \<Rightarrow> Ret (None, [(respTopic, data)])))))"

text \<open>
  The body of the loop for one delivery of the subscription (or its error, which is looked at only
  after the payload has been built and the room key read). None: building waits for ever.
\<close>

definition helpCatchUp_step ::
  "client_env \<Rightarrow> (string \<times> bytes) result \<Rightarrow> client
     \<Rightarrow> (go_error option \<times> client \<times> (string \<times> bytes) list) go option"
where
  "helpCatchUp_step E msg c =
     (case (GetRoomID c, Option.bind (cur_room c) (\<lambda>r. GetTopic TopicCatchUp (ro_Topics r))) of
        (Ret rid, Some tp) \<Rightarrow>
          (case BuildCatchUpPayload (ce_gzip E) (ce_fault E) (ce_fault E) (ce_met E) rid 0 100 (wk_target (cli_History c)) of
             None \<Rightarrow> None
           | Some ((payload, _, dberr, msgs), h) \<Rightarrow>
               (let c1 = c\<lparr>cli_History := (cli_History c)\<lparr>wk_target := h\<rparr>\<rparr> in
                Some
                  (case GetAuth (ce_auth_fault E) rid (cli_Auth c1) of
                     Inl rkerr \<Rightarrow> Ret (Some rkerr, c1, [])
                   | Inr roomkey \<Rightarrow>
                       (case msg of
                          Inl err \<Rightarrow> Ret (Some err, c1, [])
                        | Inr (receivedFrom, data) \<Rightarrow>
                            (case UnmarshalEnvelope data of
                               Inl err \<Rightarrow> Ret (Some err, c1, [])
                             | Inr (env, message) \<Rightarrow>
                                 (case validateMessageSecurity (ce_lib E) (ce_now E) env receivedFrom of
                                    Some err \<Rightarrow> Ret (Some err, c1, [])
                                  | None \<Rightarrow>
                                      (case message of
                                         CatchUpRequest req \<Rightarrow>
                                           go_bind (send_answer E receivedFrom
                                             (catch_up_answer (ra_MasterRatchetKey roomkey) payload dberr) c1)
                                             (\<lambda>(err, out). Ret (err, c1, out))
                                       | m \<Rightarrow> Ret (Some (Errorf (''expected CatchUpRequest, got '' @ message_Type m)), c1, []))))))))
      | (Panic p, _) \<Rightarrow> Some (Panic p)
      | (_, None) \<Rightarrow> Some (Panic Nil_Dereference))"

end
