(* ===== verification/Join.thy ===== *)
theory Join
  imports Catch_Up
begin

text \<open>
  The handlers of client/handlers.go that create and join servers and rooms, and the loop that
  follows the members of a room. Answers of the hub are arguments (\<open>rpc\<close>), and so is the
  progress the peers' write queue makes while a handler waits. Refreshing the lists on the screen
  is not modelled.
\<close>

section \<open>Creating\<close>

text \<open>The request with the salt and the hash of the password in place of the password.\<close>

definition salted_server_request :: "bytes \<Rightarrow> create_server_request \<Rightarrow> create_server_request" where
  "salted_server_request salt request = request\<lparr>csr_PasswordSalt := Some salt,
     csr_PasswordHash := Some (sha256 (slice_bytes (csr_PasswordHash request)))\<rparr>"

definition salted_room_request :: "bytes \<Rightarrow> create_room_request \<Rightarrow> create_room_request" where
  "salted_room_request salt req = req\<lparr>crr_PasswordSalt := Some salt,
     crr_PasswordHash := Some (sha256 (slice_bytes (crr_PasswordHash req)))\<rparr>"

definition CreateServerHandler :: "entropy \<Rightarrow> string rpc \<Rightarrow> create_server_request \<Rightarrow> string result" where
  "CreateServerHandler rnd rpc request =
     (if csr_Name request = [] then Inl (CreateServerError ''Server name cannot be empty'')
      else if csr_Visibility request = Private \<and> slice_bytes (csr_PasswordHash request) = []
      then Inl (CreateServerError ''Private servers must have a password'')
      else
        (case rnd 16 of
           Inl err \<Rightarrow> Inl (CreateServerError (''Failed to generate salt: '' @ Error_text err))
         | Inr salt \<Rightarrow>
             (case requestCreateServer rpc (salted_server_request salt request) of
                Inl err \<Rightarrow> Inl (CreateServerError (''Failed to create server: '' @ Error_text err))
              | Inr serverID \<Rightarrow> Inr serverID)))"

text \<open>The outcome of saving the room key is dropped.\<close>

definition CreateRoomHandler ::
  "client_env \<Rightarrow> entropy \<Rightarrow> entropy \<Rightarrow> (string \<times> string) rpc \<Rightarrow> create_room_request \<Rightarrow> client
     \<Rightarrow> string result \<times> client"
where
  "CreateRoomHandler E rnd keyRnd rpc req c =
     (if crr_RoomName req = [] then (Inl (CreateRoomError ''Room name cannot be empty''), c)
      else if crr_Visibility req = Private \<and> slice_bytes (crr_PasswordHash req) = []
      then (Inl (CreateRoomError ''Private rooms must have a password''), c)
      else
        (case rnd 16 of
           Inl err \<Rightarrow> (Inl (CreateRoomError (''Failed to generate salt: '' @ Error_text err)), c)
         | Inr salt \<Rightarrow>
             (case requestCreateRoom rpc (salted_room_request salt req) of
                Inl err \<Rightarrow> (Inl (CreateRoomError (''Failed to create room: '' @ Error_text err)), c)
              | Inr roomID \<Rightarrow>
                  (case GenerateRoomKey keyRnd of
                     Inl err \<Rightarrow> (Inl (CreateRoomError (''Failed to generate room key: '' @ Error_text err)), c)
                   | Inr (_, masterKey) \<Rightarrow>
                       (let (_, auth) = SaveAuth (ce_auth_fault E) roomID 0 (Some masterKey) (ce_now E) (cli_Auth c)
                        in (Inr roomID, c\<lparr>cli_Auth := auth\<rparr>))))))"

section \<open>Joining a server\<close>

definition JoinServerHandler ::
  "(server_meta option \<times> string) rpc \<Rightarrow> string \<Rightarrow> string \<Rightarrow> client \<Rightarrow> (go_error option \<times> client) go"
where
  "JoinServerHandler rpc serverID pass c =
     (if serverID = [] then Ret (Some (JoinServerError ''Server ID cannot be empty''), c)
      else
        go_bind (requestJoinServer rpc serverID pass c) (\<lambda>(err, c1).
          case err of
            Some e \<Rightarrow> Ret (Some (JoinServerError (Error_text e)), c1)
          | None \<Rightarrow> go_bind (GetServerName c1) (\<lambda>title. Ret (None, c1))))"

section \<open>Joining a room\<close>

text \<open>A topic of the current room: joined and kept unless it is there already.\<close>

definition ensure_topic :: "client_env \<Rightarrow> string \<Rightarrow> string \<Rightarrow> client \<Rightarrow> (go_error option \<times> client) go" where
  "ensure_topic E name topic c =
     go_bind (need (cur_room c)) (\<lambda>r.
       if HasTopic name (ro_Topics r) then Ret (None, c)
       else
         (case ce_join E topic of
            Some err \<Rightarrow> Ret (Some err, c)
          | None \<Rightarrow> Ret (None, upd_room (\<lambda>r. r\<lparr>ro_Topics := SetTopic name topic (ro_Topics r)\<rparr>) c)))"

definition subscribe_topic :: "client_env \<Rightarrow> string \<Rightarrow> client \<Rightarrow> go_error option go" where
  "subscribe_topic E name c =
     go_bind (need (cur_room c)) (\<lambda>r. go_bind (need (GetTopic name (ro_Topics r))) (\<lambda>t. Ret (ce_subscribe E t)))"

definition remember_member :: "user \<Rightarrow> client \<Rightarrow> client" where
  "remember_member u c =
     (let c1 = upd_room (\<lambda>r. r\<lparr>ro_Members := ro_Members r @ [u]\<rparr>) c
      in c1\<lparr>cli_Peers := snd (EnqueueUserEntry u (cli_Peers c1))\<rparr>)"

text \<open>The loop over the members; a connection that fails is ignored.\<close>

fun add_members :: "member list \<Rightarrow> client \<Rightarrow> client" where
  "add_members [] c = c"
| "add_members (m # ms) c =
     (if ai_ID (m_AddrInfo m) = cli_HostID c then add_members ms c
      else add_members ms (remember_member (m_User m) c))"

text \<open>The ratchet to start with: from the stored key, or else from catching up.\<close>

definition initial_ratchet ::
  "client_env \<Rightarrow> (nat \<Rightarrow> (string \<times> bytes) option) \<Rightarrow> string \<Rightarrow> client
     \<Rightarrow> ((go_error option \<times> room_ratchet option) \<times> client) go"
where
  "initial_ratchet E answers roomID c =
     (case GetAuth (ce_auth_fault E) roomID (cli_Auth c) of
        Inr a \<Rightarrow> Ret ((None, Some \<lparr>rr_ChainKey = ra_MasterRatchetKey a, rr_Index = ra_ChainIndex a\<rparr>), c)
      | Inl err \<Rightarrow>
          if errors_Is err ErrNoRows then
            go_bind (requestCatchUp E answers c) (\<lambda>((rat, e), c1).
              Ret ((map_option (\<lambda>e. JoinRoomError (''Failed to catch up: '' @ Error_text e)) e, rat), c1))
          else Ret ((Some (JoinRoomError (''Failed to Get room auth: '' @ Error_text err)), None), c))"

text \<open>From the ratchet on: set both, start the chat, subscribe to the requests for catching up.\<close>

definition enter_room :: "client_env \<Rightarrow> room_ratchet option \<Rightarrow> client \<Rightarrow> client_result" where
  "enter_room E ratchet c =
     (if ratchet = None
      then Some (Ret (Some (JoinRoomError ''Room ratchet is not initialized after catch-up''), c))
      else
        (case chatHandler E (upd_room (SetInitialRatchet ratchet) c) of
           None \<Rightarrow> None
         | Some (Panic p) \<Rightarrow> Some (Panic p)
         | Some (Ret (Some err, c1)) \<Rightarrow>
             Some (Ret (Some (JoinRoomError (''Failed to initialize chat handler: '' @ Error_text err)), c1))
         | Some (Ret (None, c1)) \<Rightarrow>
             Some (go_bind (subscribe_topic E TopicCatchUp c1) (\<lambda>err. Ret (err, c1)))))"

text \<open>A call that may fail, and what follows when it does not.\<close>

definition and_then ::
  "(go_error option \<times> client) go \<Rightarrow> (client \<Rightarrow> client_result) \<Rightarrow> client_result"
where
  "and_then r k =
     (case r of Panic p \<Rightarrow> Some (Panic p) | Ret (Some err, c) \<Rightarrow> Some (Ret (Some err, c)) | Ret (None, c) \<Rightarrow> k c)"

definition join_members ::
  "client_env \<Rightarrow> (member list \<times> string) rpc \<Rightarrow> client \<Rightarrow> (go_error option \<times> client) go"
where
  "join_members E rpc c =
     go_bind (GetServerID c) (\<lambda>sid. go_bind (GetRoomID c) (\<lambda>rid.
     go_bind (ensure_topic E TopicMembers (MembersTopic sid rid) c) (\<lambda>(err, c1).
       if err \<noteq> None then Ret (err, c1)
       else go_bind (subscribe_topic E TopicMembers c1) (\<lambda>err.
         if err \<noteq> None then Ret (err, c1)
         else go_bind (requestListRoomMembers rpc c1) (\<lambda>mbr.
           Ret (case mbr of
                  Inl e \<Rightarrow> (Some (JoinRoomError (''Failed to list room members: '' @ Error_text e)), c1)
                | Inr members \<Rightarrow> (None, add_members members c1)))))))"

definition JoinRoomHandler ::
  "client_env \<Rightarrow> (room_meta option \<times> string) rpc \<Rightarrow> (member list \<times> string) rpc
     \<Rightarrow> ((user, peer_table) worker \<Rightarrow> (user, peer_table) worker) \<Rightarrow> (nat \<Rightarrow> (string \<times> bytes) option)
     \<Rightarrow> string \<Rightarrow> string \<Rightarrow> client \<Rightarrow> client_result"
where
  "JoinRoomHandler E rpc membersRpc progress answers roomID pass c =
     (if roomID = [] then Some (Ret (Some (JoinRoomError ''Server ID and Room ID cannot be empty''), c))
      else
        and_then
          (go_bind (requestJoinRoom rpc roomID pass c)
            (\<lambda>(err, c1). Ret (map_option (\<lambda>e. JoinRoomError (Error_text e)) err, c1))) (\<lambda>c1.
        and_then (join_members E membersRpc c1) (\<lambda>c2.
        and_then (go_bind (GetServerID c2) (\<lambda>sid. ensure_topic E TopicCatchUp (CatchUpRequestTopic sid roomID) c2)) (\<lambda>c3.
          case initial_ratchet E answers roomID (c3\<lparr>cli_Peers := progress (cli_Peers c3)\<rparr>) of
            Panic p \<Rightarrow> Some (Panic p)
          | Ret ((Some err, _), c4) \<Rightarrow> Some (Ret (Some err, c4))
          | Ret ((None, ratchet), c4) \<Rightarrow> enter_room E ratchet c4))))"

section \<open>Following the members\<close>

text \<open>
  One publication on the members topic: its sender, the decoded list (None: it is not JSON of that
  form), and whether a connection succeeds.
\<close>

fun refresh_members :: "(addr_info \<Rightarrow> go_error option) \<Rightarrow> member list \<Rightarrow> client \<Rightarrow> (go_error option \<times> client) go" where
  "refresh_members connect [] c = Ret (None, c)"
| "refresh_members connect (m # ms) c =
     (if ai_ID (m_AddrInfo m) = cli_HostID c then refresh_members connect ms c
      else
        go_bind (need (cur_room c)) (\<lambda>r.
          if \<exists>u \<in> set (ro_Members r). u_PeerID u = u_PeerID (m_User m) then refresh_members connect ms c
          else
            (let c1 = remember_member (m_User m) c in
             case connect (m_AddrInfo m) of
               Some err \<Rightarrow> Ret (Some (wrapf (''connect '' @ ai_ID (m_AddrInfo m) @ '' failed: '') err), c1)
             | None \<Rightarrow> refresh_members connect ms c1)))"

definition refreshMembersList_step ::
  "(addr_info \<Rightarrow> go_error option) \<Rightarrow> string \<times> member list option \<Rightarrow> client \<Rightarrow> (go_error option \<times> client) go"
where
  "refreshMembersList_step connect msg c =
     (case snd msg of
        None \<Rightarrow> Ret (Some json_error, c)
      | Some members \<Rightarrow>
          if cli_HubID c \<noteq> fst msg
          then Ret (Some (SecurityError (''Received message from unexpected peer: '' @ fst msg)), c)
          else refresh_members connect members c)"

end
