(* ===== verification/Chat_Correct.thy ===== *)
theory Chat_Correct
  imports Chat
begin

text \<open>
  The properties of the client's chat: a message gets from a sender to a receiver, what can go
  wrong on the way, and the invariant of the sessions. The interface \<open>message_handler\<close> is what
  a loop over messages needs of its body.
\<close>

section \<open>Operations keep the sessions\<close>

locale message_handler =
  fixes step :: "'m \<Rightarrow> client \<Rightarrow> client_result" and ok :: "client \<Rightarrow> bool"
  assumes step_keeps: "ok c \<Longrightarrow> step m c = Some (Ret (e, c')) \<Longrightarrow> ok c'"
begin

lemma loop_keeps: "ok c \<Longrightarrow> client_loop step ms c = Some (Ret (e, c')) \<Longrightarrow> ok c'"
proof (induction ms arbitrary: c)
  case (Cons m ms)
  obtain e1 c1 where one: "step m c = Some (Ret (e1, c1))"
    using Cons.prems(2) by (auto split: option.splits go.splits)
  have ok: "ok c1" by (rule step_keeps [OF Cons.prems(1) one])
  show ?case
  proof (cases e1)
    case None
    with one Cons.prems(2) have "client_loop step ms c1 = Some (Ret (e, c'))" by simp
    then show ?thesis by (rule Cons.IH [OF ok])
  next
    case (Some err)
    with one Cons.prems(2) ok show ?thesis by simp
  qed
qed simp

lemma loop_panics:
  "ok c \<Longrightarrow> client_loop step ms c = Some (Panic p) \<Longrightarrow> \<exists>m \<in> set ms. \<exists>c1. ok c1 \<and> step m c1 = Some (Panic p)"
proof (induction ms arbitrary: c)
  case (Cons m ms)
  show ?case
  proof (cases "step m c = Some (Panic p)")
    case False
    with Cons.prems(2) obtain c1 where one: "step m c = Some (Ret (None, c1))" "client_loop step ms c1 = Some (Panic p)"
      by (auto split: option.splits go.splits)
    from Cons.IH [OF step_keeps [OF Cons.prems(1) one(1)] one(2)] show ?thesis by auto
  qed (use Cons.prems in auto)
qed simp

end

lemma sessions_ok_fields [simp]:
  "sessions_ok (c\<lparr>cli_History := h\<rparr>) = sessions_ok c" "sessions_ok (c\<lparr>cli_Lines := l\<rparr>) = sessions_ok c"
  "sessions_ok (c\<lparr>cli_Peers := p\<rparr>) = sessions_ok c" "sessions_ok (c\<lparr>cli_Auth := a\<rparr>) = sessions_ok c"
  "sessions_ok (ShowError t m c) = sessions_ok c" "sessions_ok (set_cli_db d c) = sessions_ok c"
  by (simp_all add: sessions_ok_def ShowError_def set_cli_db_def)

lemma sessions_ok_DisplayMessage [simp]: "sessions_ok (DisplayMessage E ts u d c) = sessions_ok c"
  by (simp add: DisplayMessage_def)

lemma client_decrypt_cases:
  assumes "client_decrypt cl cm c = Some (Ret (res, c'))"
  obtains r m b rs where "cur_room c = Some r" "ro_RoomRatchet r = Some m" "ro_BackupRatchet r = Some b"
    "decryptMessage cl \<lparr>rs_Main = m, rs_Backup = b\<rparr> cm = Some (res, rs)"
    "c' = upd_room (\<lambda>r. r\<lparr>ro_RoomRatchet := Some (rs_Main rs), ro_BackupRatchet := Some (rs_Backup rs)\<rparr>) c"
  using assms by (force simp: client_decrypt_def split: option.splits)

lemma client_decrypt_ok:
  assumes "sessions_ok c" "client_decrypt cl cm c = Some (Ret (r, c'))"
  shows "sessions_ok c'"
  using assms(2) by (cases rule: client_decrypt_cases) (simp add: sessions_ok_upd_room [OF assms(1)])

lemma take_chat_ok: "sessions_ok c \<Longrightarrow> take_chat E env cm pt c = Ret (e, c') \<Longrightarrow> sessions_ok c'"
  by (auto simp: take_chat_def Let_def outcome_simps case_prod_unfold
      intro!: sessions_ok_upd_room split: option.splits)

lemma chat_step_ok:
  assumes "sessions_ok c" "chat_step E peer data c = Some (Ret (e, c'))"
  shows "sessions_ok c'"
proof (cases "UnmarshalEnvelope data")
  case (Inl err)
  with assms show ?thesis by (simp add: chat_step_def)
next
  case (Inr em)
  obtain env m where em: "em = (env, m)" by (cases em)
  show ?thesis
  proof (cases m)
    case (ChatMessage cm)
    with Inr em assms(2) obtain res c2 where dec: "client_decrypt (ce_lib E) cm c = Some (Ret (res, c2))"
      by (auto simp: chat_step_chat split: option.splits go.splits)
    have "sessions_ok c2" by (rule client_decrypt_ok [OF assms(1) dec])
    with ChatMessage Inr em assms(2) dec show ?thesis
      by (auto simp: chat_step_chat dest: take_chat_ok split: sum.splits)
  qed (use Inr em assms in \<open>simp_all add: chat_step_def\<close>)
qed

lemma display_one_ok:
  assumes "sessions_ok c" "display_one E m c = Some (Ret (e, c'))"
  shows "sessions_ok c'"
proof -
  obtain ok cm where u: "unmarshal_into (dec_ptr dec_chat_message \<lparr>cm_ChainIndex = 0, cm_Ciphertext = None\<rparr>)
      (bytes_string (slice_bytes (st_Payload m))) None = (ok, cm)"
    by (cases "unmarshal_into (dec_ptr dec_chat_message \<lparr>cm_ChainIndex = 0, cm_Ciphertext = None\<rparr>)
      (bytes_string (slice_bytes (st_Payload m))) None")
  show ?thesis
  proof (cases "ok \<and> cm \<noteq> None")
    case True
    then obtain cm' where cm: "cm = Some cm'" by auto
    from True assms(2) u cm obtain res c2 where dec: "client_decrypt (ce_lib E) cm' c = Some (Ret (res, c2))"
      by (auto simp: display_one_def split: option.splits go.splits)
    have "sessions_ok c2" by (rule client_decrypt_ok [OF assms(1) dec])
    with True assms(2) u cm dec show ?thesis
      by (auto simp: display_one_def Let_def outcome_simps intro!: sessions_ok_upd_room split: sum.splits)
  qed (use u assms in \<open>auto simp: display_one_def split: if_splits\<close>)
qed

interpretation chat_handler: message_handler "\<lambda>(peer, data). chat_step E peer data" sessions_ok for E
  by unfold_locales (auto intro: chat_step_ok)

interpretation display_handler: message_handler "display_one E" sessions_ok for E
  by unfold_locales (rule display_one_ok)

lemma parseAndDisplay_ok:
  "sessions_ok c \<Longrightarrow> parseAndDisplayDBMessages E rid c = Some (Ret (e, c')) \<Longrightarrow> sessions_ok c'"
  by (auto simp: parseAndDisplayDBMessages_def display_stored_def
      intro: display_handler.loop_keeps split: sum.splits)

lemma open_chat_ok: "sessions_ok c \<Longrightarrow> open_chat E tp c = Some (Ret (e, c')) \<Longrightarrow> sessions_ok c'"
  by (auto simp: open_chat_def intro: parseAndDisplay_ok split: option.splits go.splits)

lemma chatHandler_ok: "sessions_ok c \<Longrightarrow> chatHandler E c = Some (Ret (e, c')) \<Longrightarrow> sessions_ok c'"
  by (auto simp: chatHandler_def intro: sessions_ok_upd_room elim!: open_chat_ok [rotated]
      split: option.splits go.splits)

lemma SendMessageHandler_ok:
  "sessions_ok c \<Longrightarrow> SendMessageHandler E content c = Ret (e, c', out) \<Longrightarrow> sessions_ok c'"
  by (auto simp: SendMessageHandler_def Let_def need_def outcome_simps case_prod_unfold
      intro!: sessions_ok_upd_room split: option.splits sum.splits)

section \<open>Sending and receiving\<close>

text \<open>
  \<open>queued m c c'\<close>: the message is the last one in the write queue of \<open>c'\<close>, after what was in that of
  \<open>c\<close>; a full queue stays as it was.
\<close>

definition queue_full :: "client \<Rightarrow> bool" where
  "queue_full c \<longleftrightarrow> wk_capacity (cli_History c) \<le> length (wk_queue (cli_History c))"

definition queued :: "stored_message \<Rightarrow> client \<Rightarrow> client \<Rightarrow> bool" where
  "queued m c c' \<longleftrightarrow> cli_History c' =
     (if queue_full c then cli_History c
      else (cli_History c)\<lparr>wk_queue := wk_queue (cli_History c) @ [m], wk_accepted := wk_accepted (cli_History c) @ [m]\<rparr>)"

definition chat_entry :: "envelope \<Rightarrow> u64 \<Rightarrow> string \<Rightarrow> string \<Rightarrow> stored_message" where
  "chat_entry env idx rid sid =
     \<lparr>st_ID = 0, st_RoomID = rid, st_ServerID = sid, st_ChainIndex = Some idx, st_MsgType = MsgTypeChat,
      st_SenderID = u_PeerID (env_Sender env), st_Timestamp = env_Timestamp env, st_Signature = env_Signature env,
      st_Payload = Some (string_bytes (env_Payload env))\<rparr>"

lemma SendMessageHandler_sends:
  assumes "hkdf_ok (ce_lib E)" "chacha_ok (ce_lib E)"
    and "key_pair (ce_lib E) (cli_DilithiumPriv a) (u_DilithiumPub (cli_User a))"
    and "sessions_ok a" "cur_room a = Some ra" "ro_RoomRatchet ra = Some rat"
    and "GetTopic TopicChat (ro_Topics ra) = Some tp" "ce_publish E tp = None"
    and "EncryptMessage (ce_lib E) rat (string_bytes content) = (Inr (ct, nonce), rat1)"
  shows "\<exists>e a' data env. SendMessageHandler E content a = Ret (e, a', [(tp, data)])
    \<and> MarshalEnvelope (ce_lib E) (ce_now E)
        (ChatMessage \<lparr>cm_ChainIndex = rr_Index rat1 - 1, cm_Ciphertext = Some ct\<rparr>)
        (cli_User a) (cli_DilithiumPriv a) = Inr (data, env)
    \<and> cur_room a' = Some (ra\<lparr>ro_RoomRatchet := Some rat1\<rparr>)
    \<and> e = (if queue_full a then Some (Errorf ''history write queue full'') else None)
    \<and> (\<exists>rid sid. GetRoomID a = Ret rid \<and> GetServerID a = Ret sid
        \<and> queued (chat_entry env (rr_Index rat1 - 1) rid sid) a a')"
proof -
  let ?msg = "ChatMessage \<lparr>cm_ChainIndex = rr_Index rat1 - 1, cm_Ciphertext = Some ct\<rparr>"
  let ?a = "upd_room (\<lambda>r. r\<lparr>ro_RoomRatchet := Some rat1\<rparr>) a"
  obtain sig where "Sign (ce_lib E) (string_bytes (jprint (enc_message ?msg))) (cli_DilithiumPriv a) = Inr sig"
    using key_pair_signs [OF assms(3)] by blast
  then obtain data env where env: "MarshalEnvelope (ce_lib E) (ce_now E) ?msg (cli_User a) (cli_DilithiumPriv a) = Inr (data, env)"
    by (simp add: MarshalEnvelope_def Let_def)
  have "sessions_ok ?a" by (rule sessions_ok_upd_room [OF assms(4)]) simp
  moreover have "env_Type env = MsgTypeChat"
    using env by (auto simp: MarshalEnvelope_def Let_def split: sum.splits)
  ultimately show ?thesis
    using assms env
    by (simp add: SendMessageHandler_def Let_def GetRoomID_ok GetServerID_ok case_prod_unfold queued_def queue_full_def
        chat_entry_def EnqueueEnvelope_def enqueue_def not_less)
qed

lemma take_chat_room:
  assumes "GetRoomID c = Ret rid" "GetServerID c = Ret sid" "cur_room c = Some r"
  shows "\<exists>c'. take_chat E env cm pt c = Ret (None, c')
    \<and> cur_room c' = Some (r\<lparr>ro_Messages := ro_Messages r @
        [\<lparr>dm_Sender = env_Sender env, dm_Timestamp = env_Timestamp env, dm_Content = bytes_string pt,
          dm_RoomID = rid, dm_ServerID = sid\<rparr>]\<rparr>)
    \<and> cli_Lines c' = cli_Lines c @ [chat_line E (env_Timestamp env) (env_Sender env) (bytes_string pt)]
    \<and> (env_Type env = MsgTypeChat \<longrightarrow> queued (chat_entry env (cm_ChainIndex cm) rid sid) c c')"
  using assms
  by (simp add: take_chat_def Let_def case_prod_unfold DisplayMessage_def queued_def queue_full_def
      chat_entry_def EnqueueEnvelope_def enqueue_def not_less split: option.split)

lemma GetIDs_upd_room:
  assumes "\<And>r. ro_RoomMeta (f r) = ro_RoomMeta r"
  shows "GetRoomID (upd_room f c) = GetRoomID c" "GetServerID (upd_room f c) = GetServerID c"
  using assms by (auto simp: GetRoomID_def GetServerID_def split: option.split)

section \<open>Properties\<close>

text \<open>
  C1. A chat message gets through: what a member with a key pair sends while its ratchet is at some
  position of the room's chain is published on the chat topic, and every member whose ratchet is
  at that position or before it keeps and shows exactly the text, the sender and the time, and
  moves both its ratchets on; the sender moves its main ratchet. Both put the envelope into their
  write queue, under the room and server they are in and the index of that position; when the
  queue is full it stays as it was, and the sender is told.
\<close>

theorem chat_message_delivered:
  assumes "ce_lib E' = ce_lib E" "hkdf_ok (ce_lib E)" "chacha_ok (ce_lib E)"
    and "key_pair (ce_lib E) (cli_DilithiumPriv a) (u_DilithiumPub (cli_User a))"
    and "wf_user (cli_User a)" "in_int64 (ce_now E)" "ce_now E \<noteq> 0"
    and "sessions_ok a" "cur_room a = Some ra" "ro_RoomRatchet ra = Some (chain_at r k)"
    and "GetTopic TopicChat (ro_Topics ra) = Some tp" "ce_publish E tp = None"
    and "GetRoomID b = Ret rid" "GetServerID b = Ret sid" "cur_room b = Some rb"
    and "ro_RoomRatchet rb = Some (chain_at r j)" "ro_BackupRatchet rb = Some (chain_at r i)"
    and "i \<le> j" "j \<le> k" "unat (rr_Index r) + k < 2 ^ 64 - 11"
  shows "\<exists>a' data b' env cm rida sida.
    SendMessageHandler E content a
      = Ret (if queue_full a then Some (Errorf ''history write queue full'') else None, a', [(tp, data)])
    \<and> UnmarshalEnvelope data = Inr (env, ChatMessage cm)
    \<and> env_Sender env = cli_User a \<and> env_Timestamp env = ce_now E
    \<and> GetRoomID a = Ret rida \<and> GetServerID a = Ret sida
    \<and> queued (chat_entry env (rr_Index (chain_at r k)) rida sida) a a'
    \<and> cur_room a' = Some (ra\<lparr>ro_RoomRatchet := Some (chain_at r (k + 1))\<rparr>)
    \<and> chat_step E' peer data b = Some (Ret (None, b'))
    \<and> cur_room b' = Some (rb\<lparr>ro_RoomRatchet := Some (chain_at r (k + 1)),
        ro_BackupRatchet := Some (chain_at r (max i (k - 8))),
        ro_Messages := ro_Messages rb @ [\<lparr>dm_Sender = cli_User a, dm_Timestamp = ce_now E,
          dm_Content = content, dm_RoomID = rid, dm_ServerID = sid\<rparr>]\<rparr>)
    \<and> cli_Lines b' = cli_Lines b @ [chat_line E' (ce_now E) (cli_User a) content]
    \<and> queued (chat_entry env (rr_Index (chain_at r k)) rid sid) b b'"
proof -
  obtain ct nonce where enc: "EncryptMessage (ce_lib E) (chain_at r k) (string_bytes content) = (Inr (ct, nonce), chain_at r (k + 1))"
    and dec: "decryptMessage (ce_lib E) \<lparr>rs_Main = chain_at r j, rs_Backup = chain_at r i\<rparr>
        \<lparr>cm_ChainIndex = rr_Index (chain_at r (k + 1)) - 1, cm_Ciphertext = Some ct\<rparr>
      = Some (Inr (string_bytes content), \<lparr>rs_Main = chain_at r (k + 1), rs_Backup = chain_at r (max i (k - 8))\<rparr>)"
    using ahead_message_decrypts [OF assms(2,3,19,18,20)] by blast
  let ?cm = "\<lparr>cm_ChainIndex = rr_Index (chain_at r (k + 1)) - 1, cm_Ciphertext = Some ct\<rparr>"
  have idx: "rr_Index (chain_at r (k + 1)) - 1 = rr_Index (chain_at r k)" by (simp add: chain_at_def)
  obtain a' data env rida sida where send: "SendMessageHandler E content a
      = Ret (if queue_full a then Some (Errorf ''history write queue full'') else None, a', [(tp, data)])"
    and mar: "MarshalEnvelope (ce_lib E) (ce_now E) (ChatMessage ?cm) (cli_User a) (cli_DilithiumPriv a) = Inr (data, env)"
    and room: "cur_room a' = Some (ra\<lparr>ro_RoomRatchet := Some (chain_at r (k + 1))\<rparr>)"
    and own: "GetRoomID a = Ret rida" "GetServerID a = Ret sida"
      "queued (chat_entry env (rr_Index (chain_at r k)) rida sida) a a'"
    using SendMessageHandler_sends [OF assms(2-4,8-12) enc] unfolding idx by blast
  have un: "UnmarshalEnvelope data = Inr (env, ChatMessage ?cm)"
    using Unmarshal_Marshal [OF mar] assms(5,6) by simp
  have env: "env_Sender env = cli_User a" "env_Timestamp env = ce_now E" "env_Type env = MsgTypeChat"
    using mar by (auto simp: MarshalEnvelope_def Let_def split: sum.splits)
  let ?f = "\<lambda>r'. r'\<lparr>ro_RoomRatchet := Some (chain_at r (k + 1)), ro_BackupRatchet := Some (chain_at r (max i (k - 8)))\<rparr>"
  have "client_decrypt (ce_lib E') ?cm b = Some (Ret (Inr (string_bytes content), upd_room ?f b))"
    using assms(1,15-17) dec by (simp add: client_decrypt_def)
  then have step: "chat_step E' peer data b = Some (take_chat E' env ?cm (string_bytes content) (upd_room ?f b))"
    using un env(2) assms(7) by (simp add: chat_step_chat)
  have "GetRoomID (upd_room ?f b) = Ret rid" "GetServerID (upd_room ?f b) = Ret sid" "cur_room (upd_room ?f b) = Some (?f rb)"
    using assms(13-15) GetIDs_upd_room [of ?f b] by simp_all
  from take_chat_room [OF this, of E' env ?cm "string_bytes content"] env obtain b' where
    b': "take_chat E' env ?cm (string_bytes content) (upd_room ?f b) = Ret (None, b')"
      "cur_room b' = Some ((?f rb)\<lparr>ro_Messages := ro_Messages rb @ [\<lparr>dm_Sender = cli_User a, dm_Timestamp = ce_now E,
          dm_Content = content, dm_RoomID = rid, dm_ServerID = sid\<rparr>]\<rparr>)"
      "cli_Lines b' = cli_Lines b @ [chat_line E' (ce_now E) (cli_User a) content]"
      "queued (chat_entry env (rr_Index (chain_at r k)) rid sid) (upd_room ?f b) b'"
    unfolding idx by (auto simp: idx)
  have "queued (chat_entry env (rr_Index (chain_at r k)) rid sid) b b'"
    using b'(4) by (simp add: queued_def queue_full_def)
  with b'(1-3) send un own room step env show ?thesis by fastforce
qed

text \<open>
  Validation decides nothing: a chat message that decrypts is kept and queued for storage as it
  came, whichever peer it came from and whether or not its signature is valid.
\<close>

theorem chat_ignores_validation:
  assumes "UnmarshalEnvelope data = Inr (env, ChatMessage cm)" "env_Timestamp env \<noteq> 0"
    and "client_decrypt (ce_lib E) cm c = Some (Ret (Inr pt, c1))"
  shows "chat_step E peer data c = Some (take_chat E env cm pt c1)"
  using assms by (simp add: chat_step_chat)

text \<open>
  With both ratchets in place the receiving loop panics on exactly the well-formed envelopes that
  are not chat messages: any peer that may publish on the topic can crash the others.
\<close>

theorem chat_step_panics_iff:
  assumes "sessions_ok c" "cur_room c = Some r" "ro_RoomRatchet r \<noteq> None" "ro_BackupRatchet r \<noteq> None"
  shows "(\<exists>p. chat_step E peer data c = Some (Panic p))
    \<longleftrightarrow> (\<exists>env m. UnmarshalEnvelope data = Inr (env, m) \<and> (\<forall>cm. m \<noteq> ChatMessage cm))"
proof (cases "\<exists>env cm. UnmarshalEnvelope data = Inr (env, ChatMessage cm)")
  case True
  then obtain env cm where un: "UnmarshalEnvelope data = Inr (env, ChatMessage cm)" by blast
  have "client_decrypt (ce_lib E) cm c \<noteq> Some (Panic p)" for p
    using assms(2-4) by (auto simp: client_decrypt_def)
  moreover have "take_chat E env' cm pt c1 \<noteq> Panic p"
    if "client_decrypt (ce_lib E) cm c = Some (Ret (res, c1))" for env' pt c1 res p
    using client_decrypt_ok [OF assms(1) that]
    by (simp add: take_chat_def GetRoomID_ok GetServerID_ok Let_def case_prod_unfold)
  ultimately show ?thesis
    using un by (auto simp: chat_step_chat split: option.splits go.splits sum.splits)
next
  case False
  then show ?thesis
    by (auto simp: chat_step_def split: sum.splits prod.splits message.splits)
qed

text \<open>
  Showing the stored messages panics as soon as the first one comes from a peer that the peers
  table does not know, which the client's own messages always do: lookup gives a nil user
  without an error, and the nil pointer is read.
\<close>

theorem stored_unknown_sender_panics:
  assumes "hkdf_ok (ce_lib E)" "chacha_ok (ce_lib E)"
    and "cur_room c = Some rs" "ro_RoomRatchet rs = Some (chain_at r 0)" "ro_BackupRatchet rs = Some (chain_at r 0)"
    and "unat (rr_Index r) + k < 2 ^ 64 - 11"
    and "EncryptMessage (ce_lib E) (chain_at r k) pt = (Inr (ct, nonce), rat)"
    and "GetLatestMessages (ce_fault E) (ce_met E) rid 200 (cli_db c) = Inr (m # ms)"
    and "st_Payload m = Some (string_bytes (jprint (enc_chat_message
      \<lparr>cm_ChainIndex = rr_Index rat - 1, cm_Ciphertext = Some ct\<rparr>)))"
    and "ce_user_fault E (st_SenderID m) = None" "\<forall>p \<in> set (t_rows (cli_peer_db c)). pe_peer_id p \<noteq> st_SenderID m"
  shows "parseAndDisplayDBMessages E rid c = Some (Panic Nil_Dereference)"
proof -
  let ?cm = "\<lparr>cm_ChainIndex = rr_Index rat - 1, cm_Ciphertext = Some ct\<rparr>"
  have "\<exists>rs. decryptMessage (ce_lib E) \<lparr>rs_Main = chain_at r 0, rs_Backup = chain_at r 0\<rparr> ?cm = Some (Inr pt, rs)"
    using ahead_message_decrypts [OF assms(1,2) _ _ assms(6), of 0 0 pt] assms(7) by auto
  then obtain f where dec: "client_decrypt (ce_lib E) ?cm c = Some (Ret (Inr pt, upd_room f c))"
    using assms(3-5) by (auto simp: client_decrypt_def)
  have "enc_chat_message ?cm \<noteq> JNull" by (simp add: enc_chat_message_def)
  then have "dec_ptr dec_chat_message z (enc_chat_message ?cm) None = (True, Some ?cm)" for z
    by (cases "enc_chat_message ?cm") (simp_all add: dec_ptr_def codec_simps enc_chat_message_def dec_chat_message_def chat_message_fields_def)
  moreover have "wf_json (enc_chat_message ?cm)"
    using wf_enc_message [of "ChatMessage ?cm"] by simp
  moreover have "stored_sender E (st_SenderID m) (upd_room f c) = None"
    using assms(10,11) by (auto simp: stored_sender_def GetUserByID_def find_None_iff)
  ultimately have "display_one E m c = Some (Panic Nil_Dereference)"
    using assms(9) dec by (simp add: display_one_def unmarshal_print)
  then show ?thesis
    using assms(8) by (simp add: parseAndDisplayDBMessages_def display_stored_def)
qed

section \<open>Instances of the properties\<close>

definition sample_env :: client_env where
  "sample_env = \<lparr>ce_lib = sample_lib, ce_now = 1000,
     ce_calendar = (\<lambda>_. \<lparr>ca_year = 2025, ca_month = 5, ca_day = 4, ca_hour = 3, ca_minute = 2\<rparr>),
     ce_yesterday = \<lparr>ca_year = 2025, ca_month = 5, ca_day = 3, ca_hour = 3, ca_minute = 2\<rparr>,
     ce_draw = 3, ce_join = (\<lambda>_. None), ce_subscribe = (\<lambda>_. None), ce_publish = (\<lambda>_. None),
     ce_fault = None, ce_user_fault = (\<lambda>_. None), ce_met = (\<lambda>rs. rs),
     ce_gzip = sample_gzip, ce_save_fault = (\<lambda>_. None), ce_auth_fault = None\<rparr>"

definition sample_room :: "nat \<Rightarrow> room_session" where
  "sample_room n = (NewRoomSessionWithMeta (Some \<lparr>rm_ID = ''r'', rm_Name = ''room'', rm_Visibility = Public,
      rm_PasswordHash = None, rm_PasswordSalt = None, rm_EncRoomKey = None, rm_Members = Some []\<rparr>))
     \<lparr>ro_RoomRatchet := Some (chain_at sample_ratchet n), ro_BackupRatchet := Some (chain_at sample_ratchet 0),
      ro_Topics := SetTopic TopicChat ''t'' NewTopicCollection\<rparr>"

definition sample_client :: "nat \<Rightarrow> msg_table \<Rightarrow> client" where
  "sample_client n db =
     \<lparr>cli_User = sample_sender, cli_DilithiumPriv = Some [9], cli_HostID = ''p'', cli_HubID = ''hub'',
      cli_Servers = [], cli_Rooms = [(''r'', sample_room n)], cli_Server = None, cli_Room = Some ''r'',
      cli_History = NewHistoryManager 8 db, cli_Peers = NewPeerManager 8 empty_table,
      cli_Auth = empty_table, cli_Dialogs = [], cli_Lines = []\<rparr>"

lemma sample_client_room [simp]: "cur_room (sample_client n db) = Some (sample_room n)"
  by (simp add: sample_client_def cur_room_def)

lemma sample_client_ok [simp]: "sessions_ok (sample_client n db)"
  by (simp add: sample_client_def sessions_ok_def sample_room_def NewRoomSessionWithMeta_def)

lemma sample_room_fields [simp]:
  "ro_RoomRatchet (sample_room n) = Some (chain_at sample_ratchet n)"
  "ro_BackupRatchet (sample_room n) = Some (chain_at sample_ratchet 0)"
  "GetTopic TopicChat (ro_Topics (sample_room n)) = Some ''t''" "ro_Messages (sample_room n) = []"
  by (simp_all add: sample_room_def NewRoomSessionWithMeta_def NewRoomSession_def)

lemma sample_env_fields [simp]:
  "ce_lib sample_env = sample_lib" "ce_now sample_env = 1000" "ce_publish sample_env t = None"
  "ce_user_fault sample_env u = None" "ce_fault sample_env = None" "ce_met sample_env = (\<lambda>rs. rs)"
  "ce_gzip sample_env = sample_gzip" "ce_save_fault sample_env m = None" "ce_auth_fault sample_env = None"
  "ce_join sample_env t = None" "ce_subscribe sample_env t = None"
  by (simp_all add: sample_env_def)

lemma sample_client_fields [simp]:
  "cli_User (sample_client n db) = sample_sender" "cli_DilithiumPriv (sample_client n db) = Some [9]"
  "cli_Lines (sample_client n db) = []" "cli_db (sample_client n db) = db"
  "cli_peer_db (sample_client n db) = empty_table"
  by (simp_all add: sample_client_def NewHistoryManager_def NewPeerManager_def new_worker_def)

theorem chat_message_delivered_witness:
  "\<exists>a' data b' rb m. SendMessageHandler sample_env ''hi'' (sample_client 4 empty_table) = Ret (None, a', [(''t'', data)])
    \<and> chat_step sample_env ''p'' data (sample_client 2 empty_table) = Some (Ret (None, b'))
    \<and> cur_room b' = Some rb \<and> map dm_Content (ro_Messages rb) = [''hi'']
    \<and> wk_queue (cli_History b') = [m] \<and> st_RoomID m = ''r'' \<and> st_Timestamp m = 1000
    \<and> wk_queue (cli_History a') = [m]"
proof -
  have ids: "GetRoomID (sample_client n empty_table) = Ret ''r''" "GetServerID (sample_client n empty_table) = Ret ''NO SERVER JOINED''" for n
    by (simp_all add: GetRoomID_ok GetServerID_ok) (simp_all add: sample_client_def)
  have room: "\<not> queue_full (sample_client n empty_table)" "wk_queue (cli_History (sample_client n empty_table)) = []" for n
    by (simp_all add: queue_full_def sample_client_def NewHistoryManager_def new_worker_def)
  show ?thesis
    using chat_message_delivered [where E = sample_env and E' = sample_env and a = "sample_client 4 empty_table"
        and b = "sample_client 2 empty_table" and r = sample_ratchet and k = 4 and j = 2 and i = 0
        and tp = "''t''" and content = "''hi''" and peer = "''p''" and ra = "sample_room 4" and rb = "sample_room 2"
        and rid = "''r''" and sid = "''NO SERVER JOINED''"]
    by (fastforce simp: in_int64_def ids room queued_def chat_entry_def)
qed

definition forged_message :: chat_message where
  "forged_message = \<lparr>cm_ChainIndex = 0, cm_Ciphertext = Some [1, 2]\<rparr>"

definition forged_envelope :: envelope where
  "forged_envelope = \<lparr>env_Type = MsgTypeChat, env_Sender = sample_sender, env_Timestamp = 5, env_Signature = Some [0],
     env_Payload = jprint (enc_chat_message forged_message)\<rparr>"

definition forged_data :: bytes where
  "forged_data = string_bytes (jprint (enc_envelope forged_envelope (enc_chat_message forged_message)))"

lemma forged_reads: "UnmarshalEnvelope forged_data = Inr (forged_envelope, ChatMessage forged_message)"
proof -
  have wf: "wf_json (enc_chat_message forged_message)"
    using wf_enc_message [of "ChatMessage forged_message"] by simp
  have "decode_payload MsgTypeChat (jprint (enc_chat_message forged_message)) = Inr (ChatMessage forged_message)"
    using decode_payload_print [of "ChatMessage forged_message"] by simp
  moreover have "unmarshal_into dec_envelope (bytes_string forged_data) zero_envelope = (True, forged_envelope)"
    using wf message_Type_ascii [of "ChatMessage forged_message"]
    by (simp add: forged_data_def unmarshal_print wf_codec codec_simps forged_envelope_def in_int64_def)
  ultimately show ?thesis by (simp add: UnmarshalEnvelope_def) (simp add: forged_envelope_def)
qed

lemma sample_encrypts: "EncryptMessage sample_lib r pt = (Inr (ct, n), r') \<Longrightarrow> ct = rev pt"
  by (auto simp: EncryptMessage_def sample_lib_def sample_aead_def split: prod.splits sum.splits if_splits)

lemma sample_index [simp]: "rr_Index (chain_at sample_ratchet (Suc 0)) = 1"
  by (simp add: chain_at_def advance_def sample_ratchet_def)

lemma sample_decrypts:
  "\<exists>rs. decryptMessage sample_lib \<lparr>rs_Main = chain_at sample_ratchet 0, rs_Backup = chain_at sample_ratchet 0\<rparr>
     forged_message = Some (Inr [2, 1], rs)"
proof -
  obtain ct n where "EncryptMessage sample_lib (chain_at sample_ratchet 0) [2, 1] = (Inr (ct, n), chain_at sample_ratchet (0 + 1))"
    and dec: "\<exists>rs. decryptMessage sample_lib \<lparr>rs_Main = chain_at sample_ratchet 0, rs_Backup = chain_at sample_ratchet 0\<rparr>
      \<lparr>cm_ChainIndex = rr_Index (chain_at sample_ratchet (0 + 1)) - 1, cm_Ciphertext = Some ct\<rparr> = Some (Inr [2, 1], rs)"
    using ahead_message_decrypts [of sample_lib 0 0 0 sample_ratchet "[2, 1]"] by auto
  moreover from this(1) have "ct = rev [2, 1]" by (rule sample_encrypts)
  ultimately show ?thesis by (simp add: forged_message_def)
qed

theorem chat_ignores_validation_witness:
  "\<exists>c1. validateMessageSecurity sample_lib 1000 forged_envelope ''evil'' \<noteq> None
    \<and> chat_step sample_env ''evil'' forged_data (sample_client 0 empty_table)
      = Some (take_chat sample_env forged_envelope forged_message [2, 1] c1)"
proof -
  obtain c1 where "client_decrypt (ce_lib sample_env) forged_message (sample_client 0 empty_table) = Some (Ret (Inr [2, 1], c1))"
    using sample_decrypts by (auto simp: client_decrypt_def)
  from chat_ignores_validation [OF forged_reads _ this, of "''evil''"] show ?thesis
    by (auto simp: forged_envelope_def validateMessageSecurity_def)
qed

theorem chat_step_panics_iff_witness:
  "\<exists>p data. chat_step sample_env ''q'' data (sample_client 0 empty_table) = Some (Panic p)"
proof -
  let ?m = "LeaveMessage \<lparr>lm_PeerID = []\<rparr>"
  obtain data env where m: "MarshalEnvelope sample_lib 1000 ?m sample_sender (Some [9]) = Inr (data, env)"
    by (simp add: MarshalEnvelope_def Sign_def sample_lib_def Let_def)
  have "UnmarshalEnvelope data = Inr (env, ?m)"
    by (rule Unmarshal_Marshal [OF m]) (simp_all add: in_int64_def)
  then show ?thesis
    using chat_step_panics_iff [OF sample_client_ok [of 0 empty_table] sample_client_room, of sample_env "''q''" data]
    by auto
qed

definition own_message_db :: msg_table where
  "own_message_db = snd (SaveEnvelope None (Some [1]) (Some (string_bytes (jprint (enc_chat_message forged_message))))
     20 ''chat'' (Some 0) ''p'' ''r'' ''s'' empty_table)"

lemma own_message_latest:
  "\<exists>m. GetLatestMessages None (\<lambda>rs. rs) ''r'' 200 own_message_db = Inr [m]
    \<and> st_Payload m = Some (string_bytes (jprint (enc_chat_message forged_message)))"
  by (simp add: GetLatestMessages_def own_message_db_def SaveEnvelope_def Let_def sql_order_def sql_limit_def stored_of_row_def)

theorem stored_unknown_sender_panics_witness:
  "parseAndDisplayDBMessages sample_env ''r'' (sample_client 0 own_message_db) = Some (Panic Nil_Dereference)"
proof -
  obtain ct nonce where enc: "EncryptMessage sample_lib (chain_at sample_ratchet 0) [2, 1] = (Inr (ct, nonce), chain_at sample_ratchet (0 + 1))"
    using ahead_message_decrypts [of sample_lib 0 0 0 sample_ratchet "[2, 1]"] by auto
  have ct: "ct = [1, 2]" using sample_encrypts [OF enc] by simp
  obtain m where m: "GetLatestMessages None (\<lambda>rs. rs) ''r'' 200 own_message_db = Inr [m]"
    "st_Payload m = Some (string_bytes (jprint (enc_chat_message forged_message)))"
    using own_message_latest by blast
  have "GetLatestMessages (ce_fault sample_env) (ce_met sample_env) ''r'' 200 (cli_db (sample_client 0 own_message_db)) = Inr (m # [])"
    using m(1) by simp
  from stored_unknown_sender_panics [OF _ _ sample_client_room _ _ _ _ this, where r = sample_ratchet and k = 0
      and pt = "[2, 1]" and ct = ct and nonce = nonce and rat = "chain_at sample_ratchet (0 + 1)"]
    enc m(2) ct show ?thesis by (simp add: forged_message_def)
qed

end
