(* ===== verification/Catch_Up_Correct.thy ===== *)
theory Catch_Up_Correct
  imports Catch_Up Chat_Correct
begin

text \<open>
  The properties of catching up: what a newcomer stores is authentic, what a member answers is
  what the newcomer gets, and the response that crashes the newcomer.
\<close>

section \<open>What is stored\<close>

text \<open>
  A row whose payload carries a signature valid under the key the peers table has for its sender,
  and whose time is not in the future.
\<close>

definition row_authentic :: "client_env \<Rightarrow> peer_table \<Rightarrow> message_row \<Rightarrow> bool" where
  "row_authentic E peers r \<longleftrightarrow>
     (\<exists>p \<in> set (t_rows peers). pe_peer_id p = mr_sender_id r
        \<and> ValidateSignature (ce_lib E) (Some (pe_dilithium_pub p)) (mr_payload r) (Some (mr_signature r)) = None)
     \<and> mr_timestamp r \<le> ce_now E"

lemma set_cli_db_simps [simp]:
  "cli_db (set_cli_db t c) = t" "cli_Peers (set_cli_db t c) = cli_Peers c"
  by (simp_all add: set_cli_db_def)

lemma validated_sender:
  assumes "validateCatchupMessageSecurity E m who c = None"
  obtains p where "p \<in> set (t_rows (cli_peer_db c))" "pe_peer_id p = who" "st_Timestamp m \<le> ce_now E"
    "ValidateSignature (ce_lib E) (Some (pe_dilithium_pub p)) (slice_bytes (st_Payload m)) (st_Signature m) = None"
  using assms
  by (force simp: validateCatchupMessageSecurity_def validateMessageSecurity_def GetUserByID_def user_of_row_def
      find_Some_iff split: option.splits sum.splits if_splits)

lemma saved_row:
  assumes "SaveEnvelope fault sg pay ts mt ci who rid sid t = (e, t')" "r \<in> set (t_rows t')"
  shows "r \<in> set (t_rows t) \<or> (sg = Some (mr_signature r) \<and> pay = Some (mr_payload r)
    \<and> mr_sender_id r = who \<and> mr_timestamp r = ts)"
  using assms by (auto simp: SaveEnvelope_def Let_def split: option.splits if_splits)

lemma save_caught_up_rows:
  "save_caught_up E ms c = Ret (e, c') \<Longrightarrow> r \<in> set (t_rows (cli_db c')) \<Longrightarrow>
   r \<in> set (t_rows (cli_db c)) \<or> row_authentic E (cli_peer_db c) r"
proof (induction ms arbitrary: c)
  case (Cons m ms)
  show ?case
  proof (cases "validateCatchupMessageSecurity E m (st_SenderID m) c")
    case None
    obtain err t where s: "SaveEnvelope (ce_save_fault E m) (st_Signature m) (st_Payload m) (st_Timestamp m)
        (st_MsgType m) (st_ChainIndex m) (st_SenderID m) (st_RoomID m) (st_ServerID m) (cli_db c) = (err, t)"
      by force
    with None Cons.prems(1) have "save_caught_up E ms (set_cli_db t c) = Ret (e, c')"
      by (auto split: if_splits)
    from Cons.IH [OF this Cons.prems(2)] have "r \<in> set (t_rows t) \<or> row_authentic E (cli_peer_db c) r" by simp
    moreover have "row_authentic E (cli_peer_db c) r" if "r \<in> set (t_rows t)" "r \<notin> set (t_rows (cli_db c))"
      using saved_row [OF s that(1)] that(2) validated_sender [OF None]
      by (auto simp: row_authentic_def)
    ultimately show ?thesis by blast
  qed (use Cons.prems in auto)
qed simp

lemma take_response_rows:
  assumes "take_response E resp c = Ret ((rat, e), c')" "r \<in> set (t_rows (cli_db c'))"
  shows "r \<in> set (t_rows (cli_db c)) \<or> row_authentic E (cli_peer_db c) r"
  using assms
  by (auto simp: take_response_def Let_def outcome_simps dest: save_caught_up_rows split: go.splits sum.splits)

lemma process_response_rows:
  assumes "process_response E peer data c = Ret ((rat, e), c')" "r \<in> set (t_rows (cli_db c'))"
  shows "r \<in> set (t_rows (cli_db c)) \<or> row_authentic E (cli_peer_db c) r"
  using assms take_response_rows [of E _ c rat e c' r]
  by (auto simp: process_response_def split: sum.splits option.splits message.splits if_splits)

lemma await_response_rows:
  "await_response E ws c = Ret ((rat, e), c') \<Longrightarrow> r \<in> set (t_rows (cli_db c')) \<Longrightarrow>
   r \<in> set (t_rows (cli_db c)) \<or> row_authentic E (cli_peer_db c) r"
  by (induction E ws c rule: await_response.induct) (auto dest: process_response_rows)

section \<open>Properties\<close>

text \<open>
  C5. Whatever the answers to a catch-up request are, every row that is in the messages table
  afterwards was there before or is authentic: its payload has a signature valid under the key
  the client itself has stored for the sender, and its time is not in the future.
\<close>

theorem caught_up_rows_authentic:
  assumes "requestCatchUp E answers c = Ret ((rat, e), c')" "r \<in> set (t_rows (cli_db c'))"
  shows "r \<in> set (t_rows (cli_db c))
    \<or> ((\<exists>p \<in> set (t_rows (cli_peer_db c)). pe_peer_id p = mr_sender_id r
          \<and> ValidateSignature (ce_lib E) (Some (pe_dilithium_pub p)) (mr_payload r) (Some (mr_signature r)) = None)
       \<and> mr_timestamp r \<le> ce_now E)"
  using assms await_response_rows [of E "map answers [0..<maxRetries]" c rat e c' r]
  unfolding row_authentic_def
  by (auto simp: requestCatchUp_def Let_def need_def outcome_simps simp del: upt_Suc
      split: option.splits sum.splits)

lemma process_answer:
  assumes "key_pair (ce_lib E) (cli_DilithiumPriv h) (u_DilithiumPub (cli_User h))" "wf_user (cli_User h)"
    and "in_int64 (ce_now E)" "ce_now E \<le> ce_now E'" "ce_lib E' = ce_lib E"
    and "send_answer E peer (catch_up_answer key payload None) h = Ret (None, out)"
  shows "\<exists>topic data. out = [(topic, data)]
    \<and> process_response E' (u_PeerID (cli_User h)) data c = take_response E' (catch_up_answer key payload None) c"
proof -
  let ?m = "CatchUpResponse (catch_up_answer key payload None)"
  obtain topic data env where m: "MarshalEnvelope (ce_lib E) (ce_now E) ?m (cli_User h) (cli_DilithiumPriv h) = Inr (data, env)"
    and out: "out = [(topic, data)]"
    using assms(6) by (auto simp: send_answer_def Let_def outcome_simps split: option.splits sum.splits)
  have "UnmarshalEnvelope data = Inr (env, ?m)"
    by (rule Unmarshal_Marshal [OF m _ assms(2,3)]) (simp add: catch_up_answer_def)
  moreover obtain sig where "Sign (ce_lib E) (string_bytes (jprint (enc_message ?m))) (cli_DilithiumPriv h) = Inr sig"
    "env_Sender env = cli_User h" "env_Timestamp env = ce_now E" "env_Signature env = Some sig"
    "env_Payload env = jprint (enc_message ?m)"
    using m by (auto simp: MarshalEnvelope_def Let_def split: sum.splits)
  then have "validateMessageSecurity (ce_lib E') (ce_now E') env (u_PeerID (cli_User h)) = None"
    using signature_accepted [OF assms(1)] assms(4,5) by (simp add: validateMessageSecurity_def)
  ultimately show ?thesis
    using out by (simp add: process_response_def) (simp add: catch_up_answer_def)
qed

text \<open>
  C17. Helping and asking fit together: what a member with a key pair publishes in answer to a request
  is taken by the asking peer as the room key at index zero together with exactly the messages of
  the room the member has (the first hundred by index), without their row identifiers, which it
  then validates and stores one by one.
\<close>

theorem catch_up_exchange:
  assumes "key_pair (ce_lib E) (cli_DilithiumPriv h) (u_DilithiumPub (cli_User h))" "wf_user (cli_User h)"
    and "in_int64 (ce_now E)" "ce_now E \<le> ce_now E'" "ce_lib E' = ce_lib E" "ce_gzip E' = ce_gzip E" "gzip_ok (ce_gzip E)"
    and "helpCatchUp_step E (Inr (peer, request)) h = Some (Ret (None, h', out))"
    and "GetRoomID h = Ret rid" "GetAuth (ce_auth_fault E) rid (cli_Auth h) = Inr roomkey"
    and "GetMessagesSinceChainIndex (ce_fault E) (ce_met E) rid 0 100 (cli_db h) = Inr msgs"
    and "\<forall>m \<in> set msgs. wf_stored_message m \<and> length (marshal_stored m) \<le> maxAlloc"
  shows "\<exists>topic data. out = [(topic, data)]
    \<and> process_response E' (u_PeerID (cli_User h)) data c =
        go_bind (save_caught_up E' (map (st_ID_update (\<lambda>_. 0)) msgs) c)
          (\<lambda>(e, c'). Ret ((Some \<lparr>rr_ChainKey = ra_MasterRatchetKey roomkey, rr_Index = 0\<rparr>, e), c'))"
proof -
  obtain payload lastIndex dberr ms hist where build:
    "BuildCatchUpPayload (ce_gzip E) (ce_fault E) (ce_fault E) (ce_met E) rid 0 100 (wk_target (cli_History h))
      = Some ((payload, lastIndex, dberr, ms), hist)"
    using assms(8,9) by (auto simp: helpCatchUp_step_def split: option.splits)
  have ms: "dberr = None" "ms = msgs"
    using build assms(11) by (auto simp: BuildCatchUpPayload_def Let_def case_prod_unfold split: if_splits)
  let ?h = "h\<lparr>cli_History := (cli_History h)\<lparr>wk_target := hist\<rparr>\<rparr>"
  have "send_answer E peer (catch_up_answer (ra_MasterRatchetKey roomkey) payload None) ?h = Ret (None, out)"
    using assms(8,9,10) build ms
    by (auto simp: helpCatchUp_step_def Let_def outcome_simps split: option.splits sum.splits prod.splits message.splits)
  then obtain topic data where out: "out = [(topic, data)]"
    "process_response E' (u_PeerID (cli_User ?h)) data c = take_response E' (catch_up_answer (ra_MasterRatchetKey roomkey) payload None) c"
    using process_answer [of E ?h E' peer "ra_MasterRatchetKey roomkey" payload out c] assms(1-5) by auto
  have "DecompressCatchUpPayload (ce_gzip E') payload
      = Ret (Inr \<lparr>cu_ReturnedMessages = map (st_ID_update (\<lambda>_. 0)) msgs, cu_SenderID = []\<rparr>)"
    using Build_Decompress [OF assms(7) build [unfolded ms]] assms(6,12) by simp
  with out show ?thesis by (auto simp: take_response_def catch_up_answer_def)
qed

text \<open>
  A response that validates but whose payload is not a gzip stream crashes the client that
  asked: the pointer to the messages is read before the error is.
\<close>

theorem bad_payload_crashes:
  assumes "UnmarshalEnvelope data = Inr (env, CatchUpResponse resp)"
    and "validateMessageSecurity (ce_lib E) (ce_now E) env peer = None" "cr_Error resp = []"
    and "slice_bytes (cr_CatchUpMessages resp) \<noteq> []"
    and "gz_NewReader (ce_gzip E) (slice_bytes (cr_CatchUpMessages resp)) = Inl err"
  shows "process_response E peer data c = Panic Nil_Dereference"
  using assms by (simp add: process_response_def take_response_def DecompressCatchUpPayload_def Let_def)

lemma await_silent: "await_response E (map (\<lambda>_. None) xs) c =
    Ret ((None, Some (Errorf ''no catch-up response received after 5 attempts'')), c)"
  by (induction xs) simp_all

section \<open>Instances of the properties\<close>

definition sample_topics :: room_session where
  "sample_topics = (sample_room 0)\<lparr>ro_Topics := SetTopic TopicCatchUp ''u'' NewTopicCollection\<rparr>"

definition sample_asker :: client where
  "sample_asker = (sample_client 0 empty_table)\<lparr>cli_Rooms := [(''r'', sample_topics)]\<rparr>"

definition sample_helper :: client where
  "sample_helper = (sample_client 0
      (snd (SaveEnvelope None (Some [9, 2]) (Some [2]) 20 ''chat'' (Some 5) ''p'' ''r'' ''s'' empty_table)))
     \<lparr>cli_Rooms := [(''r'', sample_topics)], cli_Auth := snd (SaveAuth None ''r'' 0 (Some [7]) 5 empty_table)\<rparr>"

definition sample_kept :: stored_message where
  "sample_kept = \<lparr>st_ID = 1, st_RoomID = ''r'', st_ServerID = ''s'', st_ChainIndex = Some 5,
     st_MsgType = ''chat'', st_SenderID = ''p'', st_Timestamp = 20, st_Signature = Some [9, 2], st_Payload = Some [2]\<rparr>"

lemma sample_topics_fields [simp]:
  "GetTopic TopicCatchUp (ro_Topics sample_topics) = Some ''u''" "ro_RoomMeta sample_topics = ro_RoomMeta (sample_room 0)"
  by (simp_all add: sample_topics_def)

lemma sample_parties [simp]:
  "cli_User sample_helper = sample_sender" "cli_DilithiumPriv sample_helper = Some [9]"
  "cli_User sample_asker = sample_sender" "cli_DilithiumPriv sample_asker = Some [9]"
  "cur_room sample_helper = Some sample_topics" "cur_room sample_asker = Some sample_topics"
  "GetRoomID sample_helper = Ret ''r''" "GetRoomID sample_asker = Ret ''r''"
  "GetServerID sample_helper = Ret ''NO SERVER JOINED''" "GetServerID sample_asker = Ret ''NO SERVER JOINED''"
  by (simp_all add: sample_helper_def sample_asker_def cur_room_def GetRoomID_def GetServerID_def cur_server_def)
    (simp_all add: sample_client_def sample_room_def NewRoomSessionWithMeta_def)

lemma sample_helper_since:
  "GetMessagesSinceChainIndex None (\<lambda>rs. rs) ''r'' 0 100 (cli_db sample_helper) = Inr [sample_kept]"
  by (simp add: GetMessagesSinceChainIndex_def sample_helper_def SaveEnvelope_def Let_def sql_order_def
      chain_key_def stored_of_row_def sample_kept_def sql_limit_def int64_of_numeral)
    (simp add: uint64_of_def)

definition sample_auth :: room_auth where
  "sample_auth = \<lparr>ra_RoomID = ''r'', ra_ChainIndex = 0, ra_MasterRatchetKey = Some [7], ra_LastUsed = 5,
     ra_Tombstone = False, ra_Synced = True\<rparr>"

lemma sample_helper_auth: "GetAuth None ''r'' (cli_Auth sample_helper) = Inr sample_auth"
  by (simp add: sample_helper_def GetAuth_def SaveAuth_def auth_of_row_def sample_auth_def uint64_of_def)

lemma sample_kept_ok: "wf_stored_message sample_kept \<and> length (marshal_stored sample_kept) \<le> maxAlloc"
proof -
  have "length (marshal_stored sample_kept) \<le> 1000"
    unfolding marshal_stored_def sample_kept_def length_string_bytes by code_simp
  moreover have "wf_stored_message sample_kept"
    unfolding sample_kept_def wf_stored_message_def by code_simp
  ultimately show ?thesis by (simp add: maxAlloc_def)
qed

lemma sample_asked:
  "\<exists>data env. UnmarshalEnvelope data = Inr (env, CatchUpRequest \<lparr>cq_SinceIndex = 0\<rparr>)
     \<and> validateMessageSecurity sample_lib 1000 env ''p'' = None"
proof -
  obtain sig where sig: "Sign sample_lib (string_bytes (jprint (enc_message (CatchUpRequest \<lparr>cq_SinceIndex = 0\<rparr>)))) (Some [9]) = Inr sig"
    using key_pair_signs [OF sample_sender_ok(1)] by blast
  then obtain data env where m: "MarshalEnvelope sample_lib 1000 (CatchUpRequest \<lparr>cq_SinceIndex = 0\<rparr>) sample_sender (Some [9]) = Inr (data, env)"
    by (simp add: MarshalEnvelope_def Let_def)
  then have "UnmarshalEnvelope data = Inr (env, CatchUpRequest \<lparr>cq_SinceIndex = 0\<rparr>)"
    by (rule Unmarshal_Marshal) (simp_all add: in_int64_def)
  moreover have "validateMessageSecurity sample_lib 1000 env ''p'' = None"
    using m sig signature_accepted [OF sample_sender_ok(1) sig]
    by (auto simp: MarshalEnvelope_def Let_def validateMessageSecurity_def)
  ultimately show ?thesis by blast
qed

lemma sample_answers: "\<exists>out. send_answer sample_env ''p'' resp sample_helper = Ret (None, out)"
  using key_pair_signs [OF sample_sender_ok(1), of "string_bytes (jprint (enc_message (CatchUpResponse resp)))"]
  by (auto simp: send_answer_def Let_def MarshalEnvelope_def)

lemma sample_help:
  "\<exists>request h' out. helpCatchUp_step sample_env (Inr (''p'', request)) sample_helper = Some (Ret (None, h', out))"
proof -
  obtain data env where req: "UnmarshalEnvelope data = Inr (env, CatchUpRequest \<lparr>cq_SinceIndex = 0\<rparr>)"
    "validateMessageSecurity sample_lib 1000 env ''p'' = None"
    using sample_asked by blast
  have build: "BuildCatchUpPayload sample_gzip None None (\<lambda>rs. rs) ''r'' 0 100 (wk_target (cli_History sample_helper))
      = Some ((Some (gz_compress sample_gzip (writeFrame (marshal_stored sample_kept))), 5, None, [sample_kept]),
          wk_target (cli_History sample_helper))"
    by (simp add: BuildCatchUpPayload_def sample_helper_since) (simp add: sample_kept_def)
  obtain out where "send_answer sample_env ''p'' (catch_up_answer (ra_MasterRatchetKey sample_auth)
      (Some (gz_compress sample_gzip (writeFrame (marshal_stored sample_kept)))) None) sample_helper = Ret (None, out)"
    using sample_answers by blast
  then show ?thesis
    using req build sample_helper_auth
    by (intro exI [of _ data]) (simp add: helpCatchUp_step_def Let_def)
qed

theorem catch_up_exchange_witness:
  "\<exists>request topic data. process_response sample_env ''p'' data sample_asker =
        go_bind (save_caught_up sample_env [sample_kept\<lparr>st_ID := 0\<rparr>] sample_asker)
          (\<lambda>(e, c'). Ret ((Some \<lparr>rr_ChainKey = Some [7], rr_Index = 0\<rparr>, e), c'))
    \<and> (\<exists>h'. helpCatchUp_step sample_env (Inr (''p'', request)) sample_helper = Some (Ret (None, h', [(topic, data)])))"
proof -
  obtain request h' out where hlp: "helpCatchUp_step sample_env (Inr (''p'', request)) sample_helper = Some (Ret (None, h', out))"
    using sample_help by blast
  show ?thesis
    using catch_up_exchange [where E = sample_env and E' = sample_env and h = sample_helper and rid = "''r''"
        and roomkey = sample_auth and msgs = "[sample_kept]" and c = sample_asker, OF _ _ _ _ _ _ _ hlp]
      hlp sample_helper_since sample_helper_auth sample_kept_ok
    by (auto simp: in_int64_def sample_auth_def)
qed

text \<open>A client that knows the sender, and the answer of the helper, which it takes a message from.\<close>

definition known_sender :: user where
  "known_sender = sample_sender\<lparr>u_KyberPub := Some [4], u_Libp2pPub := Some [5]\<rparr>"

definition sample_friend :: client where
  "sample_friend = sample_asker\<lparr>cli_Peers := NewPeerManager 8 (snd (SaveUser None (Errorf []) 0 known_sender empty_table))\<rparr>"

lemma sample_friend_fields [simp]:
  "GetServerID sample_friend = Ret ''NO SERVER JOINED''" "GetRoomID sample_friend = Ret ''r''"
  "cli_User sample_friend = sample_sender" "cli_DilithiumPriv sample_friend = Some [9]"
  "cur_room sample_friend = Some sample_topics" "cli_db sample_friend = empty_table"
  using sample_parties(6,8,10) sample_parties(3,4)
  by (simp_all add: sample_friend_def GetServerID_def GetRoomID_def cur_server_def) (simp add: sample_asker_def sample_client_def NewHistoryManager_def new_worker_def)

lemma sample_friend_peers:
  "cli_peer_db sample_friend = snd (SaveUser None (Errorf []) 0 known_sender empty_table)"
  by (simp add: sample_friend_def NewPeerManager_def new_worker_def)

definition sample_compressed :: slice where
  "sample_compressed = Some (gz_compress sample_gzip (writeFrame (marshal_stored sample_kept)))"

lemma sample_decompressed:
  "DecompressCatchUpPayload sample_gzip sample_compressed
    = Ret (Inr \<lparr>cu_ReturnedMessages = [sample_kept\<lparr>st_ID := 0\<rparr>], cu_SenderID = []\<rparr>)"
  using read_entries_frames [of "[sample_kept]" "[]"] sample_kept_ok
  by (simp add: DecompressCatchUpPayload_def sample_compressed_def sample_gzip_def)

lemma sample_validates:
  "validateCatchupMessageSecurity sample_env (sample_kept\<lparr>st_ID := 0\<rparr>) ''p'' sample_friend = None"
proof -
  have "ValidateSignature sample_lib (Some [9]) [2] (Some [9, 2]) = None" by code_simp
  then show ?thesis
    by (simp add: validateCatchupMessageSecurity_def sample_friend_peers GetUserByID_def SaveUser_def known_sender_def)
      (simp add: sample_kept_def sample_sender_def zero_user_def validateMessageSecurity_def user_of_row_def)
qed

lemma sample_taken_answer:
  "\<exists>c'. take_response sample_env (catch_up_answer (Some [7]) sample_compressed None) sample_friend
      = Ret ((Some \<lparr>rr_ChainKey = Some [7], rr_Index = 0\<rparr>, None), c')
    \<and> t_rows (cli_db c') \<noteq> []"
  using sample_decompressed sample_validates
  by (simp add: take_response_def catch_up_answer_def)
    (simp add: sample_kept_def SaveEnvelope_def Let_def)

theorem caught_up_rows_authentic_witness:
  "\<exists>answers c' r. requestCatchUp sample_env answers sample_friend
      = Ret ((Some \<lparr>rr_ChainKey = Some [7], rr_Index = 0\<rparr>, None), c')
    \<and> r \<in> set (t_rows (cli_db c')) \<and> r \<notin> set (t_rows (cli_db sample_friend))
    \<and> ValidateSignature sample_lib (Some [9]) (mr_payload r) (Some (mr_signature r)) = None
    \<and> mr_timestamp r \<le> 1000"
proof -
  obtain out where "send_answer sample_env ''p'' (catch_up_answer (Some [7]) sample_compressed None) sample_helper = Ret (None, out)"
    using sample_answers by blast
  from process_answer [OF _ _ _ _ _ this, of sample_env sample_friend] obtain data where
    "process_response sample_env ''p'' data sample_friend
      = take_response sample_env (catch_up_answer (Some [7]) sample_compressed None) sample_friend"
    by (auto simp: in_int64_def)
  with sample_taken_answer obtain c' where taken: "process_response sample_env ''p'' data sample_friend
      = Ret ((Some \<lparr>rr_ChainKey = Some [7], rr_Index = 0\<rparr>, None), c')" "t_rows (cli_db c') \<noteq> []" by auto
  let ?answers = "\<lambda>i::nat. Some (''p'', data)"
  obtain sig where "Sign sample_lib (string_bytes (jprint (enc_message (CatchUpRequest \<lparr>cq_SinceIndex = 0\<rparr>)))) (Some [9]) = Inr sig"
    using key_pair_signs [OF sample_sender_ok(1)] by blast
  then have asked: "requestCatchUp sample_env ?answers sample_friend = Ret ((Some \<lparr>rr_ChainKey = Some [7], rr_Index = 0\<rparr>, None), c')"
    using taken(1) by (simp add: requestCatchUp_def Let_def MarshalEnvelope_def maxRetries_def upt_rec)
  obtain r where r: "r \<in> set (t_rows (cli_db c'))" using taken(2) by (cases "t_rows (cli_db c')") auto
  have new: "r \<notin> set (t_rows (cli_db sample_friend))" by (simp add: empty_table_def)
  have key: "pe_dilithium_pub p = [9]" if "p \<in> set (t_rows (cli_peer_db sample_friend))" for p
    using that by (simp add: sample_friend_peers SaveUser_def known_sender_def sample_sender_def zero_user_def)
  from caught_up_rows_authentic [OF asked r] new key asked r show ?thesis by fastforce
qed

theorem bad_payload_crashes_witness:
  "\<exists>data. process_response (sample_env\<lparr>ce_gzip := sample_gzip\<lparr>gz_NewReader := (\<lambda>_. Inl (Errorf ''gzip: invalid header''))\<rparr>\<rparr>)
     ''p'' data sample_asker = Panic Nil_Dereference"
proof -
  let ?resp = "catch_up_answer (Some [7]) (Some [1]) None"
  let ?m = "CatchUpResponse ?resp"
  obtain sig where sig: "Sign sample_lib (string_bytes (jprint (enc_message ?m))) (Some [9]) = Inr sig"
    using key_pair_signs [OF sample_sender_ok(1)] by blast
  then obtain data env where m: "MarshalEnvelope sample_lib 1000 ?m sample_sender (Some [9]) = Inr (data, env)"
    by (simp add: MarshalEnvelope_def Let_def)
  then have "UnmarshalEnvelope data = Inr (env, ?m)"
    by (rule Unmarshal_Marshal) (simp_all add: in_int64_def catch_up_answer_def)
  moreover have "validateMessageSecurity sample_lib 1000 env ''p'' = None"
    using m sig signature_accepted [OF sample_sender_ok(1) sig]
    by (auto simp: MarshalEnvelope_def Let_def validateMessageSecurity_def)
  ultimately show ?thesis
    using bad_payload_crashes [of data env ?resp "sample_env\<lparr>ce_gzip := sample_gzip\<lparr>gz_NewReader := (\<lambda>_. Inl (Errorf ''gzip: invalid header''))\<rparr>\<rparr>" "''p''" "Errorf ''gzip: invalid header''" sample_asker]
    by (auto simp: catch_up_answer_def)
qed

end
