(* ===== verification/Hub_Store.thy ===== *)
theory Hub_Store
  imports Models Errors
begin

text \<open>
  internal/hub/store.go: the hub's table of servers, each with its table of rooms. Every method
  runs under the store's lock, so a method is one step. The interface \<open>keyed_store\<close> is what the
  hub's handlers need of such a table; it is interpreted for servers and for the rooms of a
  server, and its retry lemmas serve the loops that draw identifiers.
\<close>

record hub_store =
  hs_servers :: "(string, server_meta) gomap"

definition NewHubStore :: hub_store where
  "NewHubStore = \<lparr>hs_servers = []\<rparr>"

text \<open>The visiting order of a \<open>range\<close> over the map is the argument \<open>ord\<close>.\<close>

definition ListServers :: "(server_meta list \<Rightarrow> server_meta list) \<Rightarrow> hub_store \<Rightarrow> server_meta list" where
  "ListServers ord hs = ord (map snd (hs_servers hs))"

definition CreateServer :: "server_meta \<Rightarrow> hub_store \<Rightarrow> go_error option \<times> hub_store" where
  "CreateServer server hs =
     (case mget (hs_servers hs) (sm_ID server) of
        Some _ \<Rightarrow> (Some ErrDuplicateID, hs)
      | None \<Rightarrow> (None, hs\<lparr>hs_servers := mput (sm_ID server) server (hs_servers hs)\<rparr>))"

definition ListRooms ::
  "(room_meta list \<Rightarrow> room_meta list) \<Rightarrow> string \<Rightarrow> hub_store \<Rightarrow> go_error + room_meta list"
where
  "ListRooms ord serverID hs =
     (case mget (hs_servers hs) serverID of
        None \<Rightarrow> Inl ErrServerNotFound
      | Some server \<Rightarrow> Inr (ord (map snd (nil_map (sm_Rooms server)))))"

text \<open>The servers are pointers: writing through one writes the stored server.\<close>

definition set_rooms :: "string \<Rightarrow> server_meta \<Rightarrow> (string, room_meta) gomap \<Rightarrow> hub_store \<Rightarrow> hub_store"
where
  "set_rooms serverID server rooms hs =
     hs\<lparr>hs_servers := mput serverID (server\<lparr>sm_Rooms := Some rooms\<rparr>) (hs_servers hs)\<rparr>"

definition CreateRoom ::
  "string \<Rightarrow> room_meta \<Rightarrow> hub_store \<Rightarrow> (go_error option \<times> hub_store) go"
where
  "CreateRoom serverID room hs =
     (case mget (hs_servers hs) serverID of
        None \<Rightarrow> Ret (Some ErrServerNotFound, hs)
      | Some server \<Rightarrow>
          (case mget (nil_map (sm_Rooms server)) (rm_ID room) of
             Some _ \<Rightarrow> Ret (Some ErrDuplicateID, hs)
           | None \<Rightarrow>
               (case sm_Rooms server of
                  None \<Rightarrow> Panic Nil_Map_Write
                | Some rooms \<Rightarrow>
                    Ret (None, set_rooms serverID server (mput (rm_ID room) room rooms) hs))))"

definition GetServer :: "string \<Rightarrow> hub_store \<Rightarrow> go_error + server_meta" where
  "GetServer serverID hs =
     (case mget (hs_servers hs) serverID of None \<Rightarrow> Inl ErrServerNotFound | Some s \<Rightarrow> Inr s)"

definition GetRoom :: "string \<Rightarrow> string \<Rightarrow> hub_store \<Rightarrow> go_error + room_meta" where
  "GetRoom serverID roomID hs =
     (case mget (hs_servers hs) serverID of
        None \<Rightarrow> Inl ErrServerNotFound
      | Some server \<Rightarrow>
          (case mget (nil_map (sm_Rooms server)) roomID of
             None \<Rightarrow> Inl ErrRoomNotFound | Some room \<Rightarrow> Inr room))"

section \<open>The invariant of the store\<close>

definition wf_room :: "string \<Rightarrow> room_meta \<Rightarrow> bool" where
  "wf_room rid rm \<longleftrightarrow> rm_ID rm = rid \<and> (\<exists>ms. rm_Members rm = Some ms \<and> wf_map ms)"

definition wf_server :: "string \<Rightarrow> server_meta \<Rightarrow> bool" where
  "wf_server sid sm \<longleftrightarrow>
     sm_ID sm = sid
     \<and> (\<exists>rs. sm_Rooms sm = Some rs \<and> wf_map rs
          \<and> (\<forall>rid rm. mget rs rid = Some rm \<longrightarrow> wf_room rid rm))"

definition wf_store :: "hub_store \<Rightarrow> bool" where
  "wf_store hs \<longleftrightarrow>
     wf_map (hs_servers hs)
     \<and> (\<forall>sid sm. mget (hs_servers hs) sid = Some sm \<longrightarrow> wf_server sid sm)"

lemma wf_NewHubStore [simp]: "wf_store NewHubStore"
  by (simp add: wf_store_def NewHubStore_def)

lemma wf_store_serverD: "wf_store hs \<Longrightarrow> mget (hs_servers hs) sid = Some sm \<Longrightarrow> wf_server sid sm"
  by (simp add: wf_store_def)

lemma wf_serverE:
  assumes "wf_server sid sm"
  obtains rs where "sm_Rooms sm = Some rs" "wf_map rs" "sm_ID sm = sid"
    "\<And>rid rm. mget rs rid = Some rm \<Longrightarrow> wf_room rid rm"
  using assms unfolding wf_server_def by blast

lemma wf_store_put:
  assumes "wf_store hs" and "wf_server sid sm"
  shows "wf_store (hs\<lparr>hs_servers := mput sid sm (hs_servers hs)\<rparr>)"
  using assms by (simp add: wf_store_def map_simps)

lemma wf_CreateServer:
  assumes "wf_store hs" and "wf_server (sm_ID sm) sm"
  shows "wf_store (snd (CreateServer sm hs))"
  using assms by (auto simp: CreateServer_def wf_store_put split: option.split)

lemma wf_set_rooms:
  assumes "wf_store hs" "mget (hs_servers hs) sid = Some sm" "wf_map rs"
    and "\<And>rid rm. mget rs rid = Some rm \<Longrightarrow> wf_room rid rm"
  shows "wf_store (set_rooms sid sm rs hs)"
proof -
  have "wf_server sid (sm\<lparr>sm_Rooms := Some rs\<rparr>)"
    using wf_store_serverD [OF assms(1,2)] assms(3,4) by (simp add: wf_server_def)
  then show ?thesis
    unfolding set_rooms_def by (rule wf_store_put [OF assms(1)])
qed

text \<open>On well-formed stores creating a room never panics and keeps the store well formed.\<close>

lemma wf_CreateRoom:
  assumes "wf_store hs" and "wf_room (rm_ID rm) rm"
  obtains e hs' where "CreateRoom sid rm hs = Ret (e, hs')" "wf_store hs'"
proof (cases "mget (hs_servers hs) sid")
  case None
  then show ?thesis using that assms(1) by (simp add: CreateRoom_def)
next
  case (Some sm)
  from wf_store_serverD [OF assms(1) Some] obtain rs where
    rs: "sm_Rooms sm = Some rs" "wf_map rs" "\<And>rid rm. mget rs rid = Some rm \<Longrightarrow> wf_room rid rm"
    by (metis wf_serverE)
  have "wf_store (set_rooms sid sm (mput (rm_ID rm) rm rs) hs)"
    using assms(2) rs by (intro wf_set_rooms [OF assms(1) Some]) (auto simp: map_simps split: if_splits)
  then show ?thesis
    using that assms(1) Some rs(1) by (cases "mget rs (rm_ID rm)") (simp_all add: CreateRoom_def)
qed

section \<open>Looking up after creating\<close>

lemma GetServer_eq: "GetServer sid hs = Inr sm \<longleftrightarrow> mget (hs_servers hs) sid = Some sm"
  by (simp add: GetServer_def split: option.split)

lemma GetServer_CreateServer:
  assumes "CreateServer sm hs = (None, hs')"
  shows "GetServer sid hs' = (if sid = sm_ID sm then Inr sm else GetServer sid hs)"
  using assms by (auto simp: CreateServer_def GetServer_def map_simps split: option.splits if_splits)

lemma CreateServer_fresh:
  "fst (CreateServer sm hs) = None \<longleftrightarrow> (\<exists>e. GetServer (sm_ID sm) hs = Inl e)"
  by (simp add: CreateServer_def GetServer_def split: option.split)

lemma GetRoom_CreateRoom:
  assumes "CreateRoom sid rm hs = Ret (None, hs')"
  shows "GetRoom sid rid hs' = (if rid = rm_ID rm then Inr rm else GetRoom sid rid hs)"
    and "sid' \<noteq> sid \<Longrightarrow> GetRoom sid' rid hs' = GetRoom sid' rid hs"
  using assms
  by (auto simp: CreateRoom_def GetRoom_def set_rooms_def map_simps split: option.splits if_splits)

section \<open>The interface of a table with identifiers\<close>

text \<open>
  A table in which creating an entry fails with a duplicate error exactly when its identifier
  is taken, leaves the table alone then, and otherwise adds the entry and touches no other.
  \<open>ready\<close> tells when the table is there at all (the rooms of a server that exists).
\<close>

locale keyed_store =
  fixes ready :: "'s \<Rightarrow> bool"
    and find_by :: "'k \<Rightarrow> 's \<Rightarrow> 'v option"
    and create :: "'v \<Rightarrow> 's \<Rightarrow> (go_error option \<times> 's) go"
    and ident :: "'v \<Rightarrow> 'k"
  assumes create_fresh: "ready s \<Longrightarrow> find_by (ident v) s = None \<Longrightarrow>
      \<exists>s'. create v s = Ret (None, s') \<and> ready s'"
    and create_taken: "ready s \<Longrightarrow> find_by (ident v) s \<noteq> None \<Longrightarrow>
      create v s = Ret (Some ErrDuplicateID, s)"
    and find_created: "create v s = Ret (None, s') \<Longrightarrow> ready s \<Longrightarrow>
      find_by k s' = (if k = ident v then Some v else find_by k s)"
begin

lemma create_cases:
  assumes "ready s"
  obtains (fresh) s' where "find_by (ident v) s = None" "create v s = Ret (None, s')" "ready s'"
  | (taken) "find_by (ident v) s \<noteq> None" "create v s = Ret (Some ErrDuplicateID, s)"
  using create_fresh [OF assms] create_taken [OF assms] by blast

lemma create_keeps:
  assumes "ready s" "create v s = Ret (None, s')" "find_by k s = Some w"
  shows "find_by k s' = Some w"
  using assms find_created [OF assms(2,1)] create_taken [OF assms(1), of v] by auto

end

definition server_exists :: "string \<Rightarrow> hub_store \<Rightarrow> bool" where
  "server_exists sid hs \<longleftrightarrow> (\<exists>sm. mget (hs_servers hs) sid = Some sm \<and> sm_Rooms sm \<noteq> None)"

definition find_room :: "string \<Rightarrow> string \<Rightarrow> hub_store \<Rightarrow> room_meta option" where
  "find_room sid rid hs = (case GetRoom sid rid hs of Inl _ \<Rightarrow> None | Inr rm \<Rightarrow> Some rm)"

interpretation servers: keyed_store "\<lambda>_. True" "\<lambda>sid hs. mget (hs_servers hs) sid"
  "\<lambda>sm hs. Ret (CreateServer sm hs)" sm_ID
  by unfold_locales (auto simp: CreateServer_def map_simps split: option.splits if_splits)

interpretation rooms: keyed_store "server_exists sid" "find_room sid" "CreateRoom sid" rm_ID for sid
proof unfold_locales
  fix s :: hub_store and v :: room_meta
  assume "server_exists sid s" "find_room sid (rm_ID v) s = None"
  then show "\<exists>s'. CreateRoom sid v s = Ret (None, s') \<and> server_exists sid s'"
    by (auto simp: server_exists_def find_room_def GetRoom_def CreateRoom_def set_rooms_def map_simps
        split: option.splits)
next
  fix s :: hub_store and v :: room_meta
  assume "server_exists sid s" "find_room sid (rm_ID v) s \<noteq> None"
  then show "CreateRoom sid v s = Ret (Some ErrDuplicateID, s)"
    by (auto simp: server_exists_def find_room_def GetRoom_def CreateRoom_def split: option.splits)
next
  fix v :: room_meta and s s' :: hub_store and k
  assume "CreateRoom sid v s = Ret (None, s')" "server_exists sid s"
  then show "find_room sid k s' = (if k = rm_ID v then Some v else find_room sid k s)"
    by (simp add: find_room_def GetRoom_CreateRoom(1))
qed

end
