(* ===== verification/Hub_Server.thy ===== *)
theory Hub_Server
  imports Hub_Store Rpc_Codec Topics
begin

text \<open>
  internal/hub/server.go: the handler of a stream, method by method, and the advertisers that
  handlers start in goroutines. The request envelope is a package variable that all streams
  share, so decoding a request and dispatching on it are separate operations on that variable.
  What the environment decides (the order in which maps are visited, the random identifiers
  with the clock, the outcome of joining and publishing) is a \<open>hub_world\<close>.
\<close>

record hub_world =
  hw_order_servers :: "server_meta list \<Rightarrow> server_meta list"
  hw_order_rooms :: "room_meta list \<Rightarrow> room_meta list"
  hw_order_members :: "member list \<Rightarrow> member list"
  hw_draws :: "(bytes \<times> int) list"
  hw_join :: "string \<Rightarrow> go_error option"
  hw_marshal :: "rpc_response \<Rightarrow> go_error option"
  hw_publish :: "string \<Rightarrow> go_error option"

definition world_ok :: "hub_world \<Rightarrow> bool" where
  "world_ok w \<longleftrightarrow>
     map_order (hw_order_servers w) \<and> map_order (hw_order_rooms w) \<and> map_order (hw_order_members w)"

text \<open>The goroutines a handler starts, and what a handler does when it returns.\<close>

datatype hub_task = NewServerTask | NewRoomTask string | NewcomersTask string string

type_synonym rpc_effect = "hub_store \<times> rpc_response list \<times> hub_task list"

text \<open>\<open>None\<close>: the draws given are used up and the handler is still looking for a free identifier.\<close>

type_synonym rpc_result = "rpc_effect go option"

section \<open>ListServers and ListRooms\<close>

definition sanitize_server :: "server_meta \<Rightarrow> server_meta" where
  "sanitize_server server = server\<lparr>sm_PasswordSalt := None, sm_PasswordHash := None\<rparr>"

definition visible_servers :: "server_meta list \<Rightarrow> server_meta list" where
  "visible_servers servers =
     map sanitize_server (filter (\<lambda>s. sm_Visibility s \<noteq> Private) servers)"

definition sanitize_room :: "room_meta \<Rightarrow> room_meta" where
  "sanitize_room room =
     room\<lparr>rm_PasswordSalt := None, rm_PasswordHash := None, rm_Members := None\<rparr>"

definition visible_rooms :: "room_meta list \<Rightarrow> room_meta list" where
  "visible_rooms rooms = map sanitize_room (filter (\<lambda>r. rm_Visibility r \<noteq> Private) rooms)"

definition handle_ListServers :: "hub_world \<Rightarrow> hub_store \<Rightarrow> rpc_effect" where
  "handle_ListServers w hs =
     (hs, [ListServersResponse (visible_servers (ListServers (hw_order_servers w) hs))], [])"

definition handle_ListRooms :: "hub_world \<Rightarrow> string \<Rightarrow> hub_store \<Rightarrow> rpc_effect" where
  "handle_ListRooms w params hs =
     (let (ok, req) = unmarshal_into dec_list_rooms_request params zero_list_rooms_request in
      if \<not> ok then (hs, [], [])
      else
        (case ListRooms (hw_order_rooms w) (lrr_ServerID req) hs of
           Inl e \<Rightarrow> (hs, [], [])
         | Inr rooms \<Rightarrow> (hs, [ListRoomsResponse (visible_rooms rooms) []], [])))"

section \<open>CreateServer\<close>

definition new_server :: "addr_info \<Rightarrow> create_server_request \<Rightarrow> bytes \<Rightarrow> int \<Rightarrow> server_meta" where
  "new_server remote req b now =
     \<lparr>sm_ID = GenerateRandomID b, sm_Name = csr_Name req, sm_Description = csr_Description req,
      sm_Visibility = csr_Visibility req, sm_OwnerPeerID = ai_ID remote, sm_CreatedAt = now,
      sm_PasswordHash = csr_PasswordHash req, sm_PasswordSalt = csr_PasswordSalt req,
      sm_Rooms = Some [], sm_Online = 0\<rparr>"

fun create_server_loop ::
  "addr_info \<Rightarrow> create_server_request \<Rightarrow> (bytes \<times> int) list \<Rightarrow> hub_store
     \<Rightarrow> (server_meta \<times> hub_store) option"
where
  "create_server_loop remote req [] hs = None"
| "create_server_loop remote req ((b, now) # draws) hs =
     (let sm = new_server remote req b now in
      case CreateServer sm hs of
        (None, hs') \<Rightarrow> Some (sm, hs')
      | (Some e, hs') \<Rightarrow> create_server_loop remote req draws hs')"

definition handle_CreateServer ::
  "hub_world \<Rightarrow> addr_info \<Rightarrow> string \<Rightarrow> hub_store \<Rightarrow> rpc_effect option"
where
  "handle_CreateServer w remote params hs =
     (let (ok, req) = unmarshal_into dec_create_server_request params zero_create_server_request in
      if \<not> ok then Some (hs, [], [])
      else
        (case create_server_loop remote req (hw_draws w) hs of
           None \<Rightarrow> None
         | Some (sm, hs') \<Rightarrow> Some (hs', [CreateServerResponse (sm_ID sm)], [NewServerTask])))"

section \<open>CreateRoom\<close>

definition new_room :: "create_room_request \<Rightarrow> bytes \<Rightarrow> room_meta" where
  "new_room req b =
     \<lparr>rm_ID = GenerateRandomID b, rm_Name = crr_RoomName req, rm_Visibility = crr_Visibility req,
      rm_PasswordHash = crr_PasswordHash req, rm_PasswordSalt = crr_PasswordSalt req,
      rm_EncRoomKey = crr_EncRoomKey req, rm_Members = Some []\<rparr>"

text \<open>The loop writes an error response and leaves when the server is unknown.\<close>

fun create_room_loop ::
  "create_room_request \<Rightarrow> (bytes \<times> int) list \<Rightarrow> hub_store
     \<Rightarrow> (room_meta \<times> rpc_response list \<times> hub_store) go option"
where
  "create_room_loop req [] hs = None"
| "create_room_loop req ((b, now) # draws) hs =
     (let rm = new_room req b in
      case CreateRoom (crr_ServerID req) rm hs of
        Panic p \<Rightarrow> Some (Panic p)
      | Ret (err, hs') \<Rightarrow>
          if err = Some ErrServerNotFound
          then Some (Ret (rm, [CreateRoomResponse [] ''Server not found''], hs'))
          else if err = None then Some (Ret (rm, [], hs'))
          else create_room_loop req draws hs')"

definition handle_CreateRoom :: "hub_world \<Rightarrow> string \<Rightarrow> hub_store \<Rightarrow> rpc_result" where
  "handle_CreateRoom w params hs =
     (let (ok, req) = unmarshal_into dec_create_room_request params zero_create_room_request in
      if \<not> ok then Some (Ret (hs, [], []))
      else
        (case create_room_loop req (hw_draws w) hs of
           None \<Rightarrow> None
         | Some (Panic p) \<Rightarrow> Some (Panic p)
         | Some (Ret (rm, replies, hs')) \<Rightarrow>
             Some (Ret (hs', replies @ [CreateRoomResponse (rm_ID rm) []],
               [NewRoomTask (crr_ServerID req)]))))"

section \<open>JoinServer and JoinRoom\<close>

definition join_server_response ::
  "join_server_request \<Rightarrow> go_error + server_meta \<Rightarrow> rpc_response"
where
  "join_server_response req found =
     (case found of
        Inl err \<Rightarrow> JoinServerResponse None ''server not found''
      | Inr server \<Rightarrow>
          if sm_Visibility server = Private
          then JoinServerResponse None ''server is private''
          else if sm_Visibility server = PasswordProtected then
            (if \<not> bytes_Equal (jsr_PasswordHash req) (sm_PasswordHash server)
             then JoinServerResponse None ''invalid server password''
             else JoinServerResponse (Some server) [])
          else JoinServerResponse (Some (sanitize_server server)) [])"

definition handle_JoinServer :: "string \<Rightarrow> hub_store \<Rightarrow> rpc_effect" where
  "handle_JoinServer params hs =
     (let (ok, req) = unmarshal_into dec_join_server_request params zero_join_server_request in
      if \<not> ok then (hs, [], [])
      else (hs, [join_server_response req (GetServer (jsr_ServerID req) hs)], []))"

text \<open>\<open>room.Members[k] = v\<close> through the pointer into the store.\<close>

definition put_member ::
  "string \<Rightarrow> string \<Rightarrow> room_meta \<Rightarrow> string \<Rightarrow> member \<Rightarrow> hub_store \<Rightarrow> hub_store go"
where
  "put_member sid rid room k v hs =
     (case rm_Members room of
        None \<Rightarrow> Panic Nil_Map_Write
      | Some members \<Rightarrow>
          (case mget (hs_servers hs) sid of
             None \<Rightarrow> Panic Nil_Dereference
           | Some server \<Rightarrow>
               Ret (set_rooms sid server
                 (mput rid (room\<lparr>rm_Members := Some (mput k v members)\<rparr>)
                   (nil_map (sm_Rooms server))) hs)))"

text \<open>
  After the checks the handler writes to \<open>resp.Room\<close> whether or not it was set, sends the
  response, and compares the sender with the peer only then.
\<close>

definition join_room :: "addr_info \<Rightarrow> join_room_request \<Rightarrow> hub_store \<Rightarrow> rpc_effect go" where
  "join_room remote req hs =
     (case GetRoom (jrr_ServerID req) (jrr_RoomID req) hs of
        Inl err \<Rightarrow> Panic Nil_Dereference
      | Inr room \<Rightarrow>
          if rm_Visibility room = Private then Panic Nil_Dereference
          else if rm_Visibility room = PasswordProtected
            \<and> \<not> bytes_Equal (jrr_PasswordHash req) (rm_PasswordHash room)
          then Ret (hs, [JoinRoomResponse None ''invalid room password''], [])
          else
            (let reply = JoinRoomResponse (Some (room\<lparr>rm_Members := Some []\<rparr>)) [] in
             if ai_ID remote \<noteq> u_PeerID (jrr_Sender req)
             then Ret (hs, [reply, JoinRoomResponse None ''Sender peer ID mismatch''], [])
             else
               go_bind
                 (put_member (jrr_ServerID req) (jrr_RoomID req) room (ai_ID remote)
                   \<lparr>m_AddrInfo = remote, m_User = jrr_Sender req\<rparr> hs)
                 (\<lambda>hs'. Ret (hs', [reply], [NewcomersTask (jrr_ServerID req) (jrr_RoomID req)]))))"

definition handle_JoinRoom :: "addr_info \<Rightarrow> string \<Rightarrow> hub_store \<Rightarrow> rpc_effect go" where
  "handle_JoinRoom remote params hs =
     (let (ok, req) = unmarshal_into dec_join_room_request params zero_join_room_request in
      if \<not> ok then Ret (hs, [], []) else join_room remote req hs)"

section \<open>ListRoomMembers and dispatch\<close>

definition handle_ListRoomMembers :: "hub_world \<Rightarrow> string \<Rightarrow> hub_store \<Rightarrow> rpc_effect" where
  "handle_ListRoomMembers w params hs =
     (let (ok, req) =
        unmarshal_into dec_list_room_members_request params zero_list_room_members_request in
      if \<not> ok then (hs, [ListRoomMembersResponse [] ''Invalid parameters''], [])
      else
        (case GetRoom (lmr_ServerID req) (lmr_RoomID req) hs of
           Inl err \<Rightarrow> (hs, [ListRoomMembersResponse [] ''Room not found''], [])
         | Inr room \<Rightarrow>
             (hs, [ListRoomMembersResponse
                     (hw_order_members w (map snd (nil_map (rm_Members room)))) []], [])))"

definition hub_dispatch :: "hub_world \<Rightarrow> addr_info \<Rightarrow> rpc_env \<Rightarrow> hub_store \<Rightarrow> rpc_result" where
  "hub_dispatch w remote env hs =
     (let p = he_Params env in
      if he_Method env = ''ListServers'' then Some (Ret (handle_ListServers w hs))
      else if he_Method env = ''CreateServer'' then map_option Ret (handle_CreateServer w remote p hs)
      else if he_Method env = ''ListRooms'' then Some (Ret (handle_ListRooms w p hs))
      else if he_Method env = ''CreateRoom'' then handle_CreateRoom w p hs
      else if he_Method env = ''JoinServer'' then Some (Ret (handle_JoinServer p hs))
      else if he_Method env = ''JoinRoom'' then Some (handle_JoinRoom remote p hs)
      else if he_Method env = ''ListRoomMembers'' then Some (Ret (handle_ListRoomMembers w p hs))
      else Some (Ret (hs, [], [])))"

text \<open>Reading the request into the shared variable; a text with a syntax error leaves it alone.\<close>

definition hub_decode :: "string \<Rightarrow> rpc_env \<Rightarrow> bool \<times> rpc_env" where
  "hub_decode input env =
     (case json_decode input of None \<Rightarrow> (False, env) | Some (j, _) \<Rightarrow> dec_rpc_env j env)"

definition handleRPC ::
  "hub_world \<Rightarrow> addr_info \<Rightarrow> string \<Rightarrow> rpc_env \<Rightarrow> hub_store \<Rightarrow> rpc_env \<times> rpc_result"
where
  "handleRPC w remote input env hs =
     (let (ok, env') = hub_decode input env in
      (env', if ok then hub_dispatch w remote env' hs else Some (Ret (hs, [], []))))"

section \<open>The advertisers\<close>

text \<open>A joined topic is known by its name; a publication is the topic and the data, if any.\<close>

type_synonym topic_cache = "(string, string) gomap"
type_synonym publication = "string \<times> rpc_response option"

definition cached_topic ::
  "hub_world \<Rightarrow> string \<Rightarrow> topic_cache \<Rightarrow> (go_error + string) \<times> topic_cache"
where
  "cached_topic w name cache =
     (case mget cache name of
        Some tp \<Rightarrow> (Inr tp, cache)
      | None \<Rightarrow>
          (case hw_join w name of
             Some err \<Rightarrow> (Inl err, cache)
           | None \<Rightarrow> (Inr name, mput name name cache)))"

definition publish_to ::
  "hub_world \<Rightarrow> string \<Rightarrow> rpc_response option \<Rightarrow> go_error option \<times> publication list"
where
  "publish_to w tp data =
     (case hw_publish w tp of Some err \<Rightarrow> (Some err, []) | None \<Rightarrow> (None, [(tp, data)]))"

type_synonym advert = "go_error option \<times> topic_cache \<times> publication list"

text \<open>The common end of two advertisers: join the topic unless it is cached, then publish.\<close>

definition join_and_publish ::
  "hub_world \<Rightarrow> string \<Rightarrow> rpc_response option \<Rightarrow> topic_cache \<Rightarrow> advert"
where
  "join_and_publish w name data cache =
     (case cached_topic w name cache of
        (Inl err, cache') \<Rightarrow> (Some err, cache', [])
      | (Inr tp, cache') \<Rightarrow> (let (err, pub) = publish_to w tp data in (err, cache', pub)))"

definition AdvertiseNewcomers ::
  "hub_world \<Rightarrow> room_meta option \<Rightarrow> string \<Rightarrow> topic_cache \<Rightarrow> advert"
where
  "AdvertiseNewcomers w room serverID cache =
     (case room of
        None \<Rightarrow> (Some (Errorf ''room not found''), cache, [])
      | Some room \<Rightarrow>
          (case rm_Members room of
             None \<Rightarrow>
               (Some (Errorf (''room '' @ rm_ID room @ '' in server '' @ serverID @ '' has nil members'')),
                cache, [])
           | Some targets \<Rightarrow>
               (case cached_topic w (MembersTopic serverID (rm_ID room)) cache of
                  (Inl err, cache') \<Rightarrow> (Some err, cache', [])
                | (Inr tp, cache') \<Rightarrow>
                    (let resp = ListRoomMembersResponse (hw_order_members w (map snd targets)) [] in
                     case hw_marshal w resp of
                       Some err \<Rightarrow> (Some err, cache', [])
                     | None \<Rightarrow>
                         (let (err, pub) = publish_to w tp (Some resp) in (err, cache', pub))))))"

definition AdvertiseNewServer :: "hub_world \<Rightarrow> hub_store \<Rightarrow> topic_cache \<Rightarrow> advert" where
  "AdvertiseNewServer w hs cache =
     (let resp = ListServersResponse (visible_servers (ListServers (hw_order_servers w) hs)) in
      case hw_marshal w resp of
        Some err \<Rightarrow> (Some err, cache, [])
      | None \<Rightarrow> join_and_publish w ServersTopic (Some resp) cache)"

text \<open>A marshalling error is logged only: the publication then has no data.\<close>

definition AdvertiseNewRoom :: "hub_world \<Rightarrow> string \<Rightarrow> hub_store \<Rightarrow> topic_cache \<Rightarrow> advert" where
  "AdvertiseNewRoom w serverID hs cache =
     (case ListRooms (hw_order_rooms w) serverID hs of
        Inl err \<Rightarrow> (Some err, cache, [])
      | Inr rooms \<Rightarrow>
          (let resp = ListRoomsResponse (visible_rooms rooms) [];
               data = (if hw_marshal w resp = None then Some resp else None) in
           join_and_publish w (RoomsTopic serverID) data cache))"

fun run_task :: "hub_world \<Rightarrow> hub_task \<Rightarrow> hub_store \<Rightarrow> topic_cache \<Rightarrow> advert" where
  "run_task w NewServerTask hs cache = AdvertiseNewServer w hs cache"
| "run_task w (NewRoomTask sid) hs cache = AdvertiseNewRoom w sid hs cache"
| "run_task w (NewcomersTask sid rid) hs cache =
     AdvertiseNewcomers w (find_room sid rid hs) sid cache"

end
