(* ===== verification/Join_Correct.thy ===== *)
theory Join_Correct
  imports Join Catch_Up_Correct Hub_Server
begin

text \<open>
  The properties of joining: a room that was joined is ready, the room key is found again, the
  members list, passwords across the client and the hub, and who can help newcomers.
\<close>

section \<open>Rooms that are ready\<close>

text \<open>The current room has both ratchets and the given topics.\<close>

definition room_ready :: "string list \<Rightarrow> client \<Rightarrow> bool" where
  "room_ready names c \<longleftrightarrow>
     (\<exists>r. cur_room c = Some r \<and> ro_RoomRatchet r \<noteq> None \<and> ro_BackupRatchet r \<noteq> None
        \<and> (\<forall>n \<in> set names. HasTopic n (ro_Topics r)))"

lemma room_ready_decrypt:
  assumes "room_ready names c" "client_decrypt cl cm c = Some (Ret (res, c'))"
  shows "room_ready names c'"
  using assms(2) by (cases rule: client_decrypt_cases) (use assms(1) in \<open>auto simp: room_ready_def\<close>)

lemma cur_room_DisplayMessage [simp]: "cur_room (DisplayMessage E ts u d c) = cur_room c"
  by (simp add: DisplayMessage_def)

text \<open>What showing one stored message does: it decrypts, or leaves the client alone.\<close>

lemma display_one_steps:
  assumes "display_one E m c = Some (Ret (e, c'))"
  obtains (same) "c' = c"
  | (failed) cm res where "client_decrypt (ce_lib E) cm c = Some (Ret (res, c'))"
  | (shown) cm res c2 ts u d msg where "client_decrypt (ce_lib E) cm c = Some (Ret (res, c2))"
      "c' = upd_room (\<lambda>r. r\<lparr>ro_Messages := ro_Messages r @ [msg]\<rparr>) (DisplayMessage E ts u d c2)"
proof -
  obtain ok cm where u: "unmarshal_into (dec_ptr dec_chat_message \<lparr>cm_ChainIndex = 0, cm_Ciphertext = None\<rparr>)
      (bytes_string (slice_bytes (st_Payload m))) None = (ok, cm)"
    by force
  show thesis
  proof (cases "ok \<and> cm \<noteq> None")
    case True
    then obtain cm' where cm: "cm = Some cm'" by auto
    from True assms u cm obtain res c2 where dec: "client_decrypt (ce_lib E) cm' c = Some (Ret (res, c2))"
      by (auto simp: display_one_def split: option.splits go.splits)
    show thesis
    proof (cases res)
      case (Inl err)
      with True assms u cm dec have "c' = c2" by (simp add: display_one_def)
      with dec failed show ?thesis by blast
    next
      case (Inr pt)
      with True assms u cm dec show ?thesis
        by (auto simp: display_one_def Let_def outcome_simps intro: shown [OF dec])
    qed
  qed (use u assms same in \<open>auto simp: display_one_def split: if_splits\<close>)
qed

lemma room_ready_display_one:
  assumes "room_ready names c" "display_one E m c = Some (Ret (e, c'))"
  shows "room_ready names c'"
  using assms(2)
proof (cases rule: display_one_steps)
  case (shown cm res c2 ts u d msg)
  then have "room_ready names c2" using room_ready_decrypt [OF assms(1)] by blast
  with shown(2) show ?thesis by (auto simp: room_ready_def)
qed (use assms(1) in \<open>auto intro: room_ready_decrypt\<close>)

interpretation ready_display: message_handler "display_one E" "room_ready names" for E names
  by unfold_locales (rule room_ready_display_one)

lemma room_ready_open_chat:
  "room_ready names c \<Longrightarrow> open_chat E tp c = Some (Ret (e, c')) \<Longrightarrow> room_ready names c'"
  by (auto simp: open_chat_def parseAndDisplayDBMessages_def display_stored_def
      intro: ready_display.loop_keeps split: option.splits go.splits sum.splits)

lemma room_ready_topic:
  "room_ready names c \<Longrightarrow> room_ready (n # names) (upd_room (\<lambda>r. r\<lparr>ro_Topics := SetTopic n t (ro_Topics r)\<rparr>) c)"
  by (auto simp: room_ready_def)

lemma room_ready_chatHandler:
  assumes "room_ready names c" "chatHandler E c = Some (Ret (None, c'))"
  shows "room_ready (TopicChat # names) c'"
proof -
  obtain r where r: "cur_room c = Some r" using assms(1) by (auto simp: room_ready_def)
  show ?thesis
  proof (cases "GetTopic TopicChat (ro_Topics r)")
    case None
    with r assms(2) obtain tp where
      "open_chat E tp (upd_room (\<lambda>r. r\<lparr>ro_Topics := SetTopic TopicChat tp (ro_Topics r)\<rparr>) c) = Some (Ret (None, c'))"
      by (auto simp: chatHandler_def split: go.splits option.splits)
    from room_ready_open_chat [OF room_ready_topic [OF assms(1)] this] show ?thesis .
  next
    case (Some tp)
    with r assms(1) have "room_ready (TopicChat # names) c"
      by (auto simp: room_ready_def HasTopic_def GetTopic_def)
    with r Some assms(2) show ?thesis
      by (auto simp: chatHandler_def intro: room_ready_open_chat)
  qed
qed

section \<open>What catching up and remembering members leave alone\<close>

lemma save_caught_up_frame:
  "save_caught_up E ms c = Ret (e, c') \<Longrightarrow> \<exists>t. c' = set_cli_db t c"
proof (induction ms arbitrary: c)
  case Nil
  then have "c' = set_cli_db (cli_db c) c" by (simp add: set_cli_db_def)
  then show ?case by blast
next
  case (Cons m ms)
  have same: "\<exists>t. c = set_cli_db t c" by (rule exI [of _ "cli_db c"]) (simp add: set_cli_db_def)
  show ?case
  proof (cases "validateCatchupMessageSecurity E m (st_SenderID m) c")
    case None
    with Cons.prems obtain t where "save_caught_up E ms (set_cli_db t c) = Ret (e, c')"
      by (auto simp: case_prod_unfold Let_def split: if_splits)
    from Cons.IH [OF this] show ?thesis by (auto simp: set_cli_db_def)
  qed (use Cons.prems same in auto)
qed

lemma client_same_db: "\<exists>t. c = set_cli_db t c"
  by (rule exI [of _ "cli_db c"]) (simp add: set_cli_db_def)

lemma process_response_frame:
  "process_response E peer data c = Ret (r, c') \<Longrightarrow> \<exists>t. c' = set_cli_db t c"
  using client_same_db [of c] save_caught_up_frame [of E _ c _ c']
  by (auto simp: process_response_def take_response_def Let_def outcome_simps
      split: sum.splits option.splits message.splits if_splits go.splits)

lemma await_response_frame: "await_response E ws c = Ret (r, c') \<Longrightarrow> \<exists>t. c' = set_cli_db t c"
  using client_same_db [of c]
  by (induction E ws c rule: await_response.induct) (auto dest: process_response_frame)

lemma requestCatchUp_frame:
  assumes "requestCatchUp E answers c = Ret (r, c')"
  shows "\<exists>t. c' = set_cli_db t c"
  using assms client_same_db [of c] await_response_frame [of E "map answers [0..<maxRetries]" c r c']
  by (auto simp: requestCatchUp_def Let_def need_def outcome_simps simp del: upt_Suc
      split: option.splits sum.splits)

lemma initial_ratchet_frame:
  assumes "initial_ratchet E answers rid c = Ret (r, c')"
  shows "\<exists>t. c' = set_cli_db t c"
  using assms client_same_db [of c]
  by (auto simp: initial_ratchet_def outcome_simps dest: requestCatchUp_frame split: sum.splits if_splits)

section \<open>The steps of joining a room\<close>

definition room_has :: "string list \<Rightarrow> client \<Rightarrow> bool" where
  "room_has names c \<longleftrightarrow> sessions_ok c \<and> (\<exists>r. cur_room c = Some r \<and> (\<forall>n \<in> set names. HasTopic n (ro_Topics r)))"

lemma and_then_done: "and_then r k = Some (Ret (None, c')) \<longleftrightarrow> (\<exists>c1. r = Ret (None, c1) \<and> k c1 = Some (Ret (None, c')))"
  by (auto simp: and_then_def split: go.splits prod.splits option.splits)

lemma room_has_cong:
  "cur_room c' = cur_room c \<Longrightarrow> sessions_ok c' = sessions_ok c \<Longrightarrow> room_has names c' = room_has names c"
  by (simp add: room_has_def)

lemma room_has_upd_room:
  assumes "room_has names c" "\<And>r. ro_RoomMeta (f r) = ro_RoomMeta r" "\<And>r. ro_Topics (f r) = ro_Topics r"
  shows "room_has names (upd_room f c)"
  using assms by (auto simp: room_has_def sessions_ok_upd_room)

lemma room_has_topic:
  "room_has names c \<Longrightarrow> room_has (n # names) (upd_room (\<lambda>r. r\<lparr>ro_Topics := SetTopic n t (ro_Topics r)\<rparr>) c)"
  by (auto simp: room_has_def intro!: sessions_ok_upd_room)

lemma room_has_ensure:
  assumes "room_has names c" "ensure_topic E n t c = Ret (None, c')"
  shows "room_has (n # names) c'"
proof -
  obtain r where r: "cur_room c = Some r" using assms(1) by (auto simp: room_has_def)
  show ?thesis
  proof (cases "HasTopic n (ro_Topics r)")
    case True
    with assms(2) r have "c' = c" by (simp add: ensure_topic_def need_def)
    with True assms(1) r show ?thesis by (simp add: room_has_def)
  next
    case False
    with assms(2) r have "c' = upd_room (\<lambda>r. r\<lparr>ro_Topics := SetTopic n t (ro_Topics r)\<rparr>) c"
      by (simp add: ensure_topic_def need_def split: option.splits)
    with room_has_topic [OF assms(1)] show ?thesis by simp
  qed
qed

lemma room_has_remember: "room_has names c \<Longrightarrow> room_has names (remember_member u c)"
  unfolding remember_member_def Let_def
  by (subst room_has_cong [of _ "upd_room (\<lambda>r. r\<lparr>ro_Members := ro_Members r @ [u]\<rparr>) c"])
    (simp_all add: room_has_upd_room)

lemma room_has_add_members: "room_has names c \<Longrightarrow> room_has names (add_members ms c)"
  by (induction ms arbitrary: c) (simp_all add: room_has_remember)

lemma join_members_steps:
  assumes "join_members E rpc c = Ret (e, c')"
  obtains (joined) t e1 where "ensure_topic E TopicMembers t c = Ret (e1, c')" "e = None \<Longrightarrow> False"
  | (listed) t ms c1 where "ensure_topic E TopicMembers t c = Ret (None, c1)" "c' = add_members ms c1"
proof -
  from assms obtain sid rid e1 c1 where
    ens: "ensure_topic E TopicMembers (MembersTopic sid rid) c = Ret (e1, c1)"
    and rest: "(if e1 \<noteq> None then Ret (e1, c1)
       else go_bind (subscribe_topic E TopicMembers c1) (\<lambda>err.
         if err \<noteq> None then Ret (err, c1)
         else go_bind (requestListRoomMembers rpc c1) (\<lambda>mbr.
           Ret (case mbr of
                  Inl e \<Rightarrow> (Some (JoinRoomError (''Failed to list room members: '' @ Error_text e)), c1)
                | Inr members \<Rightarrow> (None, add_members members c1))))) = Ret (e, c')"
    by (auto simp: join_members_def go_bind_Ret_iff)
  show thesis
  proof (cases "e = None")
    case False
    have "c' = c1"
    proof (cases e1)
      case None
      with rest obtain err where err: "subscribe_topic E TopicMembers c1 = Ret err" by (auto simp: go_bind_Ret_iff)
      show ?thesis
      proof (cases "err = None")
        case True
        with None err rest obtain mbr where "(case mbr of
                  Inl e \<Rightarrow> (Some (JoinRoomError (''Failed to list room members: '' @ Error_text e)), c1)
                | Inr members \<Rightarrow> (None, add_members members c1)) = (e, c')"
          by (auto simp: go_bind_Ret_iff)
        with False show ?thesis by (cases mbr) auto
      qed (use None err rest in simp)
    qed (use rest in simp)
    with ens False joined show ?thesis by blast
  next
    case True
    with rest have e1: "e1 = None" by (cases e1) auto
    with True rest obtain mbr where "(case mbr of
                  Inl e \<Rightarrow> (Some (JoinRoomError (''Failed to list room members: '' @ Error_text e)), c1)
                | Inr members \<Rightarrow> (None, add_members members c1)) = (None, c')"
      by (auto simp: go_bind_Ret_iff split: if_splits)
    then obtain ms where "c' = add_members ms c1" by (cases mbr) auto
    with ens e1 listed show ?thesis by blast
  qed
qed

lemma room_has_join_members:
  assumes "room_has names c" "join_members E rpc c = Ret (None, c')"
  shows "room_has (TopicMembers # names) c'"
  using assms(2)
  by (cases rule: join_members_steps) (auto intro: room_has_add_members room_has_ensure [OF assms(1)])

lemma room_has_initial:
  assumes "room_has names c" "initial_ratchet E answers rid c = Ret (r, c')"
  shows "room_has names c'"
proof -
  from initial_ratchet_frame [OF assms(2)] obtain t where "c' = set_cli_db t c" by blast
  with assms(1) show ?thesis by (simp add: room_has_def sessions_ok_def set_cli_db_def cur_room_def)
qed

lemma enter_room_ready:
  assumes "room_has names c" "enter_room E ratchet c = Some (Ret (None, c'))"
  shows "sessions_ok c' \<and> room_ready (TopicChat # names) c'"
proof -
  let ?c = "upd_room (SetInitialRatchet ratchet) c"
  from assms(2) obtain rat where rat: "ratchet = Some rat" and chat: "chatHandler E ?c = Some (Ret (None, c'))"
    by (auto simp: enter_room_def outcome_simps split: if_splits option.splits go.splits)
  have "room_ready names ?c"
    using assms(1) rat by (auto simp: room_has_def room_ready_def SetInitialRatchet_def Clone_def)
  moreover have "sessions_ok ?c"
    using assms(1) by (auto simp: room_has_def SetInitialRatchet_def intro!: sessions_ok_upd_room)
  ultimately show ?thesis
    using chat room_ready_chatHandler chatHandler_ok by blast
qed

lemma requestJoinRoom_current:
  assumes "sessions_ok c" "requestJoinRoom rpc rid pass c = Ret (None, c')"
  shows "room_has [] c'"
  using assms(2)
proof (cases rule: requestJoinRoom_cases)
  case (yes r)
  then have "cur_room c' \<noteq> None" by (auto simp: cur_room_def add_room_session_def map_simps)
  then show ?thesis using sessions_ok_requestJoinRoom [OF assms] by (auto simp: room_has_def)
qed simp

lemma JoinRoomHandler_steps:
  assumes "JoinRoomHandler E rpc membersRpc progress answers roomID pass c = Some (Ret (None, c'))"
  obtains c1 c2 c3 sid ratchet c4 where "requestJoinRoom rpc roomID pass c = Ret (None, c1)"
    "join_members E membersRpc c1 = Ret (None, c2)"
    "ensure_topic E TopicCatchUp (CatchUpRequestTopic sid roomID) c2 = Ret (None, c3)" "GetServerID c2 = Ret sid"
    "initial_ratchet E answers roomID (c3\<lparr>cli_Peers := progress (cli_Peers c3)\<rparr>) = Ret ((None, ratchet), c4)"
    "enter_room E ratchet c4 = Some (Ret (None, c'))"
proof -
  from assms obtain c1 c2 c3 sid where steps: "requestJoinRoom rpc roomID pass c = Ret (None, c1)"
    "join_members E membersRpc c1 = Ret (None, c2)"
    "ensure_topic E TopicCatchUp (CatchUpRequestTopic sid roomID) c2 = Ret (None, c3)" "GetServerID c2 = Ret sid"
    and last: "(case initial_ratchet E answers roomID (c3\<lparr>cli_Peers := progress (cli_Peers c3)\<rparr>) of
            Panic p \<Rightarrow> Some (Panic p)
          | Ret ((Some err, _), c4) \<Rightarrow> Some (Ret (Some err, c4))
          | Ret ((None, ratchet), c4) \<Rightarrow> enter_room E ratchet c4) = Some (Ret (None, c'))"
    by (auto simp: JoinRoomHandler_def and_then_done outcome_simps split: if_splits)
  from last obtain ratchet c4 where
    "initial_ratchet E answers roomID (c3\<lparr>cli_Peers := progress (cli_Peers c3)\<rparr>) = Ret ((None, ratchet), c4)"
    "enter_room E ratchet c4 = Some (Ret (None, c'))"
    by (auto split: go.splits prod.splits option.splits)
  with steps that show thesis by blast
qed

section \<open>Which room was joined\<close>

text \<open>
  Where the client is, and the topics it has there. \<open>settled ts c c'\<close>: it has stayed, and of the
  topics \<open>ts\<close> it has got those it did not have.
\<close>

definition place :: "client \<Rightarrow> string option \<times> string option \<times> (string, server_session) gomap \<times> room_meta option option" where
  "place c = (cli_Room c, cli_Server c, cli_Servers c, map_option ro_RoomMeta (cur_room c))"

definition topic_of :: "client \<Rightarrow> string \<Rightarrow> string option" where
  "topic_of c n = Option.bind (cur_room c) (\<lambda>r. GetTopic n (ro_Topics r))"

definition settled :: "(string \<times> string) list \<Rightarrow> client \<Rightarrow> client \<Rightarrow> bool" where
  "settled ts c c' \<longleftrightarrow> place c' = place c
     \<and> (\<forall>n. topic_of c' n = (case topic_of c n of Some t \<Rightarrow> Some t | None \<Rightarrow> map_of ts n))"

lemma settled_same: "place c' = place c \<Longrightarrow> topic_of c' = topic_of c \<Longrightarrow> settled [] c c'"
  by (simp add: settled_def split: option.split)

lemma settled_trans: "settled ts c c1 \<Longrightarrow> settled us c1 c2 \<Longrightarrow> settled (ts @ us) c c2"
  by (auto simp: settled_def map_add_def split: option.split)

lemma settled_then: "settled [] c c1 \<Longrightarrow> settled us c1 c2 \<Longrightarrow> settled us c c2"
  using settled_trans [of "[]" c c1 us c2] by simp

lemma place_ids: "place c' = place c \<Longrightarrow> GetServerID c' = GetServerID c \<and> GetRoomID c' = GetRoomID c"
  by (cases "cur_room c"; cases "cur_room c'") (auto simp: place_def GetServerID_def GetRoomID_def cur_server_def)

lemmas settled_place = settled_def [THEN iffD1, THEN conjunct1]

lemma settled_upd_room:
  assumes "\<And>r. ro_RoomMeta (f r) = ro_RoomMeta r" "\<And>r. ro_Topics (f r) = ro_Topics r"
  shows "settled [] c (upd_room f c)"
  by (rule settled_same) (simp_all add: place_def topic_of_def fun_eq_iff assms option.map_comp comp_def split: bind_split)

lemma settled_fields [simp]:
  "settled [] c (c\<lparr>cli_Peers := p\<rparr>)" "settled [] c (set_cli_db t c)" "settled [] c (DisplayMessage E ts u d c)" "settled [] c c"
  by (rule settled_same; simp add: place_def topic_of_def fun_eq_iff set_cli_db_def DisplayMessage_def cur_room_def)+

lemma settled_ensure:
  assumes "ensure_topic E n t c = Ret (None, c')"
  shows "settled [(n, t)] c c'"
proof -
  obtain r where r: "cur_room c = Some r" using assms by (cases "cur_room c") (simp_all add: ensure_topic_def need_def)
  show ?thesis
  proof (cases "HasTopic n (ro_Topics r)")
    case True
    with assms r have "c' = c" by (simp add: ensure_topic_def need_def)
    with True r show ?thesis
      by (auto simp: settled_def topic_of_def HasTopic_def GetTopic_def split: option.split)
  next
    case False
    with assms r have "c' = upd_room (\<lambda>r. r\<lparr>ro_Topics := SetTopic n t (ro_Topics r)\<rparr>) c"
      by (simp add: ensure_topic_def need_def split: option.splits)
    with False r show ?thesis
      by (auto simp: settled_def place_def topic_of_def HasTopic_def GetTopic_def [of n "ro_Topics r"] split: option.split)
  qed
qed

lemma settled_add_members: "settled [] c (add_members ms c)"
proof (induction ms arbitrary: c)
  case (Cons m ms)
  have "settled [] c (remember_member u c)" for u
    unfolding remember_member_def Let_def
    by (rule settled_then [OF settled_upd_room [of "\<lambda>r. r\<lparr>ro_Members := ro_Members r @ [u]\<rparr>"]]) simp_all
  from settled_then [OF this Cons.IH] Cons.IH show ?case by simp
qed simp

lemma settled_join_members:
  assumes "join_members E rpc c = Ret (None, c')" "GetServerID c = Ret sid" "GetRoomID c = Ret rid"
  shows "settled [(TopicMembers, MembersTopic sid rid)] c c'"
proof -
  from assms obtain c1 mbr where c1: "ensure_topic E TopicMembers (MembersTopic sid rid) c = Ret (None, c1)"
    and mbr: "(case mbr of
                  Inl e \<Rightarrow> (Some (JoinRoomError (''Failed to list room members: '' @ Error_text e)), c1)
                | Inr members \<Rightarrow> (None, add_members members c1)) = (None, c')"
    by (auto simp: join_members_def go_bind_Ret_iff split: if_splits)
  then obtain ms where "ensure_topic E TopicMembers (MembersTopic sid rid) c = Ret (None, c1)" "c' = add_members ms c1"
    by (cases mbr) auto
  with settled_trans [OF settled_ensure settled_add_members] show ?thesis by fastforce
qed

interpretation settled_display: message_handler "display_one E" "settled [] c0" for E c0
proof unfold_locales
  fix c m e c'
  assume c: "settled [] c0 c"
  have dec: "settled [] c0 c2" if "client_decrypt (ce_lib E) cm c = Some (Ret (res, c2))" for cm res c2
    using that by (cases rule: client_decrypt_cases) (auto intro!: settled_then [OF c] settled_upd_room)
  assume "display_one E m c = Some (Ret (e, c'))"
  then show "settled [] c0 c'"
  proof (cases rule: display_one_steps)
    case (shown cm res c2 ts u d msg)
    show ?thesis unfolding shown(2)
      by (rule settled_then [OF dec [OF shown(1)] settled_then [OF settled_fields(3) settled_upd_room]]) simp_all
  qed (use c dec in auto)
qed

lemma settled_open_chat: "open_chat E tp c = Some (Ret (e, c')) \<Longrightarrow> settled [] c c'"
  by (auto simp: open_chat_def parseAndDisplayDBMessages_def display_stored_def
      intro: settled_display.loop_keeps [OF settled_fields(4)] split: option.splits go.splits sum.splits)

lemma settled_chatHandler:
  assumes "chatHandler E c = Some (Ret (None, c'))" "GetServerID c = Ret sid" "GetRoomID c = Ret rid"
  shows "settled [(TopicChat, ChatTopic sid rid)] c c'"
proof -
  obtain r where r: "cur_room c = Some r" using assms(1) by (cases "cur_room c") (simp_all add: chatHandler_def)
  show ?thesis
  proof (cases "GetTopic TopicChat (ro_Topics r)")
    case None
    let ?c = "upd_room (\<lambda>r. r\<lparr>ro_Topics := SetTopic TopicChat (ChatTopic sid rid) (ro_Topics r)\<rparr>) c"
    have "settled [(TopicChat, ChatTopic sid rid)] c ?c"
      using r None by (auto simp: settled_def place_def topic_of_def split: option.split)
    moreover have "open_chat E (ChatTopic sid rid) ?c = Some (Ret (None, c'))"
      using assms r None by (auto simp: chatHandler_def split: option.splits)
    ultimately show ?thesis using settled_trans [OF _ settled_open_chat] by fastforce
  next
    case (Some tp)
    with assms(1) r have "settled [] c c'" by (auto simp: chatHandler_def intro: settled_open_chat)
    with r Some show ?thesis by (auto simp: settled_def topic_of_def split: option.splits)
  qed
qed

lemma settled_enter_room:
  assumes "enter_room E ratchet c = Some (Ret (None, c'))" "GetServerID c = Ret sid" "GetRoomID c = Ret rid"
  shows "settled [(TopicChat, ChatTopic sid rid)] c c'"
proof -
  have set: "settled [] c (upd_room (SetInitialRatchet ratchet) c)"
    by (rule settled_upd_room) (simp_all add: SetInitialRatchet_def)
  from assms(1) have "chatHandler E (upd_room (SetInitialRatchet ratchet) c) = Some (Ret (None, c'))"
    by (auto simp: enter_room_def outcome_simps split: if_splits option.splits go.splits)
  from settled_then [OF set settled_chatHandler [OF this]] place_ids [OF settled_place [OF set]] assms(2,3) show ?thesis by simp
qed

text \<open>The hub's answer decides which room that is.\<close>

definition join_room_request :: "client \<Rightarrow> string \<Rightarrow> string \<Rightarrow> string \<Rightarrow> join_room_request" where
  "join_room_request c sid roomID pass =
     \<lparr>jrr_ServerID = sid, jrr_RoomID = roomID, jrr_PasswordHash = Some (HashPassword pass), jrr_Sender = cli_User c\<rparr>"

lemma requestJoinRoom_answered:
  assumes "requestJoinRoom rpc roomID pass c = Ret (None, c')"
  obtains sid rm where "GetServerID c = Ret sid"
    "rpc ''JoinRoom'' (enc_join_room_request (join_room_request c sid roomID pass)) = Inr (Some rm, [])"
    "c' = c\<lparr>cli_Rooms := add_room_session rm (cli_Rooms c), cli_Room := Some (rm_ID rm)\<rparr>"
  using assms
  by (auto simp: requestJoinRoom_def join_room_request_def Let_def need_def go_bind_Ret_iff split: sum.splits if_splits option.splits)

text \<open>The session of a room that is joined: the one there is, or a new one.\<close>

definition joined_session :: "client \<Rightarrow> room_meta \<Rightarrow> room_session" where
  "joined_session c rm = (case mget (cli_Rooms c) (rm_ID rm) of None \<Rightarrow> NewRoomSessionWithMeta (Some rm) | Some r \<Rightarrow> r)"

lemma joined_session_current:
  "cur_room (c\<lparr>cli_Rooms := add_room_session rm (cli_Rooms c), cli_Room := Some (rm_ID rm)\<rparr>) = Some (joined_session c rm)"
  by (simp add: cur_room_def add_room_session_def joined_session_def map_simps split: option.split)

lemma JoinRoomHandler_settles:
  assumes "sessions_ok c"
    and "JoinRoomHandler E rpc membersRpc progress answers roomID pass c = Some (Ret (None, c'))"
  obtains sid rm where "GetServerID c = Ret sid"
    "rpc ''JoinRoom'' (enc_join_room_request (join_room_request c sid roomID pass)) = Inr (Some rm, [])"
    "settled [(TopicMembers, MembersTopic sid (rm_ID rm)), (TopicCatchUp, CatchUpRequestTopic sid roomID),
        (TopicChat, ChatTopic sid (rm_ID rm))]
      (c\<lparr>cli_Rooms := add_room_session rm (cli_Rooms c), cli_Room := Some (rm_ID rm)\<rparr>) c'"
    "sessions_ok c' \<and> room_ready [TopicChat, TopicCatchUp, TopicMembers] c'"
proof -
  from assms(2) obtain c1 c2 c3 sid3 ratchet c4 where
    steps: "requestJoinRoom rpc roomID pass c = Ret (None, c1)"
      "join_members E membersRpc c1 = Ret (None, c2)"
      "ensure_topic E TopicCatchUp (CatchUpRequestTopic sid3 roomID) c2 = Ret (None, c3)" "GetServerID c2 = Ret sid3"
    and i: "initial_ratchet E answers roomID (c3\<lparr>cli_Peers := progress (cli_Peers c3)\<rparr>) = Ret ((None, ratchet), c4)"
    and e: "enter_room E ratchet c4 = Some (Ret (None, c'))"
    by (rule JoinRoomHandler_steps)
  let ?c3 = "c3\<lparr>cli_Peers := progress (cli_Peers c3)\<rparr>"
  obtain sid rm where asked: "GetServerID c = Ret sid"
    "rpc ''JoinRoom'' (enc_join_room_request (join_room_request c sid roomID pass)) = Inr (Some rm, [])"
    "c1 = c\<lparr>cli_Rooms := add_room_session rm (cli_Rooms c), cli_Room := Some (rm_ID rm)\<rparr>"
    by (rule requestJoinRoom_answered [OF steps(1)])
  note has1 = requestJoinRoom_current [OF assms(1) steps(1)]
  have "room_has [TopicCatchUp, TopicMembers] c3"
    using room_has_ensure [OF room_has_join_members [OF has1 steps(2)] steps(3)] .
  then have has: "room_has [TopicCatchUp, TopicMembers] ?c3" by (simp add: room_has_def)
  note ready = enter_room_ready [OF room_has_initial [OF has i] e]
  have ids1: "GetServerID c1 = Ret sid" "GetRoomID c1 = Ret (rm_ID rm)"
    using asked(1,3) has1 GetRoomID_ok [of c1] by (simp_all add: GetServerID_def cur_server_def room_has_def)
  have s2: "settled [(TopicMembers, MembersTopic sid (rm_ID rm))] c1 c2"
    by (rule settled_join_members [OF steps(2) ids1])
  then have sid: "sid3 = sid" using place_ids [OF settled_place [OF s2]] ids1(1) steps(4) by simp
  have s3: "settled [(TopicMembers, MembersTopic sid (rm_ID rm)), (TopicCatchUp, CatchUpRequestTopic sid roomID)] c1 c3"
    using settled_trans [OF s2 settled_ensure [OF steps(3)]] sid by simp
  from initial_ratchet_frame [OF i] obtain t where c4: "c4 = set_cli_db t ?c3" by blast
  have s4: "settled [(TopicMembers, MembersTopic sid (rm_ID rm)), (TopicCatchUp, CatchUpRequestTopic sid roomID)] c1 c4"
    using settled_trans [OF s3 settled_then [OF settled_fields(1) settled_fields(2)]] c4 by simp
  have ids4: "GetServerID c4 = Ret sid" "GetRoomID c4 = Ret (rm_ID rm)"
    using place_ids [OF settled_place [OF s4]] ids1 by simp_all
  from settled_trans [OF s4 settled_enter_room [OF e ids4]] have
    "settled [(TopicMembers, MembersTopic sid (rm_ID rm)), (TopicCatchUp, CatchUpRequestTopic sid roomID),
        (TopicChat, ChatTopic sid (rm_ID rm))] c1 c'" by simp
  with asked ready show thesis by (intro that [of sid rm]) simp_all
qed

section \<open>Properties\<close>

text \<open>
  C31. When joining a room ends without an error the room that the hub answered the request with is
  ready: it is the current one, under its identifier and with its metadata (or with the session
  the client had of it before), has both ratchets, and has the three topics of its chat, its
  catch-up requests and its members on the server: those it had before, and else those named
  after the room.
\<close>

theorem joined_room_ready:
  assumes "sessions_ok c"
    and "JoinRoomHandler E rpc membersRpc progress answers roomID pass c = Some (Ret (None, c'))"
  shows "sessions_ok c' \<and> (\<exists>sid rm m r. GetServerID c = Ret sid
    \<and> rpc ''JoinRoom'' (enc_join_room_request \<lparr>jrr_ServerID = sid, jrr_RoomID = roomID,
        jrr_PasswordHash = Some (HashPassword pass), jrr_Sender = cli_User c\<rparr>) = Inr (Some rm, [])
    \<and> cli_Room c' = Some (rm_ID rm) \<and> cur_room c' = Some r
    \<and> ro_RoomMeta r = Some m \<and> rm_ID m = rm_ID rm \<and> (mget (cli_Rooms c) (rm_ID rm) = None \<longrightarrow> m = rm)
    \<and> ro_RoomRatchet r \<noteq> None \<and> ro_BackupRatchet r \<noteq> None
    \<and> (\<forall>(n, t) \<in> {(TopicChat, ChatTopic sid (rm_ID rm)), (TopicCatchUp, CatchUpRequestTopic sid roomID),
          (TopicMembers, MembersTopic sid (rm_ID rm))}.
        GetTopic n (ro_Topics r) =
          (case Option.bind (mget (cli_Rooms c) (rm_ID rm)) (\<lambda>old. GetTopic n (ro_Topics old)) of
             Some t' \<Rightarrow> Some t' | None \<Rightarrow> Some t)))"
proof -
  obtain sid rm where asked: "GetServerID c = Ret sid"
      "rpc ''JoinRoom'' (enc_join_room_request (join_room_request c sid roomID pass)) = Inr (Some rm, [])"
    and all: "settled [(TopicMembers, MembersTopic sid (rm_ID rm)), (TopicCatchUp, CatchUpRequestTopic sid roomID),
        (TopicChat, ChatTopic sid (rm_ID rm))]
      (c\<lparr>cli_Rooms := add_room_session rm (cli_Rooms c), cli_Room := Some (rm_ID rm)\<rparr>) c'"
    and ready: "sessions_ok c' \<and> room_ready [TopicChat, TopicCatchUp, TopicMembers] c'"
    by (rule JoinRoomHandler_settles [OF assms])
  let ?c1 = "c\<lparr>cli_Rooms := add_room_session rm (cli_Rooms c), cli_Room := Some (rm_ID rm)\<rparr>"
  from ready obtain r where r: "cur_room c' = Some r" "ro_RoomRatchet r \<noteq> None" "ro_BackupRatchet r \<noteq> None"
    by (auto simp: room_ready_def)
  have c1: "cur_room ?c1 = Some (joined_session c rm)" "cli_Room ?c1 = Some (rm_ID rm)"
    using joined_session_current by simp_all
  obtain m where m: "ro_RoomMeta r = Some m" "rm_ID m = rm_ID rm" "mget (cli_Rooms c) (rm_ID rm) = None \<longrightarrow> m = rm"
    using settled_place [OF all] c1 r(1) assms(1)
    by (force simp: place_def joined_session_def sessions_ok_def NewRoomSessionWithMeta_def split: option.splits)
  have topics: "GetTopic n (ro_Topics r) = (case Option.bind (mget (cli_Rooms c) (rm_ID rm)) (\<lambda>old. GetTopic n (ro_Topics old)) of
      Some t' \<Rightarrow> Some t' | None \<Rightarrow> map_of [(TopicMembers, MembersTopic sid (rm_ID rm)),
        (TopicCatchUp, CatchUpRequestTopic sid roomID), (TopicChat, ChatTopic sid (rm_ID rm))] n)" for n
    using all r(1) c1(1)
    by (auto simp: settled_def topic_of_def joined_session_def NewRoomSessionWithMeta_def NewRoomSession_def
        NewTopicCollection_def GetTopic_def split: option.splits)
  have names: "TopicMembers \<noteq> TopicCatchUp" "TopicMembers \<noteq> TopicChat" "TopicCatchUp \<noteq> TopicChat"
    by (simp_all add: TopicMembers_def TopicCatchUp_def TopicChat_def)
  have tops: "\<forall>(n, t) \<in> {(TopicChat, ChatTopic sid (rm_ID rm)), (TopicCatchUp, CatchUpRequestTopic sid roomID),
          (TopicMembers, MembersTopic sid (rm_ID rm))}.
        GetTopic n (ro_Topics r) =
          (case Option.bind (mget (cli_Rooms c) (rm_ID rm)) (\<lambda>old. GetTopic n (ro_Topics old)) of
             Some t' \<Rightarrow> Some t' | None \<Rightarrow> Some t)"
    using names names [symmetric] by (simp add: topics cong: option.case_cong)
  have here: "cli_Room c' = Some (rm_ID rm)" using settled_place [OF all] c1(2) by (simp add: place_def)
  show ?thesis
    by (rule conjI [OF conjunct1 [OF ready]], rule exI [of _ sid], rule exI [of _ rm], rule exI [of _ m], rule exI [of _ r])
      (intro conjI; fact asked(1) asked(2) [unfolded join_room_request_def] here r m tops)
qed

text \<open>
  Who creates a room can enter it without anybody's help: after the handler for creating it has
  returned the room's identifier and its key could be saved, the ratchet to start with is that
  key, the hash of the drawn bytes, at index zero.
\<close>

theorem created_room_key_found:
  assumes "CreateRoomHandler E rnd keyRnd rpc req c = (Inr rid, c')" "ce_auth_fault E = None"
  shows "\<exists>key. keyRnd 32 = Inr key \<and> initial_ratchet E answers rid c'
    = Ret ((None, Some \<lparr>rr_ChainKey = Some (sha256 key), rr_Index = 0\<rparr>), c')"
proof -
  obtain key where key: "keyRnd 32 = Inr key"
    and c': "c' = c\<lparr>cli_Auth := snd (SaveAuth None rid 0 (Some (sha256 key)) (ce_now E) (cli_Auth c))\<rparr>"
    using assms
    by (auto simp: CreateRoomHandler_def GenerateRoomKey_def Let_def case_prod_unfold split: if_splits sum.splits)
  have "\<exists>a. GetAuth None rid (cli_Auth c') = Inr a \<and> ra_MasterRatchetKey a = Some (sha256 key) \<and> ra_ChainIndex a = 0"
    using SaveAuth_GetAuth [of rid 0 "Some (sha256 key)" "ce_now E" "cli_Auth c"] c' by (auto simp: uint64_of_def)
  with key assms(2) show ?thesis by (auto simp: initial_ratchet_def)
qed

section \<open>Who can help newcomers\<close>

lemma cli_Auth_upd_room [simp]: "cli_Auth (upd_room f c) = cli_Auth c"
  by (simp add: upd_room_def split: option.split)

lemma auth_decrypt: "client_decrypt cl cm c = Some (Ret (res, c')) \<Longrightarrow> cli_Auth c' = cli_Auth c"
  by (erule client_decrypt_cases) simp

interpretation auth_display: message_handler "display_one E" "\<lambda>c. cli_Auth c = auth" for E auth
  by unfold_locales (auto simp: DisplayMessage_def elim!: display_one_steps dest: auth_decrypt)

lemma auth_open_chat: "open_chat E tp c = Some (Ret (e, c')) \<Longrightarrow> cli_Auth c' = cli_Auth c"
  by (auto simp: open_chat_def parseAndDisplayDBMessages_def display_stored_def
      intro: auth_display.loop_keeps split: option.splits go.splits sum.splits)

lemma auth_chatHandler: "chatHandler E c = Some (Ret (e, c')) \<Longrightarrow> cli_Auth c' = cli_Auth c"
  by (auto simp: chatHandler_def dest: auth_open_chat split: option.splits go.splits)

lemma auth_ensure: "ensure_topic E n t c = Ret (e, c') \<Longrightarrow> cli_Auth c' = cli_Auth c"
  by (auto simp: ensure_topic_def outcome_simps split: if_split_asm option.splits)

lemma auth_remember [simp]: "cli_Auth (remember_member u c) = cli_Auth c"
  by (simp add: remember_member_def Let_def)

lemma auth_add_members [simp]: "cli_Auth (add_members ms c) = cli_Auth c"
  by (induction ms arbitrary: c) simp_all

lemma auth_join_members: "join_members E rpc c = Ret (e, c') \<Longrightarrow> cli_Auth c' = cli_Auth c"
  by (erule join_members_steps) (auto dest: auth_ensure)

lemma auth_initial_ratchet: "initial_ratchet E answers rid c = Ret (r, c') \<Longrightarrow> cli_Auth c' = cli_Auth c"
  by (drule initial_ratchet_frame) (auto simp: set_cli_db_def)

lemma auth_enter_room: "enter_room E ratchet c = Some (Ret (None, c')) \<Longrightarrow> cli_Auth c' = cli_Auth c"
  by (auto simp: enter_room_def outcome_simps dest!: auth_chatHandler split: if_split_asm option.splits go.splits)

lemma auth_JoinRoomHandler:
  "JoinRoomHandler E rpc membersRpc progress answers roomID pass c = Some (Ret (None, c')) \<Longrightarrow> cli_Auth c' = cli_Auth c"
  by (erule JoinRoomHandler_steps)
    (auto dest!: auth_join_members auth_ensure auth_initial_ratchet auth_enter_room elim!: requestJoinRoom_cases)

text \<open>
  Who entered a room without having its key stored (so by catching up) has not stored it then
  either: such a member answers no request for catching up, whatever arrives, and its loop ends
  with the error of the missing key.
\<close>

theorem newcomers_cannot_help:
  assumes "JoinRoomHandler E rpc membersRpc progress answers roomID pass c = Some (Ret (None, c'))"
    and "GetAuth (ce_auth_fault E) roomID (cli_Auth c) = Inl err" "GetRoomID c' = Ret roomID"
    and "helpCatchUp_step E msg c' = Some (Ret (e, c'', out))"
  shows "out = [] \<and> e = Some err"
  using assms(2-4) auth_JoinRoomHandler [OF assms(1)]
  by (auto simp: helpCatchUp_step_def Let_def split: option.splits prod.splits)

section \<open>Following the members\<close>

lemma cur_room_remember [simp]:
  "cur_room (remember_member u c) = map_option (\<lambda>r. r\<lparr>ro_Members := ro_Members r @ [u]\<rparr>) (cur_room c)"
  by (simp add: remember_member_def Let_def cur_room_def upd_room_def map_simps split: option.split bind_split)

lemma cli_HostID_remember [simp]: "cli_HostID (remember_member u c) = cli_HostID c"
  by (simp add: remember_member_def Let_def upd_room_def split: option.split)

lemma refresh_members_adds:
  assumes "refresh_members connect ms c = Ret (e, c')" "cur_room c = Some r"
    and "distinct (map u_PeerID (ro_Members r))"
  shows "\<exists>r' new. cur_room c' = Some r' \<and> ro_Members r' = ro_Members r @ new
    \<and> distinct (map u_PeerID (ro_Members r'))
    \<and> (\<forall>u \<in> set new. \<exists>m \<in> set ms. m_User m = u \<and> ai_ID (m_AddrInfo m) \<noteq> cli_HostID c)"
  using assms
proof (induction ms arbitrary: c r)
  case (Cons m ms)
  show ?case
  proof (cases "ai_ID (m_AddrInfo m) = cli_HostID c \<or> (\<exists>u \<in> set (ro_Members r). u_PeerID u = u_PeerID (m_User m))")
    case True
    with Cons.prems(1,2) have "refresh_members connect ms c = Ret (e, c')"
      by (simp add: need_def split: if_split_asm)
    from Cons.IH [OF this Cons.prems(2,3)] show ?thesis by auto
  next
    case False
    let ?c = "remember_member (m_User m) c" and ?r = "r\<lparr>ro_Members := ro_Members r @ [m_User m]\<rparr>"
    have r: "cur_room ?c = Some ?r" "distinct (map u_PeerID (ro_Members ?r))"
      using Cons.prems(2,3) False by auto
    show ?thesis
    proof (cases "connect (m_AddrInfo m)")
      case None
      with False Cons.prems(1,2) have "refresh_members connect ms ?c = Ret (e, c')" by (simp add: need_def Let_def)
      from Cons.IH [OF this r] obtain r' new where "cur_room c' = Some r'"
        "ro_Members r' = ro_Members r @ m_User m # new" "distinct (map u_PeerID (ro_Members r'))"
        "\<forall>u \<in> set new. \<exists>m \<in> set ms. m_User m = u \<and> ai_ID (m_AddrInfo m) \<noteq> cli_HostID c"
        by auto
      with False show ?thesis by (intro exI [of _ r'] exI [of _ "m_User m # new"]) auto
    next
      case (Some err)
      with False Cons.prems(1,2) have "c' = ?c" by (simp add: need_def Let_def)
      with r False show ?thesis by (intro exI [of _ ?r] exI [of _ "[m_User m]"]) auto
    qed
  qed
qed auto

text \<open>
  The list of a room's members follows the hub and nobody else: a publication from another peer
  changes nothing, and one from the hub adds only users it names, other than the client itself,
  at the end and each peer once.
\<close>

theorem members_follow_hub:
  assumes "refreshMembersList_step connect (sender, listed) c = Ret (e, c')" "cur_room c = Some r"
    and "distinct (map u_PeerID (ro_Members r))"
  shows "(c' \<noteq> c \<longrightarrow> sender = cli_HubID c)
    \<and> (\<exists>r' new. cur_room c' = Some r' \<and> ro_Members r' = ro_Members r @ new
        \<and> distinct (map u_PeerID (ro_Members r'))
        \<and> (\<forall>u \<in> set new. \<exists>ms. listed = Some ms
             \<and> (\<exists>m \<in> set ms. m_User m = u \<and> ai_ID (m_AddrInfo m) \<noteq> cli_HostID c)))"
proof (cases "listed = None \<or> cli_HubID c \<noteq> sender")
  case True
  with assms(1) have "c' = c" by (cases listed) (auto simp: refreshMembersList_step_def)
  with assms show ?thesis by simp
next
  case False
  then obtain ms where ms: "listed = Some ms" "sender = cli_HubID c" by auto
  with assms(1) have "refresh_members connect ms c = Ret (e, c')" by (simp add: refreshMembersList_step_def)
  from refresh_members_adds [OF this assms(2,3)] ms show ?thesis by simp
qed

section \<open>Instances of the properties\<close>

text \<open>A client before it joins, with the keys it has stored.\<close>

definition sample_guest :: "auth_table \<Rightarrow> client" where
  "sample_guest auth = (sample_client 0 empty_table)\<lparr>cli_Rooms := [], cli_Room := None, cli_Auth := auth\<rparr>"

definition sample_keys :: "auth_table" where
  "sample_keys = snd (SaveAuth None ''r'' 0 (Some [7]) 5 empty_table)"

definition sample_room_rpc :: "(room_meta option \<times> string) rpc" where
  "sample_room_rpc m p = Inr (ro_RoomMeta (sample_room 0), [])"

definition sample_members_rpc :: "(member list \<times> string) rpc" where
  "sample_members_rpc m p = Inr ([\<lparr>m_AddrInfo = \<lparr>ai_ID = ''q'', ai_Addrs = []\<rparr>, m_User = sample_sender\<rparr>], [])"

lemma sample_guest_ok: "sessions_ok (sample_guest auth)"
  by (simp add: sample_guest_def sample_client_def sessions_ok_def)

text \<open>The guest with a room session as it is while it joins.\<close>

definition sample_joining :: "auth_table \<Rightarrow> room_session \<Rightarrow> (user, peer_table) worker \<Rightarrow> client" where
  "sample_joining auth r peers = (sample_guest auth)\<lparr>cli_Rooms := [(''r'', r)], cli_Room := Some ''r'', cli_Peers := peers\<rparr>"

lemma sample_joining_fields:
  "cur_room (sample_joining auth r peers) = Some r" "GetServerID (sample_joining auth r peers) = Ret ''NO SERVER JOINED''"
  "upd_room f (sample_joining auth r peers) = sample_joining auth (f r) peers"
  "cli_Peers (sample_joining auth r peers) = peers" "(sample_joining auth r peers)\<lparr>cli_Peers := ps\<rparr> = sample_joining auth r ps"
  "cli_HostID (sample_joining auth r peers) = ''p''" "cli_db (sample_joining auth r peers) = empty_table"
  "cli_Auth (sample_joining auth r peers) = auth"
  by (simp_all add: sample_joining_def sample_guest_def sample_client_def cur_room_def GetServerID_def
      cur_server_def upd_room_def NewHistoryManager_def new_worker_def)

lemma sample_guest_requests:
  "requestJoinRoom sample_room_rpc ''r'' ''pw'' (sample_guest auth)
    = Ret (None, sample_joining auth (NewRoomSessionWithMeta (ro_RoomMeta (sample_room 0))) (NewPeerManager 8 empty_table))"
  by (simp add: requestJoinRoom_def sample_guest_def sample_client_def GetServerID_def cur_server_def
      sample_room_rpc_def sample_joining_def add_room_session_def need_def sample_room_def
      NewRoomSessionWithMeta_def)

lemma sample_guest_key: "initial_ratchet sample_env answers ''r'' (sample_joining sample_keys r peers)
    = Ret ((None, Some \<lparr>rr_ChainKey = Some [7], rr_Index = 0\<rparr>), sample_joining sample_keys r peers)"
  by (simp add: initial_ratchet_def sample_joining_fields sample_keys_def GetAuth_def SaveAuth_def auth_of_row_def
      uint64_of_def)

lemma sample_guest_shows_nothing:
  "parseAndDisplayDBMessages sample_env ''r'' (sample_joining auth r peers) = Some (Ret (None, sample_joining auth r peers))"
  by (simp add: parseAndDisplayDBMessages_def sample_joining_fields GetLatestMessages_def display_stored_def
      empty_table_def sql_limit_def sql_order_def)

lemma sample_joining_id: "ro_RoomMeta r = ro_RoomMeta (sample_room 0) \<Longrightarrow> GetRoomID (sample_joining auth r peers) = Ret ''r''"
  by (simp add: GetRoomID_def sample_joining_fields need_def)
    (simp add: sample_room_def NewRoomSessionWithMeta_def)

lemmas sample_join_simps = sample_joining_fields sample_joining_id HasTopic_def GetTopic_def SetTopic_def
  map_simps need_def

lemma sample_guest_members:
  assumes "ro_RoomMeta r = ro_RoomMeta (sample_room 0)" "GetTopic TopicMembers (ro_Topics r) = None"
  shows "join_members sample_env sample_members_rpc (sample_joining auth r peers)
    = Ret (None, sample_joining auth (r\<lparr>ro_Topics := SetTopic TopicMembers (MembersTopic ''NO SERVER JOINED'' ''r'') (ro_Topics r),
        ro_Members := ro_Members r @ [sample_sender]\<rparr>) (snd (EnqueueUserEntry sample_sender peers)))"
  using assms
  by (simp add: join_members_def ensure_topic_def subscribe_topic_def requestListRoomMembers_def sample_members_rpc_def
      remember_member_def sample_join_simps)

lemma sample_guest_catch_up:
  "GetTopic TopicCatchUp (ro_Topics r) = None \<Longrightarrow> ensure_topic sample_env TopicCatchUp t (sample_joining auth r peers)
    = Ret (None, sample_joining auth (r\<lparr>ro_Topics := SetTopic TopicCatchUp t (ro_Topics r)\<rparr>) peers)"
  by (simp add: ensure_topic_def sample_join_simps)

lemma sample_guest_enters:
  assumes "ro_RoomMeta r = ro_RoomMeta (sample_room 0)" "GetTopic TopicChat (ro_Topics r) = None"
    "GetTopic TopicCatchUp (ro_Topics r) \<noteq> None"
  shows "\<exists>r'. enter_room sample_env (Some rat) (sample_joining auth r peers) = Some (Ret (None, sample_joining auth r' peers))
    \<and> ro_RoomMeta r' = ro_RoomMeta (sample_room 0) \<and> GetTopic TopicCatchUp (ro_Topics r') \<noteq> None"
  using assms
  by (auto simp: enter_room_def SetInitialRatchet_def chatHandler_def open_chat_def subscribe_topic_def
      sample_guest_shows_nothing sample_join_simps)

lemma sample_guest_joins:
  assumes "\<And>r peers. ro_RoomMeta r = ro_RoomMeta (sample_room 0) \<Longrightarrow> GetTopic TopicCatchUp (ro_Topics r) \<noteq> None
      \<Longrightarrow> \<exists>rat. initial_ratchet sample_env answers ''r'' (sample_joining auth r peers)
        = Ret ((None, Some rat), sample_joining auth r peers)"
  shows "\<exists>r peers. JoinRoomHandler sample_env sample_room_rpc sample_members_rpc (\<lambda>w. w) answers ''r'' ''pw''
      (sample_guest auth) = Some (Ret (None, sample_joining auth r peers))
    \<and> ro_RoomMeta r = ro_RoomMeta (sample_room 0) \<and> GetTopic TopicCatchUp (ro_Topics r) \<noteq> None"
proof -
  let ?r0 = "NewRoomSessionWithMeta (ro_RoomMeta (sample_room 0))"
  let ?r = "?r0\<lparr>ro_Members := [sample_sender], ro_Topics := [(TopicMembers, MembersTopic ''NO SERVER JOINED'' ''r''),
      (TopicCatchUp, CatchUpRequestTopic ''NO SERVER JOINED'' ''r'')]\<rparr>"
  let ?peers = "snd (EnqueueUserEntry sample_sender (NewPeerManager 8 empty_table))"
  have new: "ro_Topics (NewRoomSessionWithMeta m) = []" "ro_RoomMeta (NewRoomSessionWithMeta m) = m"
    "ro_Members (NewRoomSessionWithMeta m) = []" for m
    by (simp_all add: NewRoomSessionWithMeta_def NewRoomSession_def NewTopicCollection_def)
  have names: "TopicMembers \<noteq> TopicCatchUp" "TopicMembers \<noteq> TopicChat" "TopicCatchUp \<noteq> TopicChat"
    by (simp_all add: TopicMembers_def TopicCatchUp_def TopicChat_def)
  have r: "ro_RoomMeta ?r = ro_RoomMeta (sample_room 0)" "GetTopic TopicCatchUp (ro_Topics ?r) \<noteq> None"
    "GetTopic TopicChat (ro_Topics ?r) = None"
    using names names [symmetric] by (simp_all add: new GetTopic_def)
  from assms [OF r(1,2), of ?peers] obtain rat where
    "initial_ratchet sample_env answers ''r'' (sample_joining auth ?r ?peers)
      = Ret ((None, Some rat), sample_joining auth ?r ?peers)" by blast
  with sample_guest_enters [OF r(1,3,2), of rat auth ?peers] names show ?thesis
    by (simp add: JoinRoomHandler_def and_then_def sample_guest_requests sample_guest_members sample_guest_catch_up
        sample_joining_fields(2,4,5) GetTopic_def SetTopic_def map_simps new) blast
qed

lemma sample_answered:
  "\<exists>data. \<forall>r peers. ro_RoomMeta r = ro_RoomMeta (sample_room 0) \<longrightarrow> GetTopic TopicCatchUp (ro_Topics r) \<noteq> None \<longrightarrow>
     initial_ratchet sample_env (\<lambda>_. Some (''p'', data)) ''r'' (sample_joining empty_table r peers)
       = Ret ((None, Some \<lparr>rr_ChainKey = Some [7], rr_Index = 0\<rparr>), sample_joining empty_table r peers)"
proof -
  let ?m = "CatchUpResponse (catch_up_answer (Some [7]) None None)"
  have signs: "\<exists>sig. Sign sample_lib b (Some [9]) = Inr sig" for b
    using key_pair_signs [OF sample_sender_ok(1)] by blast
  then obtain sig where sig: "Sign sample_lib (string_bytes (jprint (enc_message ?m))) (Some [9]) = Inr sig"
    by blast
  then obtain data env where m: "MarshalEnvelope sample_lib 1000 ?m sample_sender (Some [9]) = Inr (data, env)"
    by (simp add: MarshalEnvelope_def Let_def)
  then have "UnmarshalEnvelope data = Inr (env, ?m)"
    by (intro Unmarshal_Marshal [OF m]) (simp_all add: in_int64_def catch_up_answer_def)
  moreover have "validateMessageSecurity sample_lib 1000 env ''p'' = None"
    using m sig signature_accepted [OF sample_sender_ok(1) sig]
    by (auto simp: MarshalEnvelope_def Let_def validateMessageSecurity_def)
  ultimately have answer: "process_response sample_env ''p'' data c
      = Ret ((Some \<lparr>rr_ChainKey = Some [7], rr_Index = 0\<rparr>, None), c)" for c
    by (simp add: process_response_def take_response_def DecompressCatchUpPayload_def catch_up_answer_def)
  obtain data0 env0 where req: "MarshalEnvelope sample_lib 1000 (CatchUpRequest \<lparr>cq_SinceIndex = 0\<rparr>) sample_sender (Some [9])
      = Inr (data0, env0)"
    using signs [of "string_bytes (jprint (enc_message (CatchUpRequest \<lparr>cq_SinceIndex = 0\<rparr>)))"]
    by (auto simp: MarshalEnvelope_def Let_def)
  have party: "cli_User (sample_joining auth r peers) = sample_sender"
    "cli_DilithiumPriv (sample_joining auth r peers) = Some [9]" for auth r peers
    by (simp_all add: sample_joining_def sample_guest_def)
  have "map (\<lambda>_. Some (''p'', data)) [0..<maxRetries] = Some (''p'', data) # map (\<lambda>_. Some (''p'', data)) [1..<maxRetries]"
    by (simp add: maxRetries_def upt_rec)
  then have "requestCatchUp sample_env (\<lambda>_. Some (''p'', data)) (sample_joining empty_table r peers)
      = Ret ((Some \<lparr>rr_ChainKey = Some [7], rr_Index = 0\<rparr>, None), sample_joining empty_table r peers)"
    if "ro_RoomMeta r = ro_RoomMeta (sample_room 0)" "GetTopic TopicCatchUp (ro_Topics r) \<noteq> None" for r peers
    using that by (auto simp: requestCatchUp_def sample_joining_fields sample_joining_id need_def party req answer)
  moreover have "GetAuth None ''r'' empty_table = Inl ErrNoRows" "errors_Is ErrNoRows ErrNoRows"
    by (simp_all add: GetAuth_def empty_table_def) (simp add: ErrNoRows_def NewHillsideError_def)
  ultimately show ?thesis
    by (intro exI [of _ data]) (simp add: initial_ratchet_def sample_joining_fields)
qed

theorem joined_room_ready_witness:
  "\<exists>c' r. JoinRoomHandler sample_env sample_room_rpc sample_members_rpc (\<lambda>w. w) (\<lambda>_. None) ''r'' ''pw'' (sample_guest sample_keys)
      = Some (Ret (None, c'))
    \<and> cli_Room c' = Some ''r'' \<and> cur_room c' = Some r \<and> ro_RoomRatchet r \<noteq> None
    \<and> map_option rm_Name (ro_RoomMeta r) = Some ''room''
    \<and> GetTopic TopicChat (ro_Topics r) = Some (ChatTopic ''NO SERVER JOINED'' ''r'')"
proof -
  obtain c' where run: "JoinRoomHandler sample_env sample_room_rpc sample_members_rpc (\<lambda>w. w) (\<lambda>_. None) ''r'' ''pw''
      (sample_guest sample_keys) = Some (Ret (None, c'))"
    using sample_guest_joins [of "\<lambda>_. None" sample_keys] sample_guest_key by blast
  have guest: "mget (cli_Rooms (sample_guest sample_keys)) k = None" "GetServerID (sample_guest sample_keys) = Ret ''NO SERVER JOINED''" for k
    by (simp_all add: sample_guest_def sample_client_def GetServerID_def cur_server_def)
  have room: "sample_room_rpc m p = Inr (Some rm, []) \<Longrightarrow> rm_ID rm = ''r'' \<and> rm_Name rm = ''room''" for m p rm
    by (auto simp: sample_room_rpc_def sample_room_def NewRoomSessionWithMeta_def)
  from joined_room_ready [OF sample_guest_ok run] show ?thesis
    using run by (auto simp: guest dest: room)
qed

definition sample_bytes :: entropy where
  "sample_bytes n = Inr (replicate n 7)"

theorem created_room_key_found_witness:
  "\<exists>c'. CreateRoomHandler sample_env sample_bytes sample_bytes (\<lambda>_ _. Inr (''n'', []))
      \<lparr>crr_ServerID = ''s'', crr_RoomName = ''room'', crr_Visibility = Public, crr_PasswordHash = None,
        crr_PasswordSalt = None, crr_EncRoomKey = None\<rparr> (sample_guest empty_table) = (Inr ''n'', c')
    \<and> initial_ratchet sample_env (\<lambda>_. None) ''n'' c'
      = Ret ((None, Some \<lparr>rr_ChainKey = Some (sha256 (replicate 32 7)), rr_Index = 0\<rparr>), c')"
proof -
  let ?req = "\<lparr>crr_ServerID = ''s'', crr_RoomName = ''room'', crr_Visibility = Public, crr_PasswordHash = None,
        crr_PasswordSalt = None, crr_EncRoomKey = None\<rparr> :: create_room_request"
  have "Public \<noteq> Private" by (simp add: visibility_defs)
  then obtain c' where c': "CreateRoomHandler sample_env sample_bytes sample_bytes (\<lambda>_ _. Inr (''n'', [])) ?req (sample_guest empty_table)
      = (Inr ''n'', c')"
    by (simp add: CreateRoomHandler_def sample_bytes_def requestCreateRoom_def GenerateRoomKey_def Let_def case_prod_unfold)
  have "ce_auth_fault sample_env = None" by simp
  from created_room_key_found [OF c' this, of "\<lambda>_. None"] c' show ?thesis
    by (auto simp: sample_bytes_def)
qed

theorem members_follow_hub_witness:
  "\<exists>c' r' new. refreshMembersList_step (\<lambda>_. None)
      (''hub'', Some [\<lparr>m_AddrInfo = \<lparr>ai_ID = ''q'', ai_Addrs = []\<rparr>, m_User = sample_sender\<rparr>]) (sample_client 0 empty_table)
      = Ret (None, c')
    \<and> cur_room c' = Some r' \<and> ro_Members r' = new \<and> distinct (map u_PeerID new)"
proof -
  have host: "cli_HostID (sample_client 0 empty_table) = ''p''" "cli_HubID (sample_client 0 empty_table) = ''hub''"
    "ro_Members (sample_room 0) = []"
    by (simp_all add: sample_client_def sample_room_def NewRoomSessionWithMeta_def NewRoomSession_def)
  then obtain c' where c': "refreshMembersList_step (\<lambda>_. None)
      (''hub'', Some [\<lparr>m_AddrInfo = \<lparr>ai_ID = ''q'', ai_Addrs = []\<rparr>, m_User = sample_sender\<rparr>]) (sample_client 0 empty_table)
      = Ret (None, c')"
    by (simp add: refreshMembersList_step_def need_def)
  from members_follow_hub [OF this sample_client_room] host(3) c' show ?thesis by auto
qed

theorem newcomers_cannot_help_witness:
  "\<exists>data c' err. JoinRoomHandler sample_env sample_room_rpc sample_members_rpc (\<lambda>w. w) (\<lambda>_. Some (''p'', data))
      ''r'' ''pw'' (sample_guest empty_table) = Some (Ret (None, c'))
    \<and> (\<exists>c''. helpCatchUp_step sample_env (Inr (''q'', [])) c' = Some (Ret (Some err, c'', [])))"
proof -
  obtain data r peers where run: "JoinRoomHandler sample_env sample_room_rpc sample_members_rpc (\<lambda>w. w) (\<lambda>_. Some (''p'', data))
      ''r'' ''pw'' (sample_guest empty_table) = Some (Ret (None, sample_joining empty_table r peers))"
    and r: "ro_RoomMeta r = ro_RoomMeta (sample_room 0)" "GetTopic TopicCatchUp (ro_Topics r) \<noteq> None"
    using sample_answered sample_guest_joins [where auth = empty_table] by metis
  let ?c = "sample_joining empty_table r peers"
  obtain err where key: "GetAuth (ce_auth_fault sample_env) ''r'' (cli_Auth (sample_guest empty_table)) = Inl err"
    by (simp add: sample_guest_def GetAuth_def empty_table_def)
  have history: "wk_target (cli_History ?c) = \<lparr>hi_db = empty_table, hi_lastIndex = [], hi_readers = 0\<rparr>"
    by (simp add: sample_joining_def sample_guest_def sample_client_def NewHistoryManager_def new_worker_def)
  have "GetLastIndex None (\<lambda>rs. rs) ''r'' \<lparr>hi_db = empty_table, hi_lastIndex = [], hi_readers = 0\<rparr>
      = Some (Inl ErrNoRows, \<lparr>hi_db = empty_table, hi_lastIndex = [], hi_readers = 0\<rparr>)"
    by (simp add: GetLastIndex_def GetLatestChainIndex_def empty_table_def sql_limit_def sql_order_def sql_order_desc_def Let_def)
  moreover have "GetMessagesSinceChainIndex None (\<lambda>rs. rs) ''r'' 0 100 empty_table = Inr []"
    by (simp add: GetMessagesSinceChainIndex_def empty_table_def sql_limit_def sql_order_def)
  ultimately have "helpCatchUp_step sample_env (Inr (''q'', [])) ?c \<noteq> None"
    "helpCatchUp_step sample_env (Inr (''q'', [])) ?c \<noteq> Some (Panic p)" for p
    using r key history
    by (auto simp: helpCatchUp_step_def sample_joining_fields sample_joining_id sample_guest_def
        BuildCatchUpPayload_def Let_def)
  then obtain e c'' out where hlp: "helpCatchUp_step sample_env (Inr (''q'', [])) ?c = Some (Ret (e, c'', out))"
    by (metis go.exhaust prod.exhaust option.exhaust)
  from newcomers_cannot_help [OF run key sample_joining_id [OF r(1)] this] run hlp show ?thesis by blast
qed

end
