(* ===== verification/Hub_System.thy ===== *)
theory Hub_System
  imports Hub_Server
begin

text \<open>
  The hub as a system: streams that have been decoded and wait to be dispatched, streams whose
  method has been read and whose parameters have not, goroutines that wait to run, the shared request variable, the store and the topic cache, with one rule
  per atomic operation; every interleaving is a path. Then the invariants of the reachable
  states, the retry loops through the interface of the store, and the handlers' properties.
\<close>

section \<open>Steps\<close>

record hub_state =
  h_env :: rpc_env
  h_store :: hub_store
  h_cache :: topic_cache
  h_streams :: "addr_info list"
  h_switched :: "(addr_info \<times> string) list"
  h_tasks :: "hub_task list"
  h_replies :: "(addr_info \<times> rpc_response) list"
  h_published :: "publication list"
  h_crashed :: bool

definition hub_start :: hub_state where
  "hub_start =
     \<lparr>h_env = zero_rpc_env, h_store = NewHubStore, h_cache = [], h_streams = [], h_switched = [], h_tasks = [],
      h_replies = [], h_published = [], h_crashed = False\<rparr>"

text \<open>
  A panic in a handler's goroutine ends the process. The switch reads the method from the shared
  variable, and the handler reads the parameters from it later (\<open>switch\<close>, then \<open>finish\<close>): another
  stream may be read in between. \<open>serve\<close> and \<open>crash\<close> are the two in one. From its parameters on, a
  handler is one step: its accesses of the store are not interleaved with another's.
\<close>

inductive hub_step :: "hub_state \<Rightarrow> hub_state \<Rightarrow> bool" where
  read: "\<not> h_crashed s \<Longrightarrow> hub_decode input (h_env s) = (ok, env) \<Longrightarrow>
     hub_step s (s\<lparr>h_env := env, h_streams := (if ok then remote # h_streams s else h_streams s)\<rparr>)"
| serve: "\<not> h_crashed s \<Longrightarrow> remote \<in> set (h_streams s) \<Longrightarrow> world_ok w \<Longrightarrow>
     hub_dispatch w remote (h_env s) (h_store s) = Some (Ret (hs, replies, tasks)) \<Longrightarrow>
     hub_step s (s\<lparr>h_store := hs, h_streams := remove1 remote (h_streams s),
       h_tasks := h_tasks s @ tasks, h_replies := h_replies s @ map (Pair remote) replies\<rparr>)"
| crash: "\<not> h_crashed s \<Longrightarrow> remote \<in> set (h_streams s) \<Longrightarrow> world_ok w \<Longrightarrow>
     hub_dispatch w remote (h_env s) (h_store s) = Some (Panic p) \<Longrightarrow>
     hub_step s (s\<lparr>h_crashed := True\<rparr>)"
| switch: "\<not> h_crashed s \<Longrightarrow> remote \<in> set (h_streams s) \<Longrightarrow>
     hub_step s (s\<lparr>h_streams := remove1 remote (h_streams s),
       h_switched := (remote, he_Method (h_env s)) # h_switched s\<rparr>)"
| finish: "\<not> h_crashed s \<Longrightarrow> (remote, method) \<in> set (h_switched s) \<Longrightarrow> world_ok w \<Longrightarrow>
     hub_dispatch w remote ((h_env s)\<lparr>he_Method := method\<rparr>) (h_store s) = Some (Ret (hs, replies, tasks)) \<Longrightarrow>
     hub_step s (s\<lparr>h_store := hs, h_switched := remove1 (remote, method) (h_switched s),
       h_tasks := h_tasks s @ tasks, h_replies := h_replies s @ map (Pair remote) replies\<rparr>)"
| finish_crash: "\<not> h_crashed s \<Longrightarrow> (remote, method) \<in> set (h_switched s) \<Longrightarrow> world_ok w \<Longrightarrow>
     hub_dispatch w remote ((h_env s)\<lparr>he_Method := method\<rparr>) (h_store s) = Some (Panic p) \<Longrightarrow>
     hub_step s (s\<lparr>h_crashed := True\<rparr>)"
| advertise: "\<not> h_crashed s \<Longrightarrow> task \<in> set (h_tasks s) \<Longrightarrow> world_ok w \<Longrightarrow>
     run_task w task (h_store s) (h_cache s) = (err, cache, pub) \<Longrightarrow>
     hub_step s (s\<lparr>h_cache := cache, h_tasks := remove1 task (h_tasks s),
       h_published := h_published s @ pub\<rparr>)"

inductive_cases hub_stepE: "hub_step s s'"

definition hub_reachable :: "hub_state \<Rightarrow> bool" where
  "hub_reachable s \<longleftrightarrow> hub_step\<^sup>*\<^sup>* hub_start s"

lemma hub_reachable_start: "hub_reachable hub_start"
  by (simp add: hub_reachable_def)

lemma hub_reachable_step: "hub_reachable s \<Longrightarrow> hub_step s s' \<Longrightarrow> hub_reachable s'"
  by (simp add: hub_reachable_def)

lemma hub_reachable_induct [consumes 1, case_names start step]:
  assumes "hub_reachable s" and "P hub_start"
    and "\<And>s s'. hub_reachable s \<Longrightarrow> P s \<Longrightarrow> hub_step s s' \<Longrightarrow> P s'"
  shows "P s"
  using assms(1) unfolding hub_reachable_def
proof (induction rule: rtranclp_induct)
  case base
  show ?case by (rule assms(2))
next
  case (step y z)
  then show ?case using assms(3) [of y z] by (simp add: hub_reachable_def)
qed

section \<open>The retry loops\<close>

text \<open>
  What a loop that draws identifiers until one is free relies on: the table's contract, and
  that it tries the candidates in order.
\<close>

locale retrying = keyed_store +
  fixes candidate :: "'d \<Rightarrow> 'c"
    and retry :: "'d list \<Rightarrow> 'a \<Rightarrow> ('c \<times> 'a) option"
  assumes retry_Nil: "retry [] s = None"
    and retry_Cons: "ready s \<Longrightarrow> retry (d # ds) s =
      (case create (candidate d) s of Ret (None, s') \<Rightarrow> Some (candidate d, s') | _ \<Rightarrow> retry ds s)"
begin

lemma retry_result:
  assumes "ready s" "retry ds s = Some (v, s')"
  shows "find_by (ident v) s = None \<and> create v s = Ret (None, s') \<and> v \<in> candidate ` set ds"
  using assms(2)
proof (induction ds)
  case (Cons d ds)
  from assms(1) show ?case
    by (cases rule: create_cases [where v = "candidate d"])
      (use Cons assms(1) in \<open>auto simp: retry_Cons\<close>)
qed (simp add: retry_Nil)

lemma retry_adds:
  assumes "ready s" "retry ds s = Some (v, s')"
  shows "find_by k s' = (if k = ident v then Some v else find_by k s)"
  using find_created [of v s s' k] retry_result [OF assms] assms(1) by simp

lemma retry_returns:
  assumes "ready s"
  shows "retry ds s \<noteq> None \<longleftrightarrow> (\<exists>d \<in> set ds. find_by (ident (candidate d)) s = None)"
proof (induction ds)
  case (Cons d ds)
  from assms show ?case
    by (cases rule: create_cases [where v = "candidate d"]) (use Cons assms in \<open>auto simp: retry_Cons\<close>)
qed (simp add: retry_Nil)

end

interpretation server_loop: retrying "\<lambda>_. True" "\<lambda>sid hs. mget (hs_servers hs) sid"
  "\<lambda>sm hs. Ret (CreateServer sm hs)" sm_ID
  "\<lambda>(b, now). new_server remote req b now" "create_server_loop remote req" for remote req
  by unfold_locales (auto simp: CreateServer_def Let_def split: option.splits)

definition room_loop ::
  "create_room_request \<Rightarrow> (bytes \<times> int) list \<Rightarrow> hub_store \<Rightarrow> (room_meta \<times> hub_store) option"
where
  "room_loop req ds hs =
     (case create_room_loop req ds hs of
        Some (Ret (rm, _, hs')) \<Rightarrow> Some (rm, hs') | _ \<Rightarrow> None)"

lemma CreateRoom_on_existing:
  assumes "server_exists sid hs"
  shows "CreateRoom sid rm hs \<noteq> Panic p" "CreateRoom sid rm hs \<noteq> Ret (Some ErrServerNotFound, hs')"
  using assms
  by (auto simp: server_exists_def CreateRoom_def ErrDuplicateID_def ErrServerNotFound_def
      NewHillsideError_def split: option.splits)

lemma create_room_loop_Cons:
  assumes "server_exists (crr_ServerID req) hs"
  shows "create_room_loop req ((b, now) # ds) hs =
    (case CreateRoom (crr_ServerID req) (new_room req b) hs of
       Ret (None, hs') \<Rightarrow> Some (Ret (new_room req b, [], hs')) | _ \<Rightarrow> create_room_loop req ds hs)"
  using assms
  by (cases rule: rooms.create_cases [where v = "new_room req b"])
    (auto simp: Let_def ErrDuplicateID_def ErrServerNotFound_def NewHillsideError_def)

interpretation room_loop: retrying "server_exists (crr_ServerID req)" "find_room (crr_ServerID req)"
  "CreateRoom (crr_ServerID req)" rm_ID "\<lambda>(b, now). new_room req b" "room_loop req" for req
proof unfold_locales
  fix s d ds
  assume "server_exists (crr_ServerID req) s"
  then show "room_loop req (d # ds) s =
    (case CreateRoom (crr_ServerID req) (case d of (b, now) \<Rightarrow> new_room req b) s of
       Ret (None, s') \<Rightarrow> Some (case d of (b, now) \<Rightarrow> new_room req b, s') | _ \<Rightarrow> room_loop req ds s)"
    by (cases d)
      (auto simp: room_loop_def create_room_loop_Cons simp del: create_room_loop.simps(2)
        split: go.splits option.splits)
qed (simp add: room_loop_def)

lemma create_room_loop_no_replies:
  assumes "server_exists (crr_ServerID req) hs"
  shows "room_loop req ds hs = Some (rm, hs') \<longleftrightarrow> create_room_loop req ds hs = Some (Ret (rm, [], hs'))"
proof (induction ds)
  case (Cons d ds)
  obtain b now where "d = (b, now)" by (cases d)
  with assms Cons show ?case
    by (auto simp: room_loop_def create_room_loop_Cons simp del: create_room_loop.simps(2)
        split: go.splits option.splits)
qed (simp add: room_loop_def)

end
