(* ===== verification/Hub_Invariant.thy ===== *)
theory Hub_Invariant
  imports Hub_System
begin

text \<open>
  What every reachable state of the hub satisfies: the store is well formed, every member of a
  room was entered by the peer it names, a cached topic is the topic of its name, and what was
  published names the right topic and carries no password data.
\<close>

section \<open>The store\<close>

definition member_authentic :: "string \<Rightarrow> member \<Rightarrow> bool" where
  "member_authentic k m \<longleftrightarrow> ai_ID (m_AddrInfo m) = k \<and> u_PeerID (m_User m) = k"

definition members_ok :: "hub_store \<Rightarrow> bool" where
  "members_ok hs \<longleftrightarrow>
     (\<forall>sid rid rm ms k m. find_room sid rid hs = Some rm \<and> rm_Members rm = Some ms
        \<and> mget ms k = Some m \<longrightarrow> member_authentic k m)"

definition store_ok :: "hub_store \<Rightarrow> bool" where
  "store_ok hs \<longleftrightarrow> wf_store hs \<and> members_ok hs"

lemma find_room_eq:
  "find_room sid rid hs = Some rm \<longleftrightarrow>
   (\<exists>sm. mget (hs_servers hs) sid = Some sm \<and> mget (nil_map (sm_Rooms sm)) rid = Some rm)"
  by (auto simp: find_room_def GetRoom_def split: option.splits)

lemma find_room_wf:
  assumes "wf_store hs" "find_room sid rid hs = Some rm"
  shows "wf_room rid rm"
proof -
  from assms(2) obtain sm where
    sm: "mget (hs_servers hs) sid = Some sm" "mget (nil_map (sm_Rooms sm)) rid = Some rm"
    by (auto simp: find_room_eq)
  from wf_store_serverD [OF assms(1) sm(1)] show ?thesis
    by (rule wf_serverE) (use sm(2) in auto)
qed

lemma members_okI:
  assumes "members_ok hs"
    and "\<And>sid rid rm. find_room sid rid hs' = Some rm \<Longrightarrow>
      find_room sid rid hs = Some rm
      \<or> (\<forall>ms k m. rm_Members rm = Some ms \<longrightarrow> mget ms k = Some m \<longrightarrow> member_authentic k m)"
  shows "members_ok hs'"
  using assms unfolding members_ok_def by blast

lemma store_ok_CreateServer:
  assumes "store_ok hs" "CreateServer (new_server remote req b now) hs = (None, hs')"
  shows "store_ok hs'"
proof -
  have "wf_store hs'"
    using wf_CreateServer [of hs "new_server remote req b now"] assms
    by (simp add: store_ok_def new_server_def wf_server_def)
  moreover have "members_ok hs'"
    by (rule members_okI [of hs])
      (use assms in \<open>auto simp: store_ok_def find_room_eq CreateServer_def new_server_def map_simps
         split: option.splits if_splits\<close>)
  ultimately show ?thesis by (simp add: store_ok_def)
qed

lemma find_room_CreateRoom:
  assumes "CreateRoom sid rm hs = Ret (None, hs')"
  shows "find_room sid' rid hs' =
    (if sid' = sid \<and> rid = rm_ID rm then Some rm else find_room sid' rid hs)"
  using GetRoom_CreateRoom [OF assms] by (cases "sid' = sid") (simp_all add: find_room_def)

lemma store_ok_CreateRoom:
  assumes "store_ok hs" "CreateRoom sid (new_room req b) hs = Ret (None, hs')"
  shows "store_ok hs'"
proof -
  have "wf_room (rm_ID (new_room req b)) (new_room req b)"
    by (simp add: wf_room_def new_room_def)
  then have "wf_store hs'"
    using wf_CreateRoom [of hs "new_room req b" sid] assms by (auto simp: store_ok_def)
  moreover have "members_ok hs'"
    by (rule members_okI [of hs])
      (use assms in \<open>auto simp: store_ok_def find_room_CreateRoom new_room_def split: if_splits\<close>)
  ultimately show ?thesis by (simp add: store_ok_def)
qed

lemma CreateRoom_error: "CreateRoom sid rm hs = Ret (Some e, hs') \<Longrightarrow> hs' = hs"
  by (auto simp: CreateRoom_def split: option.splits)

lemma create_room_loop_store:
  "create_room_loop req draws hs = Some (Ret (rm, replies, hs')) \<Longrightarrow> store_ok hs \<Longrightarrow> store_ok hs'"
proof (induction req draws hs rule: create_room_loop.induct)
  case (2 req b now draws hs)
  show ?case
  proof (cases "CreateRoom (crr_ServerID req) (new_room req b) hs")
    case (Ret r)
    obtain err hs1 where r: "r = (err, hs1)" by (cases r)
    show ?thesis
      using 2 Ret r store_ok_CreateRoom [of hs "crr_ServerID req" req b]
      by (cases err) (auto simp: Let_def dest: CreateRoom_error split: if_splits)
  qed (use 2 in simp)
qed simp

lemma put_member_find:
  assumes "find_room sid rid hs = Some room" "wf_store hs"
  obtains hs' ms where "put_member sid rid room k v hs = Ret hs'" "rm_Members room = Some ms"
    "\<And>sid' rid'. find_room sid' rid' hs' =
       (if sid' = sid \<and> rid' = rid then Some (room\<lparr>rm_Members := Some (mput k v ms)\<rparr>)
        else find_room sid' rid' hs)"
    "wf_store hs'"
proof -
  from assms(1) obtain sm where
    sm: "mget (hs_servers hs) sid = Some sm" "mget (nil_map (sm_Rooms sm)) rid = Some room"
    by (auto simp: find_room_eq)
  from wf_store_serverD [OF assms(2) sm(1)] obtain rs where
    rs: "sm_Rooms sm = Some rs" "wf_map rs" "\<And>rid rm. mget rs rid = Some rm \<Longrightarrow> wf_room rid rm"
    by (metis wf_serverE)
  from find_room_wf [OF assms(2,1)] obtain ms where
    ms: "rm_ID room = rid" "rm_Members room = Some ms" "wf_map ms"
    by (auto simp: wf_room_def)
  let ?room = "room\<lparr>rm_Members := Some (mput k v ms)\<rparr>"
  let ?hs = "set_rooms sid sm (mput rid ?room rs) hs"
  have "put_member sid rid room k v hs = Ret ?hs"
    using sm rs ms by (simp add: put_member_def)
  moreover have "wf_store ?hs"
    by (rule wf_set_rooms [OF assms(2) sm(1)])
      (use rs ms in \<open>auto simp: map_simps wf_room_def split: if_splits\<close>)
  moreover have "find_room sid' rid' ?hs =
      (if sid' = sid \<and> rid' = rid then Some ?room else find_room sid' rid' hs)" for sid' rid'
    using sm rs by (auto simp: find_room_def GetRoom_def set_rooms_def map_simps split: option.splits)
  ultimately show ?thesis using that ms(2) by blast
qed

lemma GetRoom_Inr: "GetRoom sid rid hs = Inr rm \<longleftrightarrow> find_room sid rid hs = Some rm"
  by (auto simp: find_room_def split: sum.splits)

lemma store_ok_put_member:
  assumes "store_ok hs" "find_room sid rid hs = Some room" "member_authentic k v"
    and "put_member sid rid room k v hs = Ret hs'"
  shows "store_ok hs'"
proof -
  from assms(1) have wf: "wf_store hs" "members_ok hs" by (simp_all add: store_ok_def)
  from put_member_find [OF assms(2) wf(1), of k v] obtain ms where
    ms: "rm_Members room = Some ms" "wf_store hs'"
    and find: "\<And>sid' rid'. find_room sid' rid' hs' =
       (if sid' = sid \<and> rid' = rid then Some (room\<lparr>rm_Members := Some (mput k v ms)\<rparr>)
        else find_room sid' rid' hs)"
    using assms(4) by (metis go.inject(1))
  have "\<And>k m. mget ms k = Some m \<Longrightarrow> member_authentic k m"
    using wf(2) assms(2) ms(1) unfolding members_ok_def by blast
  with assms(3) have "members_ok hs'"
    by (intro members_okI [OF wf(2)]) (auto simp: find map_simps split: if_splits)
  with ms(2) show ?thesis by (simp add: store_ok_def)
qed

lemma go_bind_Ret_cases: "go_bind m f = Ret y \<Longrightarrow> (\<And>x. m = Ret x \<Longrightarrow> f x = Ret y \<Longrightarrow> P) \<Longrightarrow> P"
  by (cases m) simp_all

lemma join_room_store:
  assumes "join_room remote req hs = Ret (hs', replies, tasks)" "store_ok hs"
  shows "store_ok hs'"
proof (cases "GetRoom (jrr_ServerID req) (jrr_RoomID req) hs")
  case (Inr room)
  let ?m = "\<lparr>m_AddrInfo = remote, m_User = jrr_Sender req\<rparr>"
  have "hs' = hs \<or> (ai_ID remote = u_PeerID (jrr_Sender req)
      \<and> put_member (jrr_ServerID req) (jrr_RoomID req) room (ai_ID remote) ?m hs = Ret hs')"
    using assms(1) Inr
    by (simp add: join_room_def Let_def split: if_split_asm) (erule go_bind_Ret_cases, simp)
  then show ?thesis
  proof
    assume "ai_ID remote = u_PeerID (jrr_Sender req)
      \<and> put_member (jrr_ServerID req) (jrr_RoomID req) room (ai_ID remote) ?m hs = Ret hs'"
    moreover have "member_authentic (ai_ID remote) ?m" if "ai_ID remote = u_PeerID (jrr_Sender req)"
      using that by (simp add: member_authentic_def)
    ultimately show ?thesis
      using store_ok_put_member [OF assms(2) GetRoom_Inr [THEN iffD1, OF Inr]] by blast
  qed (use assms(2) in simp)
qed (use assms(1) in \<open>simp add: join_room_def\<close>)

lemma handle_JoinRoom_store:
  "handle_JoinRoom remote params hs = Ret (hs', replies, tasks) \<Longrightarrow> store_ok hs \<Longrightarrow> store_ok hs'"
  by (auto simp: handle_JoinRoom_def Let_def intro: join_room_store split: prod.splits if_split_asm)

lemma create_server_loop_store:
  assumes "create_server_loop remote req draws hs = Some (sm, hs')" "store_ok hs"
  shows "store_ok hs'"
  using server_loop.retry_result [OF TrueI assms(1)] assms(2)
  by (auto intro: store_ok_CreateServer)

text \<open>The other handlers leave the store alone.\<close>

lemma handlers_keep_store:
  "handle_ListServers w hs = (hs', rs, ts) \<Longrightarrow> hs' = hs"
  "handle_ListRooms w p hs = (hs', rs, ts) \<Longrightarrow> hs' = hs"
  "handle_JoinServer p hs = (hs', rs, ts) \<Longrightarrow> hs' = hs"
  "handle_ListRoomMembers w p hs = (hs', rs, ts) \<Longrightarrow> hs' = hs"
  by (auto simp: handle_ListServers_def handle_ListRooms_def handle_JoinServer_def
      handle_ListRoomMembers_def Let_def split: prod.splits sum.splits if_splits)

lemma handle_CreateServer_store:
  "handle_CreateServer w remote p hs = Some (hs', rs, ts) \<Longrightarrow> store_ok hs \<Longrightarrow> store_ok hs'"
  using create_server_loop_store
  by (auto simp: handle_CreateServer_def Let_def split: prod.splits option.splits if_splits)

lemma handle_CreateRoom_store:
  "handle_CreateRoom w p hs = Some (Ret (hs', rs, ts)) \<Longrightarrow> store_ok hs \<Longrightarrow> store_ok hs'"
  using create_room_loop_store
  by (fastforce simp: handle_CreateRoom_def Let_def split: prod.splits option.splits go.splits if_splits)

lemma dispatch_store_ok:
  assumes "hub_dispatch w remote env hs = Some (Ret (hs', replies, tasks))" "store_ok hs"
  shows "store_ok hs'"
  using assms
  by (auto simp: hub_dispatch_def Let_def split: if_splits
      dest: handlers_keep_store handle_CreateServer_store handle_CreateRoom_store handle_JoinRoom_store)

section \<open>Publications\<close>

definition server_clean :: "server_meta \<Rightarrow> bool" where
  "server_clean sm \<longleftrightarrow>
     sm_Visibility sm \<noteq> Private \<and> sm_PasswordHash sm = None \<and> sm_PasswordSalt sm = None"

definition room_clean :: "room_meta \<Rightarrow> bool" where
  "room_clean rm \<longleftrightarrow> rm_Visibility rm \<noteq> Private \<and> rm_PasswordHash rm = None
     \<and> rm_PasswordSalt rm = None \<and> rm_Members rm = None"

fun publication_ok :: "publication \<Rightarrow> bool" where
  "publication_ok (tp, Some (ListServersResponse ss)) \<longleftrightarrow>
     tp = ServersTopic \<and> list_all server_clean ss"
| "publication_ok (tp, Some (ListRoomsResponse rs e)) \<longleftrightarrow>
     (\<exists>sid. tp = RoomsTopic sid) \<and> list_all room_clean rs"
| "publication_ok (tp, Some (ListRoomMembersResponse ms e)) \<longleftrightarrow>
     (\<exists>sid rid. tp = MembersTopic sid rid)
     \<and> list_all (\<lambda>m. ai_ID (m_AddrInfo m) = u_PeerID (m_User m)) ms"
| "publication_ok (tp, None) \<longleftrightarrow> (\<exists>sid. tp = RoomsTopic sid)"
| "publication_ok _ \<longleftrightarrow> False"

definition cache_ok :: "topic_cache \<Rightarrow> bool" where
  "cache_ok cache \<longleftrightarrow> (\<forall>name tp. mget cache name = Some tp \<longrightarrow> tp = name)"

lemma visible_servers_clean: "list_all server_clean (visible_servers ss)"
  by (auto simp: visible_servers_def list_all_iff server_clean_def sanitize_server_def)

lemma visible_rooms_clean: "list_all room_clean (visible_rooms rs)"
  by (auto simp: visible_rooms_def list_all_iff room_clean_def sanitize_room_def)

lemma cached_topic_ok:
  "cache_ok cache \<Longrightarrow> cached_topic w name cache = (r, cache') \<Longrightarrow>
   cache_ok cache' \<and> (\<forall>tp. r = Inr tp \<longrightarrow> tp = name)"
  by (auto simp: cached_topic_def cache_ok_def map_simps split: option.splits if_splits)

lemma publish_to_ok: "publish_to w tp d = (err, pub) \<Longrightarrow> set pub \<subseteq> {(tp, d)}"
  by (auto simp: publish_to_def split: option.splits)

text \<open>The common end of the advertisers: find the topic, then publish at most \<open>d\<close> there.\<close>

lemma advert_ok:
  assumes "(case cached_topic w name cache of
      (Inl e, c) \<Rightarrow> (Some e, c, []) | (Inr tp, c) \<Rightarrow> f tp c) = (err, cache', pub)"
    and "\<And>tp c. f tp c = (err, cache', pub) \<Longrightarrow> cache' = c \<and> set pub \<subseteq> {(tp, d)}"
    and "cache_ok cache" "publication_ok (name, d)"
  shows "cache_ok cache' \<and> list_all publication_ok pub"
proof -
  obtain r c where r: "cached_topic w name cache = (r, c)" by (cases "cached_topic w name cache")
  note ok = cached_topic_ok [OF assms(3) r]
  show ?thesis
  proof (cases r)
    case (Inl e)
    with assms(1) r ok show ?thesis by simp
  next
    case (Inr tp)
    with assms(1) r have "f tp c = (err, cache', pub)" by simp
    from assms(2) [OF this] ok Inr assms(4) show ?thesis by (auto simp: list_all_iff)
  qed
qed

lemma join_and_publish_ok:
  assumes "join_and_publish w name d cache = (err, cache', pub)" "cache_ok cache" "publication_ok (name, d)"
  shows "cache_ok cache' \<and> list_all publication_ok pub"
  using assms(1)
  by (intro advert_ok [OF _ _ assms(2,3)])
    (auto simp: join_and_publish_def publish_to_def split: option.splits)

lemma member_values_authentic:
  assumes "store_ok hs" "find_room sid rid hs = Some rm" "rm_Members rm = Some ms" "m \<in> snd ` set ms"
  shows "ai_ID (m_AddrInfo m) = u_PeerID (m_User m)"
proof -
  from assms(1) have ok: "wf_store hs" "members_ok hs" by (simp_all add: store_ok_def)
  from find_room_wf [OF ok(1) assms(2)] assms(3) have "wf_map ms" by (auto simp: wf_room_def)
  with assms(4) obtain k where "mget ms k = Some m" by (auto simp: mget_Some_iff)
  with ok(2) assms(2,3) have "member_authentic k m" unfolding members_ok_def by blast
  then show ?thesis by (simp add: member_authentic_def)
qed

lemma AdvertiseNewServer_ok:
  assumes "AdvertiseNewServer w hs cache = (err, cache', pub)" "cache_ok cache"
  shows "cache_ok cache' \<and> list_all publication_ok pub"
  using assms
  by (auto simp: AdvertiseNewServer_def Let_def visible_servers_clean split: option.splits
      dest: join_and_publish_ok)

lemma AdvertiseNewRoom_ok:
  assumes "AdvertiseNewRoom w sid hs cache = (err, cache', pub)" "cache_ok cache"
  shows "cache_ok cache' \<and> list_all publication_ok pub"
  using assms
  by (auto simp: AdvertiseNewRoom_def Let_def visible_rooms_clean split: option.splits sum.splits
      if_splits dest!: join_and_publish_ok)

lemma AdvertiseNewcomers_ok:
  assumes "AdvertiseNewcomers w (find_room sid rid hs) sid cache = (err, cache', pub)" "cache_ok cache"
    and "store_ok hs" "world_ok w"
  shows "cache_ok cache' \<and> list_all publication_ok pub"
proof (cases "find_room sid rid hs")
  case (Some rm)
  from assms(3) Some obtain ms where ms: "rm_Members rm = Some ms"
    using find_room_wf [of hs sid rid rm] by (auto simp: store_ok_def wf_room_def)
  let ?resp = "ListRoomMembersResponse (hw_order_members w (map snd ms)) []"
  have ok: "publication_ok (MembersTopic sid (rm_ID rm), Some ?resp)"
    using member_values_authentic [OF assms(3) Some ms] assms(4)
    by (auto simp: list_all_iff world_ok_def map_order_set)
  show ?thesis
    using assms(1) Some ms
    by (intro advert_ok [where d = "Some ?resp", OF _ _ assms(2) ok])
      (auto simp: AdvertiseNewcomers_def Let_def publish_to_def split: option.splits)
qed (use assms in \<open>simp add: AdvertiseNewcomers_def\<close>)

lemma run_task_ok:
  assumes "run_task w task hs cache = (err, cache', pub)" "store_ok hs" "cache_ok cache" "world_ok w"
  shows "cache_ok cache' \<and> list_all publication_ok pub"
  using assms
  by (cases task)
    (auto dest: AdvertiseNewServer_ok AdvertiseNewRoom_ok AdvertiseNewcomers_ok)

text \<open>
  What a publication made for a task is: its topic is that of the task, and its data lists what the
  store has there, in the order the maps were visited; of the servers and rooms those that are not
  private, without the hash and salt of their passwords, and of the rooms without their members. A
  list of rooms that cannot be marshalled goes out without data.
\<close>

fun announces :: "hub_world \<Rightarrow> hub_store \<Rightarrow> hub_task \<Rightarrow> publication \<Rightarrow> bool" where
  "announces w hs NewServerTask p \<longleftrightarrow>
     p = (ServersTopic, Some (ListServersResponse
       (map (\<lambda>sm. sm\<lparr>sm_PasswordHash := None, sm_PasswordSalt := None\<rparr>)
         (filter (\<lambda>sm. sm_Visibility sm \<noteq> Private) (hw_order_servers w (map snd (hs_servers hs)))))))"
| "announces w hs (NewRoomTask sid) p \<longleftrightarrow>
     (\<exists>sm. mget (hs_servers hs) sid = Some sm
        \<and> (p = (RoomsTopic sid, None)
          \<or> p = (RoomsTopic sid, Some (ListRoomsResponse
              (map (\<lambda>rm. rm\<lparr>rm_PasswordHash := None, rm_PasswordSalt := None, rm_Members := None\<rparr>)
                (filter (\<lambda>rm. rm_Visibility rm \<noteq> Private) (hw_order_rooms w (map snd (nil_map (sm_Rooms sm)))))) []))))"
| "announces w hs (NewcomersTask sid rid) p \<longleftrightarrow>
     (\<exists>rm ms. find_room sid rid hs = Some rm \<and> rm_Members rm = Some ms
        \<and> p = (MembersTopic sid rid, Some (ListRoomMembersResponse (hw_order_members w (map snd ms)) [])))"

lemma published_there:
  assumes "(case cached_topic w name cache of
      (Inl e, c) \<Rightarrow> (Some e, c, []) | (Inr tp, c) \<Rightarrow> f tp c) = (err, cache', pub)"
    and "\<And>tp c. f tp c = (err, cache', pub) \<Longrightarrow> set pub \<subseteq> {(tp, d)}"
    and "cache_ok cache" "p \<in> set pub"
  shows "p = (name, d)"
proof -
  obtain r c where r: "cached_topic w name cache = (r, c)" by (cases "cached_topic w name cache")
  show ?thesis
  proof (cases r)
    case (Inr tp)
    with assms(1) r have "f tp c = (err, cache', pub)" by simp
    from assms(2) [OF this] cached_topic_ok [OF assms(3) r] Inr assms(4) show ?thesis by auto
  qed (use assms(1,4) r in simp)
qed

lemma join_and_publish_there:
  assumes "join_and_publish w name d cache = (err, cache', pub)" "cache_ok cache" "p \<in> set pub"
  shows "p = (name, d)"
  using assms(1)
  by (intro published_there [OF _ _ assms(2,3)])
    (auto simp: join_and_publish_def publish_to_def split: option.splits)

lemma run_task_announces:
  assumes "run_task w task hs cache = (err, cache', pub)" "store_ok hs" "cache_ok cache" "p \<in> set pub"
  shows "announces w hs task p"
proof (cases task)
  case NewServerTask
  with assms(1,4) have "join_and_publish w ServersTopic
      (Some (ListServersResponse (visible_servers (ListServers (hw_order_servers w) hs)))) cache = (err, cache', pub)"
    by (auto simp: AdvertiseNewServer_def Let_def split: option.splits)
  from join_and_publish_there [OF this assms(3,4)] NewServerTask show ?thesis
    by (simp add: visible_servers_def sanitize_server_def ListServers_def)
next
  case (NewRoomTask sid)
  with assms(1,4) obtain sm where sm: "mget (hs_servers hs) sid = Some sm"
    and pub: "join_and_publish w (RoomsTopic sid)
        (let resp = ListRoomsResponse (visible_rooms (hw_order_rooms w (map snd (nil_map (sm_Rooms sm))))) []
         in if hw_marshal w resp = None then Some resp else None) cache = (err, cache', pub)"
    by (auto simp: AdvertiseNewRoom_def ListRooms_def Let_def split: option.splits)
  from join_and_publish_there [OF pub assms(3,4)] sm NewRoomTask show ?thesis
    by (simp add: visible_rooms_def sanitize_room_def Let_def)
next
  case (NewcomersTask sid rid)
  with assms(1,4) obtain rm ms where rm: "find_room sid rid hs = Some rm" "rm_Members rm = Some ms"
    by (auto simp: AdvertiseNewcomers_def split: option.splits)
  with assms(2) have ID: "rm_ID rm = rid" using find_room_wf [of hs sid rid rm] by (auto simp: store_ok_def wf_room_def)
  have "p = (MembersTopic sid rid, Some (ListRoomMembersResponse (hw_order_members w (map snd ms)) []))"
    using assms(1) NewcomersTask rm ID
    by (intro published_there [OF _ _ assms(3,4)])
      (auto simp: AdvertiseNewcomers_def publish_to_def Let_def split: option.splits)
  with rm NewcomersTask show ?thesis by auto
qed

section \<open>The invariant\<close>

definition hub_inv :: "hub_state \<Rightarrow> bool" where
  "hub_inv s \<longleftrightarrow> store_ok (h_store s) \<and> cache_ok (h_cache s) \<and> list_all publication_ok (h_published s)"

lemma hub_inv_start: "hub_inv hub_start"
  by (auto simp: hub_inv_def hub_start_def store_ok_def members_ok_def find_room_eq cache_ok_def
      NewHubStore_def wf_store_def)

lemma hub_inv_step: "hub_step s s' \<Longrightarrow> hub_inv s \<Longrightarrow> hub_inv s'"
  by (erule hub_stepE)
    (auto simp: hub_inv_def dest: dispatch_store_ok dest: run_task_ok)

lemma hub_reachable_from: "hub_reachable s \<Longrightarrow> hub_step\<^sup>*\<^sup>* s s' \<Longrightarrow> hub_reachable s'"
  unfolding hub_reachable_def by (rule rtranclp_trans)

lemma reachable_inv: "hub_reachable s \<Longrightarrow> hub_inv s"
  by (induction rule: hub_reachable_induct) (auto intro: hub_inv_start hub_inv_step)

end
