(* ===== verification/Hub_Correct.thy ===== *)
theory Hub_Correct
  imports Hub_Invariant
begin

text \<open>
  The properties of the hub: what its handlers answer and change for requests as the clients
  write them, which requests crash it, and what holds in every reachable state.
\<close>

section \<open>Requests as clients write them\<close>

lemma handleRPC_request:
  assumes "utf8_valid m" "wf_json p"
  shows "handleRPC w remote (rpc_text m p) env hs =
    (\<lparr>he_Method = m, he_Params = jprint p\<rparr>,
     hub_dispatch w remote \<lparr>he_Method = m, he_Params = jprint p\<rparr> hs)"
  using assms by (simp add: handleRPC_def hub_decode_def json_decode_rpc_text dec_enc_rpc_request)

lemma method_utf8 [simp]:
  "utf8_valid ''ListServers''" "utf8_valid ''CreateServer''" "utf8_valid ''ListRooms''"
  "utf8_valid ''CreateRoom''" "utf8_valid ''JoinServer''" "utf8_valid ''JoinRoom''"
  "utf8_valid ''ListRoomMembers''"
  by (simp_all add: utf8_valid_ascii)

lemma read_params:
  "wf_create_server_request r \<Longrightarrow>
     unmarshal_into dec_create_server_request (jprint (enc_create_server_request r))
       zero_create_server_request = (True, r)"
  "wf_create_room_request r2 \<Longrightarrow>
     unmarshal_into dec_create_room_request (jprint (enc_create_room_request r2))
       zero_create_room_request = (True, r2)"
  "wf_join_server_request r3 \<Longrightarrow>
     unmarshal_into dec_join_server_request (jprint (enc_join_server_request r3))
       zero_join_server_request = (True, r3)"
  "wf_join_room_request r4 \<Longrightarrow>
     unmarshal_into dec_join_room_request (jprint (enc_join_room_request r4))
       zero_join_room_request = (True, r4)"
  by (simp_all add: unmarshal_print wf_codec codec_simps)

lemma find_room_Inr: "find_room sid rid hs = Some rm \<Longrightarrow> GetRoom sid rid hs = Inr rm"
  by (simp add: GetRoom_Inr)

lemma find_room_None: "find_room sid rid hs = None \<Longrightarrow> \<exists>e. GetRoom sid rid hs = Inl e"
  by (auto simp: find_room_def split: sum.splits)

lemma create_room_loop_no_panic:
  "wf_store hs \<Longrightarrow> create_room_loop req draws hs \<noteq> Some (Panic p)"
proof (induction req draws hs rule: create_room_loop.induct)
  case (2 req b now draws hs)
  have "wf_room (rm_ID (new_room req b)) (new_room req b)"
    by (simp add: wf_room_def new_room_def)
  then obtain e hs' where "CreateRoom (crr_ServerID req) (new_room req b) hs = Ret (e, hs')" "wf_store hs'"
    using wf_CreateRoom [OF 2(2)] by metis
  then show ?case
    using 2(1) by (auto simp: Let_def)
qed simp

lemma handle_CreateRoom_no_panic: "wf_store hs \<Longrightarrow> handle_CreateRoom w p hs \<noteq> Some (Panic q)"
  using create_room_loop_no_panic
  by (auto simp: handle_CreateRoom_def Let_def split: prod.splits option.splits go.splits)

section \<open>Properties\<close>

text \<open>
  C4. In every reachable state of the hub, whatever streams were interleaved, every member of
  every room is filed under the peer it names, and that peer is the one that sent the request.
\<close>

theorem hub_members_authentic:
  assumes "hub_reachable s" and "find_room sid rid (h_store s) = Some rm"
    and "rm_Members rm = Some ms" and "mget ms k = Some m"
  shows "ai_ID (m_AddrInfo m) = k \<and> u_PeerID (m_User m) = k \<and> rm_ID rm = rid"
proof -
  from reachable_inv [OF assms(1)] have ok: "wf_store (h_store s)" "members_ok (h_store s)"
    by (simp_all add: hub_inv_def store_ok_def)
  from ok(2) assms(2,3,4) have "member_authentic k m" unfolding members_ok_def by blast
  moreover from find_room_wf [OF ok(1) assms(2)] have "rm_ID rm = rid" by (simp add: wf_room_def)
  ultimately show ?thesis by (simp add: member_authentic_def)
qed

lemma published_for:
  assumes "hub_reachable s" and "p \<in> set (h_published s)"
  shows "\<exists>s0 w task. hub_reachable s0 \<and> hub_step\<^sup>*\<^sup>* s0 s \<and> world_ok w \<and> task \<in> set (h_tasks s0)
    \<and> announces w (h_store s0) task p"
  using assms
proof (induction rule: hub_reachable_induct)
  case start
  then show ?case by (simp add: hub_start_def)
next
  case (step s s')
  show ?case
  proof (cases "p \<in> set (h_published s)")
    case True
    with step show ?thesis by (meson rtranclp.rtrancl_into_rtrancl)
  next
    case False
    from step.hyps(2) False step.prems obtain task w err cache pub where run: "task \<in> set (h_tasks s)" "world_ok w"
      "run_task w task (h_store s) (h_cache s) = (err, cache, pub)" "p \<in> set pub"
      by (cases rule: hub_step.cases) auto
    have "announces w (h_store s) task p"
      using run_task_announces [OF run(3) _ _ run(4)] reachable_inv [OF step.hyps(1)] by (simp add: hub_inv_def)
    with run(1,2) step.hyps show ?thesis by blast
  qed
qed

text \<open>
  C34. Whatever the hub published in a reachable state was made for a task that some handler had
  started, from the store as it was when the task ran: the servers on the servers' topic, a
  server's rooms on the topic of that server, and a room's members on the topic of that room; it
  lists what the store had there and no private server or room, no hash or salt of their
  passwords, and each member under the peer its user names. The rooms inside a listed server are
  not cleaned.
\<close>

theorem hub_publications_clean:
  assumes "hub_reachable s" and "p \<in> set (h_published s)"
  shows "publication_ok p \<and> (\<exists>s0 w task. hub_reachable s0 \<and> hub_step\<^sup>*\<^sup>* s0 s \<and> world_ok w \<and> task \<in> set (h_tasks s0)
    \<and> (case task of
         NewServerTask \<Rightarrow> p = (ServersTopic, Some (ListServersResponse
           (map (\<lambda>sm. sm\<lparr>sm_PasswordHash := None, sm_PasswordSalt := None\<rparr>)
             (filter (\<lambda>sm. sm_Visibility sm \<noteq> Private) (hw_order_servers w (map snd (hs_servers (h_store s0))))))))
       | NewRoomTask sid \<Rightarrow> \<exists>sm. mget (hs_servers (h_store s0)) sid = Some sm
           \<and> (p = (RoomsTopic sid, None)
             \<or> p = (RoomsTopic sid, Some (ListRoomsResponse
                 (map (\<lambda>rm. rm\<lparr>rm_PasswordHash := None, rm_PasswordSalt := None, rm_Members := None\<rparr>)
                   (filter (\<lambda>rm. rm_Visibility rm \<noteq> Private) (hw_order_rooms w (map snd (nil_map (sm_Rooms sm)))))) [])))
       | NewcomersTask sid rid \<Rightarrow> \<exists>rm ms. find_room sid rid (h_store s0) = Some rm \<and> rm_Members rm = Some ms
           \<and> p = (MembersTopic sid rid, Some (ListRoomMembersResponse (hw_order_members w (map snd ms)) []))))"
proof -
  have ok: "publication_ok p" using reachable_inv [OF assms(1)] assms(2) by (auto simp: hub_inv_def list_all_iff)
  obtain s0 w task where "hub_reachable s0" "hub_step\<^sup>*\<^sup>* s0 s" "world_ok w" "task \<in> set (h_tasks s0)"
    "announces w (h_store s0) task p"
    using published_for [OF assms] by blast
  with ok show ?thesis
    by (intro conjI exI [of _ s0] exI [of _ w] exI [of _ task]) (auto split: hub_task.split)
qed

lemma create_server_run:
  assumes "wf_create_server_request req"
    and "\<exists>(b, now) \<in> set (hw_draws w). mget (hs_servers hs) (GenerateRandomID b) = None"
  shows "\<exists>b now hs'. (b, now) \<in> set (hw_draws w)
    \<and> snd (handleRPC w remote (rpc_text ''CreateServer'' (enc_create_server_request req)) env hs)
        = Some (Ret (hs', [CreateServerResponse (GenerateRandomID b)], [NewServerTask]))
    \<and> GetServer (GenerateRandomID b) hs = Inl ErrServerNotFound
    \<and> (\<forall>sid. GetServer sid hs' =
          (if sid = GenerateRandomID b then Inr (new_server remote req b now) else GetServer sid hs))"
proof -
  have "create_server_loop remote req (hw_draws w) hs \<noteq> None"
    using assms(2)
    by (subst server_loop.retry_returns) (simp_all add: new_server_def case_prod_unfold)
  then obtain sm hs' where loop: "create_server_loop remote req (hw_draws w) hs = Some (sm, hs')"
    by auto
  from server_loop.retry_result [OF TrueI loop] obtain b now where
    sm: "(b, now) \<in> set (hw_draws w)" "sm = new_server remote req b now"
    "mget (hs_servers hs) (sm_ID sm) = None" "CreateServer sm hs = (None, hs')"
    by auto
  have ID: "sm_ID sm = GenerateRandomID b"
    by (simp add: sm(2) new_server_def)
  have "snd (handleRPC w remote (rpc_text ''CreateServer'' (enc_create_server_request req)) env hs)
      = Some (Ret (hs', [CreateServerResponse (GenerateRandomID b)], [NewServerTask]))"
    using assms(1) loop ID
    by (simp add: handleRPC_request wf_codec hub_dispatch_def handle_CreateServer_def read_params)
  with sm ID GetServer_CreateServer [OF sm(4)] show ?thesis
    by (intro exI [of _ b] exI [of _ now] exI [of _ hs']) (auto simp: GetServer_def)
qed

text \<open>
  A \<open>CreateServer\<close> request as a client writes it, when some drawn identifier is free, stores
  one server under a drawn identifier that was free, owned by the remote peer, changes no other
  server, answers with the identifier and starts one advertisement; whatever the shared request
  variable held before.
\<close>

theorem create_server_adds_one:
  assumes "wf_create_server_request req"
    and "\<exists>(b, now) \<in> set (hw_draws w). mget (hs_servers hs) (GenerateRandomID b) = None"
  shows "\<exists>b now hs'. (b, now) \<in> set (hw_draws w)
    \<and> snd (handleRPC w remote (rpc_text ''CreateServer'' (enc_create_server_request req)) env hs)
        = Some (Ret (hs', [CreateServerResponse (GenerateRandomID b)], [NewServerTask]))
    \<and> GetServer (GenerateRandomID b) hs = Inl ErrServerNotFound
    \<and> (\<forall>sid. GetServer sid hs' =
          (if sid = GenerateRandomID b then Inr (new_server remote req b now) else GetServer sid hs))"
  using assms by (rule create_server_run)

lemma create_room_run:
  assumes "wf_create_room_request req" and "wf_store hs"
    and "mget (hs_servers hs) (crr_ServerID req) = Some sm"
    and "\<exists>(b, now) \<in> set (hw_draws w). find_room (crr_ServerID req) (GenerateRandomID b) hs = None"
  shows "\<exists>b now hs'. (b, now) \<in> set (hw_draws w)
    \<and> snd (handleRPC w remote (rpc_text ''CreateRoom'' (enc_create_room_request req)) env hs)
        = Some (Ret (hs', [CreateRoomResponse (GenerateRandomID b) []], [NewRoomTask (crr_ServerID req)]))
    \<and> find_room (crr_ServerID req) (GenerateRandomID b) hs = None
    \<and> (\<forall>sid rid. find_room sid rid hs' =
          (if sid = crr_ServerID req \<and> rid = GenerateRandomID b then Some (new_room req b)
           else find_room sid rid hs))
    \<and> wf_store hs'"
proof -
  from wf_store_serverD [OF assms(2,3)] assms(3) have ready: "server_exists (crr_ServerID req) hs"
    by (auto simp: server_exists_def wf_server_def)
  have "room_loop req (hw_draws w) hs \<noteq> None"
    using assms(4) by (subst room_loop.retry_returns [OF ready])
      (simp add: new_room_def case_prod_unfold)
  then obtain rm hs' where loop: "room_loop req (hw_draws w) hs = Some (rm, hs')"
    by auto
  from room_loop.retry_result [OF ready loop] obtain b now where
    rm: "(b, now) \<in> set (hw_draws w)" "rm = new_room req b"
    "find_room (crr_ServerID req) (rm_ID rm) hs = None"
    "CreateRoom (crr_ServerID req) rm hs = Ret (None, hs')"
    by auto
  have ID: "rm_ID rm = GenerateRandomID b"
    by (simp add: rm(2) new_room_def)
  have "snd (handleRPC w remote (rpc_text ''CreateRoom'' (enc_create_room_request req)) env hs)
      = Some (Ret (hs', [CreateRoomResponse (GenerateRandomID b) []], [NewRoomTask (crr_ServerID req)]))"
    using assms(1) loop ID create_room_loop_no_replies [OF ready]
    by (simp add: handleRPC_request wf_codec hub_dispatch_def handle_CreateRoom_def read_params)
  moreover have "wf_store hs'"
    using wf_CreateRoom [OF assms(2), of rm "crr_ServerID req"] rm(2,4)
    by (auto simp: wf_room_def new_room_def)
  ultimately show ?thesis
    using rm ID find_room_CreateRoom [OF rm(4)]
    by (intro exI [of _ b] exI [of _ now] exI [of _ hs']) auto
qed

text \<open>
  A \<open>CreateRoom\<close> request on a server of a well-formed store, when some drawn identifier is
  free among its rooms, adds exactly one room without members, changes no other room of any
  server, answers once with the identifier and starts one advertisement.
\<close>

theorem create_room_adds_one:
  assumes "wf_create_room_request req" and "wf_store hs"
    and "mget (hs_servers hs) (crr_ServerID req) = Some sm"
    and "\<exists>(b, now) \<in> set (hw_draws w). find_room (crr_ServerID req) (GenerateRandomID b) hs = None"
  shows "\<exists>b now hs'. (b, now) \<in> set (hw_draws w)
    \<and> snd (handleRPC w remote (rpc_text ''CreateRoom'' (enc_create_room_request req)) env hs)
        = Some (Ret (hs', [CreateRoomResponse (GenerateRandomID b) []], [NewRoomTask (crr_ServerID req)]))
    \<and> find_room (crr_ServerID req) (GenerateRandomID b) hs = None
    \<and> (\<forall>sid rid. find_room sid rid hs' =
          (if sid = crr_ServerID req \<and> rid = GenerateRandomID b then Some (new_room req b)
           else find_room sid rid hs))"
  using create_room_run [OF assms] by blast

text \<open>
  On a server that does not exist, the handler of \<open>CreateRoom\<close> answers twice: first the
  error, then an identifier of a room that was never stored.
\<close>

theorem create_room_unknown_server:
  assumes "wf_create_room_request req" and "mget (hs_servers hs) (crr_ServerID req) = None"
    and "hw_draws w = (b, now) # draws"
  shows "snd (handleRPC w remote (rpc_text ''CreateRoom'' (enc_create_room_request req)) env hs)
    = Some (Ret (hs, [CreateRoomResponse [] ''Server not found'',
        CreateRoomResponse (GenerateRandomID b) []], [NewRoomTask (crr_ServerID req)]))"
  using assms
  by (simp add: handleRPC_request wf_codec hub_dispatch_def handle_CreateRoom_def read_params
      CreateRoom_def new_room_def)

text \<open>The outcome of \<open>JoinRoom\<close> on a room that exists and is not private.\<close>

definition room_password_ok :: "join_room_request \<Rightarrow> room_meta \<Rightarrow> bool" where
  "room_password_ok req room \<longleftrightarrow>
     (rm_Visibility room = PasswordProtected \<longrightarrow>
        bytes_Equal (jrr_PasswordHash req) (rm_PasswordHash room))"

lemma join_room_eq:
  assumes "find_room (jrr_ServerID req) (jrr_RoomID req) hs = Some room" "rm_Visibility room \<noteq> Private"
    and "put_member (jrr_ServerID req) (jrr_RoomID req) room (ai_ID remote)
      \<lparr>m_AddrInfo = remote, m_User = jrr_Sender req\<rparr> hs = Ret hs1"
  shows "join_room remote req hs =
    (if \<not> room_password_ok req room
     then Ret (hs, [JoinRoomResponse None ''invalid room password''], [])
     else if ai_ID remote \<noteq> u_PeerID (jrr_Sender req)
     then Ret (hs, [JoinRoomResponse (Some (room\<lparr>rm_Members := Some []\<rparr>)) [],
       JoinRoomResponse None ''Sender peer ID mismatch''], [])
     else Ret (hs1, [JoinRoomResponse (Some (room\<lparr>rm_Members := Some []\<rparr>)) []],
       [NewcomersTask (jrr_ServerID req) (jrr_RoomID req)]))"
  using assms
  by (cases "ai_ID remote = u_PeerID (jrr_Sender req)")
    (simp_all add: join_room_def room_password_ok_def GetRoom_Inr [THEN iffD2])

text \<open>A room that is absent or private is a nil dereference.\<close>

lemma join_room_panics:
  assumes "\<And>room. find_room (jrr_ServerID req) (jrr_RoomID req) hs = Some room \<Longrightarrow> rm_Visibility room = Private"
  shows "join_room remote req hs = Panic Nil_Dereference"
proof (cases "GetRoom (jrr_ServerID req) (jrr_RoomID req) hs")
  case (Inr room)
  with assms have "rm_Visibility room = Private" by (simp add: GetRoom_Inr)
  with Inr show ?thesis by (simp add: join_room_def)
qed (simp add: join_room_def)

lemma join_room_cases:
  assumes "wf_store hs"
  obtains (gone) "\<And>room. find_room (jrr_ServerID req) (jrr_RoomID req) hs = Some room \<Longrightarrow>
      rm_Visibility room = Private" "join_room remote req hs = Panic Nil_Dereference"
  | (there) room ms hs1 where "find_room (jrr_ServerID req) (jrr_RoomID req) hs = Some room"
      "rm_Visibility room \<noteq> Private" "rm_Members room = Some ms"
      "put_member (jrr_ServerID req) (jrr_RoomID req) room (ai_ID remote)
         \<lparr>m_AddrInfo = remote, m_User = jrr_Sender req\<rparr> hs = Ret hs1"
      "\<And>sid rid. find_room sid rid hs1 =
         (if sid = jrr_ServerID req \<and> rid = jrr_RoomID req
          then Some (room\<lparr>rm_Members := Some (mput (ai_ID remote)
                 \<lparr>m_AddrInfo = remote, m_User = jrr_Sender req\<rparr> ms)\<rparr>)
          else find_room sid rid hs)"
proof (cases "\<exists>room. find_room (jrr_ServerID req) (jrr_RoomID req) hs = Some room
    \<and> rm_Visibility room \<noteq> Private")
  case True
  then obtain room where room: "find_room (jrr_ServerID req) (jrr_RoomID req) hs = Some room"
    "rm_Visibility room \<noteq> Private" by blast
  show ?thesis
    by (rule put_member_find [OF room(1) assms, where k = "ai_ID remote"
        and v = "\<lparr>m_AddrInfo = remote, m_User = jrr_Sender req\<rparr>"])
      (rule there [OF room]; assumption)
next
  case False
  then show ?thesis by (intro gone join_room_panics) blast+
qed

text \<open>
  C32. Access to rooms: a response that carries a room is sent only when the room exists, is not
  private, and its password was given if it has one; the room is sent without its members.
\<close>

theorem join_room_discloses:
  assumes "wf_store hs" and "join_room remote req hs = Ret (hs', replies, tasks)"
    and "JoinRoomResponse (Some r) e \<in> set replies"
  shows "\<exists>room. find_room (jrr_ServerID req) (jrr_RoomID req) hs = Some room
    \<and> rm_Visibility room \<noteq> Private \<and> room_password_ok req room
    \<and> r = room\<lparr>rm_Members := Some []\<rparr>"
  using assms(1)
proof (cases rule: join_room_cases [where req = req and remote = remote])
  case gone
  with assms(2) show ?thesis by simp
next
  case (there room ms hs1)
  with assms(2,3) show ?thesis
    by (intro exI [of _ room]) (auto simp add: join_room_eq [OF there(1,2,4)] split: if_split_asm)
qed

text \<open>
  Joining a room: with the right password and from the peer the request names, the answer is
  the room without members, one advertisement starts, and the store changes by exactly that
  member of that room; in every other case in which the handler returns, the store is unchanged.
\<close>

theorem join_room_adds_member:
  assumes "wf_store hs" and "join_room remote req hs = Ret (hs', replies, tasks)"
  shows "\<exists>room ms. find_room (jrr_ServerID req) (jrr_RoomID req) hs = Some room
    \<and> rm_Members room = Some ms
    \<and> (if room_password_ok req room \<and> ai_ID remote = u_PeerID (jrr_Sender req)
        then replies = [JoinRoomResponse (Some (room\<lparr>rm_Members := Some []\<rparr>)) []]
          \<and> tasks = [NewcomersTask (jrr_ServerID req) (jrr_RoomID req)]
          \<and> (\<forall>sid rid. find_room sid rid hs' =
               (if sid = jrr_ServerID req \<and> rid = jrr_RoomID req
                then Some (room\<lparr>rm_Members := Some (mput (ai_ID remote)
                       \<lparr>m_AddrInfo = remote, m_User = jrr_Sender req\<rparr> ms)\<rparr>)
                else find_room sid rid hs))
        else hs' = hs \<and> tasks = [])"
  using assms(1)
proof (cases rule: join_room_cases [where req = req and remote = remote])
  case gone
  with assms(2) show ?thesis by simp
next
  case (there room ms hs1)
  show ?thesis
  proof (cases "room_password_ok req room \<and> ai_ID remote = u_PeerID (jrr_Sender req)")
    case True
    with assms(2) have "hs' = hs1" "replies = [JoinRoomResponse (Some (room\<lparr>rm_Members := Some []\<rparr>)) []]"
      "tasks = [NewcomersTask (jrr_ServerID req) (jrr_RoomID req)]"
      by (simp_all add: join_room_eq [OF there(1,2,4)])
    with there(1,3,5) True show ?thesis by simp
  next
    case False
    with assms(2) there(1,3) show ?thesis
      by (auto simp add: join_room_eq [OF there(1,2,4)] split: if_split_asm)
  qed
qed

text \<open>
  C33. Exactly one kind of request crashes the hub, whose store is well formed: a \<open>JoinRoom\<close> with
  readable parameters that names a room which does not exist or is private.
\<close>

theorem hub_panics_iff:
  assumes "wf_store hs"
  shows "(\<exists>p. hub_dispatch w remote env hs = Some (Panic p)) \<longleftrightarrow>
    he_Method env = ''JoinRoom''
    \<and> (\<exists>req. unmarshal_into dec_join_room_request (he_Params env) zero_join_room_request = (True, req)
         \<and> (\<forall>room. find_room (jrr_ServerID req) (jrr_RoomID req) hs = Some room \<longrightarrow>
              rm_Visibility room = Private))"
proof (cases "he_Method env = ''JoinRoom''")
  case True
  obtain ok req where u:
    "unmarshal_into dec_join_room_request (he_Params env) zero_join_room_request = (ok, req)"
    by (cases "unmarshal_into dec_join_room_request (he_Params env) zero_join_room_request")
  have "(\<exists>p. join_room remote req hs = Panic p) \<longleftrightarrow>
      (\<forall>room. find_room (jrr_ServerID req) (jrr_RoomID req) hs = Some room \<longrightarrow>
         rm_Visibility room = Private)"
    using assms
    by (cases rule: join_room_cases [where req = req and remote = remote])
      (simp_all add: join_room_eq)
  with True u show ?thesis
    by (simp add: hub_dispatch_def handle_JoinRoom_def)
next
  case False
  then show ?thesis
    using handle_CreateRoom_no_panic [OF assms]
    by (auto simp: hub_dispatch_def Let_def split: if_split_asm)
qed

text \<open>
  \<open>JoinServer\<close> hands out a server only when it is neither unknown nor private, and a server
  with a password only against that password's hash; in every other case it sends an error.
\<close>

theorem join_server_access:
  assumes "wf_join_server_request req"
  shows "\<exists>reply. snd (handleRPC w remote (rpc_text ''JoinServer'' (enc_join_server_request req)) env hs)
      = Some (Ret (hs, [JoinServerResponse reply (if reply = None then
          (case GetServer (jsr_ServerID req) hs of
             Inl _ \<Rightarrow> ''server not found''
           | Inr sm \<Rightarrow> if sm_Visibility sm = Private then ''server is private''
               else ''invalid server password'') else [])], []))
    \<and> (reply \<noteq> None \<longleftrightarrow> (\<exists>sm. GetServer (jsr_ServerID req) hs = Inr sm \<and> sm_Visibility sm \<noteq> Private
        \<and> (sm_Visibility sm = PasswordProtected \<longrightarrow>
             bytes_Equal (jsr_PasswordHash req) (sm_PasswordHash sm))))
    \<and> (\<forall>sm r. reply = Some r \<and> GetServer (jsr_ServerID req) hs = Inr sm
         \<and> sm_Visibility sm \<noteq> PasswordProtected \<longrightarrow> r = sanitize_server sm)"
proof -
  let ?found = "GetServer (jsr_ServerID req) hs"
  have reply: "snd (handleRPC w remote (rpc_text ''JoinServer'' (enc_join_server_request req)) env hs)
      = Some (Ret (hs, [join_server_response req ?found], []))"
    using assms by (simp add: handleRPC_request wf_codec hub_dispatch_def handle_JoinServer_def read_params)
  show ?thesis
    unfolding reply
    by (cases ?found) (auto simp: join_server_response_def visibility_defs)
qed

text \<open>
  \<open>ListServers\<close> answers with exactly the servers that are not private, each once, with the
  password hash and salt removed and everything else as stored, in whatever order the map is
  visited.
\<close>

theorem list_servers_exact:
  assumes "world_ok w" and "wf_json p"
  shows "\<exists>ss. snd (handleRPC w remote (rpc_text ''ListServers'' p) env hs)
      = Some (Ret (hs, [ListServersResponse ss], []))
    \<and> mset ss = image_mset (\<lambda>sm. sm\<lparr>sm_PasswordSalt := None, sm_PasswordHash := None\<rparr>)
        (filter_mset (\<lambda>sm. sm_Visibility sm \<noteq> Private) (mset (map snd (hs_servers hs))))"
proof -
  have "mset (hw_order_servers w xs) = mset xs" for xs
    using assms(1) by (simp add: world_ok_def map_order_def)
  then show ?thesis
    using assms(2)
    by (simp add: handleRPC_request hub_dispatch_def handle_ListServers_def ListServers_def
        visible_servers_def sanitize_server_def [abs_def] mset_filter)
qed

text \<open>
  C40. The request variable is shared by all streams: when a second stream's request is read
  before the first is dispatched, the first peer's handler executes the second's request. Here
  peer \<open>a\<close> asked for the list of servers and is answered with a server that \<open>b\<close> asked to create,
  which it now owns.
\<close>

theorem shared_request_confusion:
  assumes "world_ok w" and "hw_draws w = [(r, now)]" and "wf_create_server_request req"
  shows "\<exists>s1 s2 s3. hub_decode (rpc_text ''ListServers'' (JObj [])) (h_env hub_start) = (True, h_env s1)
    \<and> hub_decode (rpc_text ''CreateServer'' (enc_create_server_request req)) (h_env s1) = (True, h_env s2)
    \<and> h_streams s1 = [a] \<and> h_streams s2 = [b, a]
    \<and> hub_step hub_start s1 \<and> hub_step s1 s2 \<and> hub_step s2 s3
    \<and> h_replies s3 = [(a, CreateServerResponse (GenerateRandomID r))]
    \<and> GetServer (GenerateRandomID r) (h_store s3) = Inr (new_server a req r now)
    \<and> sm_OwnerPeerID (new_server a req r now) = ai_ID a"
proof -
  define e1 where "e1 = \<lparr>he_Method = ''ListServers'', he_Params = jprint (JObj [])\<rparr>"
  define e2 where "e2 = \<lparr>he_Method = ''CreateServer'', he_Params = jprint (enc_create_server_request req)\<rparr>"
  define sm where "sm = new_server a req r now"
  define s1 where "s1 = hub_start\<lparr>h_env := e1, h_streams := [a]\<rparr>"
  define s2 where "s2 = s1\<lparr>h_env := e2, h_streams := [b, a]\<rparr>"
  define s3 where "s3 = s2\<lparr>h_store := \<lparr>hs_servers = [(sm_ID sm, sm)]\<rparr>, h_streams := remove1 a [b, a],
    h_tasks := [NewServerTask], h_replies := [(a, CreateServerResponse (GenerateRandomID r))]\<rparr>"
  have d1: "hub_decode (rpc_text ''ListServers'' (JObj [])) env = (True, e1)" for env
    by (simp add: hub_decode_def json_decode_rpc_text dec_enc_rpc_request e1_def)
  have d2: "hub_decode (rpc_text ''CreateServer'' (enc_create_server_request req)) env = (True, e2)" for env
    using assms(3) by (simp add: hub_decode_def json_decode_rpc_text dec_enc_rpc_request e2_def wf_codec)
  have "hub_dispatch w a e2 NewHubStore = Some (Ret (\<lparr>hs_servers = [(sm_ID sm, sm)]\<rparr>,
      [CreateServerResponse (GenerateRandomID r)], [NewServerTask]))"
    using assms(2,3)
    by (simp add: hub_dispatch_def handle_CreateServer_def e2_def read_params CreateServer_def
        NewHubStore_def sm_def new_server_def Let_def)
  then have "hub_step s2 s3"
    using hub_step.serve [of s2 a w "\<lparr>hs_servers = [(sm_ID sm, sm)]\<rparr>"] assms(1)
    by (simp add: s1_def s2_def s3_def hub_start_def)
  moreover have "hub_step hub_start s1"
    using hub_step.read [OF _ d1, of hub_start a] by (simp add: s1_def hub_start_def)
  moreover have "hub_step s1 s2"
    using hub_step.read [OF _ d2, of s1 b] by (simp add: s1_def s2_def hub_start_def)
  ultimately show ?thesis
    using d1 d2
    by (intro exI [of _ s1] exI [of _ s2] exI [of _ s3])
      (simp add: s1_def s2_def s3_def GetServer_def sm_def new_server_def)
qed

section \<open>Concrete runs\<close>

text \<open>A peer creates a server and a room and joins it; its requests serve as instances below.\<close>

definition sample_world :: hub_world where
  "sample_world = \<lparr>hw_order_servers = (\<lambda>xs. xs), hw_order_rooms = (\<lambda>xs. xs), hw_order_members = (\<lambda>xs. xs),
     hw_draws = [([], 0)], hw_join = (\<lambda>_. None), hw_marshal = (\<lambda>_. None), hw_publish = (\<lambda>_. None)\<rparr>"

definition sample_peer :: addr_info where
  "sample_peer = \<lparr>ai_ID = ''p'', ai_Addrs = []\<rparr>"

definition sample_user :: user where
  "sample_user = zero_user\<lparr>u_PeerID := ''p''\<rparr>"

definition sample_create_server :: create_server_request where
  "sample_create_server = zero_create_server_request\<lparr>csr_Name := ''s'', csr_Creator := sample_user\<rparr>"

definition sample_create_room :: create_room_request where
  "sample_create_room = zero_create_room_request\<lparr>crr_RoomName := ''r''\<rparr>"

definition sample_join_room :: join_room_request where
  "sample_join_room = zero_join_room_request\<lparr>jrr_Sender := sample_user\<rparr>"

definition sample_server :: server_meta where
  "sample_server = new_server sample_peer sample_create_server [] 0"

definition sample_hub_room :: room_meta where
  "sample_hub_room = new_room sample_create_room []"

definition sample_member :: member where
  "sample_member = \<lparr>m_AddrInfo = sample_peer, m_User = sample_user\<rparr>"

definition sample_store :: "(string, room_meta) gomap \<Rightarrow> hub_store" where
  "sample_store rooms = \<lparr>hs_servers = [([], sample_server\<lparr>sm_Rooms := Some rooms\<rparr>)]\<rparr>"

lemmas sample_defs = sample_world_def sample_peer_def sample_user_def zero_user_def
  sample_create_server_def zero_create_server_request_def sample_create_room_def
  zero_create_room_request_def sample_join_room_def zero_join_room_request_def
  sample_server_def new_server_def sample_hub_room_def new_room_def sample_member_def sample_store_def
  GenerateRandomID_def

lemma sample_world_ok [simp]: "world_ok sample_world"
  by (simp add: world_ok_def sample_world_def)

lemma sample_requests_wf [simp]:
  "wf_create_server_request sample_create_server" "wf_create_room_request sample_create_room"
  "wf_join_room_request sample_join_room"
  by (simp_all add: sample_defs wf_create_server_request_def wf_create_room_request_def
      wf_join_room_request_def wf_user_def in_int64_def utf8_valid_ascii)

lemma sample_dispatch:
  "hub_dispatch sample_world sample_peer
     \<lparr>he_Method = ''CreateServer'', he_Params = jprint (enc_create_server_request sample_create_server)\<rparr>
     NewHubStore
   = Some (Ret (sample_store [], [CreateServerResponse []], [NewServerTask]))"
  "hub_dispatch sample_world sample_peer
     \<lparr>he_Method = ''CreateRoom'', he_Params = jprint (enc_create_room_request sample_create_room)\<rparr>
     (sample_store [])
   = Some (Ret (sample_store [([], sample_hub_room)], [CreateRoomResponse [] []], [NewRoomTask []]))"
  "hub_dispatch sample_world sample_peer
     \<lparr>he_Method = ''JoinRoom'', he_Params = jprint (enc_join_room_request sample_join_room)\<rparr>
     (sample_store [([], sample_hub_room)])
   = Some (Ret (sample_store [([], sample_hub_room\<lparr>rm_Members := Some [(''p'', sample_member)]\<rparr>)],
       [JoinRoomResponse (Some sample_hub_room) []], [NewcomersTask [] []]))"
proof -
  show "hub_dispatch sample_world sample_peer
     \<lparr>he_Method = ''CreateServer'', he_Params = jprint (enc_create_server_request sample_create_server)\<rparr>
     NewHubStore
   = Some (Ret (sample_store [], [CreateServerResponse []], [NewServerTask]))"
    by (simp add: hub_dispatch_def handle_CreateServer_def read_params CreateServer_def NewHubStore_def
        Let_def)
      (simp add: sample_defs CreateServer_def Let_def)
  show "hub_dispatch sample_world sample_peer
     \<lparr>he_Method = ''CreateRoom'', he_Params = jprint (enc_create_room_request sample_create_room)\<rparr>
     (sample_store [])
   = Some (Ret (sample_store [([], sample_hub_room)], [CreateRoomResponse [] []], [NewRoomTask []]))"
    by (simp add: hub_dispatch_def handle_CreateRoom_def read_params Let_def)
      (simp add: sample_defs CreateRoom_def set_rooms_def Let_def)
  show "hub_dispatch sample_world sample_peer
     \<lparr>he_Method = ''JoinRoom'', he_Params = jprint (enc_join_room_request sample_join_room)\<rparr>
     (sample_store [([], sample_hub_room)])
   = Some (Ret (sample_store [([], sample_hub_room\<lparr>rm_Members := Some [(''p'', sample_member)]\<rparr>)],
       [JoinRoomResponse (Some sample_hub_room) []], [NewcomersTask [] []]))"
    by (simp add: hub_dispatch_def handle_JoinRoom_def read_params)
      (simp add: sample_defs join_room_def GetRoom_def put_member_def set_rooms_def visibility_defs)
qed

text \<open>A request that is read and served at once leads from a reachable state to a reachable state.\<close>

lemma serve_request:
  assumes "hub_reachable s" "\<not> h_crashed s" "world_ok w" "utf8_valid m" "wf_json p"
    and "hub_dispatch w remote \<lparr>he_Method = m, he_Params = jprint p\<rparr> (h_store s) = Some (Ret (hs, rs, ts))"
  shows "\<exists>s'. hub_reachable s' \<and> \<not> h_crashed s' \<and> h_store s' = hs \<and> h_cache s' = h_cache s
    \<and> h_tasks s' = h_tasks s @ ts \<and> h_published s' = h_published s"
proof -
  let ?e = "\<lparr>he_Method = m, he_Params = jprint p\<rparr>"
  let ?s1 = "s\<lparr>h_env := ?e, h_streams := remote # h_streams s\<rparr>"
  have "hub_decode (rpc_text m p) (h_env s) = (True, ?e)"
    using assms(4,5) by (simp add: hub_decode_def json_decode_rpc_text dec_enc_rpc_request)
  then have s1: "hub_reachable ?s1"
    using hub_step.read [OF assms(2), of "rpc_text m p" True ?e remote] assms(1)
    by (auto intro: hub_reachable_step)
  have "hub_step ?s1 (?s1\<lparr>h_store := hs, h_streams := remove1 remote (h_streams ?s1),
      h_tasks := h_tasks ?s1 @ ts, h_replies := h_replies ?s1 @ map (Pair remote) rs\<rparr>)"
    using assms(2,3,6) by (intro hub_step.serve) simp_all
  from hub_reachable_step [OF s1 this] assms(2) show ?thesis
    by (intro exI conjI) (assumption, simp_all)
qed

lemma sample_run:
  "\<exists>s. hub_reachable s \<and> \<not> h_crashed s
     \<and> h_store s = sample_store [([], sample_hub_room\<lparr>rm_Members := Some [(''p'', sample_member)]\<rparr>)]
     \<and> h_cache s = [] \<and> h_published s = []
     \<and> h_tasks s = [NewServerTask, NewRoomTask [], NewcomersTask [] []]"
proof -
  have start: "\<not> h_crashed hub_start" "h_store hub_start = NewHubStore" "h_cache hub_start = []"
    "h_tasks hub_start = []" "h_published hub_start = []"
    by (simp_all add: hub_start_def)
  obtain s1 where s1: "hub_reachable s1" "\<not> h_crashed s1" "h_store s1 = sample_store []"
    "h_cache s1 = []" "h_tasks s1 = [NewServerTask]" "h_published s1 = []"
    using serve_request [OF hub_reachable_start start(1) sample_world_ok _ _
        sample_dispatch(1) [folded start(2)]] start
    by (auto simp: wf_codec)
  obtain s2 where s2: "hub_reachable s2" "\<not> h_crashed s2" "h_store s2 = sample_store [([], sample_hub_room)]"
    "h_cache s2 = []" "h_tasks s2 = [NewServerTask, NewRoomTask []]" "h_published s2 = []"
    using serve_request [OF s1(1,2) sample_world_ok _ _ sample_dispatch(2) [folded s1(3)]] s1
    by (auto simp: wf_codec)
  show ?thesis
    using serve_request [OF s2(1,2) sample_world_ok _ _ sample_dispatch(3) [folded s2(3)]] s2
    by (auto simp: wf_codec)
qed

section \<open>Instances of the properties\<close>

lemma sample_found:
  "find_room [] [] (sample_store [([], rm)]) = Some rm"
  by (simp add: find_room_eq sample_store_def)

lemma sample_store_wf:
  "wf_store (sample_store [])" "wf_store (sample_store [([], sample_hub_room)])"
  by (simp_all add: wf_store_def wf_map_def wf_server_def wf_room_def sample_defs)

theorem hub_members_authentic_witness:
  "\<exists>s rm. hub_reachable s \<and> find_room [] [] (h_store s) = Some rm
     \<and> ai_ID (m_AddrInfo sample_member) = ''p'' \<and> u_PeerID (m_User sample_member) = ''p'' \<and> rm_ID rm = []"
proof -
  obtain s where s: "hub_reachable s"
    "h_store s = sample_store [([], sample_hub_room\<lparr>rm_Members := Some [(''p'', sample_member)]\<rparr>)]"
    using sample_run by blast
  have "find_room [] [] (h_store s) = Some (sample_hub_room\<lparr>rm_Members := Some [(''p'', sample_member)]\<rparr>)"
    by (simp add: s(2) sample_found)
  from hub_members_authentic [OF s(1) this, of "[(''p'', sample_member)]" "''p''" sample_member] s(1) this
  show ?thesis by fastforce
qed

theorem hub_publications_clean_witness:
  "\<exists>s p s0 w task. hub_reachable s \<and> h_published s = [p]
     \<and> p = (MembersTopic [] [], Some (ListRoomMembersResponse [sample_member] [])) \<and> publication_ok p
     \<and> hub_reachable s0 \<and> hub_step\<^sup>*\<^sup>* s0 s \<and> world_ok w \<and> task \<in> set (h_tasks s0)"
proof -
  obtain s where s: "hub_reachable s" "\<not> h_crashed s" "h_cache s = []" "h_published s = []"
    "h_tasks s = [NewServerTask, NewRoomTask [], NewcomersTask [] []]"
    "h_store s = sample_store [([], sample_hub_room\<lparr>rm_Members := Some [(''p'', sample_member)]\<rparr>)]"
    using sample_run by blast
  have ID: "rm_ID (sample_hub_room\<lparr>rm_Members := m\<rparr>) = []" for m by (simp add: sample_defs)
  obtain err cache pub where run: "run_task sample_world (NewcomersTask [] []) (h_store s) (h_cache s) = (err, cache, pub)"
    by (cases "run_task sample_world (NewcomersTask [] []) (h_store s) (h_cache s)")
  then obtain p where p: "pub = [p]" "p = (MembersTopic [] [], Some (ListRoomMembersResponse [sample_member] []))"
    using s(3,6) ID by (auto simp: AdvertiseNewcomers_def cached_topic_def publish_to_def sample_world_def sample_found)
  let ?s' = "s\<lparr>h_cache := cache, h_tasks := remove1 (NewcomersTask [] []) (h_tasks s),
       h_published := h_published s @ pub\<rparr>"
  have "hub_step s ?s'"
    using hub_step.advertise [OF s(2) _ sample_world_ok run] s(5) by simp
  with s(1) have r: "hub_reachable ?s'" by (rule hub_reachable_step)
  have "p \<in> set (h_published ?s')" using p by simp
  from hub_publications_clean [OF r this] obtain s0 w task where "publication_ok p"
    "hub_reachable s0" "hub_step\<^sup>*\<^sup>* s0 ?s'" "world_ok w" "task \<in> set (h_tasks s0)"
    by blast
  moreover have "h_published ?s' = [p]" using s(4) p(1) by simp
  ultimately show ?thesis using r p(2) by blast
qed

theorem create_server_adds_one_witness:
  "\<exists>b now hs'. (b, now) \<in> set (hw_draws sample_world)
    \<and> snd (handleRPC sample_world sample_peer
         (rpc_text ''CreateServer'' (enc_create_server_request sample_create_server)) zero_rpc_env NewHubStore)
       = Some (Ret (hs', [CreateServerResponse (GenerateRandomID b)], [NewServerTask]))
    \<and> GetServer (GenerateRandomID b) hs' = Inr (new_server sample_peer sample_create_server b now)"
proof -
  have "\<exists>(b, now) \<in> set (hw_draws sample_world). mget (hs_servers NewHubStore) (GenerateRandomID b) = None"
    by (simp add: sample_world_def NewHubStore_def)
  from create_server_adds_one [OF sample_requests_wf(1) this, of sample_peer zero_rpc_env]
  show ?thesis by fastforce
qed

theorem create_room_adds_one_witness:
  "\<exists>b now hs'. (b, now) \<in> set (hw_draws sample_world)
    \<and> snd (handleRPC sample_world sample_peer
         (rpc_text ''CreateRoom'' (enc_create_room_request sample_create_room)) zero_rpc_env (sample_store []))
       = Some (Ret (hs', [CreateRoomResponse (GenerateRandomID b) []], [NewRoomTask []]))
    \<and> find_room [] (GenerateRandomID b) hs' = Some (new_room sample_create_room b)"
proof -
  have sid: "crr_ServerID sample_create_room = []"
    by (simp add: sample_defs)
  have "\<exists>(b, now) \<in> set (hw_draws sample_world).
      find_room (crr_ServerID sample_create_room) (GenerateRandomID b) (sample_store []) = None"
    by (simp add: sample_world_def sample_store_def find_room_def GetRoom_def)
  moreover have "mget (hs_servers (sample_store [])) (crr_ServerID sample_create_room)
      = Some (sample_server\<lparr>sm_Rooms := Some []\<rparr>)"
    by (simp add: sid sample_store_def)
  ultimately show ?thesis
    using create_room_adds_one [OF sample_requests_wf(2) sample_store_wf(1), of
        "sample_server\<lparr>sm_Rooms := Some []\<rparr>" sample_world sample_peer zero_rpc_env] sid
    by fastforce
qed

theorem create_room_unknown_server_witness:
  "snd (handleRPC sample_world sample_peer
      (rpc_text ''CreateRoom'' (enc_create_room_request sample_create_room)) zero_rpc_env NewHubStore)
   = Some (Ret (NewHubStore, [CreateRoomResponse [] ''Server not found'',
       CreateRoomResponse (GenerateRandomID []) []], [NewRoomTask (crr_ServerID sample_create_room)]))"
  by (rule create_room_unknown_server) (simp_all add: NewHubStore_def sample_world_def)

theorem join_room_discloses_witness:
  "\<exists>room hs' replies tasks. join_room sample_peer sample_join_room (sample_store [([], sample_hub_room)])
      = Ret (hs', replies, tasks)
    \<and> JoinRoomResponse (Some sample_hub_room) [] \<in> set replies
    \<and> find_room [] [] (sample_store [([], sample_hub_room)]) = Some room
    \<and> sample_hub_room = room\<lparr>rm_Members := Some []\<rparr>"
proof -
  have run: "join_room sample_peer sample_join_room (sample_store [([], sample_hub_room)])
     = Ret (sample_store [([], sample_hub_room\<lparr>rm_Members := Some [(''p'', sample_member)]\<rparr>)],
         [JoinRoomResponse (Some sample_hub_room) []], [NewcomersTask [] []])"
    by (simp add: sample_defs join_room_def GetRoom_def put_member_def set_rooms_def visibility_defs)
  have "jrr_ServerID sample_join_room = []" "jrr_RoomID sample_join_room = []"
    by (simp_all add: sample_defs)
  with join_room_discloses [OF sample_store_wf(2) run, of sample_hub_room "[]"] run show ?thesis
    by fastforce
qed

theorem join_room_adds_member_witness:
  "\<exists>hs' replies tasks. join_room sample_peer sample_join_room (sample_store [([], sample_hub_room)])
      = Ret (hs', replies, tasks)
    \<and> find_room [] [] hs' = Some (sample_hub_room\<lparr>rm_Members := Some [(''p'', sample_member)]\<rparr>)"
proof -
  define rq where "rq = sample_join_room"
  define st where "st = sample_store [([], sample_hub_room)]"
  have run: "join_room sample_peer rq st
     = Ret (sample_store [([], sample_hub_room\<lparr>rm_Members := Some [(''p'', sample_member)]\<rparr>)],
         [JoinRoomResponse (Some sample_hub_room) []], [NewcomersTask [] []])" (is "_ = Ret (?hs, ?r, ?t)")
    by (simp add: rq_def st_def sample_defs join_room_def GetRoom_def put_member_def set_rooms_def
        visibility_defs)
  have rq: "jrr_ServerID rq = []" "jrr_RoomID rq = []" "ai_ID sample_peer = u_PeerID (jrr_Sender rq)"
    "room_password_ok rq sample_hub_room"
    by (simp_all add: rq_def sample_defs room_password_ok_def visibility_defs)
  have "find_room [] [] st = Some sample_hub_room" "rm_Members sample_hub_room = Some []"
    by (simp_all add: st_def sample_found) (simp add: sample_defs)
  then have "find_room [] [] ?hs = Some (sample_hub_room\<lparr>rm_Members := Some [(ai_ID sample_peer,
      \<lparr>m_AddrInfo = sample_peer, m_User = jrr_Sender rq\<rparr>)]\<rparr>)"
    using join_room_adds_member [OF sample_store_wf(2) [folded st_def] run] rq by auto
  moreover have "ai_ID sample_peer = ''p''" "jrr_Sender rq = sample_user"
    by (simp_all add: rq_def sample_defs)
  ultimately show ?thesis
    using run by (auto simp: rq_def st_def sample_member_def)
qed

theorem hub_panics_iff_witness:
  "\<exists>p. hub_dispatch sample_world sample_peer
     \<lparr>he_Method = ''JoinRoom'', he_Params = jprint (enc_join_room_request sample_join_room)\<rparr> NewHubStore
   = Some (Panic p)"
  by (subst hub_panics_iff)
    (simp_all add: read_params find_room_def GetRoom_def NewHubStore_def wf_store_def)

definition sample_join_server :: join_server_request where
  "sample_join_server = zero_join_server_request"

theorem join_server_access_witness:
  "\<exists>reply. snd (handleRPC sample_world sample_peer
      (rpc_text ''JoinServer'' (enc_join_server_request sample_join_server)) zero_rpc_env (sample_store []))
     = Some (Ret (sample_store [], [JoinServerResponse (Some reply) []], []))
     \<and> reply = sanitize_server (sample_server\<lparr>sm_Rooms := Some []\<rparr>)"
proof -
  have wf: "wf_join_server_request sample_join_server"
    by (simp add: sample_join_server_def zero_join_server_request_def wf_join_server_request_def)
  have get: "GetServer (jsr_ServerID sample_join_server) (sample_store [])
      = Inr (sample_server\<lparr>sm_Rooms := Some []\<rparr>)" (is "_ = Inr ?sm")
    by (simp add: sample_join_server_def zero_join_server_request_def GetServer_def sample_store_def)
  have vis: "sm_Visibility ?sm \<noteq> Private" "sm_Visibility ?sm \<noteq> PasswordProtected"
    by (simp_all add: sample_defs visibility_defs)
  from join_server_access [OF wf, of sample_world sample_peer zero_rpc_env "sample_store []"] get vis
  show ?thesis by auto
qed

theorem list_servers_exact_witness:
  "\<exists>ss. snd (handleRPC sample_world sample_peer (rpc_text ''ListServers'' (JObj [])) zero_rpc_env (sample_store []))
      = Some (Ret (sample_store [], [ListServersResponse ss], []))
    \<and> mset ss = {#sample_server\<lparr>sm_Rooms := Some []\<rparr>#}"
proof -
  have "filter_mset (\<lambda>sm. sm_Visibility sm \<noteq> Private) (mset (map snd (hs_servers (sample_store []))))
      = {#sample_server\<lparr>sm_Rooms := Some []\<rparr>#}"
    by (simp add: sample_defs visibility_defs)
  moreover have "(sample_server\<lparr>sm_Rooms := Some []\<rparr>)\<lparr>sm_PasswordSalt := None, sm_PasswordHash := None\<rparr>
      = sample_server\<lparr>sm_Rooms := Some []\<rparr>"
    by (simp add: sample_defs)
  ultimately show ?thesis
    using list_servers_exact [OF sample_world_ok, of "JObj []" sample_peer zero_rpc_env "sample_store []"]
    by simp
qed

theorem shared_request_confusion_witness:
  "\<exists>s3. hub_reachable s3 \<and> h_replies s3 = [(sample_peer, CreateServerResponse (GenerateRandomID []))]"
proof -
  have draws: "hw_draws sample_world = [([], 0)]"
    by (simp add: sample_world_def)
  from shared_request_confusion [OF sample_world_ok draws sample_requests_wf(1), of sample_peer sample_peer]
  obtain s1 s2 s3 where "hub_step hub_start s1" "hub_step s1 s2" "hub_step s2 s3"
    "h_replies s3 = [(sample_peer, CreateServerResponse (GenerateRandomID []))]"
    by blast
  then show ?thesis
    by (meson hub_reachable_start hub_reachable_step)
qed

end
