(* ===== verification/Hub_Client.thy ===== *)
theory Hub_Client
  imports Join_Correct Hub_Correct
begin

text \<open>
  The client's requests answered by the hub: \<open>Node.SendRPC\<close> instantiated with the hub's handler,
  which reads what the client wrote and whose first response is what the client decodes (a
  handler that sends none, or panics, closes the stream).
\<close>

section \<open>The hub behind a request\<close>

definition hub_answer :: "(rpc_response \<Rightarrow> 'a option) \<Rightarrow> rpc_env \<times> rpc_result \<Rightarrow> 'a result" where
  "hub_answer decode run =
     (case snd run of
        Some (Ret (_, reply # _, _)) \<Rightarrow> (case decode reply of Some x \<Rightarrow> Inr x | None \<Rightarrow> Inl json_error)
      | _ \<Rightarrow> Inl (Errorf ''EOF''))"

definition hub_rpc ::
  "(rpc_response \<Rightarrow> 'a option) \<Rightarrow> hub_world \<Rightarrow> addr_info \<Rightarrow> rpc_env \<Rightarrow> hub_store \<Rightarrow> 'a rpc"
where
  "hub_rpc decode w remote env hs method params =
     hub_answer decode (handleRPC w remote (rpc_text method params) env hs)"

text \<open>The store after a request; one that crashed the hub or never ended leaves none.\<close>

definition store_after :: "rpc_env \<times> rpc_result \<Rightarrow> hub_store option" where
  "store_after run = (case snd run of Some (Ret (hs, _, _)) \<Rightarrow> Some hs | _ \<Rightarrow> None)"

fun created_server :: "rpc_response \<Rightarrow> string option" where
  "created_server (CreateServerResponse sid) = Some sid"
| "created_server _ = None"

fun created_room :: "rpc_response \<Rightarrow> (string \<times> string) option" where
  "created_room (CreateRoomResponse rid e) = Some (rid, e)"
| "created_room _ = None"

fun joined_server :: "rpc_response \<Rightarrow> (server_meta option \<times> string) option" where
  "joined_server (JoinServerResponse s e) = Some (s, e)"
| "joined_server _ = None"

fun joined_room :: "rpc_response \<Rightarrow> (room_meta option \<times> string) option" where
  "joined_room (JoinRoomResponse r e) = Some (r, e)"
| "joined_room _ = None"

section \<open>Lemmas\<close>

lemma hex_digit_ascii: "n < 16 \<Longrightarrow> code (hex_digit n) < 128"
proof -
  assume "n < 16"
  then have "hex_digit n \<in> set ''0123456789abcdef''"
    unfolding hex_digit_def by (intro nth_mem) simp
  moreover have "\<forall>c \<in> set ''0123456789abcdef''. code c < 128" by simp
  ultimately show ?thesis by blast
qed

lemma hex_utf8: "utf8_valid (hex_EncodeToString bs)"
proof -
  have "list_all (\<lambda>c. code c < 128) (hex_EncodeToString bs)"
    by (induction bs) (auto intro!: hex_digit_ascii byte_nibbles)
  then show ?thesis by (rule utf8_valid_ascii)
qed

lemma GenerateRandomID_utf8 [simp]: "utf8_valid (GenerateRandomID b)"
  by (simp add: GenerateRandomID_def hex_utf8)

lemma sha256_not_empty [simp]: "sha256 m \<noteq> []"
proof
  assume "sha256 m = []"
  then have "length (sha256 m) = 0" by simp
  then show False by simp
qed

lemma hash_request [simp]:
  "wf_join_server_request \<lparr>jsr_ServerID = sid, jsr_PasswordHash = Some (HashPassword q)\<rparr> = utf8_valid sid"
  by (simp add: wf_join_server_request_def HashPassword_def)

lemma join_server_response_form: "\<exists>s e. join_server_response req found = JoinServerResponse s e"
  by (auto simp: join_server_response_def split: sum.split)

lemma hub_join_server:
  assumes "utf8_valid sid"
    and "join_server_response \<lparr>jsr_ServerID = sid, jsr_PasswordHash = Some (HashPassword q)\<rparr> (GetServer sid hs)
      = JoinServerResponse s e"
  shows "hub_rpc joined_server w remote env hs ''JoinServer''
      (enc_join_server_request \<lparr>jsr_ServerID = sid, jsr_PasswordHash = Some (HashPassword q)\<rparr>) = Inr (s, e)"
  using assms
  by (simp add: hub_rpc_def hub_answer_def handleRPC_request wf_codec hub_dispatch_def handle_JoinServer_def read_params)

lemma CreateServerHandler_stores:
  assumes "wf_create_server_request (salted_server_request salt request)" "rnd 16 = Inr salt"
    and "CreateServerHandler rnd (hub_rpc created_server w owner env hs) request = Inr sid"
    and "\<exists>(b, now) \<in> set (hw_draws w). mget (hs_servers hs) (GenerateRandomID b) = None"
  shows "\<exists>hs' b now. sid = GenerateRandomID b
    \<and> store_after (handleRPC w owner (rpc_text ''CreateServer''
          (enc_create_server_request (salted_server_request salt request))) env hs) = Some hs'
    \<and> GetServer sid hs' = Inr (new_server owner (salted_server_request salt request) b now)"
proof -
  from create_server_run [OF assms(1,4), of owner env] obtain b now hs' where
    run: "snd (handleRPC w owner (rpc_text ''CreateServer''
        (enc_create_server_request (salted_server_request salt request))) env hs)
      = Some (Ret (hs', [CreateServerResponse (GenerateRandomID b)], [NewServerTask]))"
    and get: "\<forall>sid. GetServer sid hs' = (if sid = GenerateRandomID b
        then Inr (new_server owner (salted_server_request salt request) b now) else GetServer sid hs)"
    by blast
  have "sid = GenerateRandomID b"
    using assms(2,3) run
    by (auto simp: CreateServerHandler_def requestCreateServer_def hub_rpc_def hub_answer_def
        split: if_splits sum.splits)
  with run get show ?thesis by (auto simp: store_after_def)
qed

lemma CreateRoomHandler_stores:
  assumes "wf_create_room_request (salted_room_request salt request)" "rnd 16 = Inr salt" "wf_store hs"
    and "mget (hs_servers hs) (crr_ServerID request) = Some sm"
    and "\<exists>(b, now) \<in> set (hw_draws w). find_room (crr_ServerID request) (GenerateRandomID b) hs = None"
    and "CreateRoomHandler E rnd keyRnd (hub_rpc created_room w owner env hs) request a = (Inr rid, a')"
  shows "\<exists>hs' b. rid = GenerateRandomID b
    \<and> store_after (handleRPC w owner (rpc_text ''CreateRoom''
          (enc_create_room_request (salted_room_request salt request))) env hs) = Some hs'
    \<and> find_room (crr_ServerID request) rid hs' = Some (new_room (salted_room_request salt request) b)
    \<and> wf_store hs'"
proof -
  have sid: "crr_ServerID (salted_room_request salt request) = crr_ServerID request"
    by (simp add: salted_room_request_def)
  from create_room_run [OF assms(1,3), unfolded sid, OF assms(4,5), of owner env] obtain b now hs' where
    run: "snd (handleRPC w owner (rpc_text ''CreateRoom''
        (enc_create_room_request (salted_room_request salt request))) env hs)
      = Some (Ret (hs', [CreateRoomResponse (GenerateRandomID b) []], [NewRoomTask (crr_ServerID request)]))"
    and get: "\<forall>sid rid. find_room sid rid hs' = (if sid = crr_ServerID request \<and> rid = GenerateRandomID b
        then Some (new_room (salted_room_request salt request) b) else find_room sid rid hs)" "wf_store hs'"
    by blast
  have "rid = GenerateRandomID b"
    using assms(2,6) run
    by (auto simp: CreateRoomHandler_def requestCreateRoom_def hub_rpc_def hub_answer_def Let_def
        case_prod_unfold split: if_splits sum.splits)
  with run get show ?thesis by (auto simp: store_after_def)
qed

text \<open>The answer to \<open>JoinRoom\<close> for a room that is there, sent by the peer it names.\<close>

lemma hub_join_room:
  assumes "wf_join_room_request req" "wf_store hs" "ai_ID remote = u_PeerID (jrr_Sender req)"
    and "find_room (jrr_ServerID req) (jrr_RoomID req) hs = Some room"
  shows "hub_rpc joined_room w remote env hs ''JoinRoom'' (enc_join_room_request req) =
    (if rm_Visibility room = Private then Inl (Errorf ''EOF'')
     else if \<not> room_password_ok req room then Inr (None, ''invalid room password'')
     else Inr (Some (room\<lparr>rm_Members := Some []\<rparr>), []))"
proof -
  have run: "hub_rpc joined_room w remote env hs ''JoinRoom'' (enc_join_room_request req)
      = hub_answer joined_room (\<lparr>he_Method = ''JoinRoom'', he_Params = jprint (enc_join_room_request req)\<rparr>,
          Some (join_room remote req hs))"
    using assms(1)
    by (simp add: hub_rpc_def handleRPC_request wf_codec hub_dispatch_def handle_JoinRoom_def read_params)
  show ?thesis
  proof (cases "rm_Visibility room = Private")
    case True
    then have "join_room remote req hs = Panic Nil_Dereference"
      using assms(4) by (intro join_room_panics) simp
    with run True show ?thesis by (simp add: hub_answer_def)
  next
    case False
    from assms(2) show ?thesis
    proof (cases rule: join_room_cases [where req = req and remote = remote])
      case gone
      with assms(4) False show ?thesis by simp
    next
      case (there room' ms hs1)
      with assms(4) have "room' = room" by simp
      with there run False assms(3) show ?thesis
        by (simp add: join_room_eq [OF there(1,2,4)] hub_answer_def)
    qed
  qed
qed

section \<open>Properties\<close>

text \<open>
  C12. A server's password from end to end: on the hub on which a client created a server with
  password \<open>p\<close>, another client that tries \<open>q\<close> joins it (and it becomes its current server) exactly
  when the server is not private and, if it is password protected, the two passwords have the same
  hash; otherwise it gets an error and keeps its state.
\<close>

theorem server_password_end_to_end:
  assumes "wf_create_server_request (salted_server_request salt request)" "rnd 16 = Inr salt"
    and "csr_PasswordHash request = Some (string_bytes p)"
    and "\<exists>(b, now) \<in> set (hw_draws w). mget (hs_servers hs) (GenerateRandomID b) = None"
    and "CreateServerHandler rnd (hub_rpc created_server w owner env hs) request = Inr sid" "sid \<noteq> []"
  shows "\<exists>hs'. store_after (handleRPC w owner (rpc_text ''CreateServer''
          (enc_create_server_request (salted_server_request salt request))) env hs) = Some hs'
    \<and> (\<exists>err c'. JoinServerHandler (hub_rpc joined_server w' remote env' hs') sid q c = Ret (err, c')
        \<and> (if csr_Visibility request \<noteq> Private
              \<and> (csr_Visibility request = PasswordProtected \<longrightarrow> HashPassword q = HashPassword p)
           then err = None \<and> cli_Server c' = Some sid else err \<noteq> None \<and> c' = c))"
proof -
  from CreateServerHandler_stores [OF assms(1,2,5,4)] obtain hs' b now where
    sid: "sid = GenerateRandomID b"
    and after: "store_after (handleRPC w owner (rpc_text ''CreateServer''
          (enc_create_server_request (salted_server_request salt request))) env hs) = Some hs'"
    and get: "GetServer sid hs' = Inr (new_server owner (salted_server_request salt request) b now)"
    by blast
  let ?sm = "new_server owner (salted_server_request salt request) b now"
  obtain s e where resp: "join_server_response \<lparr>jsr_ServerID = sid, jsr_PasswordHash = Some (HashPassword q)\<rparr> (Inr ?sm)
      = JoinServerResponse s e"
    using join_server_response_form by blast
  have answer: "hub_rpc joined_server w' remote env' hs' ''JoinServer''
      (enc_join_server_request \<lparr>jsr_ServerID = sid, jsr_PasswordHash = Some (HashPassword q)\<rparr>) = Inr (s, e)"
    by (rule hub_join_server) (simp_all add: sid resp [unfolded sid] get [unfolded sid])
  have req: "requestJoinServer (hub_rpc joined_server w' remote env' hs') sid q c =
      (if e \<noteq> [] then Ret (Some (Errorf (''failed to join server: '' @ e)), c)
       else go_bind (need s) (\<lambda>s. Ret (None, c\<lparr>cli_Servers := mput (sm_ID s) (NewServerSessionWithMeta (Some s)) (cli_Servers c),
                cli_Server := Some (sm_ID s)\<rparr>)))"
    by (simp add: requestJoinServer_def answer)
  have sm: "sm_ID ?sm = sid" "sm_Visibility ?sm = csr_Visibility request" "sm_PasswordHash ?sm = Some (HashPassword p)"
    using assms(3) sid by (simp_all add: new_server_def salted_server_request_def HashPassword_def)
  then have "sm_ID (sanitize_server ?sm) = sid" by (simp add: sanitize_server_def)
  then have "\<exists>err c'. JoinServerHandler (hub_rpc joined_server w' remote env' hs') sid q c = Ret (err, c')
        \<and> (if csr_Visibility request \<noteq> Private
              \<and> (csr_Visibility request = PasswordProtected \<longrightarrow> HashPassword q = HashPassword p)
           then err = None \<and> cli_Server c' = Some sid else err \<noteq> None \<and> c' = c)"
    using assms(6) resp sm
    by (auto simp: JoinServerHandler_def req join_server_response_def bytes_Equal_def GetServerName_def
        cur_server_def map_simps NewServerSessionWithMeta_def need_def split: if_split_asm)
  with after show ?thesis by blast
qed

text \<open>
  C11. A room's password from end to end: in a room a client created on the hub with password \<open>p\<close>, a
  client whose current server is the room's enters with \<open>q\<close> (and the room becomes its current
  room) exactly when the room is not private and, if it is password protected, the two passwords
  have the same hash; otherwise it gets an error and keeps its state.
\<close>

theorem room_password_end_to_end:
  assumes "wf_create_room_request (salted_room_request salt request)" "rnd 16 = Inr salt"
    and "crr_PasswordHash request = Some (string_bytes p)" "wf_store hs"
    and "mget (hs_servers hs) (crr_ServerID request) = Some sm"
    and "\<exists>(b, now) \<in> set (hw_draws w). find_room (crr_ServerID request) (GenerateRandomID b) hs = None"
    and "CreateRoomHandler E rnd keyRnd (hub_rpc created_room w owner env hs) request a = (Inr rid, a')"
    and "sessions_ok c" "cli_Server c = Some (crr_ServerID request)" "crr_ServerID request \<noteq> []"
    and "wf_user (cli_User c)" "ai_ID remote = u_PeerID (cli_User c)"
  shows "\<exists>hs'. store_after (handleRPC w owner (rpc_text ''CreateRoom''
          (enc_create_room_request (salted_room_request salt request))) env hs) = Some hs'
    \<and> (\<exists>err c'. requestJoinRoom (hub_rpc joined_room w' remote env' hs') rid q c = Ret (err, c')
    \<and> (if crr_Visibility request \<noteq> Private
          \<and> (crr_Visibility request = PasswordProtected \<longrightarrow> HashPassword q = HashPassword p)
       then err = None \<and> cli_Room c' = Some rid else err \<noteq> None \<and> c' = c))"
proof -
  from CreateRoomHandler_stores [OF assms(1,2,4-7)] obtain hs' b where
    rid: "rid = GenerateRandomID b"
    and after: "store_after (handleRPC w owner (rpc_text ''CreateRoom''
          (enc_create_room_request (salted_room_request salt request))) env hs) = Some hs'" "wf_store hs'"
    and get: "find_room (crr_ServerID request) rid hs' = Some (new_room (salted_room_request salt request) b)"
    by auto
  let ?room = "new_room (salted_room_request salt request) b"
  let ?req = "\<lparr>jrr_ServerID = crr_ServerID request, jrr_RoomID = rid, jrr_PasswordHash = Some (HashPassword q),
    jrr_Sender = cli_User c\<rparr>"
  have wf: "wf_join_room_request ?req"
    using assms(1,11) rid
    by (simp add: wf_join_room_request_def wf_create_room_request_def salted_room_request_def HashPassword_def)
  have room: "rm_ID ?room = rid" "rm_Visibility ?room = crr_Visibility request"
    "room_password_ok ?req ?room \<longleftrightarrow>
       (crr_Visibility request = PasswordProtected \<longrightarrow> HashPassword q = HashPassword p)"
    using assms(3) rid
    by (simp_all add: new_room_def salted_room_request_def HashPassword_def room_password_ok_def bytes_Equal_def)
  have "GetServerID c = Ret (crr_ServerID request)"
    using GetServerID_ok [OF assms(8)] assms(9) by simp
  with assms(10) show ?thesis
    using hub_join_room [OF wf after(2), of remote ?room w' env'] assms(12) get room after(1)
    by (auto simp: requestJoinRoom_def need_def)
qed

section \<open>Instances of the properties\<close>

definition sample_hub :: hub_world where
  "sample_hub = sample_world\<lparr>hw_draws := [([1], 0)]\<rparr>"

definition sample_salt :: entropy where
  "sample_salt n = Inr (replicate n 7)"

definition sample_server_form :: create_server_request where
  "sample_server_form = sample_create_server\<lparr>csr_Visibility := PasswordProtected,
     csr_PasswordHash := Some (string_bytes ''pw'')\<rparr>"

definition sample_room_form :: create_room_request where
  "sample_room_form = sample_create_room\<lparr>crr_ServerID := ''s'', crr_Visibility := PasswordProtected,
     crr_PasswordHash := Some (string_bytes ''pw'')\<rparr>"

definition sample_hub_store :: hub_store where
  "sample_hub_store = \<lparr>hs_servers = [(''s'', sample_server\<lparr>sm_ID := ''s''\<rparr>)]\<rparr>"

definition sample_visitor :: client where
  "sample_visitor = (sample_client 0 empty_table)\<lparr>
     cli_Servers := [(''s'', NewServerSessionWithMeta (Some (sample_server\<lparr>sm_ID := ''s''\<rparr>)))], cli_Server := Some ''s''\<rparr>"

lemma sample_forms:
  "wf_create_server_request (salted_server_request (replicate 16 7) sample_server_form)"
  "wf_create_room_request (salted_room_request (replicate 16 7) sample_room_form)"
  by (simp_all add: sample_server_form_def sample_room_form_def salted_server_request_def salted_room_request_def
      wf_create_server_request_def wf_create_room_request_def sample_defs wf_user_def in_int64_def utf8_valid_ascii
      visibility_defs)

lemma sample_form_fields [simp]:
  "csr_Name sample_server_form = ''s''" "csr_Visibility sample_server_form = PasswordProtected"
  "csr_PasswordHash sample_server_form = Some (string_bytes ''pw'')"
  "crr_RoomName sample_room_form = ''r''" "crr_Visibility sample_room_form = PasswordProtected"
  "crr_PasswordHash sample_room_form = Some (string_bytes ''pw'')" "crr_ServerID sample_room_form = ''s''"
  "PasswordProtected \<noteq> Private"
  by (simp_all add: sample_server_form_def sample_room_form_def sample_defs visibility_defs)

lemma sample_hub_store_ok: "wf_store sample_hub_store"
  by (simp add: sample_hub_store_def wf_store_def wf_map_def wf_server_def sample_defs)

lemma sample_visitor_ok:
  "sessions_ok sample_visitor" "cli_Server sample_visitor = Some ''s''" "cli_User sample_visitor = sample_sender"
  by (simp_all add: sample_visitor_def sample_client_def sessions_ok_def NewServerSessionWithMeta_def
      sample_room_def NewRoomSessionWithMeta_def)

theorem server_password_end_to_end_witness:
  "\<exists>sid hs' c'. CreateServerHandler sample_salt (hub_rpc created_server sample_hub sample_peer zero_rpc_env NewHubStore)
       sample_server_form = Inr sid
    \<and> JoinServerHandler (hub_rpc joined_server sample_hub sample_peer zero_rpc_env hs') sid ''pw'' sample_visitor
       = Ret (None, c') \<and> cli_Server c' = Some sid"
proof -
  let ?req = "salted_server_request (replicate 16 7) sample_server_form"
  have free: "\<exists>(b, now) \<in> set (hw_draws sample_hub). mget (hs_servers NewHubStore) (GenerateRandomID b) = None"
    by (simp add: sample_hub_def NewHubStore_def)
  from create_server_run [OF sample_forms(1) free, of sample_peer zero_rpc_env] obtain hs' where
    "snd (handleRPC sample_hub sample_peer (rpc_text ''CreateServer'' (enc_create_server_request ?req)) zero_rpc_env NewHubStore)
      = Some (Ret (hs', [CreateServerResponse (GenerateRandomID [1])], [NewServerTask]))"
    by (auto simp: sample_hub_def)
  then have create: "CreateServerHandler sample_salt (hub_rpc created_server sample_hub sample_peer zero_rpc_env NewHubStore)
       sample_server_form = Inr (GenerateRandomID [1])"
    by (simp add: CreateServerHandler_def sample_salt_def requestCreateServer_def hub_rpc_def hub_answer_def)
  have "sample_salt 16 = Inr (replicate 16 7)" "csr_PasswordHash sample_server_form = Some (string_bytes ''pw'')"
    "GenerateRandomID [1] \<noteq> []"
    by (simp_all add: sample_salt_def GenerateRandomID_def)
  from server_password_end_to_end [OF sample_forms(1) this(1,2) free create this(3), of sample_hub sample_peer
      zero_rpc_env "''pw''" sample_visitor] create
  show ?thesis by auto
qed

theorem room_password_end_to_end_witness:
  "\<exists>rid a' hs' c'. CreateRoomHandler sample_env sample_salt sample_salt
       (hub_rpc created_room sample_hub sample_peer zero_rpc_env sample_hub_store) sample_room_form sample_visitor = (Inr rid, a')
    \<and> requestJoinRoom (hub_rpc joined_room sample_hub sample_peer zero_rpc_env hs') rid ''pw'' sample_visitor
       = Ret (None, c') \<and> cli_Room c' = Some rid"
proof -
  let ?req = "salted_room_request (replicate 16 7) sample_room_form"
  have sid: "crr_ServerID sample_room_form = ''s''" "crr_ServerID ?req = ''s''"
    by (simp_all add: salted_room_request_def)
  have sm: "mget (hs_servers sample_hub_store) ''s'' = Some (sample_server\<lparr>sm_ID := ''s''\<rparr>)"
    by (simp add: sample_hub_store_def)
  have free: "\<exists>(b, now) \<in> set (hw_draws sample_hub). find_room ''s'' (GenerateRandomID b) sample_hub_store = None"
    by (simp add: sample_hub_def sample_hub_store_def find_room_def GetRoom_def sample_server_def new_server_def)
  from create_room_run [OF sample_forms(2) sample_hub_store_ok, unfolded sid, OF sm free, of sample_peer zero_rpc_env]
  obtain hs' where
    "snd (handleRPC sample_hub sample_peer (rpc_text ''CreateRoom'' (enc_create_room_request ?req)) zero_rpc_env sample_hub_store)
      = Some (Ret (hs', [CreateRoomResponse (GenerateRandomID [1]) []], [NewRoomTask ''s'']))"
    by (auto simp: sample_hub_def)
  then obtain a' where create: "CreateRoomHandler sample_env sample_salt sample_salt
       (hub_rpc created_room sample_hub sample_peer zero_rpc_env sample_hub_store) sample_room_form sample_visitor
       = (Inr (GenerateRandomID [1]), a')"
    by (simp add: CreateRoomHandler_def sample_salt_def requestCreateRoom_def hub_rpc_def hub_answer_def
        GenerateRoomKey_def Let_def case_prod_unfold)
  have "sample_salt 16 = Inr (replicate 16 7)" "crr_PasswordHash sample_room_form = Some (string_bytes ''pw'')"
    by (simp_all add: sample_salt_def)
  from room_password_end_to_end [where request = sample_room_form and rnd = sample_salt and c = sample_visitor
      and hs = sample_hub_store and remote = sample_peer and w' = sample_hub and env' = zero_rpc_env and q = "''pw''",
      unfolded sid, OF sample_forms(2) this sample_hub_store_ok sm free create sample_visitor_ok(1,2)] create
  show ?thesis
    by (auto simp: sample_visitor_ok(3) sample_peer_def sample_sender_def
        zero_user_def wf_user_def utf8_valid_ascii)
qed

end
