(* ===== verification/Client_System.thy ===== *)
theory Client_System
  imports Join_Correct
begin

text \<open>
  The client as a whole: a step is one call of a handler, one message taken from a subscription, or
  progress of a write queue, in any order and with any outcome of what is outside. What holds in
  every state that is reachable from a new session, and which steps can crash.
\<close>

inductive client_step :: "client \<Rightarrow> client \<Rightarrow> bool" where
  server: "JoinServerHandler rpc sid pass c = Ret (e, c') \<Longrightarrow> client_step c c'"
| create: "CreateRoomHandler E rnd keyRnd rpc req c = (res, c') \<Longrightarrow> client_step c c'"
| join: "JoinRoomHandler E rpc membersRpc progress answers rid pass c = Some (Ret (e, c')) \<Longrightarrow> client_step c c'"
| send: "SendMessageHandler E content c = Ret (e, c', out) \<Longrightarrow> client_step c c'"
| chat: "chat_step E peer data c = Some (Ret (e, c')) \<Longrightarrow> client_step c c'"
| members: "refreshMembersList_step connect msg c = Ret (e, c') \<Longrightarrow> client_step c c'"
| helping: "helpCatchUp_step E request c = Some (Ret (e, c', out)) \<Longrightarrow> client_step c c'"
| history: "client_step c (c\<lparr>cli_History := h\<rparr>)"
| peers: "client_step c (c\<lparr>cli_Peers := p\<rparr>)"

text \<open>A client right after \<open>NewSession\<close>.\<close>

definition new_client :: "client \<Rightarrow> bool" where
  "new_client c \<longleftrightarrow> cli_Servers c = [] \<and> cli_Rooms c = [] \<and> cli_Server c = None \<and> cli_Room c = None"

definition client_reachable :: "client \<Rightarrow> bool" where
  "client_reachable c \<longleftrightarrow> (\<exists>c0. new_client c0 \<and> client_step\<^sup>*\<^sup>* c0 c)"

lemma client_reachable_step: "client_reachable c \<Longrightarrow> client_step c c' \<Longrightarrow> client_reachable c'"
  unfolding client_reachable_def by (meson rtranclp.rtrancl_into_rtrancl)

section \<open>The invariant\<close>

definition paired :: "room_session \<Rightarrow> bool" where
  "paired r \<longleftrightarrow> (ro_RoomRatchet r = None \<longleftrightarrow> ro_BackupRatchet r = None)"

definition client_ok :: "client \<Rightarrow> bool" where
  "client_ok c \<longleftrightarrow> sessions_ok c \<and> (\<forall>k r. mget (cli_Rooms c) k = Some r \<longrightarrow> paired r)"

lemma client_ok_sessions: "client_ok c \<Longrightarrow> sessions_ok c"
  by (simp add: client_ok_def)


lemma client_ok_upd_room:
  assumes "client_ok c" "\<And>r. ro_RoomMeta (f r) = ro_RoomMeta r" "\<And>r. cur_room c = Some r \<Longrightarrow> paired r \<Longrightarrow> paired (f r)"
  shows "client_ok (upd_room f c)"
proof -
  have "sessions_ok (upd_room f c)"
    using assms(1,2) by (intro sessions_ok_upd_room) (simp_all add: client_ok_def)
  moreover have "paired r" if "mget (cli_Rooms (upd_room f c)) k = Some r" for k r
    using that assms(1,3) by (auto simp: client_ok_def upd_room_def cur_room_def map_simps split: option.splits if_splits bind_splits)
  ultimately show ?thesis by (auto simp: client_ok_def)
qed

lemma client_ok_fields [simp]:
  "client_ok (c\<lparr>cli_History := h\<rparr>) = client_ok c" "client_ok (c\<lparr>cli_Lines := l\<rparr>) = client_ok c"
  "client_ok (c\<lparr>cli_Peers := p\<rparr>) = client_ok c" "client_ok (c\<lparr>cli_Auth := a\<rparr>) = client_ok c"
  "client_ok (ShowError t m c) = client_ok c" "client_ok (set_cli_db d c) = client_ok c"
  "client_ok (DisplayMessage E ts u dm c) = client_ok c"
  by (simp_all add: client_ok_def) (simp_all add: ShowError_def set_cli_db_def DisplayMessage_def)

lemma client_ok_new: "new_client c \<Longrightarrow> client_ok c"
  by (simp add: new_client_def client_ok_def sessions_ok_def)

section \<open>Every step keeps it\<close>

lemma client_ok_decrypt: "client_ok c \<Longrightarrow> client_decrypt cl cm c = Some (Ret (res, c')) \<Longrightarrow> client_ok c'"
  by (erule client_decrypt_cases) (simp add: client_ok_upd_room paired_def)

lemma client_ok_take_chat: "client_ok c \<Longrightarrow> take_chat E env cm pt c = Ret (e, c') \<Longrightarrow> client_ok c'"
  by (auto simp: take_chat_def Let_def outcome_simps case_prod_unfold paired_def
      intro!: client_ok_upd_room split: option.splits)

lemma client_ok_chat_step:
  assumes "client_ok c" "chat_step E peer data c = Some (Ret (e, c'))"
  shows "client_ok c'"
proof (cases "\<exists>env cm. UnmarshalEnvelope data = Inr (env, ChatMessage cm)")
  case True
  then obtain env cm where un: "UnmarshalEnvelope data = Inr (env, ChatMessage cm)" by blast
  with assms(2) obtain res c2 where dec: "client_decrypt (ce_lib E) cm c = Some (Ret (res, c2))"
    by (auto simp: chat_step_chat split: option.splits go.splits)
  have "client_ok c2" by (rule client_ok_decrypt [OF assms(1) dec])
  with un dec assms(2) show ?thesis
    by (auto simp: chat_step_chat client_ok_take_chat split: sum.splits)
next
  case False
  with assms show ?thesis by (auto simp: chat_step_def split: sum.splits prod.splits message.splits)
qed

lemma client_ok_display_one:
  assumes "client_ok c" "display_one E m c = Some (Ret (e, c'))"
  shows "client_ok c'"
  using assms(2)
proof (cases rule: display_one_steps)
  case (shown cm res c2 ts u d msg)
  then have "client_ok c2" using client_ok_decrypt [OF assms(1)] by blast
  with shown(2) show ?thesis by (auto simp: paired_def intro!: client_ok_upd_room)
qed (use assms(1) in \<open>auto intro: client_ok_decrypt\<close>)

interpretation ok_display: message_handler "display_one E" client_ok for E
  by unfold_locales (rule client_ok_display_one)

interpretation ok_chat: message_handler "\<lambda>(peer, data). chat_step E peer data" client_ok for E
  by unfold_locales (auto intro: client_ok_chat_step)

lemma client_ok_open_chat: "client_ok c \<Longrightarrow> open_chat E tp c = Some (Ret (e, c')) \<Longrightarrow> client_ok c'"
  by (auto simp: open_chat_def parseAndDisplayDBMessages_def display_stored_def
      intro: ok_display.loop_keeps split: option.splits go.splits sum.splits)

lemma client_ok_chatHandler: "client_ok c \<Longrightarrow> chatHandler E c = Some (Ret (e, c')) \<Longrightarrow> client_ok c'"
  by (auto simp: chatHandler_def paired_def intro: client_ok_upd_room elim!: client_ok_open_chat [rotated]
      split: option.splits go.splits)

lemma client_ok_send: "client_ok c \<Longrightarrow> SendMessageHandler E content c = Ret (e, c', out) \<Longrightarrow> client_ok c'"
  by (auto simp: SendMessageHandler_def Let_def outcome_simps need_def case_prod_unfold paired_def
      intro!: client_ok_upd_room split: option.splits sum.splits)

text \<open>Joining: the parts, each with any outcome.\<close>

lemma client_ok_requestJoinServer:
  "client_ok c \<Longrightarrow> requestJoinServer rpc sid pass c = Ret (e, c') \<Longrightarrow> client_ok c'"
  using sessions_ok_requestJoinServer [of c rpc sid pass e c']
  by (auto simp: client_ok_def requestJoinServer_def Let_def need_def outcome_simps
      split: sum.splits if_splits option.splits)

lemma client_ok_JoinServerHandler:
  "client_ok c \<Longrightarrow> JoinServerHandler rpc sid pass c = Ret (e, c') \<Longrightarrow> client_ok c'"
  by (auto simp: JoinServerHandler_def outcome_simps split: if_splits option.splits
      dest: client_ok_requestJoinServer)

lemma client_ok_CreateRoomHandler:
  "client_ok c \<Longrightarrow> CreateRoomHandler E rnd keyRnd rpc req c = (res, c') \<Longrightarrow> client_ok c'"
  by (auto simp: CreateRoomHandler_def Let_def case_prod_unfold split: if_splits sum.splits)

lemma client_ok_requestJoinRoom:
  assumes "client_ok c" "requestJoinRoom rpc rid pass c = Ret (e, c')"
  shows "client_ok c'"
  using assms(2)
proof (cases rule: requestJoinRoom_cases)
  case (yes r)
  with assms sessions_ok_requestJoinRoom [OF client_ok_sessions [OF assms(1)] assms(2)] show ?thesis
    by (auto simp: client_ok_def add_room_session_get paired_def NewRoomSessionWithMeta_def NewRoomSession_def)
qed (use assms(1) in simp)

lemma client_ok_ensure:
  assumes "client_ok c" "ensure_topic E n t c = Ret (e, c')"
  shows "client_ok c'"
proof -
  have "c' = c \<or> c' = upd_room (\<lambda>r. r\<lparr>ro_Topics := SetTopic n t (ro_Topics r)\<rparr>) c"
    using assms(2) by (auto simp: ensure_topic_def outcome_simps split: if_split_asm option.splits)
  with client_ok_upd_room [OF assms(1), of "\<lambda>r. r\<lparr>ro_Topics := SetTopic n t (ro_Topics r)\<rparr>"] assms(1) show ?thesis
    by (auto simp: paired_def)
qed

lemma client_ok_remember: "client_ok c \<Longrightarrow> client_ok (remember_member u c)"
  by (auto simp: remember_member_def Let_def paired_def intro!: client_ok_upd_room)

lemma client_ok_add_members: "client_ok c \<Longrightarrow> client_ok (add_members ms c)"
  by (induction ms arbitrary: c) (simp_all add: client_ok_remember)

lemma client_ok_join_members: "client_ok c \<Longrightarrow> join_members E rpc c = Ret (e, c') \<Longrightarrow> client_ok c'"
  by (erule join_members_steps) (auto intro: client_ok_ensure client_ok_add_members)

lemma client_ok_initial_ratchet: "client_ok c \<Longrightarrow> initial_ratchet E answers rid c = Ret (r, c') \<Longrightarrow> client_ok c'"
  by (drule initial_ratchet_frame) auto

lemma client_ok_enter_room:
  assumes "client_ok c" "enter_room E ratchet c = Some (Ret (e, c'))"
  shows "client_ok c'"
proof (cases ratchet)
  case (Some rat)
  let ?c = "upd_room (SetInitialRatchet ratchet) c"
  have "client_ok ?c"
    using assms(1) Some by (intro client_ok_upd_room) (simp_all add: SetInitialRatchet_def Clone_def paired_def)
  then have chat: "client_ok c1" if "chatHandler E ?c = Some (Ret (err, c1))" for err c1
    using that by (rule client_ok_chatHandler)
  show ?thesis
    using assms(2) Some
    by (auto simp: enter_room_def outcome_simps dest!: chat [simplified Some] split: option.splits go.splits)
qed (use assms in \<open>simp add: enter_room_def\<close>)

lemma and_then_cases:
  assumes "and_then r k = Some (Ret (e, c'))"
  obtains (failed) err where "r = Ret (Some err, c')" | (passed) c1 where "r = Ret (None, c1)" "k c1 = Some (Ret (e, c'))"
  using assms by (auto simp: and_then_def split: go.splits prod.splits option.splits)

lemma client_ok_JoinRoomHandler:
  assumes "client_ok c" "JoinRoomHandler E rpc membersRpc progress answers rid pass c = Some (Ret (e, c'))"
  shows "client_ok c'"
proof (cases "rid = []")
  case False
  let ?join = "\<lambda>c. go_bind (requestJoinRoom rpc rid pass c) (\<lambda>(err, c1). Ret (map_option (\<lambda>e. JoinRoomError (Error_text e)) err, c1))"
  let ?catchup = "\<lambda>c. go_bind (GetServerID c) (\<lambda>sid. ensure_topic E TopicCatchUp (CatchUpRequestTopic sid rid) c)"
  let ?rest = "\<lambda>c3. case initial_ratchet E answers rid (c3\<lparr>cli_Peers := progress (cli_Peers c3)\<rparr>) of
            Panic p \<Rightarrow> Some (Panic p)
          | Ret ((Some err, _), c4) \<Rightarrow> Some (Ret (Some err, c4))
          | Ret ((None, ratchet), c4) \<Rightarrow> enter_room E ratchet c4"
  have join: "client_ok c1" if "?join c = Ret (e, c1)" for e c1
    using that client_ok_requestJoinRoom [OF assms(1)] by (auto simp: outcome_simps)
  have catchup: "client_ok c3" if "client_ok c2" "?catchup c2 = Ret (e, c3)" for e c2 c3
    using that client_ok_ensure [OF that(1)] by (auto simp: outcome_simps)
  have rest: "client_ok c'" if "client_ok c3" "?rest c3 = Some (Ret (e, c'))" for c3
  proof -
    from that(2) obtain r c4 where i: "initial_ratchet E answers rid (c3\<lparr>cli_Peers := progress (cli_Peers c3)\<rparr>) = Ret (r, c4)"
      by (auto split: go.splits)
    have "client_ok c4" by (rule client_ok_initial_ratchet [OF _ i]) (simp add: that(1))
    with that(2) i show ?thesis
      by (auto intro: client_ok_enter_room split: prod.splits option.splits)
  qed
  have "and_then (?join c) (\<lambda>c1. and_then (join_members E membersRpc c1) (\<lambda>c2. and_then (?catchup c2) ?rest))
      = Some (Ret (e, c'))"
    using assms(2) False by (simp add: JoinRoomHandler_def)
  then show ?thesis
  proof (cases rule: and_then_cases)
    case (passed c1)
    have c1: "client_ok c1" by (rule join [OF passed(1)])
    from passed(2) show ?thesis
    proof (cases rule: and_then_cases)
      case (passed c2)
      have c2: "client_ok c2" by (rule client_ok_join_members [OF c1 passed(1)])
      from passed(2) show ?thesis
        by (cases rule: and_then_cases) (auto intro: catchup [OF c2] rest)
    qed (rule client_ok_join_members [OF c1])
  qed (rule join)
qed (use assms in \<open>simp add: JoinRoomHandler_def\<close>)

lemma client_ok_refresh: "client_ok c \<Longrightarrow> refresh_members connect ms c = Ret (e, c') \<Longrightarrow> client_ok c'"
  by (induction ms arbitrary: c)
    (auto simp: outcome_simps Let_def intro: client_ok_remember split: if_split_asm option.splits)

lemma client_ok_help: "client_ok c \<Longrightarrow> helpCatchUp_step E msg c = Some (Ret (e, c', out)) \<Longrightarrow> client_ok c'"
  by (auto simp: helpCatchUp_step_def Let_def outcome_simps
      split: go.splits option.splits prod.splits sum.splits message.splits)

lemma client_ok_step: "client_step c c' \<Longrightarrow> client_ok c \<Longrightarrow> client_ok c'"
proof (induction rule: client_step.induct)
  case (members connect msg c e c')
  then show ?case by (auto simp: refreshMembersList_step_def intro: client_ok_refresh split: option.splits if_splits)
qed (auto intro: client_ok_JoinServerHandler client_ok_CreateRoomHandler client_ok_JoinRoomHandler client_ok_send
    client_ok_chat_step client_ok_help)

lemma reachable_ok: "client_reachable c \<Longrightarrow> client_ok c"
proof -
  assume "client_reachable c"
  then obtain c0 where "new_client c0" "client_step\<^sup>*\<^sup>* c0 c" by (auto simp: client_reachable_def)
  from this(2) client_ok_new [OF this(1)] show ?thesis by induction (auto intro: client_ok_step)
qed

section \<open>Properties\<close>

text \<open>
  C10. In every state a client can reach from a new session, with any sequence of handlers and
  messages and whatever they returned: every session it holds has its metadata, under the
  identifier the metadata has; the current server and room are among them; and a room has its
  main ratchet exactly when it has its backup.
\<close>

theorem reachable_sessions_ok:
  assumes "client_reachable c"
  shows "(\<forall>k s. mget (cli_Servers c) k = Some s \<longrightarrow> (\<exists>m. ss_ServerMeta s = Some m \<and> sm_ID m = k))
    \<and> (\<forall>k r. mget (cli_Rooms c) k = Some r \<longrightarrow> (\<exists>m. ro_RoomMeta r = Some m \<and> rm_ID m = k)
         \<and> (ro_RoomRatchet r = None \<longleftrightarrow> ro_BackupRatchet r = None))
    \<and> (\<forall>k. cli_Server c = Some k \<longrightarrow> mget (cli_Servers c) k \<noteq> None)
    \<and> (\<forall>k. cli_Room c = Some k \<longrightarrow> mget (cli_Rooms c) k \<noteq> None)"
  using reachable_ok [OF assms] by (auto simp: client_ok_def sessions_ok_def paired_def)





























section \<open>Instances of the properties\<close>

lemma sample_member_reachable:
  "\<exists>r peers. client_reachable (sample_joining sample_keys r peers)
    \<and> ro_RoomMeta r = ro_RoomMeta (sample_room 0) \<and> GetTopic TopicCatchUp (ro_Topics r) \<noteq> None"
proof -
  obtain r peers where run: "JoinRoomHandler sample_env sample_room_rpc sample_members_rpc (\<lambda>w. w) (\<lambda>_. None) ''r'' ''pw''
      (sample_guest sample_keys) = Some (Ret (None, sample_joining sample_keys r peers))"
    and r: "ro_RoomMeta r = ro_RoomMeta (sample_room 0)" "GetTopic TopicCatchUp (ro_Topics r) \<noteq> None"
    using sample_guest_joins [of "\<lambda>_. None" sample_keys] sample_guest_key by blast
  have "client_reachable (sample_guest sample_keys)"
    unfolding client_reachable_def
    by (rule exI [of _ "sample_guest sample_keys"]) (simp add: new_client_def sample_guest_def sample_client_def)
  from client_reachable_step [OF this client_step.join [OF run]] r show ?thesis by blast
qed

theorem reachable_sessions_ok_witness:
  "\<exists>c r. client_reachable c \<and> cli_Room c = Some ''r'' \<and> mget (cli_Rooms c) ''r'' = Some r \<and> ro_RoomMeta r \<noteq> None"
proof -
  obtain r peers where c: "client_reachable (sample_joining sample_keys r peers)" using sample_member_reachable by blast
  have "mget (cli_Rooms (sample_joining sample_keys r peers)) ''r'' = Some r"
    "cli_Room (sample_joining sample_keys r peers) = Some ''r''"
    by (simp_all add: sample_joining_def)
  with reachable_sessions_ok [OF c] c show ?thesis by blast
qed


end
