(* ===== verification/Decrypt_Spec.thy ===== *)
theory Decrypt_Spec
  imports Decrypt
begin

text \<open>
  \<open>decryptMessage\<close> against a specification without loops: which state of which ratchet gives the
  key, and where both ratchets are afterwards. Its consequences for sequences of messages.
\<close>

section \<open>The specification\<close>

text \<open>The state of a ratchet that has reached an index, and the one just past it.\<close>

definition at_index :: "room_ratchet \<Rightarrow> nat \<Rightarrow> room_ratchet" where
  "at_index r i = (advance ^^ (i - unat (rr_Index r))) r"

definition decrypt_spec :: "crypto_lib \<Rightarrow> ratchets \<Rightarrow> chat_message \<Rightarrow> bytes result \<times> ratchets" where
  "decrypt_spec cl rs cm =
     (let i = unat (cm_ChainIndex cm); m = rs_Main rs; b = rs_Backup rs;
          try_open = (\<lambda>k. open_with cl k (cm_Ciphertext cm)) in
      if unat (rr_Index m) \<le> i
      then (try_open (Some (ratchet_key cl (at_index m i))),
            \<lparr>rs_Main = at_index m (i + 1), rs_Backup = at_index b (i + 1 - 9)\<rparr>)
      else if unat (rr_Index b) \<le> i
      then (try_open (Some (ratchet_key cl (at_index b i))), rs\<lparr>rs_Backup := at_index b (i + 1)\<rparr>)
      else (try_open None, rs))"

lemma decrypt_meets_spec:
  assumes "hkdf_ok cl" "unat (cm_ChainIndex cm) < 2 ^ 64 - 11"
    and "unat (rr_Index (rs_Backup rs)) \<le> unat (rr_Index (rs_Main rs))"
  shows "decryptMessage cl rs cm = Some (decrypt_spec cl rs cm)"
proof -
  let ?i = "unat (cm_ChainIndex cm)" and ?m = "unat (rr_Index (rs_Main rs))" and ?b = "unat (rr_Index (rs_Backup rs))"
  consider "?m \<le> ?i" | "?i < ?m" "?b \<le> ?i" | "?i < ?m" "?i < ?b" by linarith
  then show ?thesis
  proof cases
    case 1
    then have n: "?m + (?i - ?m) = ?i" by simp
    from decrypt_ahead [OF assms(1,2) n assms(3)] 1 show ?thesis
      by (simp add: decrypt_spec_def Let_def at_index_def follow_def Suc_diff_le del: funpow.simps)
  next
    case 2
    then have n: "?b + (?i - ?b) = ?i" and lt: "cm_ChainIndex cm < rr_Index (rs_Main rs)"
      by (simp_all add: word_less_nat_alt)
    from decrypt_late [OF assms(1) lt n] 2 show ?thesis
      by (simp add: decrypt_spec_def Let_def at_index_def Suc_diff_le del: funpow.simps)
  next
    case 3
    then have "cm_ChainIndex cm < rr_Index (rs_Backup rs)" "cm_ChainIndex cm < rr_Index (rs_Main rs)"
      by (simp_all add: word_less_nat_alt)
    from decrypt_too_late [OF this] 3 show ?thesis
      by (simp add: decrypt_spec_def Let_def)
  qed
qed

section \<open>Sequences of messages\<close>

fun decrypt_all :: "crypto_lib \<Rightarrow> ratchets \<Rightarrow> chat_message list \<Rightarrow> ratchets option" where
  "decrypt_all cl rs [] = Some rs"
| "decrypt_all cl rs (cm # cms) =
     Option.bind (decryptMessage cl rs cm) (\<lambda>(_, rs'). decrypt_all cl rs' cms)"

definition window_ok :: "ratchets \<Rightarrow> bool" where
  "window_ok rs \<longleftrightarrow> unat (rr_Index (rs_Backup rs)) \<le> unat (rr_Index (rs_Main rs))
     \<and> unat (rr_Index (rs_Main rs)) \<le> unat (rr_Index (rs_Backup rs)) + 9"

lemma at_index_index:
  "i < 2 ^ 64 \<Longrightarrow> unat (rr_Index (at_index r i)) = max (unat (rr_Index r)) i"
  using ratchet.unat_index_steps [of r "i - unat (rr_Index r)"] unsigned_less [of "rr_Index r", where 'a = nat]
  by (simp add: at_index_def max_def)

lemma window_spec:
  assumes "window_ok rs" "unat (cm_ChainIndex cm) < 2 ^ 64 - 11"
  shows "window_ok (snd (decrypt_spec cl rs cm))"
    and "unat (rr_Index (rs_Main (snd (decrypt_spec cl rs cm))))
      = max (unat (rr_Index (rs_Main rs))) (unat (cm_ChainIndex cm) + 1)"
  using assms by (auto simp: decrypt_spec_def Let_def window_ok_def at_index_index)

lemma decrypt_all_window:
  assumes "hkdf_ok cl" "window_ok rs" "\<forall>cm \<in> set cms. unat (cm_ChainIndex cm) < 2 ^ 64 - 11"
  shows "\<exists>rs'. decrypt_all cl rs cms = Some rs' \<and> window_ok rs'
    \<and> unat (rr_Index (rs_Main rs')) = fold (\<lambda>cm i. max i (unat (cm_ChainIndex cm) + 1)) cms (unat (rr_Index (rs_Main rs)))"
  using assms(2,3)
proof (induction cms arbitrary: rs)
  case (Cons cm cms)
  let ?rs = "snd (decrypt_spec cl rs cm)"
  have "decryptMessage cl rs cm = Some (decrypt_spec cl rs cm)"
    using Cons.prems by (intro decrypt_meets_spec [OF assms(1)]) (simp_all add: window_ok_def)
  then have "decrypt_all cl rs (cm # cms) = decrypt_all cl ?rs cms"
    by (simp add: case_prod_unfold)
  moreover have "window_ok ?rs" "unat (rr_Index (rs_Main ?rs)) = max (unat (rr_Index (rs_Main rs))) (unat (cm_ChainIndex cm) + 1)"
    using window_spec [OF Cons.prems(1)] Cons.prems(2) by simp_all
  ultimately show ?case using Cons.IH [of ?rs] Cons.prems(2) by simp
qed simp

section \<open>Properties\<close>

text \<open>
  C6. The loops of \<open>decryptMessage\<close> compute what the specification without loops says, and return,
  for every message whose index is below \<open>2 ^ 64 - 11\<close> and every pair of ratchets of which the
  backup is not ahead: a message at or past the main ratchet is opened with the main chain's
  key at its index, an older one with the backup chain's, one older than the backup with no
  key; and both ratchets end where it says.
\<close>

theorem decrypt_equals_spec:
  assumes "hkdf_ok cl" "unat (cm_ChainIndex cm) < 2 ^ 64 - 11"
    and "unat (rr_Index (rs_Backup rs)) \<le> unat (rr_Index (rs_Main rs))"
  shows "decryptMessage cl rs cm = Some (decrypt_spec cl rs cm)"
  using assms by (rule decrypt_meets_spec)

text \<open>
  C19. The window of readable messages: a room starts with a ratchet and its clone, and whatever
  messages arrive in whatever order (below \<open>2 ^ 64 - 11\<close>, authentic or not), every call returns,
  the backup is never ahead of the main ratchet and never more than nine behind, and the main
  ratchet is just past the largest index seen. So at most nine messages can be late.
\<close>

theorem backup_window:
  assumes "hkdf_ok cl" "\<forall>cm \<in> set cms. unat (cm_ChainIndex cm) < 2 ^ 64 - 11"
  shows "\<exists>rs. decrypt_all cl \<lparr>rs_Main = r, rs_Backup = the (Clone (Some r))\<rparr> cms = Some rs
    \<and> unat (rr_Index (rs_Backup rs)) \<le> unat (rr_Index (rs_Main rs))
    \<and> unat (rr_Index (rs_Main rs)) \<le> unat (rr_Index (rs_Backup rs)) + 9
    \<and> unat (rr_Index (rs_Main rs)) = fold (\<lambda>cm i. max i (unat (cm_ChainIndex cm) + 1)) cms (unat (rr_Index r))"
  using decrypt_all_window [OF assms(1) _ assms(2), of "\<lparr>rs_Main = r, rs_Backup = the (Clone (Some r))\<rparr>"]
  by (auto simp: window_ok_def Clone_def)

section \<open>Instances of the properties\<close>

theorem decrypt_equals_spec_witness:
  "decryptMessage sample_lib \<lparr>rs_Main = chain_at sample_ratchet 3, rs_Backup = sample_ratchet\<rparr>
      \<lparr>cm_ChainIndex = 20, cm_Ciphertext = Some [1]\<rparr>
    = Some (decrypt_spec sample_lib \<lparr>rs_Main = chain_at sample_ratchet 3, rs_Backup = sample_ratchet\<rparr>
      \<lparr>cm_ChainIndex = 20, cm_Ciphertext = Some [1]\<rparr>)"
  by (rule decrypt_equals_spec) simp_all

theorem backup_window_witness:
  "\<exists>rs. decrypt_all sample_lib \<lparr>rs_Main = sample_ratchet, rs_Backup = the (Clone (Some sample_ratchet))\<rparr>
      [\<lparr>cm_ChainIndex = 30, cm_Ciphertext = Some [1]\<rparr>, \<lparr>cm_ChainIndex = 25, cm_Ciphertext = None\<rparr>] = Some rs
    \<and> unat (rr_Index (rs_Main rs)) = 31 \<and> 22 \<le> unat (rr_Index (rs_Backup rs))"
  using backup_window [of sample_lib "[\<lparr>cm_ChainIndex = 30, cm_Ciphertext = Some [1]\<rparr>,
      \<lparr>cm_ChainIndex = 25, cm_Ciphertext = None\<rparr>]" sample_ratchet] by auto

end
