(* ===== verification/Store_Maps.thy ===== *)
theory Store_Maps
  imports Auth_Store Peer_Store
begin

text \<open>
  What the room key store and the peer store promise, without their tables: finite maps. Each
  statement is an operation on a map, and any sequence of statements, some of which may fail,
  leaves the table that reads as the map the operations give.
\<close>

section \<open>The interface\<close>

locale map_store =
  fixes view :: "'s \<Rightarrow> 'k \<rightharpoonup> 'v" and run :: "'op \<Rightarrow> 's \<Rightarrow> 's"
    and meaning :: "'op \<Rightarrow> ('k \<rightharpoonup> 'v) \<Rightarrow> 'k \<rightharpoonup> 'v" and ok :: "'s \<Rightarrow> bool"
  assumes run_ok: "ok s \<Longrightarrow> ok (run op s)"
    and run_meaning: "ok s \<Longrightarrow> view (run op s) = meaning op (view s)"
begin

lemma runs_ok: "ok s \<Longrightarrow> ok (fold run ops s)"
  by (induction ops arbitrary: s) (simp_all add: run_ok)

lemma runs_meaning: "ok s \<Longrightarrow> view (fold run ops s) = fold meaning ops (view s)"
  by (induction ops arbitrary: s) (simp_all add: run_ok run_meaning)

end

section \<open>Room keys\<close>

datatype auth_op =
  Save string int slice int
| Delete string
| SoftDelete string
| Touch string int
| Purge int

text \<open>A statement with the engine's failure, if there is one.\<close>

fun run_auth :: "fault \<times> auth_op \<Rightarrow> auth_table \<Rightarrow> auth_table" where
  "run_auth (f, Save rid ci key lu) t = snd (SaveAuth f rid ci key lu t)"
| "run_auth (f, Delete rid) t = snd (DeleteAuth f rid t)"
| "run_auth (f, SoftDelete rid) t = snd (SoftDeleteAuth f rid t)"
| "run_auth (f, Touch rid lu) t = snd (UpdateLastUsed f rid lu t)"
| "run_auth (f, Purge before) t = snd (PurgeAuthsOlderThan f before t)"

definition update_at :: "'k \<Rightarrow> ('v \<Rightarrow> 'v) \<Rightarrow> ('k \<rightharpoonup> 'v) \<Rightarrow> 'k \<rightharpoonup> 'v" where
  "update_at k f m = (\<lambda>x. if x = k then map_option f (m k) else m x)"

fun auth_meaning :: "auth_op \<Rightarrow> (string \<rightharpoonup> room_auth) \<Rightarrow> string \<rightharpoonup> room_auth" where
  "auth_meaning (Save rid ci key lu) m = m(rid \<mapsto>
     \<lparr>ra_RoomID = rid, ra_ChainIndex = uint64_of ci, ra_MasterRatchetKey = key, ra_LastUsed = lu,
      ra_Tombstone = False, ra_Synced = True\<rparr>)"
| "auth_meaning (Delete rid) m = m(rid := None)"
| "auth_meaning (SoftDelete rid) m = update_at rid (\<lambda>a. a\<lparr>ra_Tombstone := True, ra_Synced := False\<rparr>) m"
| "auth_meaning (Touch rid lu) m = update_at rid (\<lambda>a. a\<lparr>ra_LastUsed := lu\<rparr>) m"
| "auth_meaning (Purge before) m =
     (\<lambda>rid. case m rid of None \<Rightarrow> None
        | Some a \<Rightarrow> if ra_Tombstone a \<and> ra_LastUsed a < before then None else Some a)"

fun when_ok :: "('op \<Rightarrow> 'm \<Rightarrow> 'm) \<Rightarrow> fault \<times> 'op \<Rightarrow> 'm \<Rightarrow> 'm" where
  "when_ok meaning (None, op) m = meaning op m"
| "when_ok meaning (Some err, op) m = m"

definition auth_view :: "auth_table \<Rightarrow> string \<rightharpoonup> room_auth" where
  "auth_view t rid = map_option auth_of_row (find (\<lambda>r. au_room_id r = rid) (t_rows t))"

lemma GetAuth_view: "GetAuth None rid t = (case auth_view t rid of None \<Rightarrow> Inl ErrNoRows | Some a \<Rightarrow> Inr a)"
  by (simp add: GetAuth_def auth_view_def split: option.split)

definition auths_ok :: "auth_table \<Rightarrow> bool" where
  "auths_ok t \<longleftrightarrow> wf_auths t \<and> (\<forall>r \<in> set (t_rows t). au_tombstone r = 0 \<or> au_tombstone r = 1)"

lemma find_iff_unique:
  "unique_key (\<lambda>r. Some (f r)) rs \<Longrightarrow> find (\<lambda>r. f r = k) rs = Some r \<longleftrightarrow> r \<in> set rs \<and> f r = k"
  by (induction rs) auto

lemma auth_view_Some:
  "wf_auths t \<Longrightarrow> auth_view t rid = Some a \<longleftrightarrow> (\<exists>r \<in> set (t_rows t). au_room_id r = rid \<and> a = auth_of_row r)"
  by (auto simp: auth_view_def wf_auths_def find_iff_unique)

lemma find_filter_unique:
  "unique_key (\<lambda>r. Some (f r)) rs \<Longrightarrow> find (\<lambda>r. f r = k) (filter P rs) =
    (case find (\<lambda>r. f r = k) rs of None \<Rightarrow> None | Some r \<Rightarrow> if P r then Some r else None)"
proof (induction rs)
  case (Cons r rs)
  show ?case
  proof (cases "f r = k")
    case True
    with Cons.prems have "find (\<lambda>r. f r = k) (filter P rs) = None"
      by (auto simp: find_None_iff)
    with True show ?thesis by simp
  qed (use Cons in simp)
qed simp

lemma auth_view_update:
  assumes "\<And>r. au_room_id (f r) = au_room_id r" "\<And>r. auth_of_row (f r) = g (auth_of_row r)"
  shows "auth_view (sql_update (\<lambda>r. au_room_id r = rid) f t) = update_at rid g (auth_view t)"
proof
  fix x
  let ?f = "\<lambda>r. if au_room_id r = rid then f r else r"
  have "find (\<lambda>r. au_room_id r = x) (map ?f (t_rows t)) = map_option ?f (find (\<lambda>r. au_room_id r = x) (t_rows t))"
    by (rule find_map_same) (simp add: assms(1))
  moreover have "find (\<lambda>r. au_room_id r = x) (t_rows t) = Some r \<Longrightarrow> au_room_id r = x" for r
    by (auto simp: find_Some_iff)
  ultimately show "auth_view (sql_update (\<lambda>r. au_room_id r = rid) f t) x = update_at rid g (auth_view t) x"
    by (cases "find (\<lambda>r. au_room_id r = x) (t_rows t)") (auto simp: auth_view_def update_at_def assms(2))
qed

lemma auth_view_delete:
  "wf_auths t \<Longrightarrow> auth_view (sql_delete P t) rid =
    (case find (\<lambda>r. au_room_id r = rid) (t_rows t) of None \<Rightarrow> None
     | Some r \<Rightarrow> if P r then None else Some (auth_of_row r))"
  by (simp add: auth_view_def wf_auths_def find_filter_unique split: option.split)

lemma found_key: "find (\<lambda>r. f r = k) rs = Some r \<Longrightarrow> f r = k"
  by (auto simp: find_Some_iff)

lemma auth_view_delete_key:
  assumes "wf_auths t"
  shows "auth_view (sql_delete (\<lambda>r. au_room_id r = rid) t) = (auth_view t)(rid := None)"
proof
  fix x
  show "auth_view (sql_delete (\<lambda>r. au_room_id r = rid) t) x = ((auth_view t)(rid := None)) x"
    using assms by (cases "find (\<lambda>r. au_room_id r = x) (t_rows t)")
      (auto simp: auth_view_delete simp del: t_rows_simps dest: found_key, simp_all add: auth_view_def)
qed

lemma auth_view_save: "auth_view (snd (SaveAuth None rid ci key lu t)) = auth_meaning (Save rid ci key lu) (auth_view t)"
proof
  fix x
  obtain t' where t': "SaveAuth None rid ci key lu t = (None, t')"
    "GetAuth None rid t' = Inr \<lparr>ra_RoomID = rid, ra_ChainIndex = uint64_of ci, ra_MasterRatchetKey = key,
        ra_LastUsed = lu, ra_Tombstone = False, ra_Synced = True\<rparr>"
    "x \<noteq> rid \<Longrightarrow> GetAuth None x t' = GetAuth None x t"
    using SaveAuth_GetAuth [of rid ci key lu t] by blast
  show "auth_view (snd (SaveAuth None rid ci key lu t)) x = auth_meaning (Save rid ci key lu) (auth_view t) x"
  proof (cases "x = rid")
    case True
    with t'(1,2) show ?thesis by (simp add: GetAuth_view split: option.splits)
  next
    case False
    with t'(1) t'(3) [OF False] show ?thesis by (simp add: GetAuth_view split: option.splits)
  qed
qed

lemma auth_view_purge:
  assumes "auths_ok t"
  shows "auth_view (snd (PurgeAuthsOlderThan None before t)) = auth_meaning (Purge before) (auth_view t)"
proof
  fix rid
  have tomb: "au_tombstone r = 1 \<longleftrightarrow> au_tombstone r \<noteq> 0" if "r \<in> set (t_rows t)" for r
    using assms that by (auto simp: auths_ok_def)
  show "auth_view (snd (PurgeAuthsOlderThan None before t)) rid = auth_meaning (Purge before) (auth_view t) rid"
  proof (cases "find (\<lambda>r. au_room_id r = rid) (t_rows t)")
    case (Some r)
    then have "r \<in> set (t_rows t)" by (auto simp: find_Some_iff)
    from tomb [OF this] Some assms show ?thesis
      by (simp add: PurgeAuthsOlderThan_def Let_def auth_view_delete auths_ok_def)
        (auto simp: auth_view_def auth_of_row_def)
  next
    case None
    with assms show ?thesis
      by (simp add: PurgeAuthsOlderThan_def Let_def auth_view_delete auths_ok_def) (simp add: auth_view_def)
  qed
qed

lemma auths_ok_run: "auths_ok t \<Longrightarrow> auths_ok (run_auth (f, op) t)"
proof -
  assume ok: "auths_ok t"
  then have "wf_auths (run_auth (f, op) t)"
    by (cases op) (simp_all add: auths_ok_def wf_SaveAuth wf_auth_changes)
  moreover have "\<forall>r \<in> set (t_rows (run_auth (f, op) t)). au_tombstone r = 0 \<or> au_tombstone r = 1"
    using ok by (cases op; cases f)
      (auto simp: auths_ok_def SaveAuth_def DeleteAuth_def SoftDeleteAuth_def UpdateLastUsed_def
        PurgeAuthsOlderThan_def Let_def)
  ultimately show ?thesis by (simp add: auths_ok_def)
qed

lemma auth_view_run: "auths_ok t \<Longrightarrow> auth_view (run_auth op t) = when_ok auth_meaning op (auth_view t)"
proof -
  assume ok: "auths_ok t"
  obtain f o' where op: "op = (f, o')" by (cases op)
  show ?thesis
  proof (cases f)
    case None
    show ?thesis
    proof (cases o')
      case (Save rid ci key lu)
      with op None show ?thesis by (simp add: auth_view_save)
    next
      case (Delete rid)
      with op None ok show ?thesis
        by (simp add: DeleteAuth_def auth_view_delete_key auths_ok_def)
    next
      case (SoftDelete rid)
      with op None show ?thesis
        by (simp add: SoftDeleteAuth_def) (intro auth_view_update; simp add: auth_of_row_def)
    next
      case (Touch rid lu)
      with op None show ?thesis
        by (simp add: UpdateLastUsed_def) (intro auth_view_update; simp add: auth_of_row_def)
    next
      case (Purge before)
      with op None ok show ?thesis by (simp add: auth_view_purge)
    qed
  qed (use op in \<open>cases o'; simp add: SaveAuth_def DeleteAuth_def SoftDeleteAuth_def UpdateLastUsed_def PurgeAuthsOlderThan_def\<close>)
qed

interpretation auths: map_store auth_view run_auth "when_ok auth_meaning" auths_ok
proof
  show "auths_ok t \<Longrightarrow> auths_ok (run_auth op t)" for t op
    by (cases op) (simp add: auths_ok_run)
qed (rule auth_view_run)

section \<open>Peers\<close>

text \<open>Saving a user at some time; \<open>notNull\<close> is the engine's error for a missing key.\<close>

fun run_peer :: "go_error \<Rightarrow> fault \<times> int \<times> user \<Rightarrow> peer_table \<Rightarrow> peer_table" where
  "run_peer notNull (f, now, u) t = snd (SaveUser f notNull now u t)"

fun peer_meaning :: "int \<times> user \<Rightarrow> (string \<rightharpoonup> user) \<Rightarrow> string \<rightharpoonup> user" where
  "peer_meaning (now, u) m = (if has_keys u then m(u_PeerID u \<mapsto> u) else m)"

definition peer_view :: "peer_table \<Rightarrow> string \<rightharpoonup> user" where
  "peer_view t p = map_option user_of_row (find (\<lambda>r. pe_peer_id r = p) (t_rows t))"

lemma GetUserByID_view: "GetUserByID None p t = Inr (peer_view t p)"
  by (simp add: GetUserByID_def peer_view_def)

lemma SaveUser_no_keys: "\<not> has_keys u \<Longrightarrow> snd (SaveUser f nn now u t) = t"
  by (auto simp: SaveUser_def has_keys_def split: option.split)

interpretation peers: map_store peer_view "run_peer nn" "when_ok peer_meaning" wf_peers for nn
proof
  fix t :: peer_table and op :: "fault \<times> int \<times> user"
  obtain f now u where op: "op = (f, now, u)" by (cases op)
  assume wf: "wf_peers t"
  show "wf_peers (run_peer nn op t)" using wf_SaveUser [OF wf] op by simp
  show "peer_view (run_peer nn op t) = when_ok peer_meaning op (peer_view t)"
  proof (cases "f = None \<and> has_keys u")
    case True
    then have f: "f = None" and u: "has_keys u" by simp_all
    from SaveUser_GetUserByID [OF u, of nn now t] obtain t' where
      "SaveUser None nn now u t = (None, t')" "peer_view t' (u_PeerID u) = Some u"
      "\<forall>p. p \<noteq> u_PeerID u \<longrightarrow> peer_view t' p = peer_view t p"
      by (auto simp: GetUserByID_view)
    with op f u show ?thesis by (auto simp: fun_eq_iff)
  next
    case False
    then consider err where "f = Some err" | "f = None" "\<not> has_keys u" by auto
    then show ?thesis
      using op by cases (simp_all add: SaveUser_no_keys, simp add: SaveUser_def)
  qed
qed

section \<open>Properties\<close>

text \<open>
  C20. The room key store is a finite map from rooms to keys: after any sequence of its statements on
  the empty table, of which any may fail, reading a room gives what the same sequence of map
  operations gives (saving, deleting, marking, touching, and purging what is marked and old), and
  listing gives exactly the entries of that map.
\<close>

theorem auth_store_refines_map:
  assumes "map_order met"
  shows "(\<forall>rid. GetAuth None rid (fold run_auth ops empty_table)
      = (case fold (when_ok auth_meaning) ops Map.empty rid of None \<Rightarrow> Inl ErrNoRows | Some a \<Rightarrow> Inr a))
    \<and> (\<exists>as. ListAuths None met True (fold run_auth ops empty_table) = Inr as
        \<and> set as = ran (fold (when_ok auth_meaning) ops Map.empty))"
proof -
  let ?t = "fold run_auth ops empty_table" and ?m = "fold (when_ok auth_meaning) ops Map.empty"
  have ok: "auths_ok empty_table" "auth_view empty_table = Map.empty"
    by (auto simp: auths_ok_def auth_view_def)
  then have view: "auth_view ?t = ?m" and wf: "wf_auths ?t"
    using auths.runs_meaning [OF ok(1), of ops] auths.runs_ok [OF ok(1), of ops] by (simp_all add: auths_ok_def)
  have "ran (auth_view ?t) = auth_of_row ` set (t_rows ?t)"
    using auth_view_Some [OF wf] by (auto simp: ran_def)
  moreover have "set (sql_order_desc met au_last_used (t_rows ?t)) = set (t_rows ?t)"
    by (rule mset_eq_setD) (rule mset_sql_order_desc [OF assms])
  ultimately show ?thesis
    using view by (simp add: GetAuth_view ListAuths_def)
qed

text \<open>
  C21. The peer store is a finite map from peer identifiers to users: after any sequence of saves, of
  which any may fail, looking a peer up gives the last user saved under that identifier whose
  three keys were all there, and nothing if there was none.
\<close>

theorem peer_store_refines_map:
  "GetUserByID None p (fold (run_peer nn) ops empty_table)
    = Inr (fold (when_ok peer_meaning) ops Map.empty p)"
proof -
  have "peer_view empty_table = Map.empty" by (auto simp: peer_view_def)
  with peers.runs_meaning [OF wf_peers_empty, of nn ops] show ?thesis by (simp add: GetUserByID_view)
qed

section \<open>An instance\<close>

theorem auth_store_refines_map_witness:
  "GetAuth None ''r'' (fold run_auth [(None, Save ''r'' 3 (Some [1]) 5), (None, SoftDelete ''r''), (Some (Errorf []), Delete ''r'')]
      empty_table) = Inr \<lparr>ra_RoomID = ''r'', ra_ChainIndex = uint64_of 3, ra_MasterRatchetKey = Some [1],
        ra_LastUsed = 5, ra_Tombstone = True, ra_Synced = False\<rparr>"
proof -
  let ?ops = "[(None, Save ''r'' 3 (Some [1]) 5), (None, SoftDelete ''r''), (Some (Errorf []), Delete ''r'')]"
  from auth_store_refines_map [OF map_order_rev, of ?ops] have
    "GetAuth None ''r'' (fold run_auth ?ops empty_table)
      = (case fold (when_ok auth_meaning) ?ops Map.empty ''r'' of None \<Rightarrow> Inl ErrNoRows | Some a \<Rightarrow> Inr a)"
    by blast
  then show ?thesis by (simp add: update_at_def)
qed

end
