(* ===== verification/Hub_Start.thy ===== *)
theory Hub_Start
  imports Hub_Correct
begin

text \<open>
  Starting the hub: \<open>NewHubServer\<close> and \<open>ListenAddrs\<close> of hub/server.go, and cmd/hub/main.go. The host,
  the DHT and pubsub are the libraries' objects, of types left open.
\<close>

section \<open>Starting\<close>

definition HubProtocolID :: string where
  "HubProtocolID = ''/hillside/hub/1.0.0''"

text \<open>What the libraries answer; a host has its identifier and addresses.\<close>

record ('d, 'p) hub_libs =
  hl_New :: "string \<Rightarrow> addr_info result"
  hl_NewDHT :: "addr_info \<Rightarrow> 'd result"
  hl_Bootstrap :: "'d \<Rightarrow> go_error option"
  hl_NewGossipSub :: "addr_info \<Rightarrow> 'p result"

text \<open>The last field is the protocol for which the host was given \<open>handleRPC\<close>.\<close>

record ('d, 'p) hub_server =
  hs_Host :: addr_info
  hs_DHT :: 'd
  hs_Store :: hub_store
  hs_PS :: 'p
  hs_topicCache :: topic_cache
  hs_handles :: string

definition NewHubServer :: "('d, 'p) hub_libs \<Rightarrow> string \<Rightarrow> ('d, 'p) hub_server result" where
  "NewHubServer L listenAddr =
     (case hl_New L listenAddr of
        Inl err \<Rightarrow> Inl err
      | Inr h \<Rightarrow>
          (case hl_NewDHT L h of
             Inl err \<Rightarrow> Inl err
           | Inr d \<Rightarrow>
               (case hl_Bootstrap L d of
                  Some err \<Rightarrow> Inl err
                | None \<Rightarrow>
                    (case hl_NewGossipSub L h of
                       Inl err \<Rightarrow> Inl err
                     | Inr ps \<Rightarrow>
                         Inr \<lparr>hs_Host = h, hs_DHT = d, hs_Store = NewHubStore, hs_PS = ps,
                              hs_topicCache = [], hs_handles = HubProtocolID\<rparr>))))"

text \<open>The lines printed for clients to dial.\<close>

definition ListenAddrs :: "('d, 'p) hub_server \<Rightarrow> string list" where
  "ListenAddrs s = map (\<lambda>a. ''  '' @ a @ ''/p2p/'' @ ai_ID (hs_Host s)) (ai_Addrs (hs_Host s))"

text \<open>
  The program: the lines on standard output, and the exit code once it has one. It runs until it is
  told to stop; closing the host may fail and is only logged.
\<close>

definition hub_main :: "('d, 'p) hub_libs \<Rightarrow> bool \<Rightarrow> string list \<times> nat option" where
  "hub_main L signalled =
     (case NewHubServer L ''/ip4/0.0.0.0/tcp/4001'' of
        Inl err \<Rightarrow> ([], Some 1)
      | Inr srv \<Rightarrow> (ListenAddrs srv, if signalled then Some 0 else None))"

section \<open>The started hub\<close>

text \<open>The state of the running hub when it was just made.\<close>

definition hub_of :: "('d, 'p) hub_server \<Rightarrow> hub_state" where
  "hub_of srv =
     \<lparr>h_env = zero_rpc_env, h_store = hs_Store srv, h_cache = hs_topicCache srv, h_streams = [],
      h_switched = [], h_tasks = [], h_replies = [], h_published = [], h_crashed = False\<rparr>"

lemma hub_of_started: "NewHubServer L addr = Inr srv \<Longrightarrow> hub_of srv = hub_start"
  by (auto simp: NewHubServer_def hub_of_def hub_start_def split: sum.splits option.splits)

text \<open>
  Whatever a hub that was started does next, its state is one that the properties of reachable
  states are about.
\<close>

lemma started_hub_reachable:
  assumes "NewHubServer L addr = Inr srv" "hub_step\<^sup>*\<^sup>* (hub_of srv) s"
  shows "hub_reachable s"
  using assms by (simp add: hub_reachable_def hub_of_started)

text \<open>The hub runs exactly when all four parts could be started, and its clients can dial it.\<close>

lemma hub_runs_iff:
  "snd (hub_main L False) = None \<longleftrightarrow>
     (\<exists>h d ps. hl_New L ''/ip4/0.0.0.0/tcp/4001'' = Inr h \<and> hl_NewDHT L h = Inr d
        \<and> hl_Bootstrap L d = None \<and> hl_NewGossipSub L h = Inr ps
        \<and> fst (hub_main L False) = map (\<lambda>a. ''  '' @ a @ ''/p2p/'' @ ai_ID h) (ai_Addrs h))"
  by (auto simp: hub_main_def NewHubServer_def ListenAddrs_def split: sum.splits option.splits)

end
