(* ===== verification/Profile.thy ===== *)
theory Profile
  imports Crypto_Lib Model_Codec
begin

text \<open>
  internal/profile: the file that keeps a user's private keys, encrypted under a password.
  The key generators and the files of the operating system are parameters: what the generators
  draw, what the system answers, and the key functions of the libraries. Files are a map from
  paths to their text.
\<close>

section \<open>Keys, surroundings and files\<close>

text \<open>
  The functions of the key packages; \<open>'key\<close> stands for their key objects. Taking the public or
  the private key gives \<open>None\<close> when the object is not of the type the code asserts.
\<close>

record 'key key_lib =
  kl_SignMarshalPub :: "'key \<Rightarrow> bytes result"
  kl_SignMarshalPriv :: "'key \<Rightarrow> bytes result"
  kl_SignUnmarshal :: "bytes \<Rightarrow> 'key result"
  kl_SignPublic :: "'key \<Rightarrow> 'key option"
  kl_SignPrivate :: "'key \<Rightarrow> 'key option"
  kl_KEMMarshalPub :: "'key \<Rightarrow> bytes result"
  kl_KEMMarshalPriv :: "'key \<Rightarrow> bytes result"
  kl_KEMUnmarshal :: "bytes \<Rightarrow> 'key result"
  kl_KEMPublic :: "'key \<Rightarrow> 'key option"
  kl_P2PMarshalPub :: "'key \<Rightarrow> bytes result"
  kl_P2PMarshalPriv :: "'key \<Rightarrow> bytes result"
  kl_P2PUnmarshal :: "bytes \<Rightarrow> 'key result"
  kl_P2PPublic :: "'key \<Rightarrow> 'key"
  kl_PeerID :: "'key \<Rightarrow> string result"

text \<open>
  What is drawn and what the system answers while a profile is made or read. A write either
  succeeds or leaves a part of the text and an error; \<open>pe_stat\<close> holds the errors of \<open>os.Stat\<close>
  other than that the file does not exist.
\<close>

record 'key profile_env =
  pe_GenSign :: "('key \<times> 'key) result"
  pe_GenKEM :: "('key \<times> 'key) result"
  pe_GenP2P :: "('key \<times> 'key) result"
  pe_salt :: entropy
  pe_nonce :: "nat \<Rightarrow> entropy"
  pe_draw :: nat
  pe_home :: "string result"
  pe_mkdir :: "go_error option"
  pe_create :: "go_error option"
  pe_write :: "string \<Rightarrow> (string \<times> go_error) option"
  pe_stat :: "go_error option"
  pe_open :: "go_error option"
  pe_read :: "go_error option"

type_synonym files = "string \<Rightarrow> string option"

text \<open>A failure of \<open>os.Open\<close> on a file that is not there.\<close>

definition not_exist_error :: go_error where
  "not_exist_error = Errorf ''file does not exist''"

definition os_Open :: "'key profile_env \<Rightarrow> string \<Rightarrow> files \<Rightarrow> string result" where
  "os_Open E path fs =
     (case pe_open E of
        Some err \<Rightarrow> Inl err
      | None \<Rightarrow> (case fs path of None \<Rightarrow> Inl not_exist_error | Some text \<Rightarrow> Inr text))"

section \<open>The profile and its file\<close>

record profile =
  pr_Username :: string
  pr_PasswordSalt :: slice
  pr_PasswordChecksum :: slice
  pr_DilithiumPrivEnc :: slice
  pr_KyberPrivEnc :: slice
  pr_Libp2pPrivEnc :: slice
  pr_PeerID :: string

definition zero_profile :: profile where
  "zero_profile = \<lparr>pr_Username = [], pr_PasswordSalt = None, pr_PasswordChecksum = None,
     pr_DilithiumPrivEnc = None, pr_KyberPrivEnc = None, pr_Libp2pPrivEnc = None, pr_PeerID = []\<rparr>"

definition enc_profile :: "profile \<Rightarrow> json" where
  "enc_profile p = JObj
    [jmember ''username'' (enc_string (pr_Username p)),
     jmember ''password_salt'' (enc_bytes (pr_PasswordSalt p)),
     jmember ''password_checksum'' (enc_bytes (pr_PasswordChecksum p)),
     jmember ''dilithium_priv_enc'' (enc_bytes (pr_DilithiumPrivEnc p)),
     jmember ''kyber_priv_enc'' (enc_bytes (pr_KyberPrivEnc p)),
     jmember ''libp2p_priv_enc'' (enc_bytes (pr_Libp2pPrivEnc p)),
     jmember ''peer_id'' (enc_string (pr_PeerID p))]"

definition profile_fields :: "profile field_decoder list" where
  "profile_fields =
    [(''username'', on_field dec_string pr_Username (\<lambda>y. pr_Username_update (\<lambda>_. y))),
     (''password_salt'', on_field dec_bytes pr_PasswordSalt (\<lambda>y. pr_PasswordSalt_update (\<lambda>_. y))),
     (''password_checksum'', on_field dec_bytes pr_PasswordChecksum
        (\<lambda>y. pr_PasswordChecksum_update (\<lambda>_. y))),
     (''dilithium_priv_enc'', on_field dec_bytes pr_DilithiumPrivEnc
        (\<lambda>y. pr_DilithiumPrivEnc_update (\<lambda>_. y))),
     (''kyber_priv_enc'', on_field dec_bytes pr_KyberPrivEnc
        (\<lambda>y. pr_KyberPrivEnc_update (\<lambda>_. y))),
     (''libp2p_priv_enc'', on_field dec_bytes pr_Libp2pPrivEnc
        (\<lambda>y. pr_Libp2pPrivEnc_update (\<lambda>_. y))),
     (''peer_id'', on_field dec_string pr_PeerID (\<lambda>y. pr_PeerID_update (\<lambda>_. y)))]"

definition dec_profile :: "profile decoder" where
  "dec_profile = dec_struct profile_fields"

text \<open>\<open>Encoder.Encode\<close> ends the value with a newline; \<open>Decoder.Decode\<close> reads one value.\<close>

definition profile_text :: "profile \<Rightarrow> string" where
  "profile_text p = jprint (enc_profile p) @ [CHR 0x0A]"

definition decode_profile :: "string \<Rightarrow> profile result" where
  "decode_profile text =
     (case json_decode text of
        None \<Rightarrow> Inl json_error
      | Some (j, rest) \<Rightarrow>
          (let (ok, prof) = dec_profile j zero_profile in if ok then Inr prof else Inl json_error))"

definition profile_path :: "string \<Rightarrow> string \<Rightarrow> string" where
  "profile_path home username = home @ ''/.hillside/'' @ username @ ''_profile.json''"

definition getProfilePath :: "'key profile_env \<Rightarrow> string \<Rightarrow> string \<Rightarrow> files \<Rightarrow> string result" where
  "getProfilePath E username path fs =
     (case pe_home E of
        Inl err \<Rightarrow> Inl err
      | Inr home \<Rightarrow>
          (let p = (if path \<noteq> [] then path else profile_path home username)
           in if pe_stat E = None \<and> fs p = None then Inl ErrProfileNotFound else Inr p))"

definition createProfilePath :: "'key profile_env \<Rightarrow> string \<Rightarrow> string result" where
  "createProfilePath E username =
     (case pe_home E of
        Inl err \<Rightarrow> Inl err
      | Inr home \<Rightarrow>
          (case pe_mkdir E of Some err \<Rightarrow> Inl err | None \<Rightarrow> Inr (profile_path home username)))"

text \<open>The names of the JSON files of a directory, each without its last 13 characters.\<close>

fun user_names :: "(string \<times> bool) list \<Rightarrow> string list go" where
  "user_names [] = Ret []"
| "user_names ((name, isDir) # files) =
     (if \<not> isDir \<and> IsJSONFile name then
        if length name < 13 then Panic Index_Out_Of_Range
        else go_bind (user_names files) (\<lambda>us. Ret (take (length name - 13) name # us))
      else user_names files)"

definition CheckUsers :: "string result \<Rightarrow> (string \<Rightarrow> (string \<times> bool) list result) \<Rightarrow> string list result go" where
  "CheckUsers home readDir =
     (case home of
        Inl err \<Rightarrow> Ret (Inl err)
      | Inr homeDir \<Rightarrow>
          (case readDir (homeDir @ ''/.hillside'') of
             Inl err \<Rightarrow> Ret (Inl err)
           | Inr files \<Rightarrow> go_bind (user_names files) (\<lambda>us. Ret (Inr us))))"

section \<open>Making a profile\<close>

definition new_sign_keys :: "'key key_lib \<Rightarrow> 'key profile_env \<Rightarrow> (bytes \<times> bytes) result" where
  "new_sign_keys kl E = GenSignKey (pe_GenSign E) (kl_SignMarshalPub kl) (kl_SignMarshalPriv kl)"

definition new_kem_keys :: "'key key_lib \<Rightarrow> 'key profile_env \<Rightarrow> (bytes \<times> bytes) result" where
  "new_kem_keys kl E = GenKEMKey (pe_GenKEM E) (kl_KEMMarshalPub kl) (kl_KEMMarshalPriv kl)"

definition new_p2p_keys :: "'key key_lib \<Rightarrow> 'key profile_env \<Rightarrow> (bytes \<times> bytes \<times> string) result" where
  "new_p2p_keys kl E =
     GenP2PKey (pe_GenP2P E) (kl_P2PMarshalPriv kl) (kl_P2PMarshalPub kl) (kl_PeerID kl)"

definition creation_error :: "go_error \<Rightarrow> go_error" where
  "creation_error err = WithDetails ErrProfileCreation (Error_text err)"

text \<open>The profile as it is before it is saved: keys are drawn, then sealed under the password.\<close>

definition make_profile ::
  "crypto_lib \<Rightarrow> 'key key_lib \<Rightarrow> 'key profile_env \<Rightarrow> string \<Rightarrow> string \<Rightarrow> profile result"
where
  "make_profile cl kl E username pass =
     (case GenPasskeys cl (pe_salt E) pass None of
        Inl err \<Rightarrow> Inl (creation_error err)
      | Inr (passKey, unlocker, salt) \<Rightarrow>
     (case new_sign_keys kl E of
        Inl err \<Rightarrow> Inl (creation_error err)
      | Inr (_, dilPriv) \<Rightarrow>
     (case new_kem_keys kl E of
        Inl err \<Rightarrow> Inl (creation_error err)
      | Inr (_, kemPriv) \<Rightarrow>
     (case new_p2p_keys kl E of
        Inl err \<Rightarrow> Inl (creation_error err)
      | Inr (libPriv, _, pid) \<Rightarrow>
     (case DeriveChaChaKey cl passKey of
        Inl err \<Rightarrow> Inl (creation_error err)
      | Inr a \<Rightarrow>
     (case SealAEAD (pe_nonce E 0) dilPriv a of
        Inl err \<Rightarrow> Inl (creation_error err)
      | Inr dilEnc \<Rightarrow>
     (case SealAEAD (pe_nonce E 1) kemPriv a of
        Inl err \<Rightarrow> Inl (creation_error err)
      | Inr kemEnc \<Rightarrow>
     (case SealAEAD (pe_nonce E 2) libPriv a of
        Inl err \<Rightarrow> Inl (creation_error err)
      | Inr libEnc \<Rightarrow>
          Inr \<lparr>pr_Username = username, pr_PasswordSalt = salt, pr_PasswordChecksum = Some unlocker,
            pr_DilithiumPrivEnc = Some dilEnc, pr_KyberPrivEnc = Some kemEnc,
            pr_Libp2pPrivEnc = Some libEnc, pr_PeerID = pid\<rparr>))))))))"

text \<open>Creating the file empties one that is there.\<close>

definition GenerateProfile ::
  "crypto_lib \<Rightarrow> 'key key_lib \<Rightarrow> 'key profile_env \<Rightarrow> string \<Rightarrow> string \<Rightarrow> files \<Rightarrow> profile result \<times> files"
where
  "GenerateProfile cl kl E username pass fs =
     (case make_profile cl kl E username pass of
        Inl err \<Rightarrow> (Inl err, fs)
      | Inr prof \<Rightarrow>
          (case createProfilePath E username of
             Inl err \<Rightarrow> (Inl err, fs)
           | Inr path \<Rightarrow>
               (case pe_create E of
                  Some err \<Rightarrow> (Inl err, fs)
                | None \<Rightarrow>
                    (case pe_write E (profile_text prof) of
                       Some (part, err) \<Rightarrow> (Inl err, fs(path \<mapsto> part))
                     | None \<Rightarrow> (Inr prof, fs(path \<mapsto> profile_text prof))))))"

section \<open>Reading a profile\<close>

record 'key keybag =
  kb_DilithiumPriv :: slice
  kb_KyberPriv :: slice
  kb_Libp2pPriv :: 'key

definition load_error :: "go_error \<Rightarrow> go_error" where
  "load_error err = WithDetails ErrProfileLoad (Error_text err)"

definition password_error :: "go_error \<Rightarrow> go_error" where
  "password_error err = WithDetails ErrInvalidPassword (Error_text err)"

definition corrupted :: "go_error \<Rightarrow> go_error" where
  "corrupted err = WithDetails ErrProfileLoad (''Profile file is corrupted: '' @ Error_text err)"

text \<open>\<open>MarshalPublicKey\<close> returns the bytes and the error.\<close>

definition bytes_and_error :: "bytes result \<Rightarrow> slice \<times> go_error option" where
  "bytes_and_error r = (case r of Inl err \<Rightarrow> (None, Some err) | Inr b \<Rightarrow> (Some b, None))"

text \<open>
  From the three private keys in clear: the public keys, the key bag and the user. The last case
  does not occur: \<open>DeriveP2PKey\<close> returns keys or an error.
\<close>

definition restore_keys ::
  "'key key_lib \<Rightarrow> nat \<Rightarrow> profile \<Rightarrow> bytes \<Rightarrow> bytes \<Rightarrow> bytes \<Rightarrow> ('key keybag \<times> user) result"
where
  "restore_keys kl draw prof dilPriv kemPriv libPriv =
     (case DeriveSignKey (kl_SignUnmarshal kl dilPriv) (kl_SignPublic kl) (kl_SignPrivate kl)
             (kl_SignMarshalPub kl) of
        Inl err \<Rightarrow> Inl (corrupted err)
      | Inr (_, _, dilPub) \<Rightarrow>
     (case DeriveKEMKey (kl_KEMUnmarshal kl kemPriv) (kl_KEMPublic kl) (kl_KEMMarshalPub kl) of
        Inl err \<Rightarrow> Inl (corrupted err)
      | Inr (_, _, kyberPub) \<Rightarrow>
     (case DeriveP2PKey (kl_P2PUnmarshal kl libPriv) (kl_P2PPublic kl)
             (\<lambda>k. bytes_and_error (kl_P2PMarshalPub kl k)) of
        (_, Some err) \<Rightarrow> Inl (corrupted err)
      | (Some (libKey, _, libPub), None) \<Rightarrow>
          Inr (\<lparr>kb_DilithiumPriv = Some dilPriv, kb_KyberPriv = Some kemPriv, kb_Libp2pPriv = libKey\<rparr>,
               \<lparr>u_DilithiumPub = Some dilPub, u_KyberPub = Some kyberPub, u_Libp2pPub = libPub,
                u_PeerID = pr_PeerID prof, u_Username = pr_Username prof,
                u_PreferredColor = GenerateRandomColor draw\<rparr>)
      | (None, None) \<Rightarrow> Inl not_exist_error)))"

text \<open>Opening the three sealed keys in turn; an error is taken for a wrong password.\<close>

definition open_keys :: "aead \<Rightarrow> profile \<Rightarrow> (bytes \<times> bytes \<times> bytes) result go" where
  "open_keys a prof =
     go_bind (OpenAEAD (slice_bytes (pr_DilithiumPrivEnc prof)) a) (\<lambda>dil.
       case dil of Inl err \<Rightarrow> Ret (Inl (password_error err)) | Inr dilPriv \<Rightarrow>
     go_bind (OpenAEAD (slice_bytes (pr_KyberPrivEnc prof)) a) (\<lambda>kem.
       case kem of Inl err \<Rightarrow> Ret (Inl (password_error err)) | Inr kemPriv \<Rightarrow>
     go_bind (OpenAEAD (slice_bytes (pr_Libp2pPrivEnc prof)) a) (\<lambda>lib.
       case lib of Inl err \<Rightarrow> Ret (Inl (password_error err)) | Inr libPriv \<Rightarrow>
     Ret (Inr (dilPriv, kemPriv, libPriv)))))"

definition unlock_profile ::
  "crypto_lib \<Rightarrow> 'key key_lib \<Rightarrow> 'key profile_env \<Rightarrow> profile \<Rightarrow> string \<Rightarrow> ('key keybag \<times> user) result go"
where
  "unlock_profile cl kl E prof pass =
     (case GenPasskeys cl (pe_salt E) pass (pr_PasswordSalt prof) of
        Inl err \<Rightarrow> Ret (Inl (load_error err))
      | Inr (passKey, _, _) \<Rightarrow>
     (case DeriveChaChaKey cl passKey of
        Inl err \<Rightarrow> Ret (Inl (load_error err))
      | Inr a \<Rightarrow>
     go_bind (open_keys a prof) (\<lambda>keys.
       Ret (case keys of
              Inl err \<Rightarrow> Inl err
            | Inr (dilPriv, kemPriv, libPriv) \<Rightarrow>
                restore_keys kl (pe_draw E) prof dilPriv kemPriv libPriv))))"

definition LoadProfile ::
  "crypto_lib \<Rightarrow> 'key key_lib \<Rightarrow> 'key profile_env \<Rightarrow> string \<Rightarrow> string \<Rightarrow> string \<Rightarrow> files
     \<Rightarrow> ('key keybag \<times> user) result go"
where
  "LoadProfile cl kl E usrname pass path fs =
     (case getProfilePath E usrname path fs of
        Inl err \<Rightarrow> Ret (Inl (load_error err))
      | Inr p \<Rightarrow>
          (case os_Open E p fs of
             Inl err \<Rightarrow> Ret (Inl ErrProfileNotFound)
           | Inr text \<Rightarrow>
               (case pe_read E of
                  Some err \<Rightarrow> Ret (Inl err)
                | None \<Rightarrow>
                    (case decode_profile text of
                       Inl err \<Rightarrow> Ret (Inl err)
                     | Inr prof \<Rightarrow> unlock_profile cl kl E prof pass))))"

section \<open>What is relied on\<close>

text \<open>
  The key packages read back the private keys they write, with a public key that is written as
  the generated one was; a peer ID is base58 text.
\<close>

definition keys_ok :: "'key key_lib \<Rightarrow> 'key profile_env \<Rightarrow> bool" where
  "keys_ok kl E \<longleftrightarrow>
     (\<forall>pub priv b. pe_GenSign E = Inr (pub, priv) \<longrightarrow> kl_SignMarshalPriv kl priv = Inr b \<longrightarrow>
        (\<exists>k pub' k'. kl_SignUnmarshal kl b = Inr k \<and> kl_SignPublic kl k = Some pub'
           \<and> kl_SignPrivate kl k = Some k' \<and> kl_SignMarshalPub kl pub' = kl_SignMarshalPub kl pub))
     \<and> (\<forall>pub priv b. pe_GenKEM E = Inr (pub, priv) \<longrightarrow> kl_KEMMarshalPriv kl priv = Inr b \<longrightarrow>
        (\<exists>k pub'. kl_KEMUnmarshal kl b = Inr k \<and> kl_KEMPublic kl k = Some pub'
           \<and> kl_KEMMarshalPub kl pub' = kl_KEMMarshalPub kl pub))
     \<and> (\<forall>pub priv b. pe_GenP2P E = Inr (priv, pub) \<longrightarrow> kl_P2PMarshalPriv kl priv = Inr b \<longrightarrow>
        (\<exists>k. kl_P2PUnmarshal kl b = Inr k \<and> kl_P2PMarshalPub kl (kl_P2PPublic kl k) = kl_P2PMarshalPub kl pub))
     \<and> (\<forall>priv pub pid. pe_GenP2P E = Inr (priv, pub) \<longrightarrow> kl_PeerID kl priv = Inr pid \<longrightarrow> utf8_valid pid)"

text \<open>Argon2 gives as many bytes as it is asked for.\<close>

definition idkey_ok :: "crypto_lib \<Rightarrow> bool" where
  "idkey_ok cl \<longleftrightarrow> (\<forall>p s t m h n. length (cl_IDKey cl p s t m h n) = n)"

text \<open>Files can be found, opened and read.\<close>

definition readable :: "'key profile_env \<Rightarrow> bool" where
  "readable E \<longleftrightarrow> pe_stat E = None \<and> pe_open E = None \<and> pe_read E = None \<and> (\<exists>b. pe_salt E 16 = Inr b)"

section \<open>The file\<close>

definition wf_profile :: "profile \<Rightarrow> bool" where
  "wf_profile p \<longleftrightarrow> utf8_valid (pr_Username p) \<and> utf8_valid (pr_PeerID p)"

lemma dec_enc_profile [codec_simps]: "dec_profile (enc_profile p) old = (True, p)"
  by (simp add: dec_profile_def enc_profile_def profile_fields_def codec_simps)

lemma wf_enc_profile [wf_codec]: "wf_profile p \<Longrightarrow> wf_json (enc_profile p)"
  by (simp add: enc_profile_def wf_profile_def wf_codec utf8_valid_ascii)

lemma decode_profile_text:
  assumes "wf_profile p"
  shows "decode_profile (profile_text p) = Inr p"
proof -
  have "value_end [CHR 0x0A]" by (simp add: value_end_def is_digit_def)
  with wf_json_reads_back [OF wf_enc_profile, OF assms]
  have "json_decode (jprint (enc_profile p) @ [CHR 0x0A]) = Some (enc_profile p, [CHR 0x0A])"
    unfolding reads_back_def json_decode_def by (auto dest: spec [where x = "[CHR 0x0A]"])
  then show ?thesis
    by (simp add: decode_profile_def profile_text_def dec_enc_profile)
qed

section \<open>Sealed and opened again\<close>

text \<open>What \<open>make_profile\<close> was made of.\<close>

lemma make_profile_cases:
  assumes "make_profile cl kl E username pass = Inr prof"
  obtains passKey unlocker dilPub dil kemPub kem lib libPub pid a dilEnc kemEnc libEnc where
    "GenPasskeys cl (pe_salt E) pass None = Inr (passKey, unlocker, None)"
    "new_sign_keys kl E = Inr (dilPub, dil)" "new_kem_keys kl E = Inr (kemPub, kem)"
    "new_p2p_keys kl E = Inr (lib, libPub, pid)" "DeriveChaChaKey cl passKey = Inr a"
    "SealAEAD (pe_nonce E 0) dil a = Inr dilEnc" "SealAEAD (pe_nonce E 1) kem a = Inr kemEnc"
    "SealAEAD (pe_nonce E 2) lib a = Inr libEnc"
    "prof = \<lparr>pr_Username = username, pr_PasswordSalt = None, pr_PasswordChecksum = Some unlocker,
       pr_DilithiumPrivEnc = Some dilEnc, pr_KyberPrivEnc = Some kemEnc,
       pr_Libp2pPrivEnc = Some libEnc, pr_PeerID = pid\<rparr>"
  using assms
  by (auto simp: make_profile_def GenPasskeys_def Let_def split: sum.splits prod.splits)

text \<open>Without a salt the two keys depend on nothing but the password.\<close>

lemma GenPasskeys_nil:
  "GenPasskeys cl rnd pass None = Inr (k, c, s) \<Longrightarrow> rnd' 16 = Inr b \<Longrightarrow>
   GenPasskeys cl rnd' pass None = Inr (k, c, s)"
  by (auto simp: GenPasskeys_def Let_def split: sum.splits)

lemma DeriveChaChaKey_aead:
  "chacha_ok cl \<Longrightarrow> DeriveChaChaKey cl k = Inr a \<Longrightarrow> aead_ok a \<and> ae_NonceSize a = 12"
  by (auto simp: chacha_ok_def DeriveChaChaKey_def split: if_splits dest!: spec [of _ k])

lemma restore_generated:
  assumes "keys_ok kl E" "new_sign_keys kl E = Inr (dilPub, dil)"
    "new_kem_keys kl E = Inr (kemPub, kem)" "new_p2p_keys kl E = Inr (lib, libPub, pid)"
  obtains k where
    "restore_keys kl draw prof dil kem lib =
       Inr (\<lparr>kb_DilithiumPriv = Some dil, kb_KyberPriv = Some kem, kb_Libp2pPriv = k\<rparr>,
            \<lparr>u_DilithiumPub = Some dilPub, u_KyberPub = Some kemPub, u_Libp2pPub = Some libPub,
             u_PeerID = pr_PeerID prof, u_Username = pr_Username prof,
             u_PreferredColor = GenerateRandomColor draw\<rparr>)"
    "kl_P2PUnmarshal kl lib = Inr k"
proof -
  have S: "\<exists>k' pub'. DeriveSignKey (kl_SignUnmarshal kl dil) (kl_SignPublic kl) (kl_SignPrivate kl)
      (kl_SignMarshalPub kl) = Inr (k', pub', dilPub)"
    using assms(1,2)
    by (fastforce simp: keys_ok_def new_sign_keys_def GenSignKey_def DeriveSignKey_def
        split: sum.splits prod.splits)
  have K: "\<exists>k' pub'. DeriveKEMKey (kl_KEMUnmarshal kl kem) (kl_KEMPublic kl) (kl_KEMMarshalPub kl)
      = Inr (k', pub', kemPub)"
    using assms(1,3)
    by (fastforce simp: keys_ok_def new_kem_keys_def GenKEMKey_def DeriveKEMKey_def
        split: sum.splits prod.splits)
  have "\<exists>k. kl_P2PUnmarshal kl lib = Inr k \<and> kl_P2PMarshalPub kl (kl_P2PPublic kl k) = Inr libPub"
    using assms(1,4)
    by (fastforce simp: keys_ok_def new_p2p_keys_def GenP2PKey_def split: sum.splits prod.splits)
  with S K show thesis
    by (auto simp: restore_keys_def DeriveP2PKey_def bytes_and_error_def intro: that)
qed

lemma new_p2p_utf8: "keys_ok kl E \<Longrightarrow> new_p2p_keys kl E = Inr (lib, libPub, pid) \<Longrightarrow> utf8_valid pid"
  by (fastforce simp: keys_ok_def new_p2p_keys_def GenP2PKey_def split: sum.splits prod.splits)

lemma make_profile_wf:
  assumes "make_profile cl kl E username pass = Inr prof" "keys_ok kl E" "utf8_valid username"
  shows "wf_profile prof"
  using assms by (elim make_profile_cases) (auto simp: wf_profile_def dest: new_p2p_utf8)

lemma make_profile_peer_id:
  "make_profile cl kl E username pass = Inr prof \<Longrightarrow> new_p2p_keys kl E = Inr (lib, libPub, pid) \<Longrightarrow>
   pr_PeerID prof = pid"
  by (elim make_profile_cases) simp

lemma unlock_generated:
  assumes "make_profile cl kl E username pass = Inr prof" "chacha_ok cl" "keys_ok kl E"
    "\<And>i. entropy_ok (pe_nonce E i)" "pe_salt E' 16 = Inr b"
  obtains dilPub dil kemPub kem lib libPub pid k where
    "new_sign_keys kl E = Inr (dilPub, dil)" "new_kem_keys kl E = Inr (kemPub, kem)"
    "new_p2p_keys kl E = Inr (lib, libPub, pid)" "kl_P2PUnmarshal kl lib = Inr k"
    "unlock_profile cl kl E' prof pass =
       Ret (Inr (\<lparr>kb_DilithiumPriv = Some dil, kb_KyberPriv = Some kem, kb_Libp2pPriv = k\<rparr>,
         \<lparr>u_DilithiumPub = Some dilPub, u_KyberPub = Some kemPub, u_Libp2pPub = Some libPub,
          u_PeerID = pid, u_Username = username, u_PreferredColor = GenerateRandomColor (pe_draw E')\<rparr>))"
  using assms(1)
proof (rule make_profile_cases)
  fix passKey unlocker dilPub dil kemPub kem lib libPub pid a dilEnc kemEnc libEnc
  assume key: "GenPasskeys cl (pe_salt E) pass None = Inr (passKey, unlocker, None)"
    and keys: "new_sign_keys kl E = Inr (dilPub, dil)" "new_kem_keys kl E = Inr (kemPub, kem)"
      "new_p2p_keys kl E = Inr (lib, libPub, pid)"
    and a: "DeriveChaChaKey cl passKey = Inr a"
    and sealed: "SealAEAD (pe_nonce E 0) dil a = Inr dilEnc"
      "SealAEAD (pe_nonce E 1) kem a = Inr kemEnc" "SealAEAD (pe_nonce E 2) lib a = Inr libEnc"
    and prof: "prof = \<lparr>pr_Username = username, pr_PasswordSalt = None,
       pr_PasswordChecksum = Some unlocker, pr_DilithiumPrivEnc = Some dilEnc,
       pr_KyberPrivEnc = Some kemEnc, pr_Libp2pPrivEnc = Some libEnc, pr_PeerID = pid\<rparr>"
  have ok: "aead_ok a" using DeriveChaChaKey_aead [OF assms(2) a] by simp
  have opened: "open_keys a prof = Ret (Inr (dil, kem, lib))"
    using sealed [THEN open_sealed [OF ok assms(4)]] by (simp add: open_keys_def prof)
  obtain k where k: "kl_P2PUnmarshal kl lib = Inr k"
    and restored: "restore_keys kl (pe_draw E') prof dil kem lib =
       Inr (\<lparr>kb_DilithiumPriv = Some dil, kb_KyberPriv = Some kem, kb_Libp2pPriv = k\<rparr>,
            \<lparr>u_DilithiumPub = Some dilPub, u_KyberPub = Some kemPub, u_Libp2pPub = Some libPub,
             u_PeerID = pr_PeerID prof, u_Username = pr_Username prof,
             u_PreferredColor = GenerateRandomColor (pe_draw E')\<rparr>)"
    using restore_generated [OF assms(3) keys] by metis
  have "unlock_profile cl kl E' prof pass = Ret (restore_keys kl (pe_draw E') prof dil kem lib)"
    using GenPasskeys_nil [where rnd = "pe_salt E" and rnd' = "pe_salt E'", OF key assms(5)] a opened
    by (simp add: unlock_profile_def prof)
  with restored prof show thesis by (intro that [OF keys k]) simp
qed

lemma GenerateProfile_cases:
  assumes "GenerateProfile cl kl E username pass fs = (Inr prof, fs')"
  obtains home where "make_profile cl kl E username pass = Inr prof" "pe_home E = Inr home"
    "fs' = fs(profile_path home username \<mapsto> profile_text prof)"
  using assms
  by (auto simp: GenerateProfile_def createProfilePath_def split: sum.splits option.splits)

lemma LoadProfile_unlocks:
  assumes "readable E" "pe_home E = Inr home" "fs (profile_path home username) = Some text"
    "decode_profile text = Inr prof"
  shows "LoadProfile cl kl E username pass [] fs = unlock_profile cl kl E prof pass"
  using assms by (auto simp: LoadProfile_def readable_def getProfilePath_def os_Open_def)

lemma generated_load:
  assumes "GenerateProfile cl kl E username pass fs = (Inr prof, fs')"
    and "keys_ok kl E" "utf8_valid username" "readable E'" "pe_home E' = pe_home E"
  shows "LoadProfile cl kl E' username pass' [] fs' = unlock_profile cl kl E' prof pass'"
  using assms(1)
proof (rule GenerateProfile_cases)
  fix home
  assume made: "make_profile cl kl E username pass = Inr prof" and home: "pe_home E = Inr home"
    and fs': "fs' = fs(profile_path home username \<mapsto> profile_text prof)"
  show ?thesis
    using decode_profile_text [OF make_profile_wf [OF made assms(2,3)]] assms(4,5) home fs'
    by (intro LoadProfile_unlocks) auto
qed

text \<open>
  C15. A profile that was generated is loaded with its password: the private keys are the ones that
  were drawn, the public keys belong to them, and the peer identifier and the name are those of the
  profile. The file goes through its JSON text and base64, the keys through the sealing.
\<close>

lemma profile_round_trip:
  assumes "GenerateProfile cl kl E username pass fs = (Inr prof, fs')"
    and "chacha_ok cl" "keys_ok kl E" "\<And>i. entropy_ok (pe_nonce E i)" "utf8_valid username"
    and "readable E'" "pe_home E' = pe_home E"
  shows "\<exists>dilPub dil kemPub kem lib libPub k.
    new_sign_keys kl E = Inr (dilPub, dil) \<and> new_kem_keys kl E = Inr (kemPub, kem)
    \<and> new_p2p_keys kl E = Inr (lib, libPub, pr_PeerID prof) \<and> kl_P2PUnmarshal kl lib = Inr k
    \<and> LoadProfile cl kl E' username pass [] fs' =
       Ret (Inr (\<lparr>kb_DilithiumPriv = Some dil, kb_KyberPriv = Some kem, kb_Libp2pPriv = k\<rparr>,
         \<lparr>u_DilithiumPub = Some dilPub, u_KyberPub = Some kemPub, u_Libp2pPub = Some libPub,
          u_PeerID = pr_PeerID prof, u_Username = username,
          u_PreferredColor = GenerateRandomColor (pe_draw E')\<rparr>))"
proof -
  have made: "make_profile cl kl E username pass = Inr prof"
    using assms(1) by (rule GenerateProfile_cases)
  obtain b where b: "pe_salt E' 16 = Inr b" using assms(6) by (auto simp: readable_def)
  obtain dilPub dil kemPub kem lib libPub pid k where
    keys: "new_sign_keys kl E = Inr (dilPub, dil)" "new_kem_keys kl E = Inr (kemPub, kem)"
      "new_p2p_keys kl E = Inr (lib, libPub, pid)" "kl_P2PUnmarshal kl lib = Inr k"
    and "unlock_profile cl kl E' prof pass =
       Ret (Inr (\<lparr>kb_DilithiumPriv = Some dil, kb_KyberPriv = Some kem, kb_Libp2pPriv = k\<rparr>,
         \<lparr>u_DilithiumPub = Some dilPub, u_KyberPub = Some kemPub, u_Libp2pPub = Some libPub,
          u_PeerID = pid, u_Username = username, u_PreferredColor = GenerateRandomColor (pe_draw E')\<rparr>))"
    by (rule unlock_generated [where E' = E', OF made assms(2-4) b])
  moreover have "pr_PeerID prof = pid" by (rule make_profile_peer_id [OF made keys(3)])
  moreover note generated_load [OF assms(1,3,5-7)]
  ultimately show ?thesis by simp
qed

text \<open>Surroundings in which everything works, with byte sequences as key objects.\<close>

definition sample_keys :: "bytes key_lib" where
  "sample_keys = \<lparr>kl_SignMarshalPub = Inr, kl_SignMarshalPriv = Inr, kl_SignUnmarshal = Inr,
     kl_SignPublic = Some, kl_SignPrivate = Some, kl_KEMMarshalPub = Inr, kl_KEMMarshalPriv = Inr,
     kl_KEMUnmarshal = Inr, kl_KEMPublic = Some, kl_P2PMarshalPub = Inr, kl_P2PMarshalPriv = Inr,
     kl_P2PUnmarshal = Inr, kl_P2PPublic = id, kl_PeerID = (\<lambda>k. Inr ''12D3KooW'')\<rparr>"

definition sample_profile_env :: "bytes profile_env" where
  "sample_profile_env = \<lparr>pe_GenSign = Inr ([1, 2], [1, 2]), pe_GenKEM = Inr ([3, 4, 5], [3, 4, 5]),
     pe_GenP2P = Inr ([6], [6]), pe_salt = (\<lambda>n. Inr (replicate n 9)),
     pe_nonce = (\<lambda>i n. Inr (replicate n (of_nat i))), pe_draw = 3, pe_home = Inr ''/root'',
     pe_mkdir = None, pe_create = None, pe_write = (\<lambda>text. None), pe_stat = None, pe_open = None,
     pe_read = None\<rparr>"

definition sample_profile :: profile where
  "sample_profile = \<lparr>pr_Username = ''ada'', pr_PasswordSalt = None,
     pr_PasswordChecksum = Some (cl_IDKey sample_lib (string_bytes ''pw'') [] 3 8192 2 32),
     pr_DilithiumPrivEnc = Some (replicate 12 0 @ [2, 1]),
     pr_KyberPrivEnc = Some (replicate 12 1 @ [5, 4, 3]),
     pr_Libp2pPrivEnc = Some (replicate 12 2 @ [6]), pr_PeerID = ''12D3KooW''\<rparr>"

lemma sample_profile_env_ok [simp]:
  "keys_ok sample_keys sample_profile_env" "entropy_ok (pe_nonce sample_profile_env i)"
  "readable sample_profile_env"
  by (auto simp: keys_ok_def sample_keys_def sample_profile_env_def entropy_ok_def readable_def
      utf8_valid_ascii)

lemma sample_profile_generated:
  "GenerateProfile sample_lib sample_keys sample_profile_env ''ada'' ''pw'' fs =
     (Inr sample_profile, fs(profile_path ''/root'' ''ada'' \<mapsto> profile_text sample_profile))"
proof -
  have "make_profile sample_lib sample_keys sample_profile_env ''ada'' ''pw'' = Inr sample_profile"
    by (simp add: make_profile_def GenPasskeys_def new_sign_keys_def GenSignKey_def new_kem_keys_def
        GenKEMKey_def new_p2p_keys_def GenP2PKey_def DeriveChaChaKey_def SealAEAD_def sample_lib_def
        sample_aead_def sample_keys_def sample_profile_env_def sample_profile_def)
  then show ?thesis
    by (simp add: GenerateProfile_def createProfilePath_def sample_profile_env_def)
qed

lemma profile_round_trip_witness:
  "\<exists>kb usr. LoadProfile sample_lib sample_keys sample_profile_env ''ada'' ''pw'' []
     (Map.empty(profile_path ''/root'' ''ada'' \<mapsto> profile_text sample_profile)) = Ret (Inr (kb, usr))
   \<and> u_Username usr = ''ada''"
proof -
  have "utf8_valid ''ada''" by (simp add: utf8_valid_ascii)
  from profile_round_trip [OF sample_profile_generated [of Map.empty] sample_lib_ok(2)
      sample_profile_env_ok(1,2) this sample_profile_env_ok(3) refl]
  show ?thesis by auto
qed

section \<open>Passwords and names\<close>

lemma make_profile_opens:
  assumes "make_profile cl kl E username pass = Inr prof" "chacha_ok cl"
    "\<And>i. entropy_ok (pe_nonce E i)"
    and "cl_chacha_New cl (cl_IDKey cl (string_bytes pass) [] 1 65536 4 32) = Inr a"
  shows "\<exists>keys. open_keys a prof = Ret (Inr keys)"
  using assms(1)
proof (rule make_profile_cases)
  fix passKey unlocker dil kem lib a' dilEnc kemEnc libEnc and pid :: string
  assume "GenPasskeys cl (pe_salt E) pass None = Inr (passKey, unlocker, None)"
    and a': "DeriveChaChaKey cl passKey = Inr a'"
    and sealed: "SealAEAD (pe_nonce E 0) dil a' = Inr dilEnc"
      "SealAEAD (pe_nonce E 1) kem a' = Inr kemEnc" "SealAEAD (pe_nonce E 2) lib a' = Inr libEnc"
    and prof: "prof = \<lparr>pr_Username = username, pr_PasswordSalt = None,
       pr_PasswordChecksum = Some unlocker, pr_DilithiumPrivEnc = Some dilEnc,
       pr_KyberPrivEnc = Some kemEnc, pr_Libp2pPrivEnc = Some libEnc, pr_PeerID = pid\<rparr>"
  with assms(4) have "a' = a"
    by (auto simp: GenPasskeys_def Let_def DeriveChaChaKey_def split: sum.splits)
  moreover have "aead_ok a'" using DeriveChaChaKey_aead [OF assms(2) a'] by simp
  ultimately show ?thesis
    using sealed [THEN open_sealed [OF \<open>aead_ok a'\<close> assms(3)]] by (simp add: open_keys_def prof)
qed

lemma make_profile_key:
  "make_profile cl kl E username pass = Inr prof \<Longrightarrow>
   pr_PasswordSalt prof = None
   \<and> pr_PasswordChecksum prof = Some (cl_IDKey cl (string_bytes pass) [] 3 8192 2 32)
   \<and> (\<exists>a. cl_chacha_New cl (cl_IDKey cl (string_bytes pass) [] 1 65536 4 32) = Inr a)"
  by (elim make_profile_cases)
    (auto simp: GenPasskeys_def Let_def DeriveChaChaKey_def split: sum.splits)

text \<open>
  C37. The salt is dropped: every profile has none, and two profiles with the same password, of
  whichever users and machines, have the same checksum and are opened by the same key.
\<close>

lemma profiles_share_password_keys:
  assumes "GenerateProfile cl kl E u pass fs = (Inr prof, fs')"
    and "GenerateProfile cl kl' E' u' pass gs = (Inr prof', gs')"
    and "chacha_ok cl" "\<And>i. entropy_ok (pe_nonce E i)" "\<And>i. entropy_ok (pe_nonce E' i)"
  shows "pr_PasswordSalt prof = None \<and> pr_PasswordChecksum prof = pr_PasswordChecksum prof'
    \<and> (\<exists>a keys keys'. cl_chacha_New cl (cl_IDKey cl (string_bytes pass) [] 1 65536 4 32) = Inr a
        \<and> open_keys a prof = Ret (Inr keys) \<and> open_keys a prof' = Ret (Inr keys'))"
proof -
  have made: "make_profile cl kl E u pass = Inr prof" "make_profile cl kl' E' u' pass = Inr prof'"
    using assms(1,2) by (auto elim: GenerateProfile_cases)
  then obtain a where
    "cl_chacha_New cl (cl_IDKey cl (string_bytes pass) [] 1 65536 4 32) = Inr a"
    using make_profile_key by blast
  with made make_profile_opens [OF made(1) assms(3,4)] make_profile_opens [OF made(2) assms(3,5)]
  show ?thesis by (auto dest!: make_profile_key)
qed

lemma profiles_share_password_keys_witness:
  "pr_PasswordChecksum sample_profile = pr_PasswordChecksum sample_profile
   \<and> (\<exists>a keys. cl_chacha_New sample_lib (cl_IDKey sample_lib (string_bytes ''pw'') [] 1 65536 4 32) = Inr a
        \<and> open_keys a sample_profile = Ret (Inr keys))"
  using profiles_share_password_keys [OF sample_profile_generated [of Map.empty]
      sample_profile_generated [of Map.empty] sample_lib_ok(2) sample_profile_env_ok(2,2)]
  by auto

text \<open>
  A profile whose first sealed key is shorter than a nonce makes loading panic, whatever the
  password; the fields of an empty JSON object are that short.
\<close>

lemma short_profile_panics:
  assumes "readable E" "pe_home E = Inr home" "fs (profile_path home username) = Some text"
    "decode_profile text = Inr prof"
    and "length (slice_bytes (pr_DilithiumPrivEnc prof)) < 12"
    and "chacha_ok cl" "idkey_ok cl"
  shows "LoadProfile cl kl E username pass [] fs = Panic Index_Out_Of_Range"
proof -
  obtain b where b: "pe_salt E 16 = Inr b" using assms(1) by (auto simp: readable_def)
  let ?k = "cl_IDKey cl (string_bytes pass) (slice_bytes (pr_PasswordSalt prof)) 1 65536 4 32"
  have "length ?k = 32" using assms(7) by (simp add: idkey_ok_def)
  with assms(6) obtain a where "cl_chacha_New cl ?k = Inr a" "ae_NonceSize a = 12"
    by (metis chacha_ok_def)
  moreover have "LoadProfile cl kl E username pass [] fs = unlock_profile cl kl E prof pass"
    using assms(1-4) by (rule LoadProfile_unlocks)
  moreover have "GenPasskeys cl (pe_salt E) pass (pr_PasswordSalt prof) = Inr (?k,
      cl_IDKey cl (string_bytes pass) (slice_bytes (pr_PasswordSalt prof)) 3 8192 2 32,
      pr_PasswordSalt prof)"
    using b by (simp add: GenPasskeys_def Let_def)
  ultimately show ?thesis
    using assms(5) by (simp add: unlock_profile_def DeriveChaChaKey_def open_keys_def OpenAEAD_def)
qed

lemma decode_empty_object: "decode_profile ''{}'' = Inr zero_profile"
  by code_simp

lemma short_profile_panics_witness:
  "LoadProfile sample_lib sample_keys sample_profile_env ''ada'' ''pw'' []
     (Map.empty(profile_path ''/root'' ''ada'' \<mapsto> ''{}'')) = Panic Index_Out_Of_Range"
  by (rule short_profile_panics [OF sample_profile_env_ok(3) _ _ decode_empty_object _ sample_lib_ok(2)])
    (auto simp: sample_profile_env_def zero_profile_def sample_lib_def idkey_ok_def)

lemma profile_name_cut [simp]:
  "IsJSONFile (u @ ''_profile.json'')" "take (length (u @ ''_profile.json'') - 13) (u @ ''_profile.json'') = u"
  by (simp_all add: IsJSONFile_def HasSuffix_def)

text \<open>The names of profile files are the users; other JSON files are cut like them.\<close>

lemma user_names_profiles: "user_names (map (\<lambda>u. (u @ ''_profile.json'', False)) us) = Ret us"
  by (induction us) (simp_all add: IsJSONFile_def HasSuffix_def)

text \<open>
  Listing the users panics exactly when a JSON file has a name shorter than the suffix of a
  profile, and otherwise lists every JSON file, cut by that length, be it a profile or not.
\<close>

lemma check_users_exact:
  assumes "readDir (home @ ''/.hillside'') = Inr files"
  shows "CheckUsers (Inr home) readDir =
    (let js = map fst (filter (\<lambda>(name, isDir). \<not> isDir \<and> IsJSONFile name) files)
     in if list_all (\<lambda>name. 13 \<le> length name) js
        then Ret (Inr (map (\<lambda>name. take (length name - 13) name) js))
        else Panic Index_Out_Of_Range)"
proof -
  have "user_names fs =
    (let js = map fst (filter (\<lambda>(name, isDir). \<not> isDir \<and> IsJSONFile name) fs)
     in if list_all (\<lambda>name. 13 \<le> length name) js
        then Ret (map (\<lambda>name. take (length name - 13) name) js) else Panic Index_Out_Of_Range)" for fs
    by (induction fs rule: user_names.induct) (auto simp: Let_def)
  with assms show ?thesis by (simp add: CheckUsers_def Let_def)
qed

lemma check_users_exact_witness:
  "CheckUsers (Inr ''/root'')
     (\<lambda>dir. Inr [(''ada_profile.json'', False), (''default_theme.json'', False)]) = Ret (Inr [''ada'', ''defau''])"
  by (subst check_users_exact [OF refl]) code_simp

end
