(* ===== verification/Node.thy ===== *)
theory Node
  imports Client_Rpc
begin

text \<open>
  p2p/node.go, the discovery in p2p/dht.go and client/lifecycle.go: starting the host, the DHT
  and pubsub, asking the hub, finding the peers of a room, and closing. The libraries' objects
  are known by numbers, and the state keeps which of them are running. What the libraries answer
  is an argument.
\<close>

section \<open>State\<close>

record 'key node_env =
  ne_New :: "'key option \<Rightarrow> string list \<Rightarrow> go_error option"
  ne_Connect :: "addr_info \<Rightarrow> go_error option"
  ne_NewDHT :: "addr_info \<Rightarrow> go_error option"
  ne_Bootstrap :: "go_error option"
  ne_NewGossipSub :: "go_error option"

text \<open>
  \<open>nd_running\<close>, \<open>nd_running_dht\<close> and \<open>nd_running_ps\<close> hold the hosts, DHTs and pubsub services
  that were started and not closed, \<open>nd_next\<close> the next number.
\<close>

record 'key node =
  nd_Host :: "nat option"
  nd_DHT :: "nat option"
  nd_PS :: "nat option"
  nd_PK :: "'key option"
  nd_Hub :: "addr_info option"
  nd_running :: "nat list"
  nd_running_dht :: "nat list"
  nd_running_ps :: "nat list"
  nd_next :: nat

type_synonym 'key node_result = "(go_error option \<times> 'key node) go"

section \<open>Starting\<close>

definition InitHost :: "'key node_env \<Rightarrow> string list \<Rightarrow> 'key node \<Rightarrow> go_error option \<times> 'key node" where
  "InitHost E listenAddrs n =
     (case ne_New E (nd_PK n) listenAddrs of
        Some err \<Rightarrow> (Some err, n)
      | None \<Rightarrow> (None, n\<lparr>nd_Host := Some (nd_next n), nd_running := nd_running n @ [nd_next n],
                     nd_next := nd_next n + 1\<rparr>))"

text \<open>The DHT is kept when its bootstrap fails.\<close>

definition InitDHT :: "'key node_env \<Rightarrow> 'key node \<Rightarrow> 'key node_result" where
  "InitDHT E n =
     go_bind (need (nd_Hub n)) (\<lambda>hub.
       Ret (case ne_NewDHT E hub of
              Some err \<Rightarrow> (Some err, n)
            | None \<Rightarrow> (ne_Bootstrap E, n\<lparr>nd_DHT := Some (nd_next n),
                         nd_running_dht := nd_running_dht n @ [nd_next n], nd_next := nd_next n + 1\<rparr>)))"

definition InitPubSub :: "'key node_env \<Rightarrow> 'key node \<Rightarrow> go_error option \<times> 'key node" where
  "InitPubSub E n =
     (case ne_NewGossipSub E of
        Some err \<Rightarrow> (Some err, n)
      | None \<Rightarrow> (None, n\<lparr>nd_PS := Some (nd_next n), nd_running_ps := nd_running_ps n @ [nd_next n],
                     nd_next := nd_next n + 1\<rparr>))"

definition InitNode :: "'key node_env \<Rightarrow> 'key node \<Rightarrow> 'key node_result" where
  "InitNode E n =
     (case InitHost E [''/ip4/0.0.0.0/tcp/0''] n of
        (Some err, n1) \<Rightarrow> Ret (Some err, n1)
      | (None, n1) \<Rightarrow>
          go_bind (need (nd_Hub n1)) (\<lambda>hub.
            case ne_Connect E hub of
              Some err \<Rightarrow> Ret (Some err, n1)
            | None \<Rightarrow>
                go_bind (InitDHT E n1) (\<lambda>(err, n2).
                  if err \<noteq> None then Ret (err, n2)
                  else Ret (InitPubSub E n2))))"

section \<open>Requests and peers\<close>

text \<open>
  A request to the hub: opening a stream and what comes back for the text that is written are
  arguments, with the outcome of decoding left to \<open>dec\<close>.
\<close>

definition SendRPC ::
  "go_error option \<Rightarrow> (string \<Rightarrow> string result) \<Rightarrow> 'a decoder \<Rightarrow> 'a \<Rightarrow> 'a rpc"
where
  "SendRPC newStream exchange dec zero method params =
     (case newStream of
        Some err \<Rightarrow> Inl err
      | None \<Rightarrow>
          (case exchange (rpc_text method params) of
             Inl err \<Rightarrow> Inl err
           | Inr answer \<Rightarrow>
               (case json_decode answer of
                  None \<Rightarrow> Inl json_error
                | Some (j, rest) \<Rightarrow>
                    (let (ok, v) = dec j zero in if ok then Inr v else Inl json_error))))"

definition AdvertiseRoom :: "(string \<Rightarrow> go_error option) \<Rightarrow> string \<Rightarrow> string \<Rightarrow> go_error option" where
  "AdvertiseRoom advertise serverID roomID = advertise (RendezvousString serverID roomID)"

fun connected_peers :: "(addr_info \<Rightarrow> go_error option) \<Rightarrow> string \<Rightarrow> addr_info list \<Rightarrow> addr_info list" where
  "connected_peers connect self [] = []"
| "connected_peers connect self (p # ps) =
     (if ai_ID p = self then connected_peers connect self ps
      else if connect p = None then p # connected_peers connect self ps
      else connected_peers connect self ps)"

definition DiscoverPeers ::
  "(string \<Rightarrow> addr_info list result) \<Rightarrow> (addr_info \<Rightarrow> go_error option) \<Rightarrow> string \<Rightarrow> string \<Rightarrow> string
     \<Rightarrow> addr_info list result"
where
  "DiscoverPeers findPeers connect self serverID roomID =
     (case findPeers (RendezvousString serverID roomID) of
        Inl err \<Rightarrow> Inl err
      | Inr ps \<Rightarrow> Inr (connected_peers connect self ps))"

section \<open>Closing\<close>

text \<open>
  \<open>Shutdown\<close>: the host and the DHT of the node are closed, whatever they answer. \<open>Ctx.Done()\<close>
  only returns a channel, so the context is not cancelled, and pubsub, which would end with the
  context, is not closed either.
\<close>

definition Shutdown :: "'key node \<Rightarrow> 'key node" where
  "Shutdown n =
     n\<lparr>nd_running := (case nd_Host n of None \<Rightarrow> nd_running n | Some h \<Rightarrow> removeAll h (nd_running n)),
       nd_running_dht := (case nd_DHT n of None \<Rightarrow> nd_running_dht n | Some d \<Rightarrow> removeAll d (nd_running_dht n))\<rparr>"

section \<open>Correctness\<close>

text \<open>What holds of a node in every state: objects have numbers below the next one.\<close>

definition node_ok :: "'key node \<Rightarrow> bool" where
  "node_ok n \<longleftrightarrow>
     (\<forall>h \<in> set (nd_running n) \<union> set (nd_running_dht n). h < nd_next n)
     \<and> distinct (nd_running n) \<and> distinct (nd_running_dht n)
     \<and> (\<forall>h. nd_Host n = Some h \<longrightarrow> h < nd_next n) \<and> (\<forall>d. nd_DHT n = Some d \<longrightarrow> d < nd_next n)"

lemma node_ok_InitHost: "node_ok n \<Longrightarrow> InitHost E addrs n = (err, n1) \<Longrightarrow> node_ok n1"
  by (auto simp: InitHost_def node_ok_def less_Suc_eq split: option.splits)

lemma node_ok_InitDHT: "node_ok n \<Longrightarrow> InitDHT E n = Ret (err, n1) \<Longrightarrow> node_ok n1"
  by (auto simp: InitDHT_def node_ok_def outcome_simps less_Suc_eq split: option.splits)

lemma node_ok_InitPubSub: "node_ok n \<Longrightarrow> InitPubSub E n = (err, n1) \<Longrightarrow> node_ok n1"
  by (auto simp: InitPubSub_def node_ok_def less_Suc_eq split: option.splits)

text \<open>The stages of a start that does not panic.\<close>

lemma InitNode_cases:
  assumes "InitNode E n = Ret (err, n')"
  obtains (no_host) e where "err = Some e" "InitHost E [''/ip4/0.0.0.0/tcp/0''] n = (Some e, n')"
  | (no_hub) n1 e where "err = Some e" "InitHost E [''/ip4/0.0.0.0/tcp/0''] n = (None, n1)" "n' = n1"
  | (no_dht) n1 e where "err = Some e" "InitHost E [''/ip4/0.0.0.0/tcp/0''] n = (None, n1)"
      "InitDHT E n1 = Ret (Some e, n')"
  | (up) n1 n2 where "InitHost E [''/ip4/0.0.0.0/tcp/0''] n = (None, n1)" "InitDHT E n1 = Ret (None, n2)"
      "InitPubSub E n2 = (err, n')"
proof (cases "InitHost E [''/ip4/0.0.0.0/tcp/0''] n")
  case (Pair e n1)
  show thesis
  proof (cases e)
    case (Some x)
    with Pair assms show thesis by (intro no_host [of x]) (auto simp: InitNode_def)
  next
    case None
    with Pair assms obtain hub where hub: "need (nd_Hub n1) = Ret hub"
      and rest: "(case ne_Connect E hub of Some err \<Rightarrow> Ret (Some err, n1)
        | None \<Rightarrow> go_bind (InitDHT E n1) (\<lambda>(err, n2). if err \<noteq> None then Ret (err, n2) else Ret (InitPubSub E n2)))
        = Ret (err, n')"
      by (auto simp: InitNode_def outcome_simps)
    show thesis
    proof (cases "ne_Connect E hub")
      case (Some x)
      with Pair None rest show thesis by (intro no_hub [of x n1]) auto
    next
      case connected: None
      with rest obtain e2 n2 where dht: "InitDHT E n1 = Ret (e2, n2)"
        and last: "(if e2 \<noteq> None then Ret (e2, n2) else Ret (InitPubSub E n2)) = Ret (err, n')"
        by (auto simp: outcome_simps)
      show thesis
      proof (cases e2)
        case (Some x)
        with dht last Pair None show thesis by (intro no_dht [of x n1]) auto
      next
        case up_to_dht: None
        with dht last Pair None show thesis by (intro up [of n1 n2]) auto
      qed
    qed
  qed
qed

lemma node_ok_InitNode:
  assumes "node_ok n" "InitNode E n = Ret (err, n')"
  shows "node_ok n'"
  using assms(2)
proof (cases rule: InitNode_cases)
  case (up n1 n2)
  then show ?thesis
    using assms(1) by (metis node_ok_InitHost node_ok_InitDHT node_ok_InitPubSub)
qed (use assms(1) in \<open>blast dest: node_ok_InitHost node_ok_InitDHT\<close>)+

lemma node_ok_Shutdown: "node_ok n \<Longrightarrow> node_ok (Shutdown n)"
  by (auto simp: Shutdown_def node_ok_def distinct_removeAll split: option.splits)

lemma InitHost_up:
  "InitHost E addrs n = (None, n1) \<Longrightarrow> nd_Host n1 = Some (nd_next n) \<and> nd_running n1 = nd_running n @ [nd_next n]
     \<and> nd_running_dht n1 = nd_running_dht n \<and> nd_running_ps n1 = nd_running_ps n \<and> nd_next n1 = nd_next n + 1"
  by (auto simp: InitHost_def split: option.splits)

lemma InitDHT_keeps:
  "InitDHT E n = Ret (err, n1) \<Longrightarrow> nd_Host n1 = nd_Host n \<and> nd_running n1 = nd_running n
     \<and> nd_running_ps n1 = nd_running_ps n
     \<and> (err = None \<longrightarrow> nd_DHT n1 = Some (nd_next n) \<and> nd_running_dht n1 = nd_running_dht n @ [nd_next n])"
  by (auto simp: InitDHT_def outcome_simps split: option.splits)

lemma InitPubSub_keeps:
  "InitPubSub E n = (err, n1) \<Longrightarrow> nd_Host n1 = nd_Host n \<and> nd_running n1 = nd_running n
     \<and> nd_DHT n1 = nd_DHT n \<and> nd_running_dht n1 = nd_running_dht n \<and> (err = None \<longrightarrow>
        (\<exists>ps. nd_PS n1 = Some ps \<and> nd_running_ps n1 = nd_running_ps n @ [ps]))"
  by (cases "ne_NewGossipSub E") (auto simp: InitPubSub_def dest: sym)

text \<open>
  C26. A node that started has its host, DHT and pubsub, and all three run. Shutting down closes the
  host and the DHT of that start and nothing that ran before; the pubsub service of that start it
  leaves running.
\<close>

lemma shutdown_leaves_pubsub:
  assumes "InitNode E n = Ret (None, n')" "node_ok n"
  shows "\<exists>h d ps. nd_Host n' = Some h \<and> nd_running n' = nd_running n @ [h]
      \<and> nd_DHT n' = Some d \<and> nd_running_dht n' = nd_running_dht n @ [d]
      \<and> nd_PS n' = Some ps \<and> nd_running_ps n' = nd_running_ps n @ [ps]
      \<and> nd_running (Shutdown n') = nd_running n \<and> nd_running_dht (Shutdown n') = nd_running_dht n
      \<and> nd_running_ps (Shutdown n') = nd_running_ps n @ [ps]"
  using assms(1)
proof (cases rule: InitNode_cases)
  case (up n1 n2)
  have "\<forall>h \<in> set (nd_running n) \<union> set (nd_running_dht n). h < nd_next n"
    using assms(2) by (simp add: node_ok_def)
  then have "nd_next n \<notin> set (nd_running n)" "nd_next n + 1 \<notin> set (nd_running_dht n)"
    by (meson UnI1 less_irrefl, meson UnI2 not_add_less1)
  then show ?thesis
    using InitHost_up [OF up(1)] InitDHT_keeps [OF up(2)] InitPubSub_keeps [OF up(3)]
    by (auto simp: Shutdown_def removeAll_id)
qed simp_all

text \<open>
  A start that fails after the host was made leaves the host running, and it stays running
  after a later start that succeeds and after the shutdown.
\<close>

lemma failed_start_leaks_host:
  assumes "InitNode E n = Ret (Some e, n1)" "ne_New E (nd_PK n) [''/ip4/0.0.0.0/tcp/0''] = None"
    and "InitNode E' n1 = Ret (None, n2)" "node_ok n"
  shows "nd_next n \<in> set (nd_running (Shutdown n2))"
proof -
  have "nd_running n1 = nd_running n @ [nd_next n]"
    using assms(1)
  proof (cases rule: InitNode_cases)
    case (no_host e)
    then show ?thesis using assms(2) by (auto simp: InitHost_def split: option.splits)
  qed (auto dest!: InitHost_up InitDHT_keeps InitPubSub_keeps)
  moreover have "nd_running (Shutdown n2) = nd_running n1"
    using assms(3)
  proof (cases rule: InitNode_cases)
    case (up m1 m2)
    have "node_ok n1" using assms(4,1) by (rule node_ok_InitNode)
    then have "nd_next n1 \<notin> set (nd_running n1)" by (auto simp: node_ok_def)
    then show ?thesis
      using InitHost_up [OF up(1)] InitDHT_keeps [OF up(2)] InitPubSub_keeps [OF up(3)]
      by (auto simp: Shutdown_def removeAll_id split: option.splits)
  qed simp_all
  ultimately show ?thesis by simp
qed

text \<open>Peers of a room are those that were found, are not the node itself and can be reached.\<close>

lemma connected_peers_filter:
  "connected_peers connect self ps = filter (\<lambda>p. ai_ID p \<noteq> self \<and> connect p = None) ps"
  by (induction ps) auto

lemma json_decode_line: "wf_json j \<Longrightarrow> json_decode (jprint j @ [CHR 0x0A]) = Some (j, [CHR 0x0A])"
proof -
  assume "wf_json j"
  moreover have "value_end [CHR 0x0A]" by (simp add: value_end_def is_digit_def)
  ultimately show ?thesis
    using wf_json_reads_back [of j] by (simp add: reads_back_def json_decode_def)
qed

text \<open>A request is answered with what was encoded on the other side.\<close>

lemma SendRPC_answer:
  assumes "wf_json (enc x)" "dec (enc x) zero = (True, x)"
    and "exchange (rpc_text method params) = Inr (jprint (enc x) @ [CHR 0x0A])"
  shows "SendRPC None exchange dec zero method params = Inr x"
  using assms by (simp add: SendRPC_def json_decode_line)

section \<open>Witnesses\<close>

definition sample_node_env :: "unit node_env" where
  "sample_node_env = \<lparr>ne_New = (\<lambda>pk addrs. None), ne_Connect = (\<lambda>hub. None), ne_NewDHT = (\<lambda>hub. None),
     ne_Bootstrap = None, ne_NewGossipSub = None\<rparr>"

definition sample_node :: "unit node" where
  "sample_node = \<lparr>nd_Host = None, nd_DHT = None, nd_PS = None, nd_PK = Some (),
     nd_Hub = Some \<lparr>ai_ID = ''hub'', ai_Addrs = []\<rparr>, nd_running = [], nd_running_dht = [], nd_running_ps = [], nd_next = 0\<rparr>"

lemmas sample_node_simps = sample_node_env_def sample_node_def node_ok_def InitNode_def InitHost_def
  InitDHT_def InitPubSub_def need_def

lemma shutdown_leaves_pubsub_witness:
  "\<exists>n' ps. InitNode sample_node_env sample_node = Ret (None, n') \<and> nd_running (Shutdown n') = []
     \<and> nd_running_ps (Shutdown n') = [ps]"
proof -
  obtain n' where "InitNode sample_node_env sample_node = Ret (None, n')"
    by (simp add: sample_node_simps)
  moreover have "node_ok sample_node" by (simp add: sample_node_simps)
  ultimately show ?thesis
    using shutdown_leaves_pubsub [of sample_node_env sample_node n'] by (auto simp: sample_node_def)
qed

lemma failed_start_leaks_host_witness:
  "\<exists>n1 n2. InitNode (sample_node_env\<lparr>ne_Connect := (\<lambda>hub. Some (Errorf ''no route''))\<rparr>) sample_node
      = Ret (Some (Errorf ''no route''), n1)
    \<and> InitNode sample_node_env n1 = Ret (None, n2) \<and> 0 \<in> set (nd_running (Shutdown n2))"
proof -
  let ?E = "sample_node_env\<lparr>ne_Connect := (\<lambda>hub. Some (Errorf ''no route''))\<rparr>"
  let ?n1 = "sample_node\<lparr>nd_Host := Some 0, nd_running := [0], nd_next := 1\<rparr>"
  have 1: "InitNode ?E sample_node = Ret (Some (Errorf ''no route''), ?n1)"
    by (simp add: sample_node_simps)
  obtain n2 where 2: "InitNode sample_node_env ?n1 = Ret (None, n2)"
    by (simp add: sample_node_simps)
  have "ne_New ?E (nd_PK sample_node) [''/ip4/0.0.0.0/tcp/0''] = None" "node_ok sample_node"
    by (simp_all add: sample_node_simps)
  from failed_start_leaks_host [OF 1 this(1) 2 this(2)] 1 2 show ?thesis
    by (auto simp: sample_node_def)
qed

end
