(* ===== verification/Open_Store.thy ===== *)
theory Open_Store
  imports History Auth_Store
begin

text \<open>
  storage/storage.go: opening the database of a user and its schema. The engine is an argument:
  what it answers to opening, pinging and each statement. A handle that is open is an entry of a
  list, so that what is left open can be told.
\<close>

section \<open>The engine\<close>

text \<open>The statements that are executed while a database is opened.\<close>

datatype statement =
    Journal_Wal | Synchronous_Normal | Foreign_Keys_On | Busy_Timeout
  | Create_Messages_And_Peers | Create_Room_Auth

record db_env =
  de_home :: "string result"
  de_missing :: "string \<Rightarrow> bool"
  de_Open :: "string \<Rightarrow> go_error option"
  de_Ping :: "go_error option"
  de_Exec :: "statement \<Rightarrow> go_error option"
  de_tables :: "string \<Rightarrow> msg_table \<times> peer_table \<times> auth_table"

text \<open>The handles that are open, by the path of their file.\<close>

type_synonym handles = "string list"

section \<open>Opening\<close>

text \<open>A store is a handle on its file.\<close>

type_synonym store = string

definition Close :: "store option \<Rightarrow> handles \<Rightarrow> handles" where
  "Close s hs = (case s of None \<Rightarrow> hs | Some path \<Rightarrow> remove1 path hs)"

text \<open>The pragmas, each with the text its failure is wrapped in; the handle is closed then.\<close>

definition pragmas :: "(statement \<times> string) list" where
  "pragmas =
     [(Journal_Wal, ''enable WAL: ''), (Synchronous_Normal, ''set synchronous: ''),
      (Foreign_Keys_On, ''enable foreign_keys: ''), (Busy_Timeout, ''set busy_timeout: '')]"

fun run_pragmas :: "db_env \<Rightarrow> (statement \<times> string) list \<Rightarrow> store \<Rightarrow> handles \<Rightarrow> store result \<times> handles" where
  "run_pragmas E [] db hs = (Inr db, hs)"
| "run_pragmas E ((st, what) # sts) db hs =
     (case de_Exec E st of
        Some err \<Rightarrow> (Inl (wrapf what err), Close (Some db) hs)
      | None \<Rightarrow> run_pragmas E sts db hs)"

definition NewSQLiteStore :: "db_env \<Rightarrow> string \<Rightarrow> handles \<Rightarrow> store result \<times> handles" where
  "NewSQLiteStore E dsn hs =
     (case de_Open E dsn of
        Some err \<Rightarrow> (Inl (wrapf ''open sqlite: '' err), hs)
      | None \<Rightarrow>
          (case de_Ping E of
             Some err \<Rightarrow> (Inl (wrapf ''ping sqlite: '' err), Close (Some dsn) (dsn # hs))
           | None \<Rightarrow> run_pragmas E pragmas dsn (dsn # hs)))"

definition MigrateAuth :: "db_env \<Rightarrow> go_error option" where
  "MigrateAuth E = de_Exec E Create_Room_Auth"

definition Migrate :: "db_env \<Rightarrow> go_error option" where
  "Migrate E =
     (case de_Exec E Create_Messages_And_Peers of Some err \<Rightarrow> Some err | None \<Rightarrow> MigrateAuth E)"

record session_db =
  sd_Store :: store
  sd_History :: "(messageWriteRequest, history) worker"
  sd_Peers :: "(user, peer_table) worker"
  sd_Auth :: auth_table

definition InitSessionDB :: "db_env \<Rightarrow> string \<Rightarrow> string \<Rightarrow> nat \<Rightarrow> handles \<Rightarrow> session_db result \<times> handles" where
  "InitSessionDB E username dbPath writeQSize hs =
     (case de_home E of
        Inl err \<Rightarrow> (Inl err, hs)
      | Inr homeDir \<Rightarrow>
          (let path = (if dbPath \<noteq> [] then dbPath
                       else homeDir @ ''/.hillside/'' @ ''hillside_data_'' @ username @ ''.db'')
           in if de_missing E (homeDir @ ''/.hillside/'')
              then (Inl (WithDetails ErrCannotConnect ''Base directory does not exist''), hs)
              else
                (case NewSQLiteStore E path hs of
                   (Inl err, hs1) \<Rightarrow> (Inl (wrapf ''init  '' err), hs1)
                 | (Inr store, hs1) \<Rightarrow>
                     (case Migrate E of
                        Some err \<Rightarrow> (Inl err, Close (Some store) hs1)
                      | None \<Rightarrow>
                          (let (msgs, peers, auths) = de_tables E path
                           in (Inr \<lparr>sd_Store = store, sd_History = NewHistoryManager writeQSize msgs,
                                 sd_Peers = NewPeerManager writeQSize peers, sd_Auth = auths\<rparr>, hs1))))))"

section \<open>Correctness\<close>

lemma Close_Cons [simp]: "Close (Some path) (path # hs) = hs"
  by (simp add: Close_def)

lemma run_pragmas_handles:
  "run_pragmas E sts db (db # hs) = (r, hs') \<Longrightarrow>
     (case r of Inl e \<Rightarrow> hs' = hs | Inr s \<Rightarrow> s = db \<and> hs' = db # hs)
   \<and> ((\<exists>s. r = Inr s) \<longleftrightarrow> (\<forall>(st, what) \<in> set sts. de_Exec E st = None))"
  by (induction E sts db "db # hs" rule: run_pragmas.induct) (auto split: option.splits)

lemma NewSQLiteStore_handles:
  assumes "NewSQLiteStore E dsn hs = (r, hs')"
  shows "case r of Inl e \<Rightarrow> hs' = hs | Inr s \<Rightarrow> s = dsn \<and> hs' = dsn # hs"
  using assms
  by (auto simp: NewSQLiteStore_def dest!: run_pragmas_handles split: option.splits)

text \<open>
  Opening a user's database opens one handle and keeps it exactly when it succeeds: whatever
  step fails, no handle is left open, and on success both managers are running on the tables
  of the file with empty queues of the size asked for.
\<close>

lemma session_db_opens_one_handle:
  assumes "InitSessionDB E username dbPath n hs = (r, hs')"
  shows "case r of
      Inl e \<Rightarrow> hs' = hs
    | Inr db \<Rightarrow> hs' = sd_Store db # hs
        \<and> wk_queue (sd_History db) = [] \<and> wk_capacity (sd_History db) = n \<and> wk_mode (sd_History db) = Running
        \<and> wk_queue (sd_Peers db) = [] \<and> wk_capacity (sd_Peers db) = n \<and> wk_mode (sd_Peers db) = Running
        \<and> (hi_db (wk_target (sd_History db)), wk_target (sd_Peers db), sd_Auth db) = de_tables E (sd_Store db)"
  using assms
  by (auto simp: InitSessionDB_def Let_def NewHistoryManager_def NewPeerManager_def new_worker_def
      dest!: NewSQLiteStore_handles split: sum.splits if_splits option.splits prod.splits)

text \<open>An engine on which everything works, with empty tables.\<close>

definition sample_db_env :: db_env where
  "sample_db_env = \<lparr>de_home = Inr ''/root'', de_missing = (\<lambda>dir. False), de_Open = (\<lambda>dsn. None),
     de_Ping = None, de_Exec = (\<lambda>st. None),
     de_tables = (\<lambda>path. (\<lparr>t_rows = [], t_seq = 0\<rparr>, \<lparr>t_rows = [], t_seq = 0\<rparr>, \<lparr>t_rows = [], t_seq = 0\<rparr>))\<rparr>"

lemma sample_db_opens:
  "\<exists>db hs'. InitSessionDB sample_db_env u [] n hs = (Inr db, hs')"
  by (simp add: InitSessionDB_def NewSQLiteStore_def pragmas_def Migrate_def MigrateAuth_def
      sample_db_env_def Let_def)

lemma session_db_opens_one_handle_witness:
  "\<exists>db. InitSessionDB sample_db_env ''ada'' [] 1024 [] = (Inr db, [sd_Store db])"
proof -
  obtain db hs' where "InitSessionDB sample_db_env ''ada'' [] 1024 [] = (Inr db, hs')"
    using sample_db_opens by blast
  with session_db_opens_one_handle [OF this] show ?thesis by simp
qed

end
