(* ===== verification/Login.thy ===== *)
theory Login
  imports Profile Node Open_Store
begin

text \<open>
  LoginHandler, CreateUserHandler and SwitchToBrowseScreen of client/handlers.go: from a user's
  password to a connected node on the browse screen. Parsing the hub's address, the database engine
  and the network are parameters. What a handler does in the goroutine it starts is a
  function of its own, \<open>connect_session\<close>.
\<close>

section \<open>State\<close>

text \<open>
  What the handlers read from the outside: the surroundings of the profile while it is made and
  while it is loaded, the address parser, the database engine and the network.
\<close>

record 'key login_env =
  le_lib :: crypto_lib
  le_keys :: "'key key_lib"
  le_generate :: "'key profile_env"
  le_load :: "'key profile_env"
  le_parse :: "string \<Rightarrow> addr_info result"
  le_db :: db_env
  le_node :: "'key node_env"

text \<open>The parts of the client that logging in sets, and the open handles and files of the system.\<close>

record 'key login =
  lg_User :: "user option"
  lg_Keybag :: "'key keybag option"
  lg_Node :: "'key node"
  lg_SessionDB :: "session_db option"
  lg_BrowseHub :: string
  lg_Page :: string
  lg_Dialogs :: "(string \<times> string) list"
  lg_files :: files
  lg_handles :: handles

definition login_dialog :: "string \<Rightarrow> string \<Rightarrow> 'key login \<Rightarrow> 'key login" where
  "login_dialog title msg s = s\<lparr>lg_Dialogs := lg_Dialogs s @ [(title, msg)]\<rparr>"

section \<open>The handlers\<close>

text \<open>Starting the refresh of the list of servers is left to the caller.\<close>

definition SwitchToBrowseScreen :: "string \<Rightarrow> 'key login \<Rightarrow> 'key login" where
  "SwitchToBrowseScreen hub s = s\<lparr>lg_BrowseHub := hub, lg_Page := ''browse''\<rparr>"

text \<open>The goroutine: the store is kept even when the node does not start.\<close>

definition connect_session :: "'key login_env \<Rightarrow> string \<Rightarrow> string \<Rightarrow> 'key login \<Rightarrow> 'key login go" where
  "connect_session E username hub s =
     (case InitSessionDB (le_db E) username [] 1024 (lg_handles s) of
        (Inl err, hs) \<Rightarrow>
          Ret (login_dialog ''Storage Init Failed'' (''Failed to initialize storage: '' @ Error_text err)
            (s\<lparr>lg_handles := hs\<rparr>))
      | (Inr db, hs) \<Rightarrow>
          go_bind (InitNode (le_node E) (lg_Node s)) (\<lambda>(err, n).
            let s1 = s\<lparr>lg_handles := hs, lg_SessionDB := Some db, lg_Node := n\<rparr>
            in Ret (case err of
                      Some e \<Rightarrow> login_dialog ''Node init failed'' (Error_text e) s1
                    | None \<Rightarrow> SwitchToBrowseScreen hub s1)))"

text \<open>
  The common end of both handlers, from loading the profile on. The boolean tells whether the
  goroutine is started. User and key bag are set before the address is parsed.
\<close>

definition load_and_connect ::
  "'key login_env \<Rightarrow> string \<Rightarrow> string \<Rightarrow> string \<Rightarrow> 'key login \<Rightarrow> (bool \<times> 'key login) go"
where
  "load_and_connect E username password hub s =
     go_bind (LoadProfile (le_lib E) (le_keys E) (le_load E) username password [] (lg_files s)) (\<lambda>r.
       Ret (case r of
              Inl err \<Rightarrow> (False, login_dialog ''Login failed'' (Error_text err) s)
            | Inr (kb, usr) \<Rightarrow>
                (let s1 = s\<lparr>lg_User := Some usr, lg_Keybag := Some kb\<rparr>
                 in case le_parse E hub of
                      Inl err \<Rightarrow>
                        (False, login_dialog ''Invalid Hub Address''
                           (''Failed to parse hub address: '' @ Error_text err) s1)
                    | Inr hubadrr \<Rightarrow>
                        (True, s1\<lparr>lg_Node := (lg_Node s1)\<lparr>nd_Hub := Some hubadrr,
                                nd_PK := Some (kb_Libp2pPriv kb)\<rparr>\<rparr>))))"

definition LoginHandler ::
  "'key login_env \<Rightarrow> string \<Rightarrow> string \<Rightarrow> string \<Rightarrow> 'key login \<Rightarrow> (bool \<times> 'key login) go"
where
  "LoginHandler E username password hub s =
     (if username = [] \<or> password = []
      then Ret (False, login_dialog ''Error'' ''Username and password cannot be empty'' s)
      else load_and_connect E username password hub s)"

definition CreateUserHandler ::
  "'key login_env \<Rightarrow> string \<Rightarrow> string \<Rightarrow> string \<Rightarrow> 'key login \<Rightarrow> (bool \<times> 'key login) go"
where
  "CreateUserHandler E username password hub s =
     (if username = [] \<or> password = []
      then Ret (False, login_dialog ''Error'' ''Username and password cannot be empty'' s)
      else
        (case GenerateProfile (le_lib E) (le_keys E) (le_generate E) username password (lg_files s) of
           (Inl err, fs) \<Rightarrow>
             Ret (False, login_dialog ''Create user failed'' (Error_text err) (s\<lparr>lg_files := fs\<rparr>))
         | (Inr _, fs) \<Rightarrow> load_and_connect E username password hub (s\<lparr>lg_files := fs\<rparr>)))"

text \<open>A handler and then, when it was started, the goroutine.\<close>

definition then_connect ::
  "'key login_env \<Rightarrow> string \<Rightarrow> string \<Rightarrow> (bool \<times> 'key login) go \<Rightarrow> 'key login go"
where
  "then_connect E username hub r =
     go_bind r (\<lambda>(started, s). if started then connect_session E username hub s else Ret s)"

section \<open>Correctness\<close>

lemma login_dialog_simps [simp]:
  "lg_User (login_dialog t m s) = lg_User s" "lg_Keybag (login_dialog t m s) = lg_Keybag s"
  "lg_Page (login_dialog t m s) = lg_Page s" "lg_files (login_dialog t m s) = lg_files s"
  "lg_SessionDB (login_dialog t m s) = lg_SessionDB s" "lg_Node (login_dialog t m s) = lg_Node s"
  "lg_Dialogs (login_dialog t m s) = lg_Dialogs s @ [(t, m)]"
  by (simp_all add: login_dialog_def)

text \<open>The two environments of a login: the same libraries, and the same home directory.\<close>

definition login_ok :: "'key login_env \<Rightarrow> bool" where
  "login_ok E \<longleftrightarrow>
     chacha_ok (le_lib E) \<and> keys_ok (le_keys E) (le_generate E)
     \<and> (\<forall>i. entropy_ok (pe_nonce (le_generate E) i))
     \<and> readable (le_load E) \<and> pe_home (le_load E) = pe_home (le_generate E)"

text \<open>Up to the colour, which is drawn anew each time.\<close>

definition same_user :: "user \<Rightarrow> user \<Rightarrow> bool" where
  "same_user u v \<longleftrightarrow> u\<lparr>u_PreferredColor := []\<rparr> = v\<lparr>u_PreferredColor := []\<rparr>"

lemma generated_profile_loads:
  assumes "GenerateProfile cl kl E u pass fs = (Inr prof, fs')"
    and "chacha_ok cl" "keys_ok kl E" "\<And>i. entropy_ok (pe_nonce E i)" "utf8_valid u"
    and "readable E1" "pe_home E1 = pe_home E" "readable E2" "pe_home E2 = pe_home E"
  obtains kb usr1 usr2 where "LoadProfile cl kl E1 u pass [] fs' = Ret (Inr (kb, usr1))"
    "LoadProfile cl kl E2 u pass [] fs' = Ret (Inr (kb, usr2))" "same_user usr1 usr2"
proof -
  have made: "make_profile cl kl E u pass = Inr prof"
    using assms(1) by (rule GenerateProfile_cases)
  obtain b1 b2 where b: "pe_salt E1 16 = Inr b1" "pe_salt E2 16 = Inr b2"
    using assms(6,8) by (auto simp: readable_def)
  note load = generated_load [OF assms(1,3,5,6,7)] generated_load [OF assms(1,3,5,8,9)]
  show thesis
    by (rule unlock_generated [OF made assms(2-4) b(1)], rule unlock_generated [OF made assms(2-4) b(2)])
      (auto simp: load same_user_def intro!: that)
qed

text \<open>
  C16. Who created a user logs in again with the same password, in a later run of the program that
  finds the files as they were left: with the same key bag, and the same user but for the colour.
\<close>

lemma create_then_login:
  assumes "CreateUserHandler E u p hub s = Ret (True, s1)"
    and "login_ok E" "utf8_valid u"
    and "le_lib E' = le_lib E" "le_keys E' = le_keys E" "readable (le_load E')"
      "pe_home (le_load E') = pe_home (le_load E)"
    and "le_parse E' hub' = Inr adr" "lg_files s' = lg_files s1"
  shows "\<exists>kb usr usr' s2. LoginHandler E' u p hub' s' = Ret (True, s2)
    \<and> lg_Keybag s1 = Some kb \<and> lg_Keybag s2 = Some kb
    \<and> lg_User s1 = Some usr \<and> lg_User s2 = Some usr' \<and> same_user usr usr'
    \<and> nd_PK (lg_Node s2) = Some (kb_Libp2pPriv kb) \<and> nd_Hub (lg_Node s2) = Some adr"
proof -
  obtain prof fs where gen: "GenerateProfile (le_lib E) (le_keys E) (le_generate E) u p (lg_files s)
      = (Inr prof, fs)"
    and run: "load_and_connect E u p hub (s\<lparr>lg_files := fs\<rparr>) = Ret (True, s1)"
    and named: "u \<noteq> []" "p \<noteq> []"
    using assms(1) by (auto simp: CreateUserHandler_def split: if_splits sum.splits prod.splits)
  obtain kb usr usr' where
    "LoadProfile (le_lib E) (le_keys E) (le_load E) u p [] fs = Ret (Inr (kb, usr))"
    "LoadProfile (le_lib E) (le_keys E) (le_load E') u p [] fs = Ret (Inr (kb, usr'))"
    "same_user usr usr'"
    using assms(2,3,6,7) gen
    by (auto simp: login_ok_def elim: generated_profile_loads)
  then show ?thesis
    using run named assms(4,5,8,9)
    by (auto simp: LoginHandler_def load_and_connect_def Let_def split: sum.splits)
qed

definition refused :: "'key login \<Rightarrow> 'key login \<Rightarrow> bool" where
  "refused s s' \<longleftrightarrow>
     (\<exists>title msg. lg_Dialogs s' = lg_Dialogs s @ [(title, msg)])
     \<and> lg_Page s' = lg_Page s \<and> lg_SessionDB s' = lg_SessionDB s
     \<and> lg_Node s' = lg_Node s"

lemma refused_dialog: "refused s (login_dialog t m s)"
  by (simp add: refused_def login_dialog_def)

lemma load_refused:
  assumes "load_and_connect E u p hub s = Ret (False, s')"
  shows "refused s s'"
proof (cases "LoadProfile (le_lib E) (le_keys E) (le_load E) u p [] (lg_files s)")
  case (Ret r)
  with assms show ?thesis
    by (cases r; cases "le_parse E hub")
      (auto simp: load_and_connect_def refused_def login_dialog_def)
qed (use assms in \<open>simp add: load_and_connect_def\<close>)

text \<open>
  A handler that does not go on to connect says why: one dialog is added, and page, store
  and node are what they were.
\<close>

lemma refused_login_explained:
  assumes "LoginHandler E u p hub s = Ret (False, s') \<or> CreateUserHandler E u p hub s = Ret (False, s')"
  shows "(\<exists>title msg. lg_Dialogs s' = lg_Dialogs s @ [(title, msg)])
    \<and> lg_Page s' = lg_Page s \<and> lg_SessionDB s' = lg_SessionDB s
    \<and> lg_Node s' = lg_Node s"
proof -
  have "refused s s'"
    using assms
  proof
    assume "LoginHandler E u p hub s = Ret (False, s')"
    then show ?thesis
      by (auto simp: LoginHandler_def refused_dialog load_refused split: if_splits)
  next
    assume "CreateUserHandler E u p hub s = Ret (False, s')"
    then show ?thesis
      by (auto simp: CreateUserHandler_def refused_dialog refused_def login_dialog_def
          dest!: load_refused split: if_splits sum.splits prod.splits)
  qed
  then show ?thesis by (simp add: refused_def)
qed

lemma load_keeps_files:
  assumes "load_and_connect E u p hub s = Ret (b, s')"
  shows "lg_files s' = lg_files s"
proof (cases "LoadProfile (le_lib E) (le_keys E) (le_load E) u p [] (lg_files s)")
  case (Ret r)
  with assms show ?thesis
    by (cases r; cases "le_parse E hub") (auto simp: load_and_connect_def login_dialog_def)
qed (use assms in \<open>simp add: load_and_connect_def\<close>)

text \<open>
  Creating a user replaces the profile of an earlier user of that name: whatever the file
  held, it then holds the new keys alone. No other file is touched.
\<close>

lemma create_user_overwrites:
  assumes "CreateUserHandler E u p hub s = Ret (True, s1)" "pe_home (le_generate E) = Inr home"
  shows "\<exists>prof. make_profile (le_lib E) (le_keys E) (le_generate E) u p = Inr prof
    \<and> lg_files s1 = (lg_files s)(profile_path home u \<mapsto> profile_text prof)"
proof -
  obtain prof fs where gen: "GenerateProfile (le_lib E) (le_keys E) (le_generate E) u p (lg_files s)
      = (Inr prof, fs)"
    and "load_and_connect E u p hub (s\<lparr>lg_files := fs\<rparr>) = Ret (True, s1)"
    using assms(1) by (auto simp: CreateUserHandler_def split: if_splits sum.splits prod.splits)
  then have "lg_files s1 = fs"
    by (auto dest!: load_keeps_files)
  with gen assms(2) show ?thesis
    by (auto elim!: GenerateProfile_cases)
qed

lemma load_page:
  assumes "load_and_connect E u p hub s = Ret (b, s')"
  shows "lg_Page s' = lg_Page s"
proof (cases "LoadProfile (le_lib E) (le_keys E) (le_load E) u p [] (lg_files s)")
  case (Ret r)
  with assms show ?thesis
    by (cases r; cases "le_parse E hub") (auto simp: load_and_connect_def login_dialog_def)
qed (use assms in \<open>simp add: load_and_connect_def\<close>)

lemma load_accepted:
  assumes "load_and_connect E u p hub s = Ret (True, s')"
  obtains kb usr adr where
    "LoadProfile (le_lib E) (le_keys E) (le_load E) u p [] (lg_files s) = Ret (Inr (kb, usr))"
    "le_parse E hub = Inr adr"
    "s' = s\<lparr>lg_User := Some usr, lg_Keybag := Some kb, 
      lg_Node := (lg_Node s)\<lparr>nd_Hub := Some adr, nd_PK := Some (kb_Libp2pPriv kb)\<rparr>\<rparr>"
proof (cases "LoadProfile (le_lib E) (le_keys E) (le_load E) u p [] (lg_files s)")
  case (Ret r)
  with assms show thesis
    by (cases r; cases "le_parse E hub") (auto simp: load_and_connect_def login_dialog_def intro: that)
qed (use assms in \<open>simp add: load_and_connect_def\<close>)

lemma connect_session_browse:
  assumes "connect_session E u hub s = Ret s'" "lg_Page s \<noteq> ''browse''" "lg_Page s' = ''browse''"
  obtains db hs n where "InitSessionDB (le_db E) u [] 1024 (lg_handles s) = (Inr db, hs)"
    "InitNode (le_node E) (lg_Node s) = Ret (None, n)"
    "s' = s\<lparr>lg_handles := hs, lg_SessionDB := Some db, lg_Node := n, lg_BrowseHub := hub, lg_Page := ''browse''\<rparr>"
proof (cases "InitSessionDB (le_db E) u [] 1024 (lg_handles s)")
  case (Pair r hs)
  show thesis
  proof (cases r)
    case (Inl err)
    with Pair assms show thesis by (auto simp: connect_session_def login_dialog_def)
  next
    case (Inr db)
    then obtain e n where node: "InitNode (le_node E) (lg_Node s) = Ret (e, n)"
      using Pair assms(1) by (auto simp: connect_session_def outcome_simps)
    show thesis
    proof (cases e)
      case None
      then show thesis
        using Pair Inr node assms(1) by (intro that) (auto simp: connect_session_def SwitchToBrowseScreen_def)
    next
      case (Some x)
      with Pair Inr node assms show thesis by (auto simp: connect_session_def login_dialog_def)
    qed
  qed
qed

text \<open>
  C25. The browse screen is reached by logging in only: the profile was opened with the password,
  user, key bag and node key are the ones it holds, the hub's address was parsed, the store of
  this user was opened and the node was started with that key and that hub.
\<close>

lemma browse_needs_login:
  assumes "then_connect E u hub (LoginHandler E u p hub s) = Ret s'"
    and "lg_Page s \<noteq> ''browse''" "lg_Page s' = ''browse''"
  shows "\<exists>kb usr adr db hs n.
    LoadProfile (le_lib E) (le_keys E) (le_load E) u p [] (lg_files s) = Ret (Inr (kb, usr))
    \<and> le_parse E hub = Inr adr
    \<and> InitSessionDB (le_db E) u [] 1024 (lg_handles s) = (Inr db, hs)
    \<and> InitNode (le_node E) ((lg_Node s)\<lparr>nd_Hub := Some adr, nd_PK := Some (kb_Libp2pPriv kb)\<rparr>) = Ret (None, n)
    \<and> s' = s\<lparr>lg_User := Some usr, lg_Keybag := Some kb, lg_Node := n, lg_SessionDB := Some db,
        lg_handles := hs, lg_BrowseHub := hub, lg_Page := ''browse''\<rparr>"
proof -
  obtain started s1 where h: "LoginHandler E u p hub s = Ret (started, s1)"
    and s': "(if started then connect_session E u hub s1 else Ret s1) = Ret s'"
    using assms(1) by (auto simp: then_connect_def outcome_simps)
  have page: "lg_Page s1 = lg_Page s"
    using h by (auto simp: LoginHandler_def dest: load_page split: if_splits)
  with s' assms(2,3) have started by (auto split: if_splits)
  with h have "load_and_connect E u p hub s = Ret (True, s1)"
    by (auto simp: LoginHandler_def split: if_splits)
  then obtain kb usr adr where load:
    "LoadProfile (le_lib E) (le_keys E) (le_load E) u p [] (lg_files s) = Ret (Inr (kb, usr))"
    "le_parse E hub = Inr adr"
    and s1: "s1 = s\<lparr>lg_User := Some usr, lg_Keybag := Some kb,
      lg_Node := (lg_Node s)\<lparr>nd_Hub := Some adr, nd_PK := Some (kb_Libp2pPriv kb)\<rparr>\<rparr>"
    by (rule load_accepted)
  have "connect_session E u hub s1 = Ret s'" using s' \<open>started\<close> by simp
  then show ?thesis
    by (rule connect_session_browse) (use page assms(2,3) load s1 in auto)
qed

lemma InitNode_returns: "nd_Hub n = Some hub \<Longrightarrow> \<exists>err n'. InitNode E n = Ret (err, n')"
  by (auto simp: InitNode_def InitHost_def InitDHT_def need_def split: option.splits prod.splits)

lemma connect_session_returns:
  assumes "nd_Hub (lg_Node s) = Some adr"
  shows "\<exists>s'. connect_session E u hub s = Ret s'"
  using InitNode_returns [OF assms, of "le_node E"]
  by (auto simp: connect_session_def Let_def split: prod.splits sum.splits)

text \<open>
  Logging in panics exactly when reading the profile does: the goroutine that follows has the
  hub's address and does not dereference nil.
\<close>

lemma login_panics_iff:
  "then_connect E u hub (LoginHandler E u p hub s) = Panic q
   \<longleftrightarrow> u \<noteq> [] \<and> p \<noteq> [] \<and> LoadProfile (le_lib E) (le_keys E) (le_load E) u p [] (lg_files s) = Panic q"
proof (cases "LoadProfile (le_lib E) (le_keys E) (le_load E) u p [] (lg_files s)")
  case (Panic q')
  then show ?thesis by (auto simp: then_connect_def LoginHandler_def load_and_connect_def)
next
  case (Ret r)
  then have "\<exists>b s1. load_and_connect E u p hub s = Ret (b, s1)"
    by (cases r; cases "le_parse E hub") (auto simp: load_and_connect_def)
  then obtain b s1 where load: "load_and_connect E u p hub s = Ret (b, s1)" by blast
  have "\<exists>s2. connect_session E u hub s1 = Ret s2" if b
    using load that
    by (auto elim!: load_accepted intro: connect_session_returns)
  then show ?thesis
    using load Ret by (auto simp: then_connect_def LoginHandler_def)
qed

section \<open>Witnesses\<close>

definition sample_login_env :: "bytes login_env" where
  "sample_login_env = \<lparr>le_lib = sample_lib, le_keys = sample_keys, le_generate = sample_profile_env,
     le_load = sample_profile_env, le_parse = (\<lambda>hub. Inr \<lparr>ai_ID = hub, ai_Addrs = []\<rparr>),
     le_db = sample_db_env,
     le_node = \<lparr>ne_New = (\<lambda>pk addrs. None), ne_Connect = (\<lambda>hub. None), ne_NewDHT = (\<lambda>hub. None),
       ne_Bootstrap = None, ne_NewGossipSub = None\<rparr>\<rparr>"

definition sample_login :: "bytes login" where
  "sample_login = \<lparr>lg_User = None, lg_Keybag = None,
     lg_Node = \<lparr>nd_Host = None, nd_DHT = None, nd_PS = None, nd_PK = None, nd_Hub = None,
       nd_running = [], nd_running_dht = [], nd_running_ps = [], nd_next = 0\<rparr>,
     lg_SessionDB = None, lg_BrowseHub = [], lg_Page = ''login'', lg_Dialogs = [],
     lg_files = Map.empty(profile_path ''/root'' ''ada'' \<mapsto> ''an older profile''), lg_handles = []\<rparr>"

lemma sample_login_ok [simp]: "login_ok sample_login_env"
  using sample_profile_env_ok by (simp add: login_ok_def sample_login_env_def)

lemma sample_login_again:
  "\<exists>s1 s2. CreateUserHandler sample_login_env ''ada'' ''pw'' ''hub'' sample_login = Ret (True, s1)
     \<and> LoginHandler sample_login_env ''ada'' ''pw'' ''hub'' (sample_login\<lparr>lg_files := lg_files s1\<rparr>) = Ret (True, s2)"
proof -
  let ?fs = "(lg_files sample_login)(profile_path ''/root'' ''ada'' \<mapsto> profile_text sample_profile)"
  have "utf8_valid ''ada''" by (simp add: utf8_valid_ascii)
  from generated_profile_loads [OF sample_profile_generated sample_lib_ok(2) sample_profile_env_ok(1,2)
      this sample_profile_env_ok(3) refl sample_profile_env_ok(3) refl]
  obtain kb usr where "LoadProfile sample_lib sample_keys sample_profile_env ''ada'' ''pw'' [] ?fs
      = Ret (Inr (kb, usr))" by metis
  then show ?thesis
    by (simp add: CreateUserHandler_def LoginHandler_def load_and_connect_def sample_login_env_def
        sample_profile_generated)
qed

lemma sample_user_created:
  "\<exists>s1. CreateUserHandler sample_login_env ''ada'' ''pw'' ''hub'' sample_login = Ret (True, s1)"
  using sample_login_again by blast

lemma create_then_login_witness:
  "\<exists>s1 s2. CreateUserHandler sample_login_env ''ada'' ''pw'' ''hub'' sample_login = Ret (True, s1)
     \<and> LoginHandler sample_login_env ''ada'' ''pw'' ''hub'' (sample_login\<lparr>lg_files := lg_files s1\<rparr>) = Ret (True, s2)
     \<and> lg_Keybag s2 = lg_Keybag s1"
proof -
  obtain s1 where s1: "CreateUserHandler sample_login_env ''ada'' ''pw'' ''hub'' sample_login = Ret (True, s1)"
    using sample_user_created by blast
  have "utf8_valid ''ada''" by (simp add: utf8_valid_ascii)
  from create_then_login [OF s1 sample_login_ok this refl refl, of "''hub''" "\<lparr>ai_ID = ''hub'', ai_Addrs = []\<rparr>"
      "sample_login\<lparr>lg_files := lg_files s1\<rparr>"] s1
  show ?thesis by (auto simp: sample_login_env_def)
qed

lemma refused_login_explained_witness:
  "\<exists>s'. LoginHandler sample_login_env [] ''pw'' ''hub'' sample_login = Ret (False, s')
     \<and> lg_Page s' = ''login''"
proof -
  have "LoginHandler sample_login_env [] ''pw'' ''hub'' sample_login
      = Ret (False, login_dialog ''Error'' ''Username and password cannot be empty'' sample_login)"
    by (simp add: LoginHandler_def)
  with refused_login_explained [of sample_login_env "[]" "''pw''" "''hub''" sample_login]
  show ?thesis by (simp add: sample_login_def)
qed

lemma create_user_overwrites_witness:
  "\<exists>s1. CreateUserHandler sample_login_env ''ada'' ''pw'' ''hub'' sample_login = Ret (True, s1)
     \<and> lg_files sample_login (profile_path ''/root'' ''ada'') = Some ''an older profile''
     \<and> lg_files s1 (profile_path ''/root'' ''ada'') \<noteq> Some ''an older profile''"
proof -
  obtain s1 where s1: "CreateUserHandler sample_login_env ''ada'' ''pw'' ''hub'' sample_login = Ret (True, s1)"
    using sample_user_created by blast
  have "pe_home (le_generate sample_login_env) = Inr ''/root''"
    by (simp add: sample_login_env_def sample_profile_env_def)
  from create_user_overwrites [OF s1 this] s1 show ?thesis
    by (auto simp: sample_login_def profile_text_def enc_profile_def)
qed

lemma browse_needs_login_witness:
  "\<exists>s1 s2 db. CreateUserHandler sample_login_env ''ada'' ''pw'' ''hub'' sample_login = Ret (True, s1)
     \<and> then_connect sample_login_env ''ada'' ''hub''
         (LoginHandler sample_login_env ''ada'' ''pw'' ''hub'' (sample_login\<lparr>lg_files := lg_files s1\<rparr>)) = Ret s2
     \<and> lg_SessionDB s2 = Some db"
proof -
  obtain s1 s2 where run: "CreateUserHandler sample_login_env ''ada'' ''pw'' ''hub'' sample_login = Ret (True, s1)"
    "LoginHandler sample_login_env ''ada'' ''pw'' ''hub'' (sample_login\<lparr>lg_files := lg_files s1\<rparr>) = Ret (True, s2)"
    using sample_login_again by blast
  let ?s = "sample_login\<lparr>lg_files := lg_files s1\<rparr>"
  have "load_and_connect sample_login_env ''ada'' ''pw'' ''hub'' ?s = Ret (True, s2)"
    using run(2) by (simp add: LoginHandler_def)
  then obtain adr where "nd_Hub (lg_Node s2) = Some adr" by (auto elim: load_accepted)
  moreover obtain db hs where "InitSessionDB sample_db_env ''ada'' [] 1024 (lg_handles s2) = (Inr db, hs)"
    using sample_db_opens by blast
  ultimately obtain s3 where "connect_session sample_login_env ''ada'' ''hub'' s2 = Ret s3" "lg_Page s3 = ''browse''"
    by (simp add: connect_session_def sample_login_env_def InitNode_def InitHost_def
        InitDHT_def InitPubSub_def need_def SwitchToBrowseScreen_def)
  moreover have "then_connect sample_login_env ''ada'' ''hub'' (LoginHandler sample_login_env ''ada'' ''pw'' ''hub'' ?s)
      = connect_session sample_login_env ''ada'' ''hub'' s2"
    using run(2) by (simp add: then_connect_def)
  ultimately show ?thesis
    using browse_needs_login [of sample_login_env "''ada''" "''hub''" "''pw''" ?s s3] run(1)
    by (auto simp: sample_login_def)
qed

end
