(* ===== verification/Screens.thy ===== *)
theory Screens
  imports Chat_Correct Join Hub_Server "HOL-Library.List_Lexorder" "HOL-Library.Product_Lexorder"
begin

text \<open>
  The lists of servers and rooms on the screen (ui/browse.go, ui/chat.go), what choosing an entry
  and filling in a form does, and the loops of client/handlers.go that keep the lists up to date.
  Widgets are known by what they show: the lines of a list and whether the notice for an empty
  list is in the pane. Colours, layout and the details beside the list are left out.
\<close>

section \<open>Sorting\<close>

text \<open>
  \<open>sort.SliceStable\<close>: for a comparison that is a strict weak order, as both in the code are, the
  result is the stable sort; here by insertion.
\<close>

fun insert_stable :: "('a \<Rightarrow> 'a \<Rightarrow> bool) \<Rightarrow> 'a \<Rightarrow> 'a list \<Rightarrow> 'a list" where
  "insert_stable lt x [] = [x]"
| "insert_stable lt x (y # ys) = (if lt y x then y # insert_stable lt x ys else x # y # ys)"

definition SliceStable :: "('a \<Rightarrow> 'a \<Rightarrow> bool) \<Rightarrow> 'a list \<Rightarrow> 'a list" where
  "SliceStable lt xs = foldr (insert_stable lt) xs []"

text \<open>Go compares strings byte by byte.\<close>

fun string_less :: "string \<Rightarrow> string \<Rightarrow> bool" where
  "string_less s [] = False"
| "string_less [] (d # ds) = True"
| "string_less (c # cs) (d # ds) = (code c < code d \<or> c = d \<and> string_less cs ds)"

definition server_less :: "server_meta \<Rightarrow> server_meta \<Rightarrow> bool" where
  "server_less a b =
     (if sm_Online a = sm_Online b then string_less (sm_Name a) (sm_Name b)
      else sm_Online a > sm_Online b)"

definition room_less :: "room_meta \<Rightarrow> room_meta \<Rightarrow> bool" where
  "room_less a b = string_less (rm_Name a) (rm_Name b)"

section \<open>Lines\<close>

text \<open>The number of characters of a string: an invalid byte counts as one.\<close>

function rune_count :: "string \<Rightarrow> nat" where
  "rune_count [] = 0"
| "rune_count (c # cs) = 1 + rune_count (drop (utf8_size (c # cs) - 1) cs)"
  by pat_completeness auto
termination
  by (relation "measure length") (auto simp: less_Suc_eq_le)

text \<open>\<open>%-20s\<close> and \<open>%3d\<close> of \<open>fmt\<close>: at least that wide, with blanks.\<close>

definition pad_right :: "nat \<Rightarrow> string \<Rightarrow> string" where
  "pad_right n s = s @ replicate (n - rune_count s) (CHR '' '')"

definition pad_left :: "nat \<Rightarrow> string \<Rightarrow> string" where
  "pad_left n s = replicate (n - rune_count s) (CHR '' '') @ s"

text \<open>A lock (U+1F512) or four blanks.\<close>

definition formatBoolPasswordProtected :: "visibility \<Rightarrow> string" where
  "formatBoolPasswordProtected v =
     (if v = PasswordProtected then utf8_encode 128274 else ''    '')"

definition server_line :: "server_meta \<Rightarrow> string" where
  "server_line srv =
     pad_right 20 (sm_Name srv) @ '' | '' @ pad_right 30 (sm_Description srv) @ '' | ''
     @ formatBoolPasswordProtected (sm_Visibility srv) @ '' | ''
     @ pad_left 3 (literal_of_int (sm_Online srv)) @ '' Online''"

definition room_line :: "room_meta \<Rightarrow> string" where
  "room_line rm = rm_Name rm @ '' '' @ formatBoolPasswordProtected (rm_Visibility rm)"

section \<open>The two screens\<close>

text \<open>The notice for an empty list: whether its view was made, and whether it is in the pane.\<close>

record browse_screen =
  bs_Hub :: string
  bs_title :: string
  bs_servers :: "server_meta list"
  bs_lines :: "string list"
  bs_noServersView :: bool
  bs_notice :: bool
  bs_selectedServer :: "server_meta option"

record chat_screen =
  cs_rooms :: "room_meta list"
  cs_lines :: "string list"
  cs_noRoomView :: bool
  cs_notice :: bool
  cs_selectedRoom :: "room_meta option"

definition SetHub :: "string \<Rightarrow> browse_screen \<Rightarrow> browse_screen" where
  "SetHub hub b = b\<lparr>bs_Hub := hub, bs_title := ''[yellow]Hub:[white] '' @ hub\<rparr>"

definition UpdateServerList :: "server_meta list \<Rightarrow> browse_screen \<Rightarrow> browse_screen" where
  "UpdateServerList servers b =
     (let ss = SliceStable server_less servers; b1 = b\<lparr>bs_servers := ss, bs_lines := []\<rparr>
      in if ss = [] then
           (if \<not> bs_noServersView b1 then b1\<lparr>bs_noServersView := True, bs_notice := True\<rparr> else b1)
         else b1\<lparr>bs_notice := False, bs_lines := map server_line ss\<rparr>)"

definition UpdateRoomList :: "room_meta list \<Rightarrow> chat_screen \<Rightarrow> chat_screen" where
  "UpdateRoomList rooms s =
     (let rs = SliceStable room_less rooms; s1 = s\<lparr>cs_rooms := rs, cs_lines := []\<rparr>
      in if rs = [] then
           (if \<not> cs_noRoomView s1 then s1\<lparr>cs_noRoomView := True, cs_notice := True\<rparr> else s1)
         else s1\<lparr>cs_notice := False, cs_lines := map room_line rs\<rparr>)"

text \<open>Choosing an entry: joining it at once, or asking for its password.\<close>

datatype choice = Join_With string string | Ask_Password string

definition choose_server :: "nat \<Rightarrow> browse_screen \<Rightarrow> (choice \<times> browse_screen) go" where
  "choose_server idx b =
     (if idx < length (bs_servers b) then
        (let srv = bs_servers b ! idx; b1 = b\<lparr>bs_selectedServer := Some srv\<rparr>
         in Ret (if sm_Visibility srv = Public then Join_With (sm_ID srv) [] else Ask_Password (sm_Name srv), b1))
      else Panic Index_Out_Of_Range)"

text \<open>The entry of a room holds the room itself.\<close>

definition choose_room :: "room_meta \<Rightarrow> chat_screen \<Rightarrow> choice \<times> chat_screen" where
  "choose_room rm s =
     (if rm_Visibility rm = Public then Join_With (rm_ID rm) [] else Ask_Password (rm_Name rm),
      s\<lparr>cs_selectedRoom := Some rm\<rparr>)"

text \<open>The request a form makes; the drop-down gives -1 while nothing was picked.\<close>

definition current_option :: "nat option \<Rightarrow> int" where
  "current_option picked = (case picked of None \<Rightarrow> - 1 | Some i \<Rightarrow> int i)"

definition server_form :: "string \<Rightarrow> string \<Rightarrow> string \<Rightarrow> nat option \<Rightarrow> create_server_request" where
  "server_form name description pass picked =
     \<lparr>csr_Name = name, csr_Visibility = current_option picked, csr_Description = description,
      csr_PasswordHash = Some (string_bytes pass), csr_PasswordSalt = None, csr_Creator = zero_user\<rparr>"

definition room_form :: "string \<Rightarrow> string \<Rightarrow> string \<Rightarrow> nat option \<Rightarrow> create_room_request" where
  "room_form serverID name pass picked =
     \<lparr>crr_ServerID = serverID, crr_RoomName = name, crr_Visibility = current_option picked,
      crr_PasswordHash = Some (string_bytes pass), crr_PasswordSalt = None, crr_EncRoomKey = None\<rparr>"

text \<open>
  What the user is shown then: a dialog with its title, a toast, or nothing. The handlers for joining
  may panic, and then so does the call of the interface.
\<close>

datatype shown = Error_Dialog string string | Toast string | Nothing

definition join_chosen_server :: "(string \<Rightarrow> string \<Rightarrow> go_error option go) \<Rightarrow> choice \<Rightarrow> shown go" where
  "join_chosen_server onJoin ch =
     (case ch of
        Ask_Password _ \<Rightarrow> Ret Nothing
      | Join_With sid pass \<Rightarrow>
          go_bind (onJoin sid pass) (\<lambda>r.
            Ret (case r of
                   Some err \<Rightarrow> Toast (''Join server failed: '' @ Error_text err) | None \<Rightarrow> Nothing)))"

definition join_chosen_room :: "(string \<Rightarrow> string \<Rightarrow> go_error option go) \<Rightarrow> choice \<Rightarrow> shown go" where
  "join_chosen_room onJoin ch =
     (case ch of
        Ask_Password _ \<Rightarrow> Ret Nothing
      | Join_With rid pass \<Rightarrow>
          go_bind (onJoin rid pass) (\<lambda>r.
            Ret (case r of
                   Some err \<Rightarrow> Error_Dialog ''Join room failed'' (Error_text err) | None \<Rightarrow> Nothing)))"

text \<open>The text after creating a private server or room.\<close>

definition private_notice :: "string \<Rightarrow> string \<Rightarrow> string \<Rightarrow> string" where
  "private_notice what ident sid =
     what @ '' created successfully! ID: '' @ sid @ [CHR 0x0A] @ ''This '' @ what
     @ ''ID will be the only way to access the '' @ ident @ ''. It'' @ [CHR 0x27]
     @ ''s been saved under ~/.hillside, encrypted with the '' @ ident @ '' password. DON'' @ [CHR 0x27]
     @ ''T LOSE IT''"

text \<open>The buttons of the forms; the boolean tells whether the form is closed.\<close>

definition submit_server_form ::
  "(create_server_request \<Rightarrow> string result) \<Rightarrow> string \<Rightarrow> string \<Rightarrow> string \<Rightarrow> nat option \<Rightarrow> shown \<times> bool"
where
  "submit_server_form onCreate name description pass picked =
     (let req = server_form name description pass picked in
      case onCreate req of
        Inl err \<Rightarrow> (Error_Dialog ''Create server failed'' (Error_text err), False)
      | Inr sid \<Rightarrow>
          (Toast (if csr_Visibility req = Private then private_notice ''Server'' ''server'' sid
                  else ''Server created successfully! ID: '' @ sid), True))"

definition submit_room_form ::
  "(create_room_request \<Rightarrow> string result) \<Rightarrow> string \<Rightarrow> string \<Rightarrow> string \<Rightarrow> nat option \<Rightarrow> shown \<times> bool"
where
  "submit_room_form onCreate serverID name pass picked =
     (let req = room_form serverID name pass picked in
      case onCreate req of
        Inl err \<Rightarrow> (Error_Dialog ''Create room failed'' (Error_text err), False)
      | Inr rid \<Rightarrow>
          (Toast (if crr_Visibility req = Private then private_notice ''Room'' ''room'' rid
                  else ''Room created successfully! ID: '' @ rid), True))"

definition submit_server_password ::
  "(string \<Rightarrow> string \<Rightarrow> go_error option go) \<Rightarrow> string \<Rightarrow> browse_screen \<Rightarrow> (shown \<times> bool) go"
where
  "submit_server_password onJoin pass b =
     go_bind (need (bs_selectedServer b)) (\<lambda>srv.
       go_bind (onJoin (sm_ID srv) pass) (\<lambda>r.
         Ret (case r of
                Some err \<Rightarrow> (Error_Dialog ''Join server failed'' (Error_text err), False)
              | None \<Rightarrow> (Nothing, True))))"

text \<open>The selected room is a value: before one was chosen its identifier is empty.\<close>

definition submit_room_password ::
  "(string \<Rightarrow> string \<Rightarrow> go_error option go) \<Rightarrow> string \<Rightarrow> chat_screen \<Rightarrow> (shown \<times> bool) go"
where
  "submit_room_password onJoin pass s =
     go_bind (onJoin (case cs_selectedRoom s of None \<Rightarrow> [] | Some rm \<Rightarrow> rm_ID rm) pass) (\<lambda>r.
       Ret (case r of
              Some err \<Rightarrow> (Error_Dialog ''Join room failed'' (Error_text err), False)
            | None \<Rightarrow> (Nothing, True)))"

text \<open>The key Enter in the message field: what is shown, and what the field holds then.\<close>

definition enter_message :: "(string \<Rightarrow> go_error option) \<Rightarrow> string \<Rightarrow> shown \<times> string" where
  "enter_message sendMessage message =
     (if message = [] then (Nothing, message)
      else (case sendMessage message of
              Some err \<Rightarrow> (Error_Dialog ''Send message failed'' (Error_text err), message)
            | None \<Rightarrow> (Nothing, [])))"

section \<open>Keeping the lists up to date\<close>

record ui =
  ui_browse :: browse_screen
  ui_chat :: chat_screen
  ui_dialogs :: "(string \<times> string) list"

definition ui_error :: "string \<Rightarrow> go_error \<Rightarrow> ui \<Rightarrow> ui" where
  "ui_error title err u = u\<lparr>ui_dialogs := ui_dialogs u @ [(title, Error_text err)]\<rparr>"

definition show_servers :: "server_meta list \<Rightarrow> ui \<Rightarrow> ui" where
  "show_servers ss u = u\<lparr>ui_browse := UpdateServerList ss (ui_browse u)\<rparr>"

definition show_rooms :: "room_meta list \<Rightarrow> ui \<Rightarrow> ui" where
  "show_rooms rs u = u\<lparr>ui_chat := UpdateRoomList rs (ui_chat u)\<rparr>"

definition refreshServerList :: "server_meta list rpc \<Rightarrow> ui \<Rightarrow> ui" where
  "refreshServerList rpc u =
     (case requestServers rpc of Inl err \<Rightarrow> ui_error ''Server Error'' err u | Inr ss \<Rightarrow> show_servers ss u)"

definition refreshRoomList :: "(room_meta list \<times> string) rpc \<Rightarrow> client \<Rightarrow> ui \<Rightarrow> ui go" where
  "refreshRoomList rpc c u =
     go_bind (GetServerID c) (\<lambda>sid.
       Ret (case requestRooms rpc sid of
              Inl err \<Rightarrow> ui_error ''Server Error'' err u | Inr (rs, _) \<Rightarrow> show_rooms rs u))"

text \<open>
  What a refresh loop meets: a publication, as it was decoded, an error of the subscription, or a
  look at the page in front, which ends the loop when the page is none of its own.
\<close>

datatype 'a refresh_event = Published "'a list result" | Read_Error | Tick string

fun refresh_loop ::
  "(string \<Rightarrow> bool) \<Rightarrow> string \<Rightarrow> ('a list \<Rightarrow> ui \<Rightarrow> ui) \<Rightarrow> 'a refresh_event list \<Rightarrow> ui \<Rightarrow> ui"
where
  "refresh_loop active title show [] u = u"
| "refresh_loop active title show (Tick page # evs) u =
     (if active page then refresh_loop active title show evs u else u)"
| "refresh_loop active title show (Read_Error # evs) u = u"
| "refresh_loop active title show (Published r # evs) u =
     refresh_loop active title show evs
       (case r of Inl err \<Rightarrow> ui_error title err u | Inr xs \<Rightarrow> show xs u)"

definition StartAutoRefresh ::
  "client_env \<Rightarrow> server_meta list rpc \<Rightarrow> server_meta refresh_event list \<Rightarrow> ui \<Rightarrow> ui"
where
  "StartAutoRefresh E rpc evs u =
     (let u1 = refreshServerList rpc u
      in if ce_join E ServersTopic \<noteq> None then u1
         else if ce_subscribe E ServersTopic \<noteq> None then u1
         else refresh_loop IsBrowsePageActive ''Server Error'' show_servers evs u1)"

definition upd_server :: "(server_session \<Rightarrow> server_session) \<Rightarrow> client \<Rightarrow> client" where
  "upd_server f c =
     (case (cli_Server c, cur_server c) of
        (Some k, Some s) \<Rightarrow> c\<lparr>cli_Servers := mput k (f s) (cli_Servers c)\<rparr> | _ \<Rightarrow> c)"

text \<open>The topic of a server's rooms is joined once and kept; \<open>False\<close> when joining fails.\<close>

definition ensure_rooms_topic :: "client_env \<Rightarrow> client \<Rightarrow> (bool \<times> client) go" where
  "ensure_rooms_topic E c =
     go_bind (need (cur_server c)) (\<lambda>s.
       if HasTopic TopicRooms (ss_Topics s) then Ret (True, c)
       else go_bind (GetServerID c) (\<lambda>sid.
         Ret (if ce_join E (RoomsTopic sid) \<noteq> None then (False, c)
              else (True,
                upd_server (\<lambda>s. s\<lparr>ss_Topics := SetTopic TopicRooms (RoomsTopic sid) (ss_Topics s)\<rparr>) c))))"

definition StartRoomAutoRefresh ::
  "client_env \<Rightarrow> server_meta list rpc \<Rightarrow> room_meta refresh_event list \<Rightarrow> client \<Rightarrow> ui \<Rightarrow> (client \<times> ui) go"
where
  "StartRoomAutoRefresh E rpc evs c u =
     (let u1 = refreshServerList rpc u
      in go_bind (ensure_rooms_topic E c) (\<lambda>(joined, c1).
           if \<not> joined then Ret (c1, u1)
           else go_bind (need (cur_server c1)) (\<lambda>s.
             go_bind (need (GetTopic TopicRooms (ss_Topics s))) (\<lambda>topic.
               if ce_subscribe E topic \<noteq> None then Ret (c1, u1)
               else Ret (c1, refresh_loop IsChatPageActive ''Rooms Error'' show_rooms evs u1)))))"

section \<open>The lists shown\<close>

lemma insert_stable_key:
  assumes "\<And>x y. lt x y \<longleftrightarrow> f x < f y"
  shows "insert_stable lt x xs = insort_key f x xs"
  by (induction xs) (auto simp: assms)

lemma SliceStable_key:
  assumes "\<And>x y. lt x y \<longleftrightarrow> (f x :: 'k :: linorder) < f y"
  shows "SliceStable lt xs = sort_key f xs"
proof -
  have "insert_stable lt = insort_key f" by (intro ext insert_stable_key assms)
  then show ?thesis by (simp add: SliceStable_def sort_key_def)
qed

lemma string_less_codes: "string_less s t \<longleftrightarrow> map code s < (map code t :: nat list)"
  by (induction s t rule: string_less.induct) auto

definition server_key :: "server_meta \<Rightarrow> int \<times> nat list" where
  "server_key sm = (- sm_Online sm, map code (sm_Name sm))"

lemma server_less_key: "server_less a b \<longleftrightarrow> server_key a < server_key b"
  by (auto simp: server_less_def server_key_def string_less_codes)

lemma room_less_key: "room_less a b \<longleftrightarrow> map code (rm_Name a) < (map code (rm_Name b) :: nat list)"
  by (simp add: room_less_def string_less_codes)

lemma map_code_eq: "map code s = (map code t :: nat list) \<longleftrightarrow> s = t"
  by (simp add: inj_map_eq_map inj_def)

lemma SliceStable_servers: "SliceStable server_less xs = sort_key server_key xs"
  by (rule SliceStable_key [OF server_less_key])

lemma servers_sorted:
  "sorted_wrt (\<lambda>x y. sm_Online y < sm_Online x
     \<or> sm_Online x = sm_Online y \<and> (map code (sm_Name x) :: nat list) \<le> map code (sm_Name y)) (sort_key server_key xs)"
proof -
  have "sorted_wrt (\<lambda>x y. server_key x \<le> server_key y) (sort_key server_key xs)"
    using sorted_sort_key [of server_key xs] by (simp add: sorted_wrt_map)
  then show ?thesis by (rule sorted_wrt_mono_rel [rotated]) (auto simp: server_key_def)
qed

lemma SliceStable_Nil [simp]: "SliceStable server_less xs = [] \<longleftrightarrow> xs = []"
  by (metis SliceStable_servers length_0_conv length_sort)

lemma UpdateServerList_simps [simp]:
  "bs_servers (UpdateServerList servers b) = SliceStable server_less servers"
  "bs_lines (UpdateServerList servers b) = map server_line (SliceStable server_less servers)"
  by (simp_all add: UpdateServerList_def Let_def)

text \<open>
  C35. The list of servers on the screen: the servers that were handed over, each as often, those
  with more members first and those with as many by name, byte by byte; equal ones stay in the
  order they came in. Choosing the entry at a line selects the server that the line shows, and joins it without a
  password exactly when it is public.
\<close>

lemma shown_servers_sorted:
  "mset (bs_servers (UpdateServerList servers b)) = mset servers
   \<and> sorted_wrt (\<lambda>x y. sm_Online y < sm_Online x
        \<or> sm_Online x = sm_Online y \<and> (map code (sm_Name x) :: nat list) \<le> map code (sm_Name y))
      (bs_servers (UpdateServerList servers b))
   \<and> filter (\<lambda>x. sm_Online x = n \<and> sm_Name x = s) (bs_servers (UpdateServerList servers b))
      = filter (\<lambda>x. sm_Online x = n \<and> sm_Name x = s) servers
   \<and> (\<forall>i < length (bs_lines (UpdateServerList servers b)). \<exists>srv. srv \<in> set servers
        \<and> bs_lines (UpdateServerList servers b) ! i = server_line srv
        \<and> choose_server i (UpdateServerList servers b) =
            Ret (if sm_Visibility srv = Public then Join_With (sm_ID srv) [] else Ask_Password (sm_Name srv),
                 (UpdateServerList servers b)\<lparr>bs_selectedServer := Some srv\<rparr>))"
proof (intro conjI)
  have "(sm_Online x = n \<and> sm_Name x = s) \<longleftrightarrow> server_key x = (- n, map code s)" for x
    by (auto simp: server_key_def map_code_eq)
  then show "filter (\<lambda>x. sm_Online x = n \<and> sm_Name x = s) (bs_servers (UpdateServerList servers b))
      = filter (\<lambda>x. sm_Online x = n \<and> sm_Name x = s) servers"
    by (simp add: SliceStable_servers sort_key_stable)
  show "\<forall>i < length (bs_lines (UpdateServerList servers b)). \<exists>srv. srv \<in> set servers
        \<and> bs_lines (UpdateServerList servers b) ! i = server_line srv
        \<and> choose_server i (UpdateServerList servers b) =
            Ret (if sm_Visibility srv = Public then Join_With (sm_ID srv) [] else Ask_Password (sm_Name srv),
                 (UpdateServerList servers b)\<lparr>bs_selectedServer := Some srv\<rparr>)"
  proof (intro allI impI)
    fix i assume i: "i < length (bs_lines (UpdateServerList servers b))"
    then have "SliceStable server_less servers ! i \<in> set servers"
      by (metis SliceStable_servers UpdateServerList_simps(2) length_map nth_mem set_sort)
    with i show "\<exists>srv. srv \<in> set servers
        \<and> bs_lines (UpdateServerList servers b) ! i = server_line srv
        \<and> choose_server i (UpdateServerList servers b) =
            Ret (if sm_Visibility srv = Public then Join_With (sm_ID srv) [] else Ask_Password (sm_Name srv),
                 (UpdateServerList servers b)\<lparr>bs_selectedServer := Some srv\<rparr>)"
      by (intro exI [of _ "SliceStable server_less servers ! i"]) (simp add: choose_server_def Let_def)
  qed
qed (simp_all add: SliceStable_servers servers_sorted)

definition sample_shown :: "string \<Rightarrow> int \<Rightarrow> server_meta" where
  "sample_shown name n = \<lparr>sm_ID = name, sm_Name = name, sm_Description = [], sm_Visibility = Public,
     sm_OwnerPeerID = [], sm_CreatedAt = 0, sm_PasswordHash = None, sm_PasswordSalt = None,
     sm_Rooms = None, sm_Online = n\<rparr>"

definition sample_browse :: browse_screen where
  "sample_browse = \<lparr>bs_Hub = [], bs_title = [], bs_servers = [], bs_lines = [],
     bs_noServersView = False, bs_notice = False, bs_selectedServer = None\<rparr>"

lemma shown_servers_sorted_witness:
  "\<exists>b'. choose_server 1 (UpdateServerList [sample_shown ''b'' 1, sample_shown ''a'' 1, sample_shown ''c'' 2] sample_browse)
       = Ret (Join_With ''a'' [], b')
     \<and> filter (\<lambda>x. sm_Online x = 1 \<and> sm_Name x = ''a'')
         (bs_servers (UpdateServerList [sample_shown ''b'' 1, sample_shown ''a'' 1, sample_shown ''c'' 2] sample_browse))
       = [sample_shown ''a'' 1]"
proof -
  let ?ss = "[sample_shown ''b'' 1, sample_shown ''a'' 1, sample_shown ''c'' 2]"
  have "choose_server 1 (UpdateServerList ?ss sample_browse)
     = Ret (Join_With ''a'' [], (UpdateServerList ?ss sample_browse)\<lparr>bs_selectedServer := Some (sample_shown ''a'' 1)\<rparr>)"
    by (simp add: choose_server_def SliceStable_def server_less_def sample_shown_def Public_def Let_def)
  with shown_servers_sorted [of ?ss sample_browse 1 "''a''"] show ?thesis
    by (simp add: sample_shown_def)
qed

section \<open>What the refresh loops show\<close>

text \<open>The lists that were decoded before the loop ended.\<close>

fun decoded_lists :: "(string \<Rightarrow> bool) \<Rightarrow> 'a refresh_event list \<Rightarrow> 'a list list" where
  "decoded_lists active [] = []"
| "decoded_lists active (Tick page # evs) = (if active page then decoded_lists active evs else [])"
| "decoded_lists active (Read_Error # evs) = []"
| "decoded_lists active (Published (Inl err) # evs) = decoded_lists active evs"
| "decoded_lists active (Published (Inr xs) # evs) = xs # decoded_lists active evs"

lemma ui_error_screens [simp]: "ui_browse (ui_error t e u) = ui_browse u" "ui_chat (ui_error t e u) = ui_chat u"
  by (simp_all add: ui_error_def)

lemma refresh_loop_servers:
  "bs_servers (ui_browse u) = SliceStable server_less ss \<Longrightarrow>
   bs_servers (ui_browse (refresh_loop active title show_servers evs u))
     = SliceStable server_less (last (ss # decoded_lists active evs))"
proof (induction active evs arbitrary: u ss rule: decoded_lists.induct)
  case (5 active xs evs)
  from "5.IH" [of "show_servers xs u" xs] show ?case by (simp add: show_servers_def)
qed simp_all

lemma refresh_loop_rooms:
  "cs_rooms (ui_chat u) = SliceStable room_less rs \<Longrightarrow>
   cs_rooms (ui_chat (refresh_loop active title show_rooms evs u))
     = SliceStable room_less (last (rs # decoded_lists active evs))"
proof (induction active evs arbitrary: u rs rule: decoded_lists.induct)
  case (5 active xs evs)
  from "5.IH" [of "show_rooms xs u" xs] show ?case
    by (simp add: show_rooms_def UpdateRoomList_def Let_def)
qed simp_all

text \<open>
  The browse screen shows the last list of servers there was: the hub's answer, or the last
  publication that could be decoded before the screen was left or the subscription failed;
  publications that cannot be decoded change nothing but add a dialog.
\<close>

lemma refresh_shows_last:
  assumes "requestServers rpc = Inr ss" "ce_join E ServersTopic = None" "ce_subscribe E ServersTopic = None"
  shows "bs_servers (ui_browse (StartAutoRefresh E rpc evs u))
    = SliceStable server_less (last (ss # decoded_lists IsBrowsePageActive evs))"
  using assms
  by (simp add: StartAutoRefresh_def refreshServerList_def refresh_loop_servers show_servers_def)

definition sample_ui :: ui where
  "sample_ui = \<lparr>ui_browse = sample_browse,
     ui_chat = \<lparr>cs_rooms = [], cs_lines = [], cs_noRoomView = False, cs_notice = False, cs_selectedRoom = None\<rparr>,
     ui_dialogs = []\<rparr>"

lemma refresh_shows_last_witness:
  "map sm_Name (bs_servers (ui_browse (StartAutoRefresh sample_env (\<lambda>m p. Inr [])
     [Published (Inr [sample_shown ''a'' 1]), Published (Inl json_error), Tick ''chat'', Published (Inr [])]
     sample_ui))) = [''a'']"
  by (subst refresh_shows_last [where ss = "[]"])
    (simp_all add: requestServers_def sample_env_def IsBrowsePageActive_def SliceStable_def sample_shown_def)

text \<open>The form that asks for a server's password is no page of the loop, which it ends.\<close>

lemma password_form_stops_refresh:
  "StartAutoRefresh E rpc (Tick ''joinServer'' # evs) u = StartAutoRefresh E rpc [] u"
  by (simp add: StartAutoRefresh_def IsBrowsePageActive_def Let_def)

text \<open>Once the notice for an empty list was removed, an empty list shows nothing.\<close>

lemma notice_not_shown_again:
  "servers \<noteq> [] \<Longrightarrow> bs_noServersView b \<Longrightarrow>
   \<not> bs_notice (UpdateServerList [] (UpdateServerList servers b))
   \<and> bs_lines (UpdateServerList [] (UpdateServerList servers b)) = []"
  by (simp add: UpdateServerList_def Let_def)

section \<open>Forms\<close>

text \<open>
  A server made with a form on which no visibility was picked is open: the request passes the
  checks of the client whatever password was typed, and the hub lets everybody join the server it
  makes of it, whatever password they give.
\<close>

lemma unpicked_visibility_open:
  assumes "name \<noteq> []" "rnd 16 = Inr salt" "request = server_form name description pass None"
  shows "CreateServerHandler rnd rpc request =
      (case requestCreateServer rpc (salted_server_request salt request) of
         Inl err \<Rightarrow> Inl (CreateServerError (''Failed to create server: '' @ Error_text err))
       | Inr serverID \<Rightarrow> Inr serverID)
    \<and> join_server_response req (Inr (new_server owner (salted_server_request salt request) b now))
      = JoinServerResponse
          (Some (sanitize_server (new_server owner (salted_server_request salt request) b now))) []"
  using assms
  by (simp add: CreateServerHandler_def server_form_def current_option_def visibility_defs
      join_server_response_def new_server_def salted_server_request_def split: sum.splits)

lemma unpicked_visibility_open_witness:
  "\<exists>server. CreateServerHandler (\<lambda>n. Inr (replicate n 7)) (\<lambda>m p. Inr ''id'') (server_form ''den'' [] ''secret'' None)
      = Inr ''id''
    \<and> join_server_response \<lparr>jsr_ServerID = ''id'', jsr_PasswordHash = None\<rparr> (Inr server)
      = JoinServerResponse (Some (sanitize_server server)) []
    \<and> sm_PasswordHash server \<noteq> None"
proof -
  let ?r = "server_form ''den'' [] ''secret'' None" and ?salt = "replicate 16 (7 :: byte)"
  let ?s = "new_server \<lparr>ai_ID = [], ai_Addrs = []\<rparr> (salted_server_request ?salt ?r) [1] 0"
  let ?q = "\<lparr>jsr_ServerID = ''id'', jsr_PasswordHash = None\<rparr>"
  have "CreateServerHandler (\<lambda>n. Inr (replicate n 7)) (\<lambda>m p. Inr ''id'') ?r =
      (case requestCreateServer (\<lambda>m p. Inr ''id'') (salted_server_request ?salt ?r) of
         Inl err \<Rightarrow> Inl (CreateServerError (''Failed to create server: '' @ Error_text err))
       | Inr serverID \<Rightarrow> Inr serverID)
    \<and> join_server_response ?q (Inr ?s) = JoinServerResponse (Some (sanitize_server ?s)) []"
    by (rule unpicked_visibility_open [of "''den''"]) simp_all
  then show ?thesis
    by (intro exI [of _ ?s])
      (simp add: requestCreateServer_def new_server_def salted_server_request_def server_form_def)
qed

end
