(* ===== verification/Dialogs.thy ===== *)
theory Dialogs
  imports Misc
begin

text \<open>
  ui/dialogs.go: toasts and error dialogs over the pages of the interface, with the goroutines
  that close them after a while. The pages are the library's (\<open>tview.Pages\<close>): a record of its
  operations, with what its documentation says of them.
\<close>

section \<open>Pages\<close>

record 'p pages_lib =
  pg_AddPage :: "string \<Rightarrow> bool \<Rightarrow> 'p \<Rightarrow> 'p"
  pg_RemovePage :: "string \<Rightarrow> 'p \<Rightarrow> 'p"
  pg_SwitchToPage :: "string \<Rightarrow> 'p \<Rightarrow> 'p"
  pg_HasPage :: "string \<Rightarrow> 'p \<Rightarrow> bool"
  pg_GetFrontPage :: "'p \<Rightarrow> string"

text \<open>
  A page that is added replaces the one of its name and, when visible, is in front; a new page that is
  not visible changes nothing there; the page that is switched to is the only one visible.
\<close>

definition pages_ok :: "'p pages_lib \<Rightarrow> bool" where
  "pages_ok L \<longleftrightarrow>
     (\<forall>n v m p. pg_HasPage L m (pg_AddPage L n v p) \<longleftrightarrow> m = n \<or> pg_HasPage L m p)
     \<and> (\<forall>n m p. pg_HasPage L m (pg_RemovePage L n p) \<longleftrightarrow> m \<noteq> n \<and> pg_HasPage L m p)
     \<and> (\<forall>n m p. pg_HasPage L m (pg_SwitchToPage L n p) \<longleftrightarrow> pg_HasPage L m p)
     \<and> (\<forall>n p. pg_GetFrontPage L (pg_AddPage L n True p) = n)
     \<and> (\<forall>n p. \<not> pg_HasPage L n p \<longrightarrow> pg_GetFrontPage L (pg_AddPage L n False p) = pg_GetFrontPage L p)
     \<and> (\<forall>n p. pg_HasPage L n p \<longrightarrow> pg_GetFrontPage L (pg_SwitchToPage L n p) = n)
     \<and> (\<forall>n p. pg_GetFrontPage L p \<noteq> n \<longrightarrow> pg_GetFrontPage L (pg_RemovePage L n p) = pg_GetFrontPage L p)"

lemma pages_okD:
  assumes "pages_ok L"
  shows "pg_HasPage L m (pg_AddPage L n v p) \<longleftrightarrow> m = n \<or> pg_HasPage L m p"
    "pg_HasPage L m (pg_RemovePage L n p) \<longleftrightarrow> m \<noteq> n \<and> pg_HasPage L m p"
    "pg_HasPage L m (pg_SwitchToPage L n p) \<longleftrightarrow> pg_HasPage L m p"
    "pg_GetFrontPage L (pg_AddPage L n True p) = n"
    "\<not> pg_HasPage L n p \<Longrightarrow> pg_GetFrontPage L (pg_AddPage L n False p) = pg_GetFrontPage L p"
    "pg_HasPage L n p \<Longrightarrow> pg_GetFrontPage L (pg_SwitchToPage L n p) = n"
    "pg_GetFrontPage L p \<noteq> n \<Longrightarrow> pg_GetFrontPage L (pg_RemovePage L n p) = pg_GetFrontPage L p"
  using assms by (simp_all add: pages_ok_def)

section \<open>Dialogs\<close>

text \<open>What dismissing a dialog calls: in the whole program a switch to another page, or nothing.\<close>

record modal =
  md_title :: string
  md_text :: string
  md_button :: string
  md_onDismiss :: "string option"

text \<open>
  The pages, the dialog last shown under each page name, and the goroutines that sleep until they
  close a page.
\<close>

record 'p dialogs =
  dg_pages :: 'p
  dg_modals :: "(string, modal) gomap"
  dg_timers :: "(string \<times> string option) list"

definition dismiss :: "'p pages_lib \<Rightarrow> string \<Rightarrow> string option \<Rightarrow> 'p dialogs \<Rightarrow> 'p dialogs" where
  "dismiss L page onDismiss d =
     (let p = pg_RemovePage L page (dg_pages d)
      in d\<lparr>dg_pages := (case onDismiss of None \<Rightarrow> p | Some target \<Rightarrow> pg_SwitchToPage L target p)\<rparr>)"

definition auto_dismiss :: "string \<Rightarrow> int \<Rightarrow> string option \<Rightarrow> 'p dialogs \<Rightarrow> 'p dialogs" where
  "auto_dismiss page duration onDismiss d =
     (if duration > 0 then d\<lparr>dg_timers := dg_timers d @ [(page, onDismiss)]\<rparr> else d)"

definition ShowToast ::
  "'p pages_lib \<Rightarrow> string \<Rightarrow> int \<Rightarrow> string option \<Rightarrow> 'p dialogs \<Rightarrow> 'p dialogs"
where
  "ShowToast L message duration onDismiss d =
     (let m = \<lparr>md_title = [], md_text = message, md_button = ''OK'', md_onDismiss = onDismiss\<rparr>
      in auto_dismiss ''toast'' duration onDismiss
           (d\<lparr>dg_pages := pg_AddPage L ''toast'' True (dg_pages d), dg_modals := mput ''toast'' m (dg_modals d)\<rparr>))"

definition ShowError ::
  "'p pages_lib \<Rightarrow> string \<Rightarrow> string \<Rightarrow> string \<Rightarrow> int \<Rightarrow> string option \<Rightarrow> 'p dialogs \<Rightarrow> 'p dialogs"
where
  "ShowError L title message actionName duration onDismiss d =
     (let m = \<lparr>md_title = title, md_text = message, md_button = actionName, md_onDismiss = onDismiss\<rparr>
      in auto_dismiss ''error'' duration onDismiss
           (d\<lparr>dg_pages := pg_AddPage L ''error'' True (dg_pages d), dg_modals := mput ''error'' m (dg_modals d)\<rparr>))"

section \<open>What happens to them\<close>

text \<open>
  The button of the dialog in front is pressed, a sleeping goroutine wakes up, or the rest of the
  interface works on the pages.
\<close>

datatype dialog_event =
  Show_Toast string int "string option"
| Show_Error string string string int "string option"
| Press_Button
| Wake_Timer nat
| Open_Page string
| Close_Page string
| Switch_Page string

definition modal_pages :: "string list" where
  "modal_pages = [''toast'', ''error'']"

fun dialog_step :: "'p pages_lib \<Rightarrow> dialog_event \<Rightarrow> 'p dialogs \<Rightarrow> 'p dialogs" where
  "dialog_step L (Show_Toast message duration cb) d = ShowToast L message duration cb d"
| "dialog_step L (Show_Error title message action duration cb) d =
     ShowError L title message action duration cb d"
| "dialog_step L Press_Button d =
     (let page = pg_GetFrontPage L (dg_pages d)
      in if page \<in> set modal_pages
         then (case mget (dg_modals d) page of None \<Rightarrow> d | Some m \<Rightarrow> dismiss L page (md_onDismiss m) d)
         else d)"
| "dialog_step L (Wake_Timer i) d =
     (if i < length (dg_timers d)
      then (let (page, cb) = dg_timers d ! i
            in dismiss L page cb (d\<lparr>dg_timers := take i (dg_timers d) @ drop (Suc i) (dg_timers d)\<rparr>))
      else d)"
| "dialog_step L (Open_Page n) d = d\<lparr>dg_pages := pg_AddPage L n True (dg_pages d)\<rparr>"
| "dialog_step L (Close_Page n) d = d\<lparr>dg_pages := pg_RemovePage L n (dg_pages d)\<rparr>"
| "dialog_step L (Switch_Page n) d = d\<lparr>dg_pages := pg_SwitchToPage L n (dg_pages d)\<rparr>"

fun dialog_run :: "'p pages_lib \<Rightarrow> dialog_event list \<Rightarrow> 'p dialogs \<Rightarrow> 'p dialogs" where
  "dialog_run L [] d = d"
| "dialog_run L (e # es) d = dialog_run L es (dialog_step L e d)"

text \<open>Whether the button is pressed at some time while the page is in front.\<close>

fun acknowledged :: "'p pages_lib \<Rightarrow> string \<Rightarrow> dialog_event list \<Rightarrow> 'p dialogs \<Rightarrow> bool" where
  "acknowledged L page [] d \<longleftrightarrow> False"
| "acknowledged L page (e # es) d \<longleftrightarrow>
     (e = Press_Button \<and> pg_GetFrontPage L (dg_pages d) = page)
     \<or> acknowledged L page es (dialog_step L e d)"

text \<open>An event after which the page does not show what it showed: another dialog, or closing it.\<close>

definition takes_toast :: "dialog_event \<Rightarrow> bool" where
  "takes_toast e \<longleftrightarrow>
     (case e of Show_Toast _ _ _ \<Rightarrow> True | Open_Page n \<Rightarrow> n = ''toast'' | Close_Page n \<Rightarrow> n = ''toast'' | _ \<Rightarrow> False)"

section \<open>Correctness\<close>

definition shows_toast :: "'p pages_lib \<Rightarrow> modal \<Rightarrow> 'p dialogs \<Rightarrow> bool" where
  "shows_toast L m d \<longleftrightarrow> pg_HasPage L ''toast'' (dg_pages d) \<and> mget (dg_modals d) ''toast'' = Some m"

definition no_toast_timer :: "'p dialogs \<Rightarrow> bool" where
  "no_toast_timer d \<longleftrightarrow> ''toast'' \<notin> fst ` set (dg_timers d)"

lemma has_dismiss:
  "pages_ok L \<Longrightarrow> pg_HasPage L n (dg_pages (dismiss L page cb d)) \<longleftrightarrow> n \<noteq> page \<and> pg_HasPage L n (dg_pages d)"
  by (simp add: dismiss_def pages_okD Let_def split: option.split)

lemma dismiss_keeps [simp]:
  "dg_modals (dismiss L page cb d) = dg_modals d" "dg_timers (dismiss L page cb d) = dg_timers d"
  by (simp_all add: dismiss_def Let_def)

lemma dialog_step_toast:
  assumes "pages_ok L" "shows_toast L m d" "no_toast_timer d" "\<not> takes_toast e"
    and "\<not> (e = Press_Button \<and> pg_GetFrontPage L (dg_pages d) = ''toast'')"
  shows "shows_toast L m (dialog_step L e d) \<and> no_toast_timer (dialog_step L e d)"
proof (cases e)
  case (Show_Error title message action duration cb)
  then show ?thesis
    using assms(2,3)
    by (simp add: shows_toast_def no_toast_timer_def ShowError_def auto_dismiss_def map_simps Let_def
        pages_okD [OF assms(1)])
next
  case Press_Button
  then show ?thesis
    using assms(2,3,5)
    by (auto simp: shows_toast_def no_toast_timer_def has_dismiss [OF assms(1)] Let_def split: option.split)
next
  case (Wake_Timer i)
  obtain page cb where t: "i < length (dg_timers d) \<longrightarrow> dg_timers d ! i = (page, cb)" by force
  have "set (take i (dg_timers d) @ drop (Suc i) (dg_timers d)) \<subseteq> set (dg_timers d)"
    by (auto dest: in_set_takeD in_set_dropD)
  moreover have "i < length (dg_timers d) \<longrightarrow> page \<noteq> ''toast''"
    using t assms(3) unfolding no_toast_timer_def by (metis fst_conv image_eqI nth_mem)
  ultimately show ?thesis
    using Wake_Timer t assms(2,3)
    by (auto simp: shows_toast_def no_toast_timer_def has_dismiss [OF assms(1)])
qed (use assms(2-4) in \<open>auto simp: shows_toast_def no_toast_timer_def takes_toast_def pages_okD [OF assms(1)]\<close>)

lemma dialog_run_toast:
  assumes "pages_ok L" "shows_toast L m d" "no_toast_timer d" "\<forall>e \<in> set es. \<not> takes_toast e"
    and "\<not> acknowledged L ''toast'' es d"
  shows "shows_toast L m (dialog_run L es d)"
  using assms(2-5)
proof (induction es arbitrary: d)
  case (Cons e es)
  then show ?case using dialog_step_toast [OF assms(1), of m d e] by simp
qed simp

text \<open>An event that brings another page to the front, and goroutines that only remove their page.\<close>

definition covers :: "dialog_event \<Rightarrow> bool" where
  "covers e \<longleftrightarrow>
     (case e of Show_Error _ _ _ _ _ \<Rightarrow> True | Open_Page _ \<Rightarrow> True | Switch_Page _ \<Rightarrow> True | _ \<Rightarrow> False)"

definition plain_timers :: "'p dialogs \<Rightarrow> bool" where
  "plain_timers d \<longleftrightarrow> (\<forall>(page, cb) \<in> set (dg_timers d). cb = None)"

definition front_toast :: "'p pages_lib \<Rightarrow> 'p dialogs \<Rightarrow> bool" where
  "front_toast L d \<longleftrightarrow> pg_GetFrontPage L (dg_pages d) = ''toast''"

lemma dialog_step_front:
  assumes "pages_ok L" "front_toast L d" "no_toast_timer d" "plain_timers d" "\<not> takes_toast e" "\<not> covers e"
    and "\<not> (e = Press_Button \<and> pg_GetFrontPage L (dg_pages d) = ''toast'')"
  shows "front_toast L (dialog_step L e d) \<and> plain_timers (dialog_step L e d)"
proof (cases e)
  case (Wake_Timer i)
  obtain page cb where t: "i < length (dg_timers d) \<longrightarrow> dg_timers d ! i = (page, cb)" by force
  then have "i < length (dg_timers d) \<longrightarrow> (page, cb) \<in> set (dg_timers d)" by (metis nth_mem)
  then have woken: "i < length (dg_timers d) \<longrightarrow> page \<noteq> ''toast'' \<and> cb = None"
    using assms(3,4) by (force simp: no_toast_timer_def plain_timers_def)
  have "set (take i (dg_timers d) @ drop (Suc i) (dg_timers d)) \<subseteq> set (dg_timers d)"
    by (auto dest: in_set_takeD in_set_dropD)
  then show ?thesis
    using Wake_Timer t woken assms(2,4)
    by (auto simp: front_toast_def plain_timers_def dismiss_def pages_okD [OF assms(1)])
qed (use assms(2-7) in \<open>auto simp: front_toast_def plain_timers_def takes_toast_def covers_def pages_okD [OF assms(1)]\<close>)

lemma dialog_run_front:
  assumes "pages_ok L" "shows_toast L m d" "front_toast L d" "no_toast_timer d" "plain_timers d"
    and "\<forall>e \<in> set es. \<not> takes_toast e" "\<forall>e \<in> set es. \<not> covers e" "\<not> acknowledged L ''toast'' es d"
  shows "front_toast L (dialog_run L es d)"
  using assms(2-8)
proof (induction es arbitrary: d)
  case (Cons e es)
  then show ?case
    using dialog_step_toast [OF assms(1), of m d e] dialog_step_front [OF assms(1), of d e] by simp
qed simp

text \<open>
  C27. A toast that is not to close by itself, as the one with the identifier of a new private
  server, comes to the front and its page stays until its button is pressed, whatever else
  happens, provided no goroutine of an earlier toast is still asleep and no later toast takes its
  place. Another page may cover it meanwhile; if none is opened or switched to, neither by the
  rest of the interface nor by a goroutine of an error dialog, it stays in front.
\<close>

theorem toast_stays_until_acknowledged:
  assumes "pages_ok L" "no_toast_timer d" "\<forall>e \<in> set es. \<not> takes_toast e"
    and "\<not> acknowledged L ''toast'' es (ShowToast L message 0 cb d)"
  shows "shows_toast L \<lparr>md_title = [], md_text = message, md_button = ''OK'', md_onDismiss = cb\<rparr>
      (dialog_run L es (ShowToast L message 0 cb d))
    \<and> pg_GetFrontPage L (dg_pages (ShowToast L message 0 cb d)) = ''toast''
    \<and> ((\<forall>e \<in> set es. \<not> covers e) \<and> (\<forall>(page, cb) \<in> set (dg_timers d). cb = None) \<longrightarrow>
        pg_GetFrontPage L (dg_pages (dialog_run L es (ShowToast L message 0 cb d))) = ''toast'')"
proof -
  let ?d = "ShowToast L message 0 cb d"
  let ?m = "\<lparr>md_title = [], md_text = message, md_button = ''OK'', md_onDismiss = cb\<rparr>"
  have d: "shows_toast L ?m ?d" "front_toast L ?d" "no_toast_timer ?d" "plain_timers ?d = plain_timers d"
    using assms(2)
    by (simp_all add: shows_toast_def front_toast_def no_toast_timer_def plain_timers_def ShowToast_def
        auto_dismiss_def map_simps pages_okD [OF assms(1)] Let_def)
  have "shows_toast L ?m (dialog_run L es ?d)"
    by (rule dialog_run_toast [OF assms(1) d(1,3) assms(3,4)])
  moreover have "front_toast L (dialog_run L es ?d)" if "\<forall>e \<in> set es. \<not> covers e" "plain_timers d"
    using dialog_run_front [OF assms(1) d(1-3) _ assms(3) that(1) assms(4)] that(2) d(4) by simp
  ultimately show ?thesis using d(2) by (simp add: front_toast_def plain_timers_def)
qed

text \<open>
  C28. The provision is needed: pressing the button of a toast does not stop its goroutine, which
  closes the page of that name when it wakes up, whichever toast is shown there by then. A notice
  that was to stay is gone without its button having been pressed.
\<close>

theorem stale_timer_closes_notice:
  assumes "pages_ok L" "0 < duration"
    and "d3 = dialog_run L [Show_Toast first duration None, Press_Button, Show_Toast notice 0 cb] d"
  shows "shows_toast L \<lparr>md_title = [], md_text = notice, md_button = ''OK'', md_onDismiss = cb\<rparr> d3
    \<and> \<not> acknowledged L ''toast'' [Wake_Timer (length (dg_timers d))] d3
    \<and> \<not> pg_HasPage L ''toast'' (dg_pages (dialog_run L [Wake_Timer (length (dg_timers d))] d3))"
proof -
  have "dg_timers d3 = dg_timers d @ [(''toast'', None)]"
    using assms by (simp add: ShowToast_def auto_dismiss_def modal_pages_def map_simps Let_def pages_okD)
  then show ?thesis
    using assms
    by (simp add: shows_toast_def ShowToast_def auto_dismiss_def modal_pages_def map_simps Let_def
        pages_okD has_dismiss [OF assms(1)])
qed

section \<open>Witnesses\<close>

text \<open>Pages as a list, the front ones last, each with its visibility.\<close>

definition list_pages :: "(string \<times> bool) list pages_lib" where
  "list_pages = \<lparr>
     pg_AddPage = (\<lambda>n v p. filter (\<lambda>q. fst q \<noteq> n) p @ [(n, v)]),
     pg_RemovePage = (\<lambda>n. filter (\<lambda>q. fst q \<noteq> n)),
     pg_SwitchToPage = (\<lambda>n. map (\<lambda>q. (fst q, fst q = n))),
     pg_HasPage = (\<lambda>n. list_ex (\<lambda>q. fst q = n)),
     pg_GetFrontPage = (\<lambda>p. case filter snd (rev p) of [] \<Rightarrow> [] | q # _ \<Rightarrow> fst q)\<rparr>"

lemma front_filter:
  "(case filter snd p of [] \<Rightarrow> [] | q # _ \<Rightarrow> fst q) \<noteq> n \<Longrightarrow>
   (case filter snd (filter (\<lambda>q. fst q \<noteq> n) p) of [] \<Rightarrow> [] | q # _ \<Rightarrow> fst q)
     = (case filter snd p of [] \<Rightarrow> [] | q # _ \<Rightarrow> fst q)"
  by (induction p) auto

lemma front_switched:
  "list_ex (\<lambda>q. fst q = n) p \<Longrightarrow>
   (case filter snd (map (\<lambda>q. (fst q, fst q = n)) p) of [] \<Rightarrow> [] | q # _ \<Rightarrow> fst q) = n"
  by (induction p) auto

lemma list_ex_filtered: "list_ex (\<lambda>q. fst q = m) (filter (\<lambda>q. fst q \<noteq> n) p) \<longleftrightarrow> m \<noteq> n \<and> list_ex (\<lambda>q. fst q = m) p"
  by (induction p) auto

lemma list_ex_switched: "list_ex (\<lambda>q. fst q = m) (map (\<lambda>q. (fst q, fst q = n)) p) \<longleftrightarrow> list_ex (\<lambda>q. fst q = m) p"
  by (induction p) auto

lemma list_pages_ok: "pages_ok list_pages"
  unfolding pages_ok_def
proof (intro conjI allI impI)
  fix n p assume "\<not> pg_HasPage list_pages n p"
  then have "filter (\<lambda>q. fst q \<noteq> n) p = p" by (induction p) (auto simp: list_pages_def)
  then show "pg_GetFrontPage list_pages (pg_AddPage list_pages n False p) = pg_GetFrontPage list_pages p"
    by (simp add: list_pages_def)
next
  fix n p assume "pg_HasPage list_pages n p"
  then show "pg_GetFrontPage list_pages (pg_SwitchToPage list_pages n p) = n"
    using front_switched [of n "rev p"] by (simp add: list_pages_def rev_map)
next
  fix n p assume "pg_GetFrontPage list_pages p \<noteq> n"
  then show "pg_GetFrontPage list_pages (pg_RemovePage list_pages n p) = pg_GetFrontPage list_pages p"
    using front_filter [of "rev p" n] by (simp add: list_pages_def rev_filter)
qed (auto simp: list_pages_def list_ex_filtered list_ex_switched)

definition sample_dialogs :: "(string \<times> bool) list dialogs" where
  "sample_dialogs = \<lparr>dg_pages = [(''browse'', True)], dg_modals = [], dg_timers = []\<rparr>"

lemma toast_stays_until_acknowledged_witness:
  "shows_toast list_pages \<lparr>md_title = [], md_text = ''id'', md_button = ''OK'', md_onDismiss = None\<rparr>
     (dialog_run list_pages [Show_Error ''t'' ''m'' ''OK'' 3 None, Wake_Timer 0, Switch_Page ''browse'']
       (ShowToast list_pages ''id'' 0 None sample_dialogs))
   \<and> pg_GetFrontPage list_pages (dg_pages (dialog_run list_pages [Close_Page ''createServer'', Wake_Timer 0]
       (ShowToast list_pages ''id'' 0 None (sample_dialogs\<lparr>dg_timers := [(''error'', None)]\<rparr>)))) = ''toast''"
proof -
  have "no_toast_timer sample_dialogs" "no_toast_timer (sample_dialogs\<lparr>dg_timers := [(''error'', None)]\<rparr>)"
    by (simp_all add: sample_dialogs_def no_toast_timer_def)
  note stays = this [THEN toast_stays_until_acknowledged [OF list_pages_ok]]
  from stays(1) [of "[Show_Error ''t'' ''m'' ''OK'' 3 None, Wake_Timer 0, Switch_Page ''browse'']" "''id''" None]
    stays(2) [of "[Close_Page ''createServer'', Wake_Timer 0]" "''id''" None]
  show ?thesis by (simp add: sample_dialogs_def takes_toast_def covers_def)
qed

lemma stale_timer_closes_notice_witness:
  "\<not> pg_HasPage list_pages ''toast'' (dg_pages (dialog_run list_pages [Wake_Timer 0]
     (dialog_run list_pages [Show_Toast ''a'' 3 None, Press_Button, Show_Toast ''id'' 0 None] sample_dialogs)))"
  using stale_timer_closes_notice [OF list_pages_ok, of 3 _ "''a''" "''id''" None sample_dialogs, OF _ refl]
  by (simp add: sample_dialogs_def del: dialog_run.simps)

end
