(* ===== verification/Theme.thy ===== *)
theory Theme
  imports Misc Errors Json_Codec
begin

text \<open>
  ui/theme.go: colours written as hexadecimal numbers, as \<open>rgb(...)\<close>, as maps or by name, and
  themes as tables of them. The YAML of a theme is an argument, as it was decoded. A colour of the
  terminal library is known by how it was made; the names are those of its constants.
\<close>

section \<open>Colours and values\<close>

datatype color =
    ColorBlack | ColorRed | ColorGreen | ColorYellow | ColorBlue | ColorDarkMagenta | ColorLightCyan
  | ColorWhite | ColorGray | NewRGBColor int int int | ColorNumber u64

text \<open>A YAML value decoded to \<open>any\<close>; values of another type are known by its name.\<close>

datatype yaml = YString string | YInt int | YMap "(string, yaml) gomap" | YOther string

definition int32_of :: "int \<Rightarrow> int" where
  "int32_of i = sint (word_of_int i :: 32 word)"

text \<open>An error of strconv, whose text is not modelled.\<close>

definition num_error :: go_error where
  "num_error = Errorf ''strconv: parsing''"

section \<open>Strings\<close>

text \<open>
  \<open>strconv.ParseInt\<close> with an explicit base and \<open>strconv.Atoi\<close>: an optional sign, then digits of
  the base, within 64 bits.
\<close>

definition digit_of :: "nat \<Rightarrow> char \<Rightarrow> nat option" where
  "digit_of base c =
     (let n = code c;
          d = (if 48 \<le> n \<and> n \<le> 57 then n - 48
               else if 97 \<le> n \<and> n \<le> 122 then n - 87
               else if 65 \<le> n \<and> n \<le> 90 then n - 55 else base)
      in if d < base then Some d else None)"

fun digits_in :: "nat \<Rightarrow> nat \<Rightarrow> string \<Rightarrow> nat option" where
  "digits_in base acc [] = Some acc"
| "digits_in base acc (c # cs) =
     (case digit_of base c of None \<Rightarrow> None | Some d \<Rightarrow> digits_in base (acc * base + d) cs)"

definition parse_int :: "nat \<Rightarrow> string \<Rightarrow> int result" where
  "parse_int base s =
     (let neg = (take 1 s = ''-''); ds = (if take 1 s = ''-'' \<or> take 1 s = ''+'' then drop 1 s else s) in
      if ds = [] then Inl num_error
      else
        (case digits_in base 0 ds of
           None \<Rightarrow> Inl num_error
         | Some n \<Rightarrow>
             (let i = (if neg then - int n else int n) in if in_int64 i then Inr i else Inl num_error)))"

definition HasPrefix :: "string \<Rightarrow> string \<Rightarrow> bool" where
  "HasPrefix s p \<longleftrightarrow> take (length p) s = p"

definition TrimPrefix :: "string \<Rightarrow> string \<Rightarrow> string" where
  "TrimPrefix s p = (if HasPrefix s p then drop (length p) s else s)"

definition TrimSuffix :: "string \<Rightarrow> string \<Rightarrow> string" where
  "TrimSuffix s p = (if HasSuffix s p then take (length s - length p) s else s)"

text \<open>The white space characters, each as its bytes.\<close>

definition spaces :: "string list" where
  "spaces = map utf8_encode
     ([9, 10, 11, 12, 13, 32, 133, 160, 5760] @ [8192..<8203] @ [8232, 8233, 8239, 8287, 12288])"

text \<open>One character is taken off at a time; the length bounds how often.\<close>

fun trim_left :: "nat \<Rightarrow> string \<Rightarrow> string" where
  "trim_left 0 s = s"
| "trim_left (Suc n) s =
     (case find (HasPrefix s) spaces of None \<Rightarrow> s | Some p \<Rightarrow> trim_left n (TrimPrefix s p))"

fun trim_right :: "nat \<Rightarrow> string \<Rightarrow> string" where
  "trim_right 0 s = s"
| "trim_right (Suc n) s =
     (case find (HasSuffix s) spaces of None \<Rightarrow> s | Some p \<Rightarrow> trim_right n (TrimSuffix s p))"

definition TrimSpace :: "string \<Rightarrow> string" where
  "TrimSpace s = (let t = trim_left (length s) s in trim_right (length t) t)"

text \<open>\<open>strings.Split\<close> at one character.\<close>

fun Split :: "char \<Rightarrow> string \<Rightarrow> string list" where
  "Split sep [] = [[]]"
| "Split sep (c # cs) =
     (if c = sep then [] # Split sep cs
      else (case Split sep cs of [] \<Rightarrow> [[c]] | p # ps \<Rightarrow> (c # p) # ps))"

text \<open>
  \<open>strings.ToLower\<close> as far as ASCII results go: besides the capitals, U+0130 and U+212A become
  letters of ASCII. Other letters are left as they are, which shows in the text of an error only.
\<close>

fun ToLower :: "string \<Rightarrow> string" where
  "ToLower [] = []"
| "ToLower (c # cs) =
     (if take 2 (c # cs) = utf8_encode 304 then CHR ''i'' # ToLower (drop 1 cs)
      else if take 3 (c # cs) = utf8_encode 8490 then CHR ''k'' # ToLower (drop 2 cs)
      else fold_char c # ToLower cs)"

section \<open>Parsing a colour\<close>

definition rgb_color :: "int \<Rightarrow> int \<Rightarrow> int \<Rightarrow> color" where
  "rgb_color r g b = NewRGBColor (int32_of r) (int32_of g) (int32_of b)"

definition three_ints :: "nat \<Rightarrow> string \<Rightarrow> string \<Rightarrow> string \<Rightarrow> color result" where
  "three_ints base rs gs bs =
     (case parse_int base rs of Inl err \<Rightarrow> Inl err | Inr r \<Rightarrow>
     (case parse_int base gs of Inl err \<Rightarrow> Inl err | Inr g \<Rightarrow>
     (case parse_int base bs of Inl err \<Rightarrow> Inl err | Inr b \<Rightarrow> Inr (rgb_color r g b))))"

text \<open>\<open>string(c)\<close> of a byte is the character of that number.\<close>

definition twice :: "char \<Rightarrow> string" where
  "twice c = utf8_encode (code c) @ utf8_encode (code c)"

definition parseHexColor :: "string \<Rightarrow> color result" where
  "parseHexColor hexStr =
     (let h = TrimPrefix hexStr ''#'' in
      if length h = 3 then three_ints 16 (twice (h ! 0)) (twice (h ! 1)) (twice (h ! 2))
      else if length h = 6 then three_ints 16 (take 2 h) (take 2 (drop 2 h)) (take 2 (drop 4 h))
      else Inl (ThemeError (''invalid hex color format: '' @ h)))"

definition parseRGBFunction :: "string \<Rightarrow> color result" where
  "parseRGBFunction rgbStr =
     (let s = TrimSuffix (TrimPrefix rgbStr ''rgb('') '')'' in
      case Split (CHR '','') s of
        [r, g, b] \<Rightarrow> three_ints 10 (TrimSpace r) (TrimSpace g) (TrimSpace b)
      | _ \<Rightarrow> Inl (Errorf (''invalid RGB format: '' @ s)))"

definition namedColors :: "(string, color) gomap" where
  "namedColors =
     [(''black'', ColorBlack), (''red'', ColorRed), (''green'', ColorGreen), (''yellow'', ColorYellow),
      (''blue'', ColorBlue), (''magenta'', ColorDarkMagenta), (''cyan'', ColorLightCyan),
      (''white'', ColorWhite), (''gray'', ColorGray), (''grey'', ColorGray)]"

definition parseNamedColor :: "string \<Rightarrow> color result" where
  "parseNamedColor name =
     (case mget namedColors (ToLower name) of
        Some c \<Rightarrow> Inr c
      | None \<Rightarrow> Inl (ThemeError (''unknown color name: '' @ ToLower name)))"

definition parseColorString :: "string \<Rightarrow> color result" where
  "parseColorString colorStr =
     (let s = TrimSpace colorStr in
      if HasPrefix s ''#'' then parseHexColor s
      else if HasPrefix s ''rgb('' \<and> HasSuffix s '')'' then parseRGBFunction s
      else parseNamedColor s)"

definition int_value :: "string \<Rightarrow> yaml \<Rightarrow> int result" where
  "int_value component v =
     (case v of YInt i \<Rightarrow> Inr i | _ \<Rightarrow> Inl (ThemeError (component @ '' VALUE MUST BE AN INTEGER'')))"

definition parseColorMap :: "(string, yaml) gomap \<Rightarrow> color result" where
  "parseColorMap colorMap =
     (case (mget colorMap ''r'', mget colorMap ''g'', mget colorMap ''b'') of
        (Some rVal, Some gVal, Some bVal) \<Rightarrow>
          (case int_value ''RED'' rVal of Inl err \<Rightarrow> Inl err | Inr r \<Rightarrow>
          (case int_value ''GREEN'' gVal of Inl err \<Rightarrow> Inl err | Inr g \<Rightarrow>
          (case int_value ''BLUE'' bVal of Inl err \<Rightarrow> Inl err | Inr b \<Rightarrow> Inr (rgb_color r g b))))
      | _ \<Rightarrow> Inl (ThemeError ''RGB COLOR MAP MUST HAVE R, G, B VALUES''))"

fun parseColor :: "yaml \<Rightarrow> color result" where
  "parseColor (YString s) = parseColorString s"
| "parseColor (YInt i) = Inr (ColorNumber (word_of_int i))"
| "parseColor (YMap m) = parseColorMap m"
| "parseColor (YOther t) = Inl (ThemeError (''unsupported color format: '' @ t))"

section \<open>Themes\<close>

record theme_config =
  tc_Name :: string
  tc_Description :: string
  tc_Author :: string
  tc_Version :: string
  tc_Colors :: "(string, yaml) gomap"

record theme =
  th_Name :: string
  th_Description :: string
  th_Author :: string
  th_Version :: string
  th_colors :: "(string, color) gomap"

text \<open>The loop over the colours, in the order in which the map is visited.\<close>

fun process_colors :: "(string \<times> yaml) list \<Rightarrow> (string, color) gomap \<Rightarrow> (string, color) gomap result" where
  "process_colors [] colors = Inr colors"
| "process_colors ((key, v) # kvs) colors =
     (case parseColor v of
        Inl err \<Rightarrow>
          Inl (ThemeError (''failed to parse color '' @ [CHR 0x27] @ key @ [CHR 0x27] @ '': '' @ Error_text err))
      | Inr c \<Rightarrow> process_colors kvs (mput key c colors))"

text \<open>
  Reading the file and decoding its YAML are arguments, and so is the order in which the colours
  are visited.
\<close>

definition LoadTheme ::
  "(string \<Rightarrow> string result) \<Rightarrow> (string \<Rightarrow> theme_config result)
     \<Rightarrow> ((string \<times> yaml) list \<Rightarrow> (string \<times> yaml) list) \<Rightarrow> string \<Rightarrow> theme result"
where
  "LoadTheme readFile decode visit themePath =
     (case readFile themePath of
        Inl err \<Rightarrow> Inl (ThemeError (''failed to read theme file: '' @ Error_text err))
      | Inr data \<Rightarrow>
          (case decode data of
             Inl err \<Rightarrow> Inl (ThemeError (''failed to parse theme YAML: '' @ Error_text err))
           | Inr config \<Rightarrow>
               (case process_colors (visit (tc_Colors config)) [] of
                  Inl err \<Rightarrow> Inl err
                | Inr colors \<Rightarrow>
                    Inr \<lparr>th_Name = tc_Name config, th_Description = tc_Description config,
                      th_Author = tc_Author config, th_Version = tc_Version config,
                      th_colors = colors\<rparr>)))"

text \<open>When the theme cannot be loaded, the first YAML file of the built-in ones is taken.\<close>

definition LoadThemeFromDir ::
  "(string \<Rightarrow> theme result) \<Rightarrow> (string list \<Rightarrow> string) \<Rightarrow> (string \<Rightarrow> (string \<times> bool) list result)
     \<Rightarrow> string \<Rightarrow> string \<Rightarrow> theme result"
where
  "LoadThemeFromDir load joinPath readDir themesDir themeName =
     (case load (joinPath [themesDir, themeName @ ''.yaml'']) of
        Inr t \<Rightarrow> Inr t
      | Inl _ \<Rightarrow>
          (let dir = joinPath [''..'', ''..'', ''themes''] in
           case readDir dir of
             Inl err \<Rightarrow> Inl err
           | Inr files \<Rightarrow>
               (case find (\<lambda>(name, isDir). \<not> isDir \<and> HasSuffix name ''.yaml'') files of
                  Some (name, _) \<Rightarrow> load (joinPath [dir, name])
                | None \<Rightarrow> Inl (Errorf (''no .yaml theme found in '' @ dir)))))"

definition GetColor :: "string \<Rightarrow> theme \<Rightarrow> color" where
  "GetColor name t = (case mget (th_colors t) name of Some c \<Rightarrow> c | None \<Rightarrow> ColorWhite)"

definition GetColorWithFallback :: "string \<Rightarrow> color \<Rightarrow> theme \<Rightarrow> color" where
  "GetColorWithFallback name fallback t =
     (case mget (th_colors t) name of Some c \<Rightarrow> c | None \<Rightarrow> fallback)"

definition HasColor :: "string \<Rightarrow> theme \<Rightarrow> bool" where
  "HasColor name t \<longleftrightarrow> mget (th_colors t) name \<noteq> None"

definition ListColors :: "theme \<Rightarrow> string list" where
  "ListColors t = map fst (th_colors t)"

definition FormColors :: "theme \<Rightarrow> color \<times> color \<times> color \<times> color \<times> color" where
  "FormColors t = (GetColor ''background'' t, GetColor ''input-field'' t, GetColor ''button-active'' t,
     GetColor ''button-text'' t, GetColor ''foreground'' t)"

definition TextViewColors :: "theme \<Rightarrow> color \<times> color" where
  "TextViewColors t = (GetColor ''background'' t, GetColor ''foreground'' t)"

definition ModalColors :: "theme \<Rightarrow> color \<times> color \<times> color" where
  "ModalColors t = (GetColor ''modal-background'' t, GetColor ''foreground'' t, GetColor ''border'' t)"

definition BorderColors :: "theme \<Rightarrow> color \<times> color" where
  "BorderColors t = (GetColor ''border'' t, GetColor ''border-focus'' t)"

section \<open>What can be written can be read\<close>

lemma hex_digit_of: "n < 16 \<Longrightarrow> digit_of 16 (hex_digit n) = Some n"
  by (drule less_16_cases) (auto simp: hex_digit_def digit_of_def Let_def)

lemma hex_digit_char: "n < 16 \<Longrightarrow> code (hex_digit n) < 128 \<and> hex_digit n \<notin> {CHR ''-'', CHR ''+'', CHR ''#''}"
  by (drule less_16_cases) (auto simp: hex_digit_def)

text \<open>No character that can be seen in ASCII begins or ends white space.\<close>

definition visible :: "char \<Rightarrow> bool" where
  "visible c \<longleftrightarrow> 32 < code c \<and> code c < 128"

lemma spaces_invisible: "p \<in> set spaces \<Longrightarrow> p \<noteq> [] \<and> \<not> visible (hd p) \<and> \<not> visible (last p)"
  by (auto simp: spaces_def utf8_encode_def visible_def upt_rec_numeral)

lemma no_space_prefix: "s = [] \<or> visible (hd s) \<Longrightarrow> find (HasPrefix s) spaces = None"
  unfolding find_None_iff HasPrefix_def
  by (metis hd_take length_greater_0_conv spaces_invisible take_Nil)

lemma HasSuffix_last: "HasSuffix s p \<Longrightarrow> p \<noteq> [] \<Longrightarrow> last p = last s"
  unfolding HasSuffix_def by (metis last_drop drop_eq_Nil leI)

lemma no_space_suffix: "s = [] \<or> visible (last s) \<Longrightarrow> find (HasSuffix s) spaces = None"
  unfolding find_None_iff
  by (metis HasSuffix_def HasSuffix_last drop_Nil spaces_invisible)

lemma trims_none [simp]:
  "find (HasPrefix s) spaces = None \<Longrightarrow> trim_left n s = s"
  "find (HasSuffix s) spaces = None \<Longrightarrow> trim_right n s = s"
  by (cases n; simp)+

lemma TrimSpace_visible: "visible (hd s) \<Longrightarrow> visible (last s) \<Longrightarrow> TrimSpace s = s"
  by (simp add: TrimSpace_def no_space_prefix no_space_suffix)

lemma char_of_32 [simp]: "char_of (32 :: nat) = CHR '' ''"
  by code_simp

lemma spaces_blank: "p \<in> set spaces \<Longrightarrow> code (hd p) = 32 \<Longrightarrow> p = '' ''"
  by (auto simp: spaces_def utf8_encode_def upt_rec_numeral)

lemma blank_in_spaces: "'' '' \<in> set spaces"
  by (simp add: spaces_def utf8_encode_def)

lemma find_blank: "find (HasPrefix (CHR '' '' # s)) spaces = Some '' ''"
proof (cases "find (HasPrefix (CHR '' '' # s)) spaces")
  case None
  then show ?thesis using blank_in_spaces by (auto simp: find_None_iff HasPrefix_def)
next
  case (Some p)
  then have p: "p \<in> set spaces" "take (length p) (CHR '' '' # s) = p"
    by (auto simp: find_Some_iff HasPrefix_def)
  then have "hd p = CHR '' ''"
    using spaces_invisible [OF p(1)] by (metis hd_take length_greater_0_conv list.sel(1))
  with Some spaces_blank [OF p(1)] show ?thesis by simp
qed

lemma TrimSpace_blank: "visible (hd s) \<Longrightarrow> visible (last s) \<Longrightarrow> TrimSpace (CHR '' '' # s) = s"
  by (simp add: TrimSpace_def find_blank TrimPrefix_def HasPrefix_def no_space_prefix no_space_suffix)

lemma in_int64_small: "0 \<le> i \<Longrightarrow> i < 256 \<Longrightarrow> in_int64 i"
  by (simp add: in_int64_def)

lemma in_int64_byte: "in_int64 (uint (b :: byte))"
  using uint_bounded [of b] by (intro in_int64_small) simp_all

lemma hex_digit_visible: "n < 16 \<Longrightarrow> visible (hex_digit n)"
  by (drule less_16_cases) (auto simp: hex_digit_def visible_def)

lemma hex_byte:
  fixes b :: byte
  shows "parse_int 16 [hex_digit (unat b div 16), hex_digit (unat b mod 16)] = Inr (uint b)"
  using hex_digit_char [OF byte_nibbles(1), of b] in_int64_byte [of b]
  by (simp add: parse_int_def hex_digit_of byte_nibbles Let_def)

lemma int32_small: "0 \<le> i \<Longrightarrow> i < 256 \<Longrightarrow> int32_of i = i"
  unfolding int32_of_def signed_of_int
  by (simp add: signed_take_bit_int_eq_self)

lemma int32_byte [simp]: "int32_of (uint (b :: byte)) = uint b"
  using uint_bounded [of b] by (intro int32_small) simp_all

lemma digits_in_append:
  "digits_in base acc (s @ t) = Option.bind (digits_in base acc s) (\<lambda>n. digits_in base n t)"
  by (induction s arbitrary: acc) (auto split: option.splits)

lemma digit_of_ten: "n < 10 \<Longrightarrow> digit_of 10 (char_of (48 + n)) = Some n"
  by (simp add: digit_of_def)

lemma digits_in_literal: "digits_in 10 0 (nat_literal n) = Some n"
proof (induction n rule: nat_literal.induct)
  case (1 n)
  then show ?case
    by (subst nat_literal.simps) (auto simp: digits_in_append digit_of_ten)
qed

lemma digits_visible: "is_digit c \<Longrightarrow> visible c \<and> c \<noteq> CHR '','' \<and> c \<noteq> CHR ''-'' \<and> c \<noteq> CHR ''+''"
  by (auto simp: is_digit_def visible_def)

lemma nat_literal_head: "hd (nat_literal n) \<notin> {CHR ''-'', CHR ''+''} \<and> nat_literal n \<noteq> []"
  using nat_literal_digits [of n] by (cases "nat_literal n") (auto dest: digits_visible)

lemma nat_literal_no_sign: "take (Suc 0) (nat_literal n) \<noteq> ''-'' \<and> take (Suc 0) (nat_literal n) \<noteq> ''+''"
  using nat_literal_head [of n] by (cases "nat_literal n") auto

lemma parse_literal: "in_int64 i \<Longrightarrow> parse_int 10 (literal_of_int i) = Inr i"
  using nat_literal_no_sign nat_literal_head
  by (cases "i < 0") (simp_all add: parse_int_def literal_of_int_def Let_def digits_in_literal)

lemma literal_chars: "c \<in> set (literal_of_int i) \<Longrightarrow> visible c \<and> c \<noteq> CHR '',''"
  using nat_literal_digits [of "nat i"] nat_literal_digits [of "nat (- i)"]
  by (auto simp: literal_of_int_def list_all_iff visible_def split: if_splits dest!: bspec digits_visible)

lemma literal_not_empty [simp]: "literal_of_int i \<noteq> []"
  using nat_literal_digits by (simp add: literal_of_int_def)

lemma literal_visible: "visible (hd (literal_of_int i))" "visible (last (literal_of_int i))"
  using literal_chars [of _ i] by simp_all

lemma literal_no_comma: "CHR '','' \<notin> set (literal_of_int i)"
  using literal_chars [of "CHR '',''" i] by blast

lemma Split_one: "sep \<notin> set s \<Longrightarrow> Split sep s = [s]"
  by (induction s) auto

lemma Split_append: "sep \<notin> set s \<Longrightarrow> Split sep (s @ sep # t) = s # Split sep t"
  by (induction s) auto

section \<open>Colours\<close>

text \<open>The notation with \<open>rgb(...)\<close>, as the themes write it.\<close>

definition rgb_text :: "int \<Rightarrow> int \<Rightarrow> int \<Rightarrow> string" where
  "rgb_text r g b = ''rgb('' @ literal_of_int r @ '', '' @ literal_of_int g @ '', '' @ literal_of_int b @ '')''"

lemma HasSuffix_append [simp]: "HasSuffix (s @ t) t"
  by (simp add: HasSuffix_def)

lemma parse_rgb_text:
  assumes "in_int64 r" "in_int64 g" "in_int64 b"
  shows "parseColorString (rgb_text r g b) = Inr (rgb_color r g b)"
proof -
  define body where "body = literal_of_int r @ '', '' @ literal_of_int g @ '', '' @ literal_of_int b"
  have shape: "rgb_text r g b = ''rgb('' @ body @ '')''" by (simp add: rgb_text_def body_def)
  have "HasSuffix ((''rgb('' @ body) @ '')'') '')''" "HasSuffix (body @ '')'') '')''"
    by (rule HasSuffix_append)+
  then have "HasSuffix (rgb_text r g b) '')''" "TrimSuffix (TrimPrefix (rgb_text r g b) ''rgb('') '')'' = body"
    by (simp_all add: shape TrimPrefix_def HasPrefix_def TrimSuffix_def)
  moreover have "TrimSpace (rgb_text r g b) = rgb_text r g b"
    by (rule TrimSpace_visible) (simp_all add: shape visible_def)
  moreover have "HasPrefix (rgb_text r g b) ''rgb(''" "\<not> HasPrefix (rgb_text r g b) ''#''"
    by (simp_all add: shape HasPrefix_def)
  moreover have "Split (CHR '','') body
      = [literal_of_int r, CHR '' '' # literal_of_int g, CHR '' '' # literal_of_int b]"
    using literal_no_comma [of r] literal_no_comma [of g] literal_no_comma [of b]
    by (simp add: body_def Split_append Split_append [of _ "CHR '' '' # literal_of_int g", simplified] Split_one)
  ultimately show ?thesis
    using assms
    by (simp add: parseColorString_def parseRGBFunction_def three_ints_def TrimSpace_visible
        TrimSpace_blank literal_visible parse_literal)
qed

lemma hex_notation:
  "parseColor (YString (''#'' @ hex_EncodeToString [r, g, b])) = Inr (NewRGBColor (uint r) (uint g) (uint b))"
proof -
  let ?s = "''#'' @ hex_EncodeToString [r, g, b]"
  have "visible (hex_digit (unat b mod 16))"
    by (rule hex_digit_visible) simp
  then have "TrimSpace ?s = ?s"
    by (intro TrimSpace_visible) (simp_all add: visible_def)
  then show ?thesis
    by (simp add: parseColorString_def HasPrefix_def parseHexColor_def TrimPrefix_def three_ints_def
        hex_byte rgb_color_def)
qed

text \<open>
  C29. The notations of a colour agree: six hexadecimal digits, \<open>rgb(...)\<close> and a map of integers
  give the same colour, which has the components that were written.
\<close>

lemma color_notations_agree:
  fixes r g b :: byte
  shows "parseColor (YString (''#'' @ hex_EncodeToString [r, g, b])) = Inr (NewRGBColor (uint r) (uint g) (uint b))
    \<and> parseColor (YString (rgb_text (uint r) (uint g) (uint b))) = Inr (NewRGBColor (uint r) (uint g) (uint b))
    \<and> parseColor (YMap [(''b'', YInt (uint b)), (''g'', YInt (uint g)), (''r'', YInt (uint r))])
      = Inr (NewRGBColor (uint r) (uint g) (uint b))"
  by (intro conjI hex_notation)
    (simp_all add: parse_rgb_text in_int64_byte rgb_color_def parseColorMap_def int_value_def)

text \<open>
  The short form of a hexadecimal colour is the long form with every digit doubled, errors
  included.
\<close>

lemma short_hex_expands:
  assumes "code c < 128" "code d < 128" "code e < 128"
  shows "parseHexColor [CHR ''#'', c, d, e] = parseHexColor [CHR ''#'', c, c, d, d, e, e]"
  using assms by (simp add: parseHexColor_def TrimPrefix_def HasPrefix_def twice_def utf8_encode_def)

text \<open>Signs pass for hexadecimal digits, and components need not be within a byte.\<close>

lemma signed_hex_accepted: "parseHexColor ''#+1-2+3'' = Inr (NewRGBColor 1 (- 2) 3)"
  by code_simp

section \<open>Themes\<close>

lemma process_colors_other:
  "process_colors kvs acc = Inr colors \<Longrightarrow> name \<notin> fst ` set kvs \<Longrightarrow> mget colors name = mget acc name"
  by (induction kvs acc rule: process_colors.induct) (auto simp: map_simps split: sum.splits)

lemma process_colors_entry:
  "process_colors kvs acc = Inr colors \<Longrightarrow> distinct (map fst kvs) \<Longrightarrow> (name, v) \<in> set kvs \<Longrightarrow>
   \<exists>c. parseColor v = Inr c \<and> mget colors name = Some c"
  by (induction kvs acc rule: process_colors.induct)
    (auto simp: map_simps process_colors_other split: sum.splits)

lemma process_colors_total:
  "(\<exists>colors. process_colors kvs acc = Inr colors) \<longleftrightarrow> (\<forall>(k, v) \<in> set kvs. \<exists>c. parseColor v = Inr c)"
  by (induction kvs acc rule: process_colors.induct) (auto split: sum.splits)

text \<open>
  A theme does not depend on the order in which Go visits the map of its colours: it loads in
  every order or in none, and every name is looked up to the same colour.
\<close>

lemma theme_order_irrelevant:
  assumes "LoadTheme readFile decode visit path = Inr t"
    and "map_order visit" "map_order visit'"
    and "\<And>data config. readFile path = Inr data \<Longrightarrow> decode data = Inr config \<Longrightarrow> wf_map (tc_Colors config)"
  shows "\<exists>t'. LoadTheme readFile decode visit' path = Inr t'
    \<and> (\<forall>name. GetColor name t' = GetColor name t \<and> HasColor name t' = HasColor name t)
    \<and> FormColors t' = FormColors t \<and> th_Name t' = th_Name t"
proof -
  obtain data config colors where loaded: "readFile path = Inr data" "decode data = Inr config"
    "process_colors (visit (tc_Colors config)) [] = Inr colors"
    "t = \<lparr>th_Name = tc_Name config, th_Description = tc_Description config,
       th_Author = tc_Author config, th_Version = tc_Version config, th_colors = colors\<rparr>"
    using assms(1) by (auto simp: LoadTheme_def split: sum.splits)
  let ?kvs = "tc_Colors config"
  have wf: "wf_map ?kvs" by (rule assms(4) [OF loaded(1,2)])
  have perm: "set (visit ?kvs) = set ?kvs" "set (visit' ?kvs) = set ?kvs"
    using assms(2,3) by (simp_all add: map_order_set)
  have dist: "distinct (map fst (ord ?kvs))" if "map_order ord" for ord
    using wf that
    by (metis map_order_def mset_eq_imp_distinct_iff mset_map wf_map_def)
  obtain colors' where c': "process_colors (visit' ?kvs) [] = Inr colors'"
    using loaded(3) perm process_colors_total by metis
  have "mget colors' name = mget colors name" for name
  proof (cases "name \<in> fst ` set ?kvs")
    case True
    then obtain v where "(name, v) \<in> set ?kvs" by auto
    then show ?thesis
      using process_colors_entry [OF loaded(3) dist [OF assms(2)], of name v]
        process_colors_entry [OF c' dist [OF assms(3)], of name v] perm by auto
  next
    case False
    then show ?thesis
      using process_colors_other [OF loaded(3), of name] process_colors_other [OF c', of name] perm by auto
  qed
  with loaded c' show ?thesis
    by (simp add: LoadTheme_def GetColor_def HasColor_def FormColors_def)
qed

text \<open>A theme of two colours, visited in both orders.\<close>

definition sample_config :: theme_config where
  "sample_config = \<lparr>tc_Name = ''night'', tc_Description = [], tc_Author = [], tc_Version = [],
     tc_Colors = [(''background'', YInt 7), (''border'', YInt 9)]\<rparr>"

lemma theme_order_irrelevant_witness:
  "\<exists>t'. LoadTheme Inr (\<lambda>data. Inr sample_config) rev ''night.yaml'' = Inr t'
     \<and> GetColor ''border'' t' = ColorNumber 9"
proof -
  let ?t = "\<lparr>th_Name = ''night'', th_Description = [], th_Author = [], th_Version = [],
      th_colors = [(''background'', ColorNumber 7), (''border'', ColorNumber 9)]\<rparr>"
  have load: "LoadTheme Inr (\<lambda>data. Inr sample_config) id ''night.yaml'' = Inr ?t"
    by (simp add: LoadTheme_def sample_config_def)
  have "map_order id" "map_order rev" by (simp_all add: map_order_def)
  then have "\<exists>t'. LoadTheme Inr (\<lambda>data. Inr sample_config) rev ''night.yaml'' = Inr t'
    \<and> (\<forall>name. GetColor name t' = GetColor name ?t \<and> HasColor name t' = HasColor name ?t)
    \<and> FormColors t' = FormColors ?t \<and> th_Name t' = th_Name ?t"
    by (rule theme_order_irrelevant [OF load]) (auto simp: wf_map_def sample_config_def)
  then show ?thesis by (auto simp: GetColor_def)
qed

end
