(* ===== verification/Logger.thy ===== *)
theory Logger
  imports Errors Json_Codec
begin

text \<open>
  utils/logger.go: the logger that writes to whoever connects to a port. The network is a
  parameter, connections are known by names, and what is written is what \<open>Logf\<close> returns; whether
  writing fails makes no difference.
\<close>

section \<open>Operations\<close>

record 'c remote_logger =
  rl_Port :: int
  rl_Listener :: bool
  rl_clients :: "'c list"

text \<open>What \<open>Accept\<close> gives, one after the other; the loop goes on after an error and never ends.\<close>

fun acceptClients :: "'c option list \<Rightarrow> 'c remote_logger \<Rightarrow> 'c remote_logger" where
  "acceptClients [] rl = rl"
| "acceptClients (None # rest) rl = acceptClients rest rl"
| "acceptClients (Some conn # rest) rl = acceptClients rest (rl\<lparr>rl_clients := rl_clients rl @ [conn]\<rparr>)"

text \<open>The message is the formatted one.\<close>

definition Logf :: "string \<Rightarrow> 'c remote_logger \<Rightarrow> ('c \<times> string) list" where
  "Logf msg rl = map (\<lambda>conn. (conn, msg @ [CHR 0x0A])) (rl_clients rl)"

text \<open>The list \<open>early\<close> is what the goroutine met before the first message is written.\<close>

definition NewRemoteLogger ::
  "(string \<Rightarrow> go_error option) \<Rightarrow> int \<Rightarrow> 'c option list
     \<Rightarrow> go_error option \<times> 'c remote_logger \<times> ('c \<times> string) list"
where
  "NewRemoteLogger listen port early =
     (case listen ('':'' @ literal_of_int port) of
        Some err \<Rightarrow> (Some err, \<lparr>rl_Port = 0, rl_Listener = False, rl_clients = []\<rparr>, [])
      | None \<Rightarrow>
          (let rl = acceptClients early \<lparr>rl_Port = port, rl_Listener = True, rl_clients = []\<rparr>
           in (None, rl, Logf (''Remote logger started on port '' @ literal_of_int port) rl)))"

section \<open>Who reads what\<close>

text \<open>The goroutine and those that log take turns.\<close>

datatype 'c log_event = Accepted "'c option" | Logged string

fun log_run :: "'c log_event list \<Rightarrow> 'c remote_logger \<Rightarrow> ('c \<times> string) list" where
  "log_run [] rl = []"
| "log_run (Accepted r # evs) rl = log_run evs (acceptClients [r] rl)"
| "log_run (Logged msg # evs) rl = Logf msg rl @ log_run evs rl"

fun logged_lines :: "'c log_event list \<Rightarrow> string list" where
  "logged_lines [] = []"
| "logged_lines (Accepted r # evs) = logged_lines evs"
| "logged_lines (Logged msg # evs) = (msg @ [CHR 0x0A]) # logged_lines evs"

definition lines_of :: "'c \<Rightarrow> ('c \<times> string) list \<Rightarrow> string list" where
  "lines_of conn sent = map snd (filter (\<lambda>p. fst p = conn) sent)"

lemma lines_of_append [simp]: "lines_of conn (xs @ ys) = lines_of conn xs @ lines_of conn ys"
  by (simp add: lines_of_def)

lemma lines_of_Logf:
  "distinct (rl_clients rl) \<Longrightarrow>
   lines_of conn (Logf msg rl) = (if conn \<in> set (rl_clients rl) then [msg @ [CHR 0x0A]] else [])"
proof -
  have "distinct cs \<Longrightarrow> filter (\<lambda>x. x = conn) cs = (if conn \<in> set cs then [conn] else [])" for cs
    by (induction cs) (auto simp: filter_empty_conv)
  then show "distinct (rl_clients rl) \<Longrightarrow> ?thesis"
    by (simp add: lines_of_def Logf_def filter_map comp_def)
qed

text \<open>The connections an event list brings.\<close>

fun accepted_conns :: "'c log_event list \<Rightarrow> 'c list" where
  "accepted_conns [] = []"
| "accepted_conns (Accepted (Some conn) # evs) = conn # accepted_conns evs"
| "accepted_conns (Accepted None # evs) = accepted_conns evs"
| "accepted_conns (Logged msg # evs) = accepted_conns evs"

lemma accepted_conns_append [simp]: "accepted_conns (xs @ ys) = accepted_conns xs @ accepted_conns ys"
  by (induction xs rule: accepted_conns.induct) simp_all

lemma connected_reads_all:
  assumes "distinct (rl_clients rl @ accepted_conns evs)" "conn \<in> set (rl_clients rl)"
  shows "lines_of conn (log_run evs rl) = logged_lines evs"
  using assms by (induction evs arbitrary: rl rule: accepted_conns.induct)
    (auto simp: lines_of_Logf, auto simp: lines_of_def)

text \<open>
  Whoever connects reads every message that is logged afterwards, in order and once, and none that
  was logged before, whoever else connects or fails to.
\<close>

lemma logger_delivers:
  assumes "distinct (rl_clients rl @ accepted_conns (pre @ Accepted (Some conn) # post))"
  shows "lines_of conn (log_run (pre @ Accepted (Some conn) # post) rl) = logged_lines post"
  using assms
proof (induction pre arbitrary: rl rule: accepted_conns.induct)
  case 1
  then show ?case
    using connected_reads_all [of "rl\<lparr>rl_clients := rl_clients rl @ [conn]\<rparr>" post conn] by simp
next
  case (2 c pre)
  then show ?case by (subst append_Cons, simp only: log_run.simps acceptClients.simps) (rule "2.IH", auto)
next
  case (3 pre)
  then show ?case by simp
next
  case (4 msg pre)
  then show ?case by (auto simp: lines_of_Logf)
qed

text \<open>A logger that could not listen is still there to be called, and says nothing.\<close>

lemma failed_logger_silent:
  "listen ('':'' @ literal_of_int port) = Some err \<Longrightarrow>
   \<exists>rl. NewRemoteLogger listen port early = (Some err, rl, []) \<and> Logf msg rl = []"
  by (simp add: NewRemoteLogger_def Logf_def)

end
