(* ===== verification/App.thy ===== *)
theory App
  imports Login Screens Dialogs Theme Logger
begin

text \<open>
  The client program around its parts: the login form (ui/login.go), the screens and pages that
  \<open>NewUI\<close> puts together (ui/ui.go), the keys of the chat screen, \<open>StartClientApp\<close> of client/client.go,
  and cmd/client/main.go. Colours and layout are left out; the run of the interface is an argument.
\<close>

section \<open>The login form\<close>

record login_form =
  lf_Hub :: string
  lf_Username :: string
  lf_Password :: string

definition new_login_form :: login_form where
  "new_login_form = \<lparr>lf_Hub = [], lf_Username = [], lf_Password = []\<rparr>"

text \<open>Each field hands over its text when it changes; each button calls its handler.\<close>

datatype login_input = Typed_Hub string | Typed_Username string | Typed_Password string

datatype login_button = Button_Login | Button_Create

fun login_typed :: "login_input \<Rightarrow> login_form \<Rightarrow> login_form" where
  "login_typed (Typed_Hub s) f = f\<lparr>lf_Hub := s\<rparr>"
| "login_typed (Typed_Username s) f = f\<lparr>lf_Username := s\<rparr>"
| "login_typed (Typed_Password s) f = f\<lparr>lf_Password := s\<rparr>"

fun login_pressed ::
  "'key login_env \<Rightarrow> login_button \<Rightarrow> login_form \<Rightarrow> 'key login \<Rightarrow> (bool \<times> 'key login) go"
where
  "login_pressed E Button_Login f s = LoginHandler E (lf_Username f) (lf_Password f) (lf_Hub f) s"
| "login_pressed E Button_Create f s = CreateUserHandler E (lf_Username f) (lf_Password f) (lf_Hub f) s"

section \<open>The interface\<close>

record 'p app_ui =
  au_Theme :: theme
  au_Pages :: 'p
  au_LoginScreen :: login_form
  au_BrowseScreen :: browse_screen
  au_ChatScreen :: chat_screen

text \<open>
  \<open>None\<close> is a panic. The default theme is loaded even when another one is configured, and must be there.
\<close>

definition NewUI ::
  "string result \<Rightarrow> (string \<Rightarrow> theme result) \<Rightarrow> 'p pages_lib \<Rightarrow> 'p \<Rightarrow> theme option \<Rightarrow> 'p app_ui option"
where
  "NewUI home load L newPages cfgTheme =
     (case home of
        Inl err \<Rightarrow> None
      | Inr homeDir \<Rightarrow>
          (case load (homeDir @ ''/.hillside/default_theme.yaml'') of
             Inl err \<Rightarrow> None
           | Inr defaultTheme \<Rightarrow>
               Some \<lparr>au_Theme = (case cfgTheme of None \<Rightarrow> defaultTheme | Some t \<Rightarrow> t),
                     au_Pages = pg_AddPage L ''chat'' False (pg_AddPage L ''browse'' False
                        (pg_AddPage L ''login'' True newPages)),
                     au_LoginScreen = new_login_form,
                     au_BrowseScreen = \<lparr>bs_Hub = [], bs_title = [], bs_servers = [], bs_lines = [],
                        bs_noServersView = False, bs_notice = False, bs_selectedServer = None\<rparr>,
                     au_ChatScreen = \<lparr>cs_rooms = [], cs_lines = [], cs_noRoomView = False,
                        cs_notice = False, cs_selectedRoom = None\<rparr>\<rparr>))"

text \<open>What the pane beside the list says of the server that is marked, when there is one.\<close>

definition server_info :: "int \<Rightarrow> browse_screen \<Rightarrow> string option" where
  "server_info index b =
     (if 0 \<le> index \<and> index < int (length (bs_servers b)) then
        (let srv = bs_servers b ! nat index
         in Some (''[yellow]Server:[white] '' @ sm_Name srv @ [CHR 0x0A]
              @ ''[yellow]Description:[white] '' @ sm_Description srv @ [CHR 0x0A]
              @ ''[yellow]Online:[white] '' @ literal_of_int (sm_Online srv) @ [CHR 0x0A]))
      else None)"

text \<open>
  Keys on the chat screen: what the focus is set to, whether the client goes back to the list of
  servers, and whether the key is passed on.
\<close>

datatype key = KeyEnter | KeyTAB | KeyESC | KeyOther nat

datatype key_effect = Focus_ChatSection | Back_To_Servers string | Pass_On key | Message_Entered shown string

definition ChatInputHandler :: "key \<Rightarrow> browse_screen \<Rightarrow> key_effect" where
  "ChatInputHandler k b =
     (if k = KeyTAB then Focus_ChatSection
      else if k = KeyESC then Back_To_Servers (bs_Hub b)
      else Pass_On k)"

text \<open>The message field itself, for a key that reaches it.\<close>

definition message_key :: "(string \<Rightarrow> go_error option) \<Rightarrow> string \<Rightarrow> key \<Rightarrow> key_effect" where
  "message_key sendMessage message k =
     (if k = KeyEnter then (let (s, m) = enter_message sendMessage message in Message_Entered s m)
      else if k = KeyTAB then Focus_ChatSection
      else Pass_On k)"

text \<open>
  The page a joined server is shown on, with the rooms asked for there: a handler that failed has not
  left the page it was on.
\<close>

definition SwitchToChatScreen :: "'p pages_lib \<Rightarrow> 'p \<Rightarrow> 'p" where
  "SwitchToChatScreen L p = pg_SwitchToPage L ''chat'' p"

definition join_server_on_page ::
  "'p pages_lib \<Rightarrow> (server_meta option \<times> string) rpc \<Rightarrow> string \<Rightarrow> string \<Rightarrow> client \<Rightarrow> 'p
     \<Rightarrow> (go_error option \<times> client \<times> 'p) go"
where
  "join_server_on_page L rpc serverID pass c p =
     go_bind (JoinServerHandler rpc serverID pass c) (\<lambda>(err, c1).
       Ret (err, c1, if err = None then SwitchToChatScreen L p else p))"

section \<open>The program\<close>

text \<open>How the run of the interface ends, in the goroutine of the program.\<close>

datatype run_end = Run_Returns "go_error option" | Run_Panics

record ('p, 'c, 'key) start_env =
  st_home :: "string result"
  st_load :: "string \<Rightarrow> theme result"
  st_joinPath :: "string list \<Rightarrow> string"
  st_readDir :: "string \<Rightarrow> (string \<times> bool) list result"
  st_pages :: "'p pages_lib"
  st_newPages :: 'p
  st_listen :: "string \<Rightarrow> go_error option"
  st_early :: "'c option list"
  st_run :: "'p app_ui \<Rightarrow> 'c remote_logger \<Rightarrow> 'key node \<Rightarrow> run_end \<times> 'key node"

definition new_node :: "'key node" where
  "new_node = \<lparr>nd_Host = None, nd_DHT = None, nd_PS = None, nd_PK = None, nd_Hub = None,
     nd_running = [], nd_running_dht = [], nd_running_ps = [], nd_next = 0\<rparr>"

text \<open>
  Whether it returned, and the node it leaves, when there was one. Shutting down is deferred: it
  happens when the run returns, fails or panics. That the logger cannot listen is only logged.
\<close>

definition StartClientApp :: "('p, 'c, 'key) start_env \<Rightarrow> int \<Rightarrow> bool \<times> 'key node option" where
  "StartClientApp E logPort =
     (case st_home E of
        Inl err \<Rightarrow> (False, None)
      | Inr homeDir \<Rightarrow>
          (case LoadThemeFromDir (st_load E) (st_joinPath E) (st_readDir E) (homeDir @ ''/.hillside/'') ''default_theme'' of
             Inl err \<Rightarrow> (False, None)
           | Inr theme \<Rightarrow>
               (case NewUI (st_home E) (st_load E) (st_pages E) (st_newPages E) (Some theme) of
                  None \<Rightarrow> (False, None)
                | Some ui \<Rightarrow>
                    (let (_, rl, _) = NewRemoteLogger (st_listen E) logPort (st_early E);
                         (e, n) = st_run E ui rl new_node
                     in (e = Run_Returns None, Some (Shutdown n))))))"

text \<open>
  The program: what it prints and its exit code, given whether the file for panics can be opened. A
  panic of its goroutine is caught, unless the file could not be opened.
\<close>

definition client_main :: "go_error option \<Rightarrow> ('p, 'c, 'key) start_env \<Rightarrow> int \<Rightarrow> string option \<times> nat" where
  "client_main openLog E logPort =
     (case openLog of
        Some err \<Rightarrow> (None, 2)
      | None \<Rightarrow>
          if fst (StartClientApp E logPort) then (None, 0)
          else (Some ''A fatal error occurred. Please check panic.log for details.'', 2))"

section \<open>Correctness\<close>

text \<open>What a field was last given, and nothing before that.\<close>

fun hub_typed :: "login_input \<Rightarrow> string option" where
  "hub_typed (Typed_Hub s) = Some s" | "hub_typed _ = None"

fun username_typed :: "login_input \<Rightarrow> string option" where
  "username_typed (Typed_Username s) = Some s" | "username_typed _ = None"

fun password_typed :: "login_input \<Rightarrow> string option" where
  "password_typed (Typed_Password s) = Some s" | "password_typed _ = None"

definition last_typed :: "(login_input \<Rightarrow> string option) \<Rightarrow> login_input list \<Rightarrow> string" where
  "last_typed field inputs = last ([] # List.map_filter field inputs)"

lemma last_typed_snoc:
  "last_typed field [] = []"
  "last_typed field (inputs @ [i]) = (case field i of Some s \<Rightarrow> s | None \<Rightarrow> last_typed field inputs)"
  by (simp_all add: last_typed_def map_filter_def split: option.split)

lemma typed_fields:
  "fold login_typed inputs new_login_form =
     \<lparr>lf_Hub = last_typed hub_typed inputs, lf_Username = last_typed username_typed inputs,
      lf_Password = last_typed password_typed inputs\<rparr>"
proof (induction inputs rule: rev_induct)
  case (snoc i inputs)
  then show ?case by (cases i) (simp_all add: last_typed_snoc)
qed (simp add: last_typed_snoc new_login_form_def)

text \<open>Whatever was typed in whatever order, the button logs in with what the fields show last.\<close>

lemma login_with_last_typed:
  "login_pressed E Button_Login (fold login_typed inputs new_login_form) s =
     LoginHandler E (last_typed username_typed inputs) (last_typed password_typed inputs)
       (last_typed hub_typed inputs) s"
  by (simp add: typed_fields)

text \<open>The client starts on the login page.\<close>

lemma starts_at_login:
  assumes "NewUI home load L newPages cfgTheme = Some ui" "pages_ok L"
    and "\<not> pg_HasPage L ''browse'' newPages" "\<not> pg_HasPage L ''chat'' newPages"
  shows "pg_GetFrontPage L (au_Pages ui) = ''login''
    \<and> pg_HasPage L ''browse'' (au_Pages ui) \<and> pg_HasPage L ''chat'' (au_Pages ui)"
  using assms by (auto simp: NewUI_def pages_okD split: sum.splits)

text \<open>
  From the started interface, whatever pages were shown meanwhile as long as the chat page is there:
  joining shows the chat page, with the server's name for its title, exactly when it succeeds.
\<close>

lemma joining_shows_chat:
  assumes "join_server_on_page L rpc serverID pass c p = Ret (err, c1, p1)" "pages_ok L"
    and "pg_HasPage L ''chat'' p" "pg_GetFrontPage L p \<noteq> ''chat''"
  shows "pg_GetFrontPage L p1 = ''chat'' \<longleftrightarrow> err = None"
    and "err = None \<Longrightarrow> \<exists>title. GetServerName c1 = Ret title"
  using assms
  by (auto simp: join_server_on_page_def SwitchToChatScreen_def JoinServerHandler_def outcome_simps pages_okD
      split: if_splits option.splits)

text \<open>
  The exit code is 0 exactly when the file for panics could be opened, both looks for a theme
  succeeded and the interface returned without an error; in every other case it is 2.
\<close>

lemma client_exit_iff:
  "snd (client_main openLog E logPort) = (if openLog = None \<and> fst (StartClientApp E logPort) then 0 else 2)"
  by (simp add: client_main_def split: option.split)

lemma client_returns_iff:
  "fst (StartClientApp E logPort) \<longleftrightarrow>
     (\<exists>homeDir theme ui rl sent err n. st_home E = Inr homeDir
        \<and> LoadThemeFromDir (st_load E) (st_joinPath E) (st_readDir E) (homeDir @ ''/.hillside/'') ''default_theme'' = Inr theme
        \<and> NewUI (Inr homeDir) (st_load E) (st_pages E) (st_newPages E) (Some theme) = Some ui
        \<and> NewRemoteLogger (st_listen E) logPort (st_early E) = (err, rl, sent)
        \<and> st_run E ui rl new_node = (Run_Returns None, n))"
  by (cases "NewRemoteLogger (st_listen E) logPort (st_early E)")
    (auto simp: StartClientApp_def split: sum.splits option.splits prod.splits)

lemma NewUI_default_theme:
  "NewUI (Inr homeDir) load L newPages cfgTheme = Some ui \<Longrightarrow>
   \<exists>d. load (homeDir @ ''/.hillside/default_theme.yaml'') = Inr d"
  by (cases "load (homeDir @ ''/.hillside/default_theme.yaml'')") (simp_all add: NewUI_def)

text \<open>
  The built-in themes never help: a client that starts has found a default theme in the
  directory of the user, although \<open>LoadThemeFromDir\<close> had one to fall back on.
\<close>

lemma fallback_unused:
  "fst (StartClientApp E logPort) \<Longrightarrow>
   \<exists>homeDir d. st_home E = Inr homeDir \<and> st_load E (homeDir @ ''/.hillside/default_theme.yaml'') = Inr d"
  by (auto simp: client_returns_iff dest: NewUI_default_theme)

text \<open>However the interface ends, the host and the DHT of the node are closed.\<close>

lemma start_shuts_down:
  assumes "snd (StartClientApp E logPort) = Some n"
  shows "(\<forall>h. nd_Host n = Some h \<longrightarrow> h \<notin> set (nd_running n))
    \<and> (\<forall>d. nd_DHT n = Some d \<longrightarrow> d \<notin> set (nd_running_dht n))"
proof -
  obtain n0 where "n = Shutdown n0"
    using assms by (auto simp: StartClientApp_def split: sum.splits option.splits prod.splits)
  then show ?thesis by (auto simp: Shutdown_def split: option.splits)
qed

text \<open>
  A topic that is joined is not left, and joining it again fails. So when Escape brings the client
  back to the list of servers, the list is asked for once and not followed any more.
\<close>

lemma second_visit_not_followed:
  assumes "ce_join E ServersTopic \<noteq> None"
  shows "ChatInputHandler KeyESC b = Back_To_Servers (bs_Hub b)
    \<and> StartAutoRefresh E rpc evs u = refreshServerList rpc u"
  using assms by (simp add: ChatInputHandler_def StartAutoRefresh_def Let_def)

end
