(* ===== verification/Layout.thy ===== *)
theory Layout
  imports App
begin

text \<open>
  What the screens are made of: the widgets that ui/login.go, browse.go and chat.go build, and their
  four forms at work. A widget is what it was made as, with the calls made on it in their order; how
  tview draws it is not modelled. Finding a field by its label is the library's: a parameter.
\<close>

section \<open>Widgets\<close>

datatype align = AlignLeft | AlignCenter
datatype direction = FlexRow | FlexColumn

datatype arg =
    Color color
  | Text string
  | Texts "string list"
  | Flag bool
  | Num int
  | Align align
  | Direction direction
  | Style "color option" "color option"
  | Calls string
  | Child "widget option"
and widget = New string "(string \<times> arg list) list"

type_synonym calls = "(string \<times> arg list) list"

definition AddItem :: "widget option \<Rightarrow> int \<Rightarrow> int \<Rightarrow> bool \<Rightarrow> string \<times> arg list" where
  "AddItem w fixedSize proportion focus = (''AddItem'', [Child w, Num fixedSize, Num proportion, Flag focus])"

definition AddInputField :: "string \<Rightarrow> string \<Rightarrow> string \<times> arg list" where
  "AddInputField label initial = (''AddInputField'', [Text label, Text initial, Num 0])"

definition AddPasswordField :: "string \<Rightarrow> string \<Rightarrow> string \<times> arg list" where
  "AddPasswordField label initial = (''AddPasswordField'', [Text label, Text initial, Num 0, Text ''*''])"

definition AddButton :: "string \<Rightarrow> string \<times> arg list" where
  "AddButton label = (''AddButton'', [Text label])"

definition SetColor :: "string \<Rightarrow> string \<Rightarrow> theme \<Rightarrow> string \<times> arg list" where
  "SetColor method name t = (method, [Color (GetColor name t)])"

text \<open>A border of its own, with a title: padded as the panes are, or centred as the forms.\<close>

definition pane_border :: "string \<Rightarrow> theme \<Rightarrow> calls" where
  "pane_border title t =
     [(''SetBorder'', [Flag True]), (''SetTitle'', [Text title]), SetColor ''SetTitleColor'' ''primary'' t,
      SetColor ''SetBorderColor'' ''border'' t]"

definition form_title :: "string \<Rightarrow> theme \<Rightarrow> calls" where
  "form_title title t =
     [(''SetBorder'', [Flag True]), (''SetTitle'', [Text title]), (''SetTitleAlign'', [Align AlignCenter]),
      SetColor ''SetTitleColor'' ''primary'' t]"

definition padding :: "string \<times> arg list" where
  "padding = (''SetBorderPadding'', [Num 2, Num 2, Num 2, Num 2])"

section \<open>Forms\<close>

text \<open>The calls every form starts with.\<close>

definition form_look :: "theme \<Rightarrow> calls" where
  "form_look t =
     (let (bgColor, fieldBg, buttonBg, buttonText, fieldText) = FormColors t in
      [(''SetBackgroundColor'', [Color bgColor]), (''SetButtonBackgroundColor'', [Color buttonBg]),
       (''SetButtonTextColor'', [Color buttonText]), (''SetFieldBackgroundColor'', [Color fieldBg]),
       (''SetFieldTextColor'', [Color fieldText]), SetColor ''SetLabelColor'' ''primary'' t,
       (''SetBorder'', [Flag True]), SetColor ''SetBorderColor'' ''border'' t,
       (''SetBorderAttributes'', [Text ''AttrNone''])])"

definition visibility_options :: "string list" where
  "visibility_options = [''Public'', ''Password Protected'', ''Private'']"

definition visibilityDropdown :: "theme \<Rightarrow> widget" where
  "visibilityDropdown t =
     (let (bgColor, fieldBg, buttonBg, buttonText, fieldText) = FormColors t;
          on = (\<lambda>name. Style (Some fieldText) (Some (GetColor name t)))
      in New ''DropDown''
        [(''SetLabel'', [Text ''Visibility'']), (''SetOptions'', [Texts visibility_options]),
         SetColor ''SetBackgroundColor'' ''background'' t, (''SetFieldBackgroundColor'', [Color fieldBg]),
         (''SetFieldTextColor'', [Color fieldText]), SetColor ''SetPrefixTextColor'' ''background-light'' t,
         SetColor ''SetLabelColor'' ''primary'' t,
         (''SetListStyles'', [on ''background'', on ''background-light'']),
         (''SetFocusedStyle'', [on ''background''])])"

definition create_server_widget :: "theme \<Rightarrow> widget" where
  "create_server_widget t = New ''Form''
     (form_look t
      @ [AddInputField ''Name'' [], AddInputField ''Description'' [], AddPasswordField ''Password (opt)'' [],
         (''AddFormItem'', [Child (Some (visibilityDropdown t))]), AddButton ''Save'', AddButton ''Cancel'']
      @ form_title ''[ Create Server ]'' t)"

text \<open>The form for a room is titled like the one for a server.\<close>

definition create_room_widget :: "theme \<Rightarrow> widget" where
  "create_room_widget t = New ''Form''
     (form_look t
      @ [AddInputField ''Name'' [], AddPasswordField ''Password (opt)'' [],
         (''AddFormItem'', [Child (Some (visibilityDropdown t))]), AddButton ''Save'', AddButton ''Cancel'']
      @ form_title ''[ Create Server ]'' t)"

definition password_form :: "string \<Rightarrow> theme \<Rightarrow> widget" where
  "password_form name t = New ''Form''
     (form_look t @ [(''SetButtonsAlign'', [Align AlignCenter])]
      @ [AddPasswordField ''Password'' [], AddButton ''Join'', AddButton ''Cancel'']
      @ form_title (''[ Join '' @ name @ '' ]'') t)"

text \<open>The selected server is a pointer, the selected room a value.\<close>

definition join_server_widget :: "browse_screen \<Rightarrow> theme \<Rightarrow> widget go" where
  "join_server_widget b t = go_bind (need (bs_selectedServer b)) (\<lambda>srv. Ret (password_form (sm_Name srv) t))"

definition join_room_widget :: "chat_screen \<Rightarrow> theme \<Rightarrow> widget" where
  "join_room_widget c t =
     password_form (case cs_selectedRoom c of None \<Rightarrow> [] | Some rm \<Rightarrow> rm_Name rm) t"

text \<open>\<open>mf\<close>: a form in the middle of the screen.\<close>

definition modal_frame :: "widget \<Rightarrow> int \<Rightarrow> int \<Rightarrow> widget" where
  "modal_frame p width height = New ''Flex''
     [AddItem None 0 1 False,
      AddItem (Some (New ''Flex''
        [(''SetDirection'', [Direction FlexRow]), AddItem None 0 1 False, AddItem (Some p) height 1 True,
         AddItem None 0 1 False])) width 1 True,
      AddItem None 0 1 False]"

text \<open>A form comes up as a page over the others, in its frame, and gets the focus.\<close>

type_synonym 'p form_shown = "'p \<times> widget \<times> widget"

definition show_form :: "'p pages_lib \<Rightarrow> string \<Rightarrow> int \<Rightarrow> widget \<Rightarrow> 'p \<Rightarrow> 'p form_shown" where
  "show_form L page height w p = (pg_AddPage L page True p, modal_frame w 40 height, w)"

definition showCreateServerForm :: "'p pages_lib \<Rightarrow> theme \<Rightarrow> 'p \<Rightarrow> 'p form_shown" where
  "showCreateServerForm L t = show_form L ''createServer'' 15 (create_server_widget t)"

definition showCreateRoomForm :: "'p pages_lib \<Rightarrow> theme \<Rightarrow> 'p \<Rightarrow> 'p form_shown" where
  "showCreateRoomForm L t = show_form L ''createRoom'' 12 (create_room_widget t)"

definition showJoinServerForm :: "'p pages_lib \<Rightarrow> theme \<Rightarrow> browse_screen \<Rightarrow> 'p \<Rightarrow> 'p form_shown go" where
  "showJoinServerForm L t b p = go_bind (join_server_widget b t) (\<lambda>w. Ret (show_form L ''joinServer'' 8 w p))"

definition joinRoomForm :: "'p pages_lib \<Rightarrow> theme \<Rightarrow> chat_screen \<Rightarrow> 'p \<Rightarrow> 'p form_shown" where
  "joinRoomForm L t c = show_form L ''joinRoom'' 8 (join_room_widget c t)"

section \<open>Screens\<close>

text \<open>The login screen; its width and the two banners are arguments.\<close>

definition login_form_widget :: "login_form \<Rightarrow> theme \<Rightarrow> widget" where
  "login_form_widget f t = New ''Form''
     (form_look t @ [(''SetButtonsAlign'', [Align AlignCenter])]
      @ [AddInputField ''Hub   '' (lf_Hub f), AddInputField ''Username   '' (lf_Username f),
         AddPasswordField ''Password'' (lf_Password f), AddButton ''Login'', AddButton ''Create User''])"

definition NewLoginScreen :: "string \<Rightarrow> string \<Rightarrow> int \<Rightarrow> login_form \<Rightarrow> theme \<Rightarrow> widget" where
  "NewLoginScreen ascii asciiMin width f t =
     (let header = (if width < 60 then asciiMin else ascii);
          asciiTextView = New ''TextView''
            [(''SetText'', [Text header]), (''SetTextAlign'', [Align AlignCenter]),
             (''SetTextStyle'', [Style (Some (GetColor ''orange'' t)) (Some (GetColor ''background'' t))])];
          asciiContainer = New ''Flex''
            [(''SetDirection'', [Direction FlexRow]), AddItem None 0 1 False,
             AddItem (Some asciiTextView) 9 0 False, AddItem None 0 1 False];
          formContainer = New ''Flex''
            [(''SetDirection'', [Direction FlexColumn]), AddItem None 0 1 False,
             AddItem (Some (login_form_widget f t)) 0 2 True, AddItem None 0 1 False]
      in New ''Flex''
        [(''SetDirection'', [Direction FlexRow]), (''SetBorder'', [Flag False]),
         AddItem (Some asciiContainer) 0 2 False, AddItem None 0 1 False,
         AddItem (Some formContainer) 0 2 True, (''SetBorder'', [Flag False])])"

definition server_list :: "theme \<Rightarrow> widget" where
  "server_list t = New ''List''
     [SetColor ''SetSelectedBackgroundColor'' ''background-light'' t, SetColor ''SetSelectedTextColor'' ''primary'' t,
      (''SetHighlightFullLine'', [Flag True]), (''SetChangedFunc'', [Calls ''server_info'']),
      SetColor ''SetTitleColor'' ''primary'' t, SetColor ''SetBackgroundColor'' ''background'' t]"

definition NewBrowseScreen :: "theme \<Rightarrow> widget" where
  "NewBrowseScreen t =
     (let infoView = New ''TextView''
            ([(''SetText'', [Text ''Select a server to view details.'']), (''SetTextAlign'', [Align AlignLeft]),
              SetColor ''SetBackgroundColor'' ''background'' t, (''SetDynamicColors'', [Flag True])]
             @ pane_border ''[ Server Info ]'' t @ [padding]);
          serverPane = New ''Flex''
            ([AddItem (Some (server_list t)) 0 1 True, (''SetDirection'', [Direction FlexRow])]
             @ pane_border ''[ Servers ]'' t @ [SetColor ''SetBackgroundColor'' ''background'' t, padding]);
          createBtn = New ''Button''
            [(''Label'', [Text ''Create Server'']), (''SetSelectedFunc'', [Calls ''showCreateServerForm'']),
             SetColor ''SetLabelColor'' ''button-text'' t, SetColor ''SetBackgroundColor'' ''button-active'' t];
          title = New ''TextView'' [(''SetDynamicColors'', [Flag True]), (''SetTextAlign'', [Align AlignLeft])];
          header = New ''Flex''
            [(''SetDirection'', [Direction FlexColumn]), AddItem (Some title) 0 2 False,
             AddItem (Some createBtn) 15 0 False];
          serverView = New ''Flex''
            [(''SetDirection'', [Direction FlexColumn]), AddItem (Some serverPane) 0 2 True,
             AddItem (Some infoView) 0 1 False]
      in New ''Flex''
        [(''SetDirection'', [Direction FlexRow]), AddItem (Some header) 1 0 False,
         AddItem (Some (New ''Box'' [])) 1 0 False, AddItem (Some serverView) 0 1 True])"

definition message_input :: "theme \<Rightarrow> widget" where
  "message_input t = New ''TextArea''
     [(''SetPlaceholder'', [Text ''Type your message here...'']),
      (''SetPlaceholderStyle'', [Style (Some (GetColor ''foreground-dark'' t)) (Some (GetColor ''background'' t))]),
      (''SetTextStyle'', [Style (Some (GetColor ''foreground'' t)) (Some (GetColor ''background'' t))]),
      (''SetInputCapture'', [Calls ''message_key'']), (''SetWordWrap'', [Flag True]), (''SetWrap'', [Flag True]),
      (''SetBorder'', [Flag True]), SetColor ''SetBorderColor'' ''foreground'' t]"

text \<open>The names in the titles are asked for when the screen is built.\<close>

definition NewChatScreen :: "string \<Rightarrow> string \<Rightarrow> theme \<Rightarrow> widget" where
  "NewChatScreen serverName roomName t =
     (let roomList = New ''List''
            [SetColor ''SetSelectedBackgroundColor'' ''background-light'' t,
             SetColor ''SetSelectedTextColor'' ''primary'' t, (''SetHighlightFullLine'', [Flag True]),
             SetColor ''SetTitleColor'' ''primary'' t, SetColor ''SetBackgroundColor'' ''background'' t];
          createBtn = New ''Button''
            [(''Label'', [Text ''Create Room'']), (''SetSelectedFunc'', [Calls ''showCreateRoomForm'']),
             SetColor ''SetLabelColor'' ''button-text'' t, SetColor ''SetBackgroundColor'' ''button-active'' t];
          roomPane = New ''Flex'' [AddItem (Some roomList) 0 1 False, (''SetDirection'', [Direction FlexRow])];
          roomWrapper = New ''Flex''
            ([(''SetDirection'', [Direction FlexRow]), AddItem (Some roomPane) 0 1 False,
              AddItem (Some createBtn) 1 0 False]
             @ pane_border (''[ '' @ serverName @ '' ]'') t @ [SetColor ''SetBackgroundColor'' ''background'' t, padding]);
          chatSection = New ''List''
            ([SetColor ''SetSelectedBackgroundColor'' ''background-light'' t]
             @ pane_border (''[ '' @ roomName @ '' ]'') t @ [SetColor ''SetBackgroundColor'' ''background'' t, padding]);
          chatView = New ''Flex''
            [(''SetDirection'', [Direction FlexRow]), AddItem (Some chatSection) 0 1 False,
             AddItem (Some (message_input t)) 5 0 True]
      in New ''Flex''
        [(''SetDirection'', [Direction FlexColumn]), (''SetBorder'', [Flag False]),
         AddItem (Some roomWrapper) 0 1 False, AddItem (Some chatView) 0 4 True])"

text \<open>The dialogs of ui/dialogs.go.\<close>

definition modal_styles :: "string \<Rightarrow> theme \<Rightarrow> calls" where
  "modal_styles accent t =
     [(''SetButtonStyle'', [Style (Some (GetColor accent t)) (Some (GetColor ''background'' t))]),
      (''SetButtonActivatedStyle'', [Style (Some (GetColor ''background'' t)) (Some (GetColor accent t))]),
      SetColor ''SetBackgroundColor'' ''background'' t, (''SetBorder'', [Flag True]),
      SetColor ''SetBorderColor'' accent t, SetColor ''SetBackgroundColor'' ''background'' t]"

definition toast_widget :: "string \<Rightarrow> theme \<Rightarrow> widget" where
  "toast_widget message t = New ''Modal''
     ([(''SetText'', [Text message]), (''AddButtons'', [Texts [''OK'']]), (''SetDoneFunc'', [Calls ''dismiss''])]
      @ modal_styles ''primary'' t)"

definition error_widget :: "string \<Rightarrow> string \<Rightarrow> string \<Rightarrow> theme \<Rightarrow> widget" where
  "error_widget title message actionName t = New ''Modal''
     ([(''SetText'', [Text message]), (''AddButtons'', [Texts [actionName]]), (''SetDoneFunc'', [Calls ''dismiss''])]
      @ modal_styles ''red'' t
      @ [(''SetTitle'', [Text title]), SetColor ''SetTitleColor'' ''red'' t, (''SetTitleAlign'', [Align AlignCenter])])"

section \<open>Forms at work\<close>

text \<open>The fields of a form, in the order they were added, and what the user has entered in each.\<close>

datatype form_field = Input_Field string | Drop_Down string "string list"
datatype entry = Typed string | Picked "nat option"

fun field_label :: "form_field \<Rightarrow> string" where
  "field_label (Input_Field l) = l" | "field_label (Drop_Down l options) = l"

fun drop_down :: "calls \<Rightarrow> form_field" where
  "drop_down ((m, [Text l]) # (m', [Texts options]) # cs) = Drop_Down l options"
| "drop_down cs = Drop_Down [] []"

fun form_fields :: "calls \<Rightarrow> form_field list" where
  "form_fields [] = []"
| "form_fields ((m, args) # cs) =
     (case args of
        Text l # rest \<Rightarrow>
          (if m = ''AddInputField'' \<or> m = ''AddPasswordField'' then [Input_Field l] else []) @ form_fields cs
      | [Child (Some (New kind ds))] \<Rightarrow> (if m = ''AddFormItem'' then [drop_down ds] else []) @ form_fields cs
      | _ \<Rightarrow> form_fields cs)"

fun calls_of :: "widget \<Rightarrow> calls" where
  "calls_of (New kind cs) = cs"

type_synonym filled = "(form_field \<times> entry) list"

definition fill :: "widget \<Rightarrow> entry list \<Rightarrow> filled" where
  "fill w es = zip (form_fields (calls_of w)) es"

text \<open>\<open>GetFormItemByLabel\<close>: the first item with the label, or nil.\<close>

type_synonym by_label = "filled \<Rightarrow> string \<Rightarrow> (form_field \<times> entry) option"

definition by_label_ok :: "by_label \<Rightarrow> bool" where
  "by_label_ok look \<longleftrightarrow> (\<forall>items l. look items l = find (\<lambda>(f, e). field_label f = l) items)"

text \<open>The type assertion on what was found panics on another kind of item and on nil.\<close>

definition text_of :: "by_label \<Rightarrow> filled \<Rightarrow> string \<Rightarrow> string go" where
  "text_of look items l =
     (case look items l of Some (Input_Field _, Typed s) \<Rightarrow> Ret s | _ \<Rightarrow> Panic Type_Assertion)"

definition option_of :: "by_label \<Rightarrow> filled \<Rightarrow> string \<Rightarrow> nat option go" where
  "option_of look items l =
     (case look items l of Some (Drop_Down _ _, Picked i) \<Rightarrow> Ret i | _ \<Rightarrow> Panic Type_Assertion)"

text \<open>The page of a dialog comes up, then the page of the form goes when it is done.\<close>

definition show_page :: "'p pages_lib \<Rightarrow> shown \<Rightarrow> 'p \<Rightarrow> 'p" where
  "show_page L s p =
     (case s of
        Error_Dialog title msg \<Rightarrow> pg_AddPage L ''error'' True p
      | Toast msg \<Rightarrow> pg_AddPage L ''toast'' True p
      | Nothing \<Rightarrow> p)"

definition form_done :: "'p pages_lib \<Rightarrow> string \<Rightarrow> shown \<times> bool \<Rightarrow> 'p \<Rightarrow> shown \<times> 'p" where
  "form_done L page result p =
     (let p1 = show_page L (fst result) p in (fst result, if snd result then pg_RemovePage L page p1 else p1))"

definition press_server_form ::
  "by_label \<Rightarrow> 'p pages_lib \<Rightarrow> (create_server_request \<Rightarrow> string result) \<Rightarrow> string \<Rightarrow> filled \<Rightarrow> 'p
     \<Rightarrow> (shown \<times> 'p) go"
where
  "press_server_form look L onCreate button items p =
     (if button = ''Save'' then
        go_bind (text_of look items ''Name'') (\<lambda>name.
        go_bind (text_of look items ''Description'') (\<lambda>description.
        go_bind (text_of look items ''Password (opt)'') (\<lambda>pass.
        go_bind (option_of look items ''Visibility'') (\<lambda>picked.
          Ret (form_done L ''createServer'' (submit_server_form onCreate name description pass picked) p)))))
      else Ret (Nothing, pg_RemovePage L ''createServer'' p))"

definition press_room_form ::
  "by_label \<Rightarrow> 'p pages_lib \<Rightarrow> (create_room_request \<Rightarrow> string result) \<Rightarrow> string \<Rightarrow> string \<Rightarrow> filled \<Rightarrow> 'p
     \<Rightarrow> (shown \<times> 'p) go"
where
  "press_room_form look L onCreate serverID button items p =
     (if button = ''Save'' then
        go_bind (text_of look items ''Name'') (\<lambda>name.
        go_bind (text_of look items ''Password (opt)'') (\<lambda>pass.
        go_bind (option_of look items ''Visibility'') (\<lambda>picked.
          Ret (form_done L ''createRoom'' (submit_room_form onCreate serverID name pass picked) p))))
      else Ret (Nothing, pg_RemovePage L ''createRoom'' p))"

definition press_server_password ::
  "by_label \<Rightarrow> 'p pages_lib \<Rightarrow> (string \<Rightarrow> string \<Rightarrow> go_error option go) \<Rightarrow> browse_screen \<Rightarrow> string \<Rightarrow> filled \<Rightarrow> 'p
     \<Rightarrow> (shown \<times> 'p) go"
where
  "press_server_password look L onJoin b button items p =
     (if button = ''Join'' then
        go_bind (text_of look items ''Password'') (\<lambda>pass.
        go_bind (submit_server_password onJoin pass b) (\<lambda>result. Ret (form_done L ''joinServer'' result p)))
      else Ret (Nothing, pg_RemovePage L ''joinServer'' p))"

definition press_room_password ::
  "by_label \<Rightarrow> 'p pages_lib \<Rightarrow> (string \<Rightarrow> string \<Rightarrow> go_error option go) \<Rightarrow> chat_screen \<Rightarrow> string \<Rightarrow> filled \<Rightarrow> 'p
     \<Rightarrow> (shown \<times> 'p) go"
where
  "press_room_password look L onJoin c button items p =
     (if button = ''Join'' then
        go_bind (text_of look items ''Password'') (\<lambda>pass.
        go_bind (submit_room_password onJoin pass c) (\<lambda>result. Ret (form_done L ''joinRoom'' result p)))
      else Ret (Nothing, pg_RemovePage L ''joinRoom'' p))"

section \<open>What the forms hand over\<close>

lemmas widget_simps = form_look_def FormColors_def form_title_def AddInputField_def AddPasswordField_def AddButton_def
  SetColor_def pane_border_def padding_def AddItem_def

text \<open>The fields of the four forms.\<close>

lemma widget_fields:
  "form_fields (calls_of (create_server_widget t)) =
     [Input_Field ''Name'', Input_Field ''Description'', Input_Field ''Password (opt)'',
      Drop_Down ''Visibility'' visibility_options]"
  "form_fields (calls_of (create_room_widget t)) =
     [Input_Field ''Name'', Input_Field ''Password (opt)'', Drop_Down ''Visibility'' visibility_options]"
  "form_fields (calls_of (password_form name t)) = [Input_Field ''Password'']"
  by (simp_all add: create_server_widget_def create_room_widget_def password_form_def widget_simps
      visibilityDropdown_def Let_def)

text \<open>What can be entered in a field: an option that is there, or none before one was picked.\<close>

fun fits :: "form_field \<Rightarrow> entry \<Rightarrow> bool" where
  "fits (Input_Field l) (Typed s) \<longleftrightarrow> True"
| "fits (Drop_Down l options) (Picked i) \<longleftrightarrow> (\<forall>k. i = Some k \<longrightarrow> k < length options)"
| "fits f e \<longleftrightarrow> False"

fun_cases fits_InputE: "fits (Input_Field l) e"
fun_cases fits_DropE: "fits (Drop_Down l options) e"

lemma server_entries:
  assumes "list_all2 fits (form_fields (calls_of (create_server_widget t))) es"
  obtains n d pw v where "es = [Typed n, Typed d, Typed pw, Picked v]"
  using assms by (auto simp: widget_fields list_all2_Cons1 elim!: fits_InputE fits_DropE)

lemma room_entries:
  assumes "list_all2 fits (form_fields (calls_of (create_room_widget t))) es"
  obtains n pw v where "es = [Typed n, Typed pw, Picked v]"
  using assms by (auto simp: widget_fields list_all2_Cons1 elim!: fits_InputE fits_DropE)

lemma password_entries:
  assumes "list_all2 fits (form_fields (calls_of (password_form name t))) es"
  obtains pw where "es = [Typed pw]"
  using assms by (auto simp: widget_fields list_all2_Cons1 elim!: fits_InputE)

lemma by_label_simps:
  "by_label_ok look \<Longrightarrow> look ((f, e) # items) l = (if field_label f = l then Some (f, e) else look items l)"
  by (simp add: by_label_ok_def)

lemma press_forms:
  assumes "by_label_ok look"
  shows "press_server_form look L create ''Save'' (fill (create_server_widget t) [Typed n, Typed d, Typed pw, Picked v]) p
      = Ret (form_done L ''createServer'' (submit_server_form create n d pw v) p)"
    "press_room_form look L creater sid ''Save'' (fill (create_room_widget t) [Typed n, Typed pw, Picked v]) p
      = Ret (form_done L ''createRoom'' (submit_room_form creater sid n pw v) p)"
    "text_of look (fill (password_form name t) [Typed pw]) ''Password'' = Ret pw"
  using assms
  by (simp_all add: press_server_form_def press_room_form_def fill_def widget_fields text_of_def option_of_def by_label_simps)

section \<open>Where the focus goes\<close>

text \<open>\<open>Flex\<close> hands the focus on to the first of its items that was added with it.\<close>

definition focus_child :: "arg list \<Rightarrow> widget option" where
  "focus_child args =
     (case args of Child (Some w) # a # rest \<Rightarrow> (if last (a # rest) = Flag True then Some w else None) | _ \<Rightarrow> None)"

fun focused_item :: "calls \<Rightarrow> widget option" where
  "focused_item [] = None"
| "focused_item ((m, args) # cs) =
     (case focus_child args of Some w \<Rightarrow> Some w | None \<Rightarrow> focused_item cs)"

lemma focus_child_size: "focus_child args = Some w \<Longrightarrow> size w < size_list size args"
  by (auto simp: focus_child_def split: list.splits arg.splits option.splits if_splits)

lemma focused_item_size: "focused_item cs = Some w \<Longrightarrow> size w < size (New kind cs)"
proof (induction cs)
  case (Cons c cs)
  then show ?case using focus_child_size [of "snd c" w] by (cases c) (auto split: option.splits)
qed simp

function focus_target :: "widget \<Rightarrow> widget" where
  "focus_target (New kind cs) =
     (case focused_item cs of None \<Rightarrow> New kind cs | Some w \<Rightarrow> focus_target w)"
  by pat_completeness auto
termination by (relation "measure size") (auto dest: focused_item_size)

section \<open>The colours that are used\<close>

definition screen_colors :: "string list" where
  "screen_colors = [''background'', ''background-light'', ''border'', ''button-active'', ''button-text'',
     ''foreground'', ''foreground-dark'', ''input-field'', ''orange'', ''primary'', ''red'']"

text \<open>The theme the repository comes with, themes/tokyo_night.yaml, as it is decoded.\<close>

definition tokyo_night :: theme_config where
  "tokyo_night = \<lparr>tc_Name = ''Tokyo Night'',
     tc_Description = ''A dark theme inspired by the Tokyo cityscape at night'',
     tc_Author = ''Bitraven'', tc_Version = ''1.0.0'',
     tc_Colors =
       [(''background'', YString ''#1a1b26''), (''background-dark'', YString ''#16161e''),
        (''background-light'', YString ''#24283b''), (''foreground'', YString ''#c0caf5''),
        (''foreground-dark'', YString ''#565f89''), (''foreground-light'', YString ''#ffffff''),
        (''blue'', YString ''#7aa2f7''), (''cyan'', YString ''#7dcfff''),
        (''green'', YString ''#9ece6a''), (''magenta'', YString ''#bb9af7''),
        (''red'', YString ''#f7768e''), (''yellow'', YString ''#e0af68''),
        (''orange'', YString ''#ff9e64''), (''purple'', YString ''#bb9af7''),
        (''accent'', YString ''#ff9e64''), (''primary'', YString ''#7aa2f7''),
        (''secondary'', YString ''#bb9af7''), (''selection'', YString ''#414868''),
        (''border'', YString ''#565f89''), (''border-focus'', YString ''#7aa2f7''),
        (''comment'', YString ''#565f89''), (''button-active'', YString ''#7aa2f7''),
        (''button-inactive'', YString ''#565f89''), (''button-text'', YString ''#1a1b26''),
        (''input-field'', YString ''#24283b''), (''input-border'', YString ''#565f89''),
        (''modal-background'', YString ''#16161e''), (''success'', YString ''#9ece6a''),
        (''warning'', YString ''#e0af68''), (''error'', YString ''#f7768e''),
        (''info'', YString ''#7dcfff''), (''regex-string'', YString ''#b4f9f8''),
        (''language-function'', YString ''#2ac3de''), (''object-property'', YString ''#7dcfff''),
        (''function-name'', YString ''#7aa2f7''), (''control-keyword'', YString ''#bb9af7''),
        (''variable'', YString ''#c0caf5''), (''string'', YString ''#9ece6a''),
        (''number'', YString ''#ff9e64''), (''html-attribute'', YString ''#bb9af7''),
        (''css-property'', YString ''#7aa2f7'')]\<rparr>"

section \<open>Properties\<close>

text \<open>
  What pressing a button comes to, given what the handler it calls answers: an error is shown in a
  dialog in front and the form stays; otherwise the form is closed, with a notice in front when
  something was created; a handler that panics takes the call with it.
\<close>

definition create_outcome ::
  "'p pages_lib \<Rightarrow> string \<Rightarrow> string \<Rightarrow> (string \<Rightarrow> string) \<Rightarrow> string result \<Rightarrow> 'p \<Rightarrow> (shown \<times> 'p) go \<Rightarrow> bool"
where
  "create_outcome L page title notice answer p out \<longleftrightarrow>
     (case answer of
        Inl err \<Rightarrow> \<exists>p'. out = Ret (Error_Dialog title (Error_text err), p')
          \<and> pg_HasPage L page p' = pg_HasPage L page p \<and> pg_GetFrontPage L p' = ''error''
      | Inr sid \<Rightarrow> \<exists>p'. out = Ret (Toast (notice sid), p')
          \<and> \<not> pg_HasPage L page p' \<and> pg_GetFrontPage L p' = ''toast'')"

definition join_outcome ::
  "'p pages_lib \<Rightarrow> string \<Rightarrow> string \<Rightarrow> go_error option go \<Rightarrow> 'p \<Rightarrow> (shown \<times> 'p) go \<Rightarrow> bool"
where
  "join_outcome L page title answer p out \<longleftrightarrow>
     (case answer of
        Panic q \<Rightarrow> out = Panic q
      | Ret (Some err) \<Rightarrow> \<exists>p'. out = Ret (Error_Dialog title (Error_text err), p')
          \<and> pg_HasPage L page p' = pg_HasPage L page p \<and> pg_GetFrontPage L p' = ''error''
      | Ret None \<Rightarrow> \<exists>p'. out = Ret (Nothing, p') \<and> \<not> pg_HasPage L page p')"

lemma server_form_outcome:
  assumes "pages_ok L"
  shows "create_outcome L ''createServer'' ''Create server failed''
    (\<lambda>sid. if v = Some 2 then private_notice ''Server'' ''server'' sid else ''Server created successfully! ID: '' @ sid)
    (create \<lparr>csr_Name = n, csr_Visibility = (case v of None \<Rightarrow> - 1 | Some i \<Rightarrow> int i), csr_Description = d,
       csr_PasswordHash = Some (string_bytes pw), csr_PasswordSalt = None, csr_Creator = zero_user\<rparr>) p
    (Ret (form_done L ''createServer'' (submit_server_form create n d pw v) p))"
  by (cases v)
    (auto simp: create_outcome_def submit_server_form_def server_form_def current_option_def form_done_def
      show_page_def Private_def Let_def pages_okD [OF assms] split: sum.split)

lemma room_form_outcome:
  assumes "pages_ok L"
  shows "create_outcome L ''createRoom'' ''Create room failed''
    (\<lambda>rid. if v = Some 2 then private_notice ''Room'' ''room'' rid else ''Room created successfully! ID: '' @ rid)
    (create \<lparr>crr_ServerID = sid, crr_RoomName = n, crr_Visibility = (case v of None \<Rightarrow> - 1 | Some i \<Rightarrow> int i),
       crr_PasswordHash = Some (string_bytes pw), crr_PasswordSalt = None, crr_EncRoomKey = None\<rparr>) p
    (Ret (form_done L ''createRoom'' (submit_room_form create sid n pw v) p))"
  by (cases v)
    (auto simp: create_outcome_def submit_room_form_def room_form_def current_option_def form_done_def
      show_page_def Private_def Let_def pages_okD [OF assms] split: sum.split)

lemma password_outcomes:
  assumes "pages_ok L"
  shows "bs_selectedServer b = Some srv \<Longrightarrow> join_outcome L ''joinServer'' ''Join server failed'' (join (sm_ID srv) pw) p
      (go_bind (submit_server_password join pw b) (\<lambda>result. Ret (form_done L ''joinServer'' result p)))"
    "join_outcome L ''joinRoom'' ''Join room failed'' (join (case cs_selectedRoom c of None \<Rightarrow> [] | Some rm \<Rightarrow> rm_ID rm) pw) p
      (go_bind (submit_room_password join pw c) (\<lambda>result. Ret (form_done L ''joinRoom'' result p)))"
  by (auto simp: join_outcome_def submit_server_password_def submit_room_password_def need_def form_done_def
      show_page_def Let_def pages_okD [OF assms] split: go.split option.split)

text \<open>
  C36. The forms hand over what was entered. Whatever fits the fields of a form as it was built: pressing
  its first button finds every field by its label and of its kind and calls the handler with just
  the texts and the option entered, as the request spelled out here. An error of the handler is
  shown in a dialog in front and the form stays open; otherwise the form is closed, with the
  notice of what was created in front. The call panics only when the handler for joining does.
  The password forms need a selected server, but no selected room.
\<close>

theorem forms_hand_over:
  assumes "by_label_ok look" "pages_ok L"
  shows "(list_all2 fits (form_fields (calls_of (create_server_widget t))) es \<longrightarrow>
      (\<exists>n d pw v. es = [Typed n, Typed d, Typed pw, Picked v]
        \<and> create_outcome L ''createServer'' ''Create server failed''
            (\<lambda>sid. if v = Some 2 then private_notice ''Server'' ''server'' sid else ''Server created successfully! ID: '' @ sid)
            (create \<lparr>csr_Name = n, csr_Visibility = (case v of None \<Rightarrow> - 1 | Some i \<Rightarrow> int i), csr_Description = d,
               csr_PasswordHash = Some (string_bytes pw), csr_PasswordSalt = None, csr_Creator = zero_user\<rparr>) p
            (press_server_form look L create ''Save'' (fill (create_server_widget t) es) p)))
    \<and> (list_all2 fits (form_fields (calls_of (create_room_widget t))) es \<longrightarrow>
      (\<exists>n pw v. es = [Typed n, Typed pw, Picked v]
        \<and> create_outcome L ''createRoom'' ''Create room failed''
            (\<lambda>rid. if v = Some 2 then private_notice ''Room'' ''room'' rid else ''Room created successfully! ID: '' @ rid)
            (creater \<lparr>crr_ServerID = sid, crr_RoomName = n, crr_Visibility = (case v of None \<Rightarrow> - 1 | Some i \<Rightarrow> int i),
               crr_PasswordHash = Some (string_bytes pw), crr_PasswordSalt = None, crr_EncRoomKey = None\<rparr>) p
            (press_room_form look L creater sid ''Save'' (fill (create_room_widget t) es) p)))
    \<and> (join_server_widget b t = Ret w \<and> list_all2 fits (form_fields (calls_of w)) es \<longrightarrow>
      (\<exists>srv pw. bs_selectedServer b = Some srv \<and> es = [Typed pw]
        \<and> join_outcome L ''joinServer'' ''Join server failed'' (join (sm_ID srv) pw) p
            (press_server_password look L join b ''Join'' (fill w es) p)))
    \<and> (list_all2 fits (form_fields (calls_of (join_room_widget c t))) es \<longrightarrow>
      (\<exists>pw. es = [Typed pw]
        \<and> join_outcome L ''joinRoom'' ''Join room failed'' (join (case cs_selectedRoom c of None \<Rightarrow> [] | Some rm \<Rightarrow> rm_ID rm) pw) p
            (press_room_password look L join c ''Join'' (fill (join_room_widget c t) es) p)))"
    (is "(?fits1 \<longrightarrow> ?P1) \<and> (?fits2 \<longrightarrow> ?P2) \<and> (?fits3 \<longrightarrow> ?P3) \<and> (?fits4 \<longrightarrow> ?P4)")
proof (intro conjI impI)
  assume ?fits1
  then obtain n d pw v where es: "es = [Typed n, Typed d, Typed pw, Picked v]" by (rule server_entries)
  with server_form_outcome [OF assms(2), of v create n d pw p] show ?P1
    by (simp add: press_forms [OF assms(1)])
next
  assume ?fits2
  then obtain n pw v where es: "es = [Typed n, Typed pw, Picked v]" by (rule room_entries)
  with room_form_outcome [OF assms(2), of v creater sid n pw p] show ?P2
    by (simp add: press_forms [OF assms(1)])
next
  assume fits: ?fits3
  then obtain srv where srv: "bs_selectedServer b = Some srv" "w = password_form (sm_Name srv) t"
    by (auto simp: join_server_widget_def outcome_simps need_def split: option.splits)
  with fits obtain pw where es: "es = [Typed pw]" by (auto elim: password_entries)
  from password_outcomes(1) [OF assms(2) srv(1), of join pw p] show ?P3
    using srv es by (simp add: press_forms [OF assms(1)] press_server_password_def)
next
  assume ?fits4
  then obtain pw where es: "es = [Typed pw]" by (auto simp: join_room_widget_def elim: password_entries)
  from password_outcomes(2) [OF assms(2), of join c pw p] show ?P4
    using es by (simp add: press_forms [OF assms(1)] press_room_password_def join_room_widget_def)
qed

text \<open>
  Each screen hands the focus to the widget one starts with. The frame of a form hands it to the form,
  so the form that comes up is the one the keys go to, whichever of the two was asked.
\<close>

lemma focus_of_screens:
  "focus_target (NewLoginScreen ascii asciiMin width f t) = login_form_widget f t"
  "focus_target (NewBrowseScreen t) = server_list t"
  "focus_target (NewChatScreen serverName roomName t) = message_input t"
  "showCreateServerForm L t p = (p', frame, w) \<Longrightarrow> focus_target frame = w \<and> focus_target w = w"
  "showCreateRoomForm L t p = (p', frame, w) \<Longrightarrow> focus_target frame = w \<and> focus_target w = w"
  "showJoinServerForm L t b p = Ret (p', frame, w) \<Longrightarrow> focus_target frame = w \<and> focus_target w = w"
  "joinRoomForm L t c p = (p', frame, w) \<Longrightarrow> focus_target frame = w \<and> focus_target w = w"
  by (auto simp: NewLoginScreen_def login_form_widget_def NewBrowseScreen_def server_list_def NewChatScreen_def
      message_input_def showCreateServerForm_def showCreateRoomForm_def showJoinServerForm_def joinRoomForm_def
      show_form_def modal_frame_def create_server_widget_def create_room_widget_def join_server_widget_def
      join_room_widget_def password_form_def widget_simps focus_child_def Let_def outcome_simps need_def
      split: option.splits)

text \<open>The screens depend on a theme through the colours of \<open>screen_colors\<close> alone.\<close>

lemma screens_use_colors:
  assumes "\<forall>name \<in> set screen_colors. GetColor name t = GetColor name t'"
  shows "NewLoginScreen ascii asciiMin width f t = NewLoginScreen ascii asciiMin width f t'"
    "NewBrowseScreen t = NewBrowseScreen t'" "NewChatScreen sn rn t = NewChatScreen sn rn t'"
    "create_server_widget t = create_server_widget t'" "create_room_widget t = create_room_widget t'"
    "password_form name t = password_form name t'" "toast_widget msg t = toast_widget msg t'"
    "error_widget title msg action t = error_widget title msg action t'"
  using assms
  by (simp_all add: screen_colors_def NewLoginScreen_def login_form_widget_def NewBrowseScreen_def server_list_def
      NewChatScreen_def message_input_def create_server_widget_def create_room_widget_def password_form_def
      visibilityDropdown_def toast_widget_def error_widget_def modal_styles_def widget_simps Let_def)

lemma hex_pair:
  assumes "a \<in> set ''0123456789abcdef''" "b \<in> set ''0123456789abcdef''"
  obtains w where "hex_EncodeToString [w] = [a, b]"
proof -
  have "length ''0123456789abcdef'' = 16" by simp
  then obtain m n where digits: "m < 16" "n < 16" "a = hex_digit m" "b = hex_digit n"
    using assms unfolding in_set_conv_nth hex_digit_def by metis
  define k where "k = 16 * m + n"
  have "k < 256" "k div 16 = m" "k mod 16 = n" using digits by (simp_all add: k_def)
  then have "hex_EncodeToString [word_of_nat k] = [a, b]" using digits by (simp add: unat_of_nat)
  then show thesis ..
qed

definition six_hex_digits :: "yaml \<Rightarrow> bool" where
  "six_hex_digits v = (case v of YString (c # cs) \<Rightarrow>
     c = CHR ''#'' \<and> length cs = 6 \<and> list_all (\<lambda>d. d \<in> set ''0123456789abcdef'') cs | _ \<Rightarrow> False)"

lemma six_hex_digits_parse:
  assumes "six_hex_digits v"
  shows "\<exists>c. parseColor v = Inr c"
proof -
  from assms obtain cs where v: "v = YString (CHR ''#'' # cs)" "length cs = 6"
    "list_all (\<lambda>d. d \<in> set ''0123456789abcdef'') cs"
    by (auto simp: six_hex_digits_def split: yaml.splits list.splits)
  then obtain r1 r2 g1 g2 b1 b2 where cs: "cs = [r1, r2, g1, g2, b1, b2]"
    by (auto simp: length_Suc_conv numeral_eq_Suc)
  obtain r g b where "hex_EncodeToString [r] = [r1, r2]" "hex_EncodeToString [g] = [g1, g2]"
    "hex_EncodeToString [b] = [b1, b2]"
    using v(3) unfolding cs by (simp only: list.pred_inject) (metis hex_pair)
  then have "v = YString (''#'' @ hex_EncodeToString [r, g, b])" by (simp add: v(1) cs)
  then show ?thesis by (simp only: hex_notation) simp
qed

lemma tokyo_night_parses: "list_all (\<lambda>(name, v). \<exists>c. parseColor v = Inr c) (tc_Colors tokyo_night)"
proof -
  have "list_all (\<lambda>(name, v). six_hex_digits v) (tc_Colors tokyo_night)" by code_simp
  then show ?thesis by (auto simp: list_all_iff six_hex_digits_parse)
qed

text \<open>
  The theme of the repository is complete: in whatever order its colours are visited it loads, and it
  has every colour the screens ask for, so the white that \<open>GetColor\<close> falls back on is never
  seen; and the screens ask for no other colours: two themes that agree on these give the same.
\<close>

theorem builtin_theme_complete:
  assumes "map_order visit"
  shows "\<exists>t. LoadTheme readFile (\<lambda>data. Inr tokyo_night) visit file = (case readFile file of
        Inl err \<Rightarrow> Inl (ThemeError (''failed to read theme file: '' @ Error_text err)) | Inr data \<Rightarrow> Inr t)
    \<and> (\<forall>name \<in> set screen_colors. HasColor name t
        \<and> (\<forall>fallback. GetColor name t = GetColorWithFallback name fallback t))
    \<and> (\<forall>t'. (\<forall>name \<in> set screen_colors. GetColor name t' = GetColor name t) \<longrightarrow>
        NewLoginScreen ascii asciiMin width f t' = NewLoginScreen ascii asciiMin width f t
        \<and> NewBrowseScreen t' = NewBrowseScreen t \<and> NewChatScreen sn rn t' = NewChatScreen sn rn t
        \<and> create_server_widget t' = create_server_widget t \<and> create_room_widget t' = create_room_widget t
        \<and> password_form nm t' = password_form nm t \<and> toast_widget msg t' = toast_widget msg t
        \<and> error_widget title msg action t' = error_widget title msg action t)"
proof -
  let ?kvs = "tc_Colors tokyo_night"
  have all: "set (visit ?kvs) = set ?kvs" "\<forall>(k, v) \<in> set ?kvs. \<exists>c. parseColor v = Inr c"
    using assms tokyo_night_parses by (simp_all add: map_order_set list_all_iff)
  then obtain colors where colors: "process_colors (visit ?kvs) [] = Inr colors"
    using process_colors_total [of "visit ?kvs" "[]"] by auto
  have "distinct (map fst ?kvs)" by code_simp
  then have dist: "distinct (map fst (visit ?kvs))"
    using assms by (metis map_order_def mset_eq_imp_distinct_iff mset_map)
  have "set screen_colors \<subseteq> fst ` set ?kvs" by (simp add: screen_colors_def tokyo_night_def)
  then have has: "mget colors name \<noteq> None" if "name \<in> set screen_colors" for name
    using that all(1) process_colors_entry [OF colors dist, of name] by fastforce
  let ?t = "\<lparr>th_Name = tc_Name tokyo_night, th_Description = tc_Description tokyo_night,
    th_Author = tc_Author tokyo_night, th_Version = tc_Version tokyo_night, th_colors = colors\<rparr>"
  show ?thesis
  proof (intro exI [of _ ?t] conjI ballI allI impI)
    show "LoadTheme readFile (\<lambda>data. Inr tokyo_night) visit file = (case readFile file of
        Inl err \<Rightarrow> Inl (ThemeError (''failed to read theme file: '' @ Error_text err)) | Inr data \<Rightarrow> Inr ?t)"
      by (simp add: LoadTheme_def colors split: sum.split)
  next
    fix name fallback assume "name \<in> set screen_colors"
    from has [OF this] show "HasColor name ?t" "GetColor name ?t = GetColorWithFallback name fallback ?t"
      by (auto simp: HasColor_def GetColor_def GetColorWithFallback_def)
  qed (rule screens_use_colors, assumption)+
qed

section \<open>Instances of the properties\<close>

definition first_label :: by_label where
  "first_label items l = find (\<lambda>(f, e). field_label f = l) items"

lemma first_label_ok: "by_label_ok first_label"
  by (simp add: by_label_ok_def first_label_def)

definition bare_theme :: theme where
  "bare_theme = \<lparr>th_Name = [], th_Description = [], th_Author = [], th_Version = [], th_colors = []\<rparr>"

definition sample_chat :: chat_screen where
  "sample_chat = \<lparr>cs_rooms = [], cs_lines = [], cs_noRoomView = False, cs_notice = False, cs_selectedRoom = None\<rparr>"

theorem forms_hand_over_witness:
  "\<exists>p' q. press_server_form first_label list_pages (\<lambda>req. Inr (csr_Description req)) ''Save''
      (fill (create_server_widget bare_theme) [Typed ''s'', Typed ''d'', Typed [], Picked (Some 0)]) [(''browse'', True)]
        = Ret (Toast ''Server created successfully! ID: d'', p')
    \<and> \<not> pg_HasPage list_pages ''createServer'' p' \<and> pg_GetFrontPage list_pages p' = ''toast''
    \<and> press_room_password first_label list_pages (\<lambda>rid pw. Ret (Some (Errorf pw))) sample_chat ''Join''
      (fill (join_room_widget sample_chat bare_theme) [Typed ''x'']) [(''chat'', True)] = Ret (Error_Dialog ''Join room failed'' ''x'', q)
    \<and> pg_GetFrontPage list_pages q = ''error''"
proof -
  have "list_all2 fits (form_fields (calls_of (create_server_widget bare_theme))) [Typed ''s'', Typed ''d'', Typed [], Picked (Some 0)]"
    "list_all2 fits (form_fields (calls_of (join_room_widget sample_chat bare_theme))) [Typed ''x'']"
    by (simp_all add: widget_fields visibility_options_def join_room_widget_def)
  with forms_hand_over [OF first_label_ok list_pages_ok, of bare_theme "[Typed ''s'', Typed ''d'', Typed [], Picked (Some 0)]"
      "\<lambda>req. Inr (csr_Description req)" "[(''browse'', True)]", THEN conjunct1]
    forms_hand_over [OF first_label_ok list_pages_ok, of bare_theme "[Typed ''x'']" _ "[(''chat'', True)]" _ _ _ _
      "\<lambda>rid pw. Ret (Some (Errorf pw))" sample_chat, THEN conjunct2, THEN conjunct2, THEN conjunct2]
  show ?thesis by (auto simp: create_outcome_def join_outcome_def)
qed

end
