(* ===== verification/Response_Codec.thy ===== *)
theory Response_Codec
  imports Rpc_Codec "HOL-Library.List_Lexorder"
begin

text \<open>
  The JSON form of what the hub answers and publishes (models/rpc_proto.go, server.go, room.go and
  \<open>Member\<close> of user.go), from the field tags. A map is written with its keys sorted; an empty slice
  or map of a field marked \<open>omitempty\<close> is left out and read as nil, so what comes back is the value
  with those made nil. The form of \<open>peer.AddrInfo\<close> is libp2p's: a parameter.
\<close>

section \<open>Maps and what is left out\<close>

definition sorted_map :: "(string, 'v) gomap \<Rightarrow> (string, 'v) gomap" where
  "sorted_map m = sort_key (\<lambda>e. map code (fst e) :: nat list) m"

definition enc_map :: "('v \<Rightarrow> json) \<Rightarrow> (string, 'v) gomap option \<Rightarrow> json" where
  "enc_map enc m =
     (case m of None \<Rightarrow> JNull | Some kvs \<Rightarrow> JObj (map (\<lambda>(k, v). jmember k (enc v)) (sorted_map kvs)))"

text \<open>Every entry is decoded into a fresh value and written, also after a type error.\<close>

fun dec_entries ::
  "'v decoder \<Rightarrow> 'v \<Rightarrow> (string \<times> string \<times> json) list \<Rightarrow> (string, 'v) gomap \<Rightarrow> bool \<times> (string, 'v) gomap"
where
  "dec_entries dec zero [] m = (True, m)"
| "dec_entries dec zero ((k, raw, j) # ms) m =
     (let (ok, v) = dec j zero; (ok', m') = dec_entries dec zero ms (mput k v m) in (ok \<and> ok', m'))"

definition dec_map :: "'v decoder \<Rightarrow> 'v \<Rightarrow> (string, 'v) gomap option decoder" where
  "dec_map dec zero j old =
     (case j of
        JNull \<Rightarrow> (True, None)
      | JObj ms \<Rightarrow> apsnd Some (dec_entries dec zero ms (nil_map old))
      | _ \<Rightarrow> (False, old))"

definition dec_int16 :: "int decoder" where
  "dec_int16 = dec_int (- (2 ^ 15)) (2 ^ 15 - 1)"

definition in_int16 :: "int \<Rightarrow> bool" where
  "in_int16 i \<longleftrightarrow> - (2 ^ 15) \<le> i \<and> i \<le> 2 ^ 15 - 1"

text \<open>An empty slice, or map, is written as one that is not there.\<close>

definition drop_empty :: "slice \<Rightarrow> slice" where
  "drop_empty s = (if slice_bytes s = [] then None else s)"

definition omit_bytes :: "string \<Rightarrow> slice \<Rightarrow> (string \<times> string \<times> json) list" where
  "omit_bytes name s = omitempty (slice_bytes s = []) (jmember name (enc_bytes s))"

section \<open>Members, rooms and servers\<close>

record addr_lib =
  al_enc :: "addr_info \<Rightarrow> json"
  al_dec :: "addr_info decoder"

definition zero_addr_info :: addr_info where
  "zero_addr_info = \<lparr>ai_ID = [], ai_Addrs = []\<rparr>"

definition enc_member :: "addr_lib \<Rightarrow> member \<Rightarrow> json" where
  "enc_member A x = JObj
    [jmember ''addr_info'' (al_enc A (m_AddrInfo x)), jmember ''user'' (enc_user (m_User x))]"

definition member_fields :: "addr_lib \<Rightarrow> member field_decoder list" where
  "member_fields A =
    [(''addr_info'', on_field (al_dec A) m_AddrInfo (\<lambda>y. m_AddrInfo_update (\<lambda>_. y))),
     (''user'', on_field dec_user m_User (\<lambda>y. m_User_update (\<lambda>_. y)))]"

definition zero_member :: member where
  "zero_member = \<lparr>m_AddrInfo = zero_addr_info, m_User = zero_user\<rparr>"

definition dec_member :: "addr_lib \<Rightarrow> member decoder" where
  "dec_member A = dec_struct (member_fields A)"

definition enc_room_meta :: "addr_lib \<Rightarrow> room_meta \<Rightarrow> json" where
  "enc_room_meta A x = JObj
    ([jmember ''room_id'' (enc_string (rm_ID x)), jmember ''name'' (enc_string (rm_Name x)),
      jmember ''visibility'' (enc_int (rm_Visibility x))]
     @ omit_bytes ''password_hash'' (rm_PasswordHash x) @ omit_bytes ''password_salt'' (rm_PasswordSalt x)
     @ omit_bytes ''enc_room_key'' (rm_EncRoomKey x)
     @ omitempty (nil_map (rm_Members x) = []) (jmember ''members'' (enc_map (enc_member A) (rm_Members x))))"

definition room_meta_fields :: "addr_lib \<Rightarrow> room_meta field_decoder list" where
  "room_meta_fields A =
    [(''room_id'', on_field dec_string rm_ID (\<lambda>y. rm_ID_update (\<lambda>_. y))),
     (''name'', on_field dec_string rm_Name (\<lambda>y. rm_Name_update (\<lambda>_. y))),
     (''visibility'', on_field dec_int64 rm_Visibility (\<lambda>y. rm_Visibility_update (\<lambda>_. y))),
     (''password_hash'', on_field dec_bytes rm_PasswordHash (\<lambda>y. rm_PasswordHash_update (\<lambda>_. y))),
     (''password_salt'', on_field dec_bytes rm_PasswordSalt (\<lambda>y. rm_PasswordSalt_update (\<lambda>_. y))),
     (''enc_room_key'', on_field dec_bytes rm_EncRoomKey (\<lambda>y. rm_EncRoomKey_update (\<lambda>_. y))),
     (''members'', on_field (dec_map (dec_member A) zero_member) rm_Members (\<lambda>y. rm_Members_update (\<lambda>_. y)))]"

definition zero_room_meta :: room_meta where
  "zero_room_meta = \<lparr>rm_ID = [], rm_Name = [], rm_Visibility = 0, rm_PasswordHash = None,
     rm_PasswordSalt = None, rm_EncRoomKey = None, rm_Members = None\<rparr>"

definition dec_room_meta :: "addr_lib \<Rightarrow> room_meta decoder" where
  "dec_room_meta A = dec_struct (room_meta_fields A)"

definition enc_server_meta :: "addr_lib \<Rightarrow> server_meta \<Rightarrow> json" where
  "enc_server_meta A x = JObj
    ([jmember ''server_id'' (enc_string (sm_ID x)), jmember ''name'' (enc_string (sm_Name x)),
      jmember ''description'' (enc_string (sm_Description x)),
      jmember ''visibility'' (enc_int (sm_Visibility x)),
      jmember ''owner_peer_id'' (enc_string (sm_OwnerPeerID x)),
      jmember ''created_at'' (enc_int (sm_CreatedAt x))]
     @ omit_bytes ''password_hash'' (sm_PasswordHash x) @ omit_bytes ''password_salt'' (sm_PasswordSalt x)
     @ [jmember ''rooms'' (enc_map (enc_room_meta A) (sm_Rooms x)),
        jmember ''online'' (enc_int (sm_Online x))])"

text \<open>The rooms are pointers in the source; the hub never writes one that is nil.\<close>

definition server_meta_fields :: "addr_lib \<Rightarrow> server_meta field_decoder list" where
  "server_meta_fields A =
    [(''server_id'', on_field dec_string sm_ID (\<lambda>y. sm_ID_update (\<lambda>_. y))),
     (''name'', on_field dec_string sm_Name (\<lambda>y. sm_Name_update (\<lambda>_. y))),
     (''description'', on_field dec_string sm_Description (\<lambda>y. sm_Description_update (\<lambda>_. y))),
     (''visibility'', on_field dec_int64 sm_Visibility (\<lambda>y. sm_Visibility_update (\<lambda>_. y))),
     (''owner_peer_id'', on_field dec_string sm_OwnerPeerID (\<lambda>y. sm_OwnerPeerID_update (\<lambda>_. y))),
     (''created_at'', on_field dec_int64 sm_CreatedAt (\<lambda>y. sm_CreatedAt_update (\<lambda>_. y))),
     (''password_hash'', on_field dec_bytes sm_PasswordHash (\<lambda>y. sm_PasswordHash_update (\<lambda>_. y))),
     (''password_salt'', on_field dec_bytes sm_PasswordSalt (\<lambda>y. sm_PasswordSalt_update (\<lambda>_. y))),
     (''rooms'', on_field (dec_map (dec_room_meta A) zero_room_meta) sm_Rooms (\<lambda>y. sm_Rooms_update (\<lambda>_. y))),
     (''online'', on_field dec_int16 sm_Online (\<lambda>y. sm_Online_update (\<lambda>_. y)))]"

definition zero_server_meta :: server_meta where
  "zero_server_meta = \<lparr>sm_ID = [], sm_Name = [], sm_Description = [], sm_Visibility = 0,
     sm_OwnerPeerID = [], sm_CreatedAt = 0, sm_PasswordHash = None, sm_PasswordSalt = None,
     sm_Rooms = None, sm_Online = 0\<rparr>"

definition dec_server_meta :: "addr_lib \<Rightarrow> server_meta decoder" where
  "dec_server_meta A = dec_struct (server_meta_fields A)"

section \<open>Responses\<close>

definition omit_error :: "string \<Rightarrow> (string \<times> string \<times> json) list" where
  "omit_error e = omitempty (e = []) (jmember ''error'' (enc_string e))"

text \<open>
  The slice of members is nil in \<open>ListRoomMembers\<close> when there are none; what is published is never
  nil. Both are read as no members.
\<close>

fun enc_response :: "addr_lib \<Rightarrow> rpc_response \<Rightarrow> json" where
  "enc_response A (ListServersResponse ss) =
     JObj [jmember ''servers'' (enc_list (enc_server_meta A) ss)]"
| "enc_response A (CreateServerResponse sid) = JObj [jmember ''server_id'' (enc_string sid)]"
| "enc_response A (ListRoomsResponse rs e) =
     JObj (jmember ''rooms'' (enc_list (enc_room_meta A) rs) # omit_error e)"
| "enc_response A (CreateRoomResponse rid e) = JObj (jmember ''room_id'' (enc_string rid) # omit_error e)"
| "enc_response A (JoinServerResponse s e) =
     JObj (omitempty (s = None) (jmember ''server'' (enc_ptr (enc_server_meta A) s)) @ omit_error e)"
| "enc_response A (JoinRoomResponse r e) =
     JObj (omitempty (r = None) (jmember ''room'' (enc_ptr (enc_room_meta A) r)) @ omit_error e)"
| "enc_response A (ListRoomMembersResponse ms e) =
     JObj (jmember ''members'' (if ms = [] then JNull else enc_list (enc_member A) ms) # omit_error e)"

definition error_field :: "('a \<times> string) field_decoder" where
  "error_field = (''error'', on_field dec_string snd (\<lambda>y p. (fst p, y)))"

definition dec_list_servers :: "addr_lib \<Rightarrow> server_meta list decoder" where
  "dec_list_servers A =
     dec_struct [(''servers'', on_field (dec_list (dec_server_meta A) zero_server_meta) id (\<lambda>y _. y))]"

definition dec_created_server :: "string decoder" where
  "dec_created_server = dec_struct [(''server_id'', on_field dec_string id (\<lambda>y _. y))]"

definition dec_list_rooms :: "addr_lib \<Rightarrow> (room_meta list \<times> string) decoder" where
  "dec_list_rooms A =
     dec_struct [(''rooms'', on_field (dec_list (dec_room_meta A) zero_room_meta) fst (\<lambda>y p. (y, snd p))), error_field]"

definition dec_created_room :: "(string \<times> string) decoder" where
  "dec_created_room = dec_struct [(''room_id'', on_field dec_string fst (\<lambda>y p. (y, snd p))), error_field]"

definition dec_joined_server :: "addr_lib \<Rightarrow> (server_meta option \<times> string) decoder" where
  "dec_joined_server A =
     dec_struct [(''server'', on_field (dec_ptr (dec_server_meta A) zero_server_meta) fst (\<lambda>y p. (y, snd p))), error_field]"

definition dec_joined_room :: "addr_lib \<Rightarrow> (room_meta option \<times> string) decoder" where
  "dec_joined_room A =
     dec_struct [(''room'', on_field (dec_ptr (dec_room_meta A) zero_room_meta) fst (\<lambda>y p. (y, snd p))), error_field]"

definition dec_room_members :: "addr_lib \<Rightarrow> (member list \<times> string) decoder" where
  "dec_room_members A =
     dec_struct [(''members'', on_field (dec_list (dec_member A) zero_member) fst (\<lambda>y p. (y, snd p))), error_field]"

section \<open>Round trips\<close>

text \<open>What comes back of a room and of a server.\<close>

definition wire_room :: "room_meta \<Rightarrow> room_meta" where
  "wire_room x = x\<lparr>rm_PasswordHash := drop_empty (rm_PasswordHash x),
     rm_PasswordSalt := drop_empty (rm_PasswordSalt x), rm_EncRoomKey := drop_empty (rm_EncRoomKey x),
     rm_Members := (if nil_map (rm_Members x) = [] then None else map_option sorted_map (rm_Members x))\<rparr>"

definition wire_server :: "server_meta \<Rightarrow> server_meta" where
  "wire_server x = x\<lparr>sm_PasswordHash := drop_empty (sm_PasswordHash x),
     sm_PasswordSalt := drop_empty (sm_PasswordSalt x),
     sm_Rooms := map_option (\<lambda>m. map (\<lambda>(k, v). (k, wire_room v)) (sorted_map m)) (sm_Rooms x)\<rparr>"

text \<open>What can be written: text is UTF-8, integers have their width, addresses are read back.\<close>

definition addr_json_ok :: "addr_lib \<Rightarrow> addr_info \<Rightarrow> bool" where
  "addr_json_ok A a \<longleftrightarrow> wf_json (al_enc A a) \<and> al_dec A (al_enc A a) zero_addr_info = (True, a)"

definition member_json_ok :: "addr_lib \<Rightarrow> member \<Rightarrow> bool" where
  "member_json_ok A m \<longleftrightarrow> addr_json_ok A (m_AddrInfo m) \<and> wf_user (m_User m)"

definition room_json_ok :: "addr_lib \<Rightarrow> room_meta \<Rightarrow> bool" where
  "room_json_ok A r \<longleftrightarrow>
     utf8_valid (rm_ID r) \<and> utf8_valid (rm_Name r) \<and> in_int64 (rm_Visibility r)
     \<and> wf_map (nil_map (rm_Members r))
     \<and> (\<forall>(k, m) \<in> set (nil_map (rm_Members r)). utf8_valid k \<and> member_json_ok A m)"

definition server_json_ok :: "addr_lib \<Rightarrow> server_meta \<Rightarrow> bool" where
  "server_json_ok A s \<longleftrightarrow>
     utf8_valid (sm_ID s) \<and> utf8_valid (sm_Name s) \<and> utf8_valid (sm_Description s)
     \<and> in_int64 (sm_Visibility s) \<and> utf8_valid (sm_OwnerPeerID s) \<and> in_int64 (sm_CreatedAt s)
     \<and> in_int16 (sm_Online s) \<and> wf_map (nil_map (sm_Rooms s))
     \<and> (\<forall>(k, r) \<in> set (nil_map (sm_Rooms s)). utf8_valid k \<and> room_json_ok A r)"

lemma set_sorted_map [simp]: "set (sorted_map m) = set m"
  by (simp add: sorted_map_def)

lemma sorted_map_empty [simp]: "sorted_map [] = []" "sorted_map m = [] \<longleftrightarrow> m = []"
  by (simp_all add: sorted_map_def) (metis length_0_conv length_sort)

lemma wf_sorted_map: "wf_map m \<Longrightarrow> wf_map (sorted_map m)"
proof -
  assume "wf_map m"
  moreover have "mset (map fst (sorted_map m)) = mset (map fst m)" by (simp add: sorted_map_def)
  ultimately show ?thesis unfolding wf_map_def by (metis mset_eq_imp_distinct_iff)
qed

text \<open>As a map, nothing changes.\<close>

lemma mget_sorted_map [map_simps]: "wf_map m \<Longrightarrow> mget (sorted_map m) k = mget m k"
proof -
  assume m: "wf_map m"
  have "mget (sorted_map m) k = Some v \<longleftrightarrow> mget m k = Some v" for v
    using mget_Some_iff [OF m] mget_Some_iff [OF wf_sorted_map [OF m]] by simp
  then show ?thesis by (metis option.exhaust)
qed

lemma dec_entries_written:
  assumes "wf_map (old @ kvs)" "\<And>k v. (k, v) \<in> set kvs \<Longrightarrow> dec (enc v) zero = (True, f v)"
  shows "dec_entries dec zero (map (\<lambda>(k, v). jmember k (enc v)) kvs) old
    = (True, old @ map (\<lambda>(k, v). (k, f v)) kvs)"
  using assms
proof (induction kvs arbitrary: old)
  case (Cons e kvs)
  obtain k v where e: "e = (k, v)" by (cases e)
  from Cons.prems(1) e have new: "mget old k = None"
    by (auto simp: wf_map_def map_of_eq_None_iff)
  then have "wf_map ((old @ [(k, f v)]) @ kvs)" using Cons.prems(1) e by (simp add: wf_map_def)
  note rest = Cons.IH [OF this]
  have "dec (enc v) zero = (True, f v)" using Cons.prems(2) [of k v] e by simp
  moreover have "dec_entries dec zero (map (\<lambda>(k, v). jmember k (enc v)) kvs) (old @ [(k, f v)])
      = (True, (old @ [(k, f v)]) @ map (\<lambda>(k, v). (k, f v)) kvs)"
  proof (rule rest)
    fix k v assume "(k, v) \<in> set kvs"
    then show "dec (enc v) zero = (True, f v)" using Cons.prems(2) [of k v] by simp
  qed
  ultimately show ?case
    using e new by (simp add: jmember_def mput_fresh)
qed simp

lemma dec_map_enc:
  fixes dec :: "'v decoder" and enc :: "'v \<Rightarrow> json"
  assumes "wf_map (nil_map m)" "\<And>k v. (k, v) \<in> set (nil_map m) \<Longrightarrow> dec (enc v) zero = (True, f v)"
  shows "dec_map dec zero (enc_map enc m) None
    = (True, map_option (\<lambda>m. map (\<lambda>(k, v). (k, f v)) (sorted_map m)) m)"
proof (cases m)
  case (Some kvs)
  with assms show ?thesis
    using dec_entries_written [of "[]" "sorted_map kvs" dec enc zero f] wf_sorted_map [of kvs]
    by (simp add: dec_map_def enc_map_def)
qed (simp add: dec_map_def enc_map_def)

lemma wf_enc_map:
  "\<forall>(k, v) \<in> set (nil_map m). utf8_valid k \<and> wf_json (enc v) \<Longrightarrow> wf_json (enc_map enc m)"
  by (cases m) (auto simp: enc_map_def jmember_def)

lemma dec_int16_enc [codec_simps]: "in_int16 i \<Longrightarrow> dec_int16 (enc_int i) old = (True, i)"
  by (simp add: dec_int16_def in_int16_def dec_int_enc)

lemma dec_enc_member: "member_json_ok A m \<Longrightarrow> dec_member A (enc_member A m) zero_member = (True, m)"
  by (simp add: dec_member_def enc_member_def member_fields_def zero_member_def member_json_ok_def addr_json_ok_def codec_simps)

lemma wf_enc_member: "member_json_ok A m \<Longrightarrow> wf_json (enc_member A m)"
  by (simp add: enc_member_def member_json_ok_def addr_json_ok_def wf_codec utf8_valid_ascii)

lemma mget_map_snd: "mget (map (\<lambda>(k, v). (k, f v)) m) k = map_option f (mget m k)"
  by (induction m) auto

lemma omit_bytes_cases: "omit_bytes name s = (if drop_empty s = None then [] else [jmember name (enc_bytes s)])"
  by (cases s) (auto simp: omit_bytes_def drop_empty_def)

lemma map_pairs_id: "map (\<lambda>(k, v). (k, v)) m = m"
  by (simp add: case_prod_unfold)

lemma dec_members_map:
  assumes "wf_map (nil_map m)" "\<forall>(k, v) \<in> set (nil_map m). utf8_valid k \<and> member_json_ok A v"
  shows "dec_map (dec_member A) zero_member (enc_map (enc_member A) m) None = (True, map_option sorted_map m)"
proof -
  have "dec_member A (enc_member A v) zero_member = (True, v)" if "(k, v) \<in> set (nil_map m)" for k v
    using assms(2) that by (auto simp: dec_enc_member)
  then show ?thesis
    using dec_map_enc [OF assms(1), of "dec_member A" "enc_member A" zero_member "\<lambda>v. v"]
    by (simp add: map_pairs_id option.map_id0 [unfolded id_def])
qed

lemma dec_enc_room_meta:
  assumes "room_json_ok A r"
  shows "dec_room_meta A (enc_room_meta A r) zero_room_meta = (True, wire_room r)"
proof (cases "nil_map (rm_Members r) = []")
  case True
  with assms show ?thesis
    by (cases "rm_PasswordHash r"; cases "rm_PasswordSalt r"; cases "rm_EncRoomKey r")
      (simp_all add: dec_room_meta_def enc_room_meta_def room_meta_fields_def zero_room_meta_def wire_room_def
        room_json_ok_def omit_bytes_cases drop_empty_def codec_simps)
next
  case False
  moreover have "dec_map (dec_member A) zero_member (enc_map (enc_member A) (rm_Members r)) None
      = (True, map_option sorted_map (rm_Members r))"
    using assms by (intro dec_members_map) (simp_all add: room_json_ok_def)
  ultimately show ?thesis
    using assms
    by (cases "rm_PasswordHash r"; cases "rm_PasswordSalt r"; cases "rm_EncRoomKey r")
      (simp_all add: dec_room_meta_def enc_room_meta_def room_meta_fields_def zero_room_meta_def wire_room_def
        room_json_ok_def omit_bytes_cases drop_empty_def codec_simps)
qed

lemma dec_enc_server_meta:
  assumes "server_json_ok A s"
  shows "dec_server_meta A (enc_server_meta A s) zero_server_meta = (True, wire_server s)"
proof -
  have "dec_map (dec_room_meta A) zero_room_meta (enc_map (enc_room_meta A) (sm_Rooms s)) None
      = (True, map_option (\<lambda>m. map (\<lambda>(k, v). (k, wire_room v)) (sorted_map m)) (sm_Rooms s))"
    using assms by (intro dec_map_enc) (auto simp: server_json_ok_def dec_enc_room_meta)
  with assms show ?thesis
    by (cases "sm_PasswordHash s"; cases "sm_PasswordSalt s")
      (simp_all add: dec_server_meta_def enc_server_meta_def server_meta_fields_def zero_server_meta_def
        wire_server_def server_json_ok_def omit_bytes_cases drop_empty_def codec_simps)
qed

lemma wf_enc_room_meta: "room_json_ok A r \<Longrightarrow> wf_json (enc_room_meta A r)"
proof -
  assume "room_json_ok A r"
  moreover from this have "wf_json (enc_map (enc_member A) (rm_Members r))"
    by (intro wf_enc_map) (auto simp: room_json_ok_def wf_enc_member)
  ultimately show ?thesis
    by (auto simp: enc_room_meta_def room_json_ok_def omit_bytes_def omitempty_def wf_codec utf8_valid_ascii)
qed

lemma wf_enc_server_meta: "server_json_ok A s \<Longrightarrow> wf_json (enc_server_meta A s)"
proof -
  assume "server_json_ok A s"
  moreover from this have "wf_json (enc_map (enc_room_meta A) (sm_Rooms s))"
    by (intro wf_enc_map) (auto simp: server_json_ok_def wf_enc_room_meta)
  ultimately show ?thesis
    by (auto simp: enc_server_meta_def server_json_ok_def omit_bytes_def omitempty_def wf_codec utf8_valid_ascii)
qed

text \<open>What can be written of a response, and what its reader gets: the value, as it comes back.\<close>

fun response_json_ok :: "addr_lib \<Rightarrow> rpc_response \<Rightarrow> bool" where
  "response_json_ok A (ListServersResponse ss) \<longleftrightarrow> list_all (server_json_ok A) ss"
| "response_json_ok A (CreateServerResponse sid) \<longleftrightarrow> utf8_valid sid"
| "response_json_ok A (ListRoomsResponse rs e) \<longleftrightarrow> list_all (room_json_ok A) rs \<and> utf8_valid e"
| "response_json_ok A (CreateRoomResponse rid e) \<longleftrightarrow> utf8_valid rid \<and> utf8_valid e"
| "response_json_ok A (JoinServerResponse s e) \<longleftrightarrow> pred_option (server_json_ok A) s \<and> utf8_valid e"
| "response_json_ok A (JoinRoomResponse r e) \<longleftrightarrow> pred_option (room_json_ok A) r \<and> utf8_valid e"
| "response_json_ok A (ListRoomMembersResponse ms e) \<longleftrightarrow> list_all (member_json_ok A) ms \<and> utf8_valid e"

lemma wf_omit_error [simp]: "(\<forall>m \<in> set (omit_error e). utf8_valid (fst m) \<and> fst (snd m) = jprint (snd (snd m))
    \<and> wf_json (snd (snd m))) \<longleftrightarrow> e = [] \<or> utf8_valid e"
  by (auto simp: omit_error_def omitempty_def wf_codec utf8_valid_ascii)

lemma wf_enc_response: "response_json_ok A r \<Longrightarrow> wf_json (enc_response A r)"
  by (cases r)
    (auto simp: wf_codec utf8_valid_ascii omitempty_def enc_ptr_def list_all_iff wf_enc_server_meta wf_enc_room_meta
      wf_enc_member split: option.split)

lemma dec_list_wire:
  assumes "\<And>x. x \<in> set xs \<Longrightarrow> dec (enc x) zero = (True, f x)"
  shows "dec_list dec zero (enc_list enc xs) old = (True, map f xs)"
  using assms by (simp add: dec_list_def enc_list_def Let_def list_all_iff)

lemma enc_meta_object: "enc_server_meta A s \<noteq> JNull" "enc_room_meta A r \<noteq> JNull"
  by (simp_all add: enc_server_meta_def enc_room_meta_def)

lemma dec_ptr_wire:
  assumes "enc x \<noteq> JNull" "dec (enc x) zero = (True, y)"
  shows "dec_ptr dec zero (enc_ptr enc (Some x)) None = (True, Some y)"
  using assms by (cases "enc x") (simp_all add: dec_ptr_def enc_ptr_def)

lemma dec_enc_list_servers:
  "response_json_ok A (ListServersResponse ss) \<Longrightarrow>
   dec_list_servers A (enc_response A (ListServersResponse ss)) [] = (True, map wire_server ss)"
  using dec_list_wire [of ss "dec_server_meta A" "enc_server_meta A" zero_server_meta wire_server "[]"]
  by (simp add: dec_list_servers_def codec_simps list_all_iff dec_enc_server_meta)

lemma dec_enc_created_server:
  "dec_created_server (enc_response A (CreateServerResponse sid)) [] = (True, sid)"
  by (simp add: dec_created_server_def codec_simps)

lemma dec_enc_list_rooms:
  "response_json_ok A (ListRoomsResponse rs e) \<Longrightarrow>
   dec_list_rooms A (enc_response A (ListRoomsResponse rs e)) ([], []) = (True, (map wire_room rs, e))"
  using dec_list_wire [of rs "dec_room_meta A" "enc_room_meta A" zero_room_meta wire_room "[]"]
  by (cases e) (simp_all add: dec_list_rooms_def error_field_def omit_error_def codec_simps list_all_iff dec_enc_room_meta)

lemma dec_enc_created_room:
  "dec_created_room (enc_response A (CreateRoomResponse rid e)) ([], []) = (True, (rid, e))"
  by (cases e) (simp_all add: dec_created_room_def error_field_def omit_error_def codec_simps)

lemma dec_enc_joined_server:
  "response_json_ok A (JoinServerResponse s e) \<Longrightarrow>
   dec_joined_server A (enc_response A (JoinServerResponse s e)) (None, []) = (True, (map_option wire_server s, e))"
  using dec_ptr_wire [of "enc_server_meta A" _ "dec_server_meta A" zero_server_meta] enc_meta_object(1) [of A]
  by (cases e; cases s)
    (simp_all add: dec_joined_server_def error_field_def omit_error_def codec_simps dec_enc_server_meta)

lemma dec_enc_joined_room:
  "response_json_ok A (JoinRoomResponse r e) \<Longrightarrow>
   dec_joined_room A (enc_response A (JoinRoomResponse r e)) (None, []) = (True, (map_option wire_room r, e))"
  using dec_ptr_wire [of "enc_room_meta A" _ "dec_room_meta A" zero_room_meta] enc_meta_object(2) [of A]
  by (cases e; cases r)
    (simp_all add: dec_joined_room_def error_field_def omit_error_def codec_simps dec_enc_room_meta)

lemma dec_enc_room_members:
  "response_json_ok A (ListRoomMembersResponse ms e) \<Longrightarrow>
   dec_room_members A (enc_response A (ListRoomMembersResponse ms e)) ([], []) = (True, (ms, e))"
proof -
  assume "response_json_ok A (ListRoomMembersResponse ms e)"
  then have "dec_list (dec_member A) zero_member (enc_list (enc_member A) ms) [] = (True, ms)"
    by (intro dec_list_enc) (simp add: list_all_iff dec_enc_member)
  moreover have "dec_list (dec_member A) zero_member JNull [] = (True, [])"
    by (simp add: dec_list_def)
  ultimately show ?thesis
    by (cases e; cases "ms = []")
      (simp_all add: dec_room_members_def error_field_def omit_error_def codec_simps)
qed

lemmas response_round_trip =
  dec_enc_list_servers dec_enc_created_server dec_enc_list_rooms dec_enc_created_room dec_enc_joined_server
  dec_enc_joined_room dec_enc_room_members

end
