(* ===== verification/Wire.thy ===== *)
theory Wire
  imports Response_Codec Node Hub_Client
begin

text \<open>
  A request all the way: \<open>Node.SendRPC\<close> of p2p/node.go writes it as text, the hub's handler reads
  that text, and what the handler encodes is the text the client decodes. Then what the lists of
  servers give away.
\<close>

section \<open>The stream\<close>

text \<open>
  The hub's end of a stream: the responses one after the other, each followed by a newline. A
  handler that writes nothing, panics or does not return leaves a reader that meets the end.
\<close>

definition response_text :: "addr_lib \<Rightarrow> rpc_response list \<Rightarrow> string" where
  "response_text A rs = concat (map (\<lambda>r. jprint (enc_response A r) @ [CHR 0x0A]) rs)"

definition hub_exchange ::
  "addr_lib \<Rightarrow> hub_world \<Rightarrow> addr_info \<Rightarrow> rpc_env \<Rightarrow> hub_store \<Rightarrow> string \<Rightarrow> string result"
where
  "hub_exchange A w remote env hs input =
     (case snd (handleRPC w remote input env hs) of
        Some (Ret (_, r # rs, _)) \<Rightarrow> Inr (response_text A (r # rs))
      | _ \<Rightarrow> Inl (Errorf ''EOF''))"

text \<open>The answers of a handler, when it returns.\<close>

definition replies_of :: "rpc_env \<times> rpc_result \<Rightarrow> rpc_response list" where
  "replies_of run = (case snd run of Some (Ret (_, rs, _)) \<Rightarrow> rs | _ \<Rightarrow> [])"

lemma hub_exchange_replies:
  "hub_exchange A w remote env hs input =
     (case replies_of (handleRPC w remote input env hs) of
        [] \<Rightarrow> Inl (Errorf ''EOF'') | r # rs \<Rightarrow> Inr (response_text A (r # rs)))"
  by (auto simp: hub_exchange_def replies_of_def split: option.split go.split list.split prod.split)

lemma hub_answer_replies:
  "hub_answer decode run =
     (case replies_of run of
        [] \<Rightarrow> Inl (Errorf ''EOF'')
      | r # rs \<Rightarrow> (case decode r of Some x \<Rightarrow> Inr x | None \<Rightarrow> Inl json_error))"
  by (auto simp: hub_answer_def replies_of_def split: option.split go.split list.split prod.split)

lemma json_decode_first:
  "wf_json j \<Longrightarrow> json_decode (jprint j @ CHR 0x0A # rest) = Some (j, CHR 0x0A # rest)"
proof -
  assume "wf_json j"
  moreover have "value_end (CHR 0x0A # rest)" by (simp add: value_end_def is_digit_def)
  ultimately show ?thesis
    using wf_json_reads_back [of j] by (simp add: reads_back_def json_decode_def)
qed

text \<open>What the client decodes is the first response, as it comes back.\<close>

lemma SendRPC_first_response:
  assumes "replies_of (handleRPC w remote (rpc_text method params) env hs) = r # rs"
    and "response_json_ok A r" "dec (enc_response A r) zero = (True, x)"
  shows "SendRPC None (hub_exchange A w remote env hs) dec zero method params = Inr x"
  using assms json_decode_first [OF wf_enc_response [OF assms(2)]]
  by (simp add: SendRPC_def hub_exchange_replies response_text_def)

section \<open>The request on the wire and the one between values\<close>

fun listed_servers :: "rpc_response \<Rightarrow> server_meta list option" where
  "listed_servers (ListServersResponse ss) = Some ss"
| "listed_servers _ = None"

fun listed_members :: "rpc_response \<Rightarrow> (member list \<times> string) option" where
  "listed_members (ListRoomMembersResponse ms e) = Some (ms, e)"
| "listed_members _ = None"

lemma SendRPC_hub_rpc:
  assumes "\<forall>r \<in> set (replies_of (handleRPC w remote (rpc_text method params) env hs)).
      response_json_ok A r \<and> (\<exists>x. decode r = Some x \<and> dec (enc_response A r) zero = (True, f x))"
  shows "SendRPC None (hub_exchange A w remote env hs) dec zero method params
    = map_sum id f (hub_rpc decode w remote env hs method params)"
proof (cases "replies_of (handleRPC w remote (rpc_text method params) env hs)")
  case Nil
  then show ?thesis by (simp add: SendRPC_def hub_exchange_replies hub_rpc_def hub_answer_replies)
next
  case (Cons r rs)
  with assms obtain x where "response_json_ok A r" "decode r = Some x" "dec (enc_response A r) zero = (True, f x)"
    by auto
  with Cons SendRPC_first_response [OF Cons] show ?thesis
    by (simp add: hub_rpc_def hub_answer_replies)
qed

section \<open>What the hub answers can be written\<close>

definition store_json_ok :: "addr_lib \<Rightarrow> hub_store \<Rightarrow> bool" where
  "store_json_ok A hs \<longleftrightarrow> (\<forall>(k, s) \<in> set (hs_servers hs). server_json_ok A s)"

lemma json_ok_sanitize:
  "server_json_ok A s \<Longrightarrow> server_json_ok A (sanitize_server s)"
  "room_json_ok A r \<Longrightarrow> room_json_ok A (sanitize_room r)"
  "room_json_ok A r \<Longrightarrow> room_json_ok A (r\<lparr>rm_Members := Some []\<rparr>)"
  by (simp_all add: server_json_ok_def room_json_ok_def sanitize_server_def sanitize_room_def)

lemma stored_server_ok: "store_json_ok A hs \<Longrightarrow> mget (hs_servers hs) sid = Some s \<Longrightarrow> server_json_ok A s"
  by (auto simp: store_json_ok_def dest: map_of_SomeD)

lemma GetServer_ok: "store_json_ok A hs \<Longrightarrow> GetServer sid hs = Inr s \<Longrightarrow> server_json_ok A s"
  by (auto simp: GetServer_def stored_server_ok split: option.splits)

lemma server_rooms_ok: "server_json_ok A s \<Longrightarrow> (k, r) \<in> set (nil_map (sm_Rooms s)) \<Longrightarrow> room_json_ok A r"
  by (auto simp: server_json_ok_def)

lemma GetRoom_ok:
  assumes "store_json_ok A hs" "GetRoom sid rid hs = Inr r"
  shows "room_json_ok A r"
proof -
  obtain s where s: "mget (hs_servers hs) sid = Some s" "mget (nil_map (sm_Rooms s)) rid = Some r"
    using assms(2) by (auto simp: GetRoom_def split: option.splits)
  show ?thesis
    using server_rooms_ok [OF stored_server_ok [OF assms(1) s(1)] map_of_SomeD [OF s(2)]] .
qed

lemma ListRooms_ok:
  assumes "store_json_ok A hs" "map_order ord" "ListRooms ord sid hs = Inr rs" "r \<in> set rs"
  shows "room_json_ok A r"
proof -
  obtain s k where s: "mget (hs_servers hs) sid = Some s" "(k, r) \<in> set (nil_map (sm_Rooms s))"
    using assms(2-4) by (auto simp: ListRooms_def map_order_set split: option.splits)
  show ?thesis
    using server_rooms_ok [OF stored_server_ok [OF assms(1) s(1)] s(2)] .
qed

lemma join_room_replies:
  assumes "r \<in> set (replies_of (env, Some (join_room remote req hs)))"
  obtains (room) room where "GetRoom (jrr_ServerID req) (jrr_RoomID req) hs = Inr room"
      "r = JoinRoomResponse (Some (room\<lparr>rm_Members := Some []\<rparr>)) []"
  | (refused) e where "r = JoinRoomResponse None e" "utf8_valid e"
proof (cases "GetRoom (jrr_ServerID req) (jrr_RoomID req) hs")
  case (Inl err)
  with assms show thesis by (simp add: replies_of_def join_room_def)
next
  case (Inr found)
  show thesis
  proof (cases "r = JoinRoomResponse (Some (found\<lparr>rm_Members := Some []\<rparr>)) []")
    case True
    with Inr show thesis by (rule room)
  next
    case False
    with assms Inr have "r = JoinRoomResponse None ''invalid room password''
        \<or> r = JoinRoomResponse None ''Sender peer ID mismatch''"
      by (cases "put_member (jrr_ServerID req) (jrr_RoomID req) found (u_PeerID (jrr_Sender req))
            \<lparr>m_AddrInfo = remote, m_User = jrr_Sender req\<rparr> hs")
        (auto simp: replies_of_def join_room_def Let_def split: if_splits)
    then show thesis
      by (elim disjE) (rule refused, assumption, simp add: utf8_valid_ascii)+
  qed
qed

lemma ListServers_ok:
  "store_json_ok A hs \<Longrightarrow> map_order ord \<Longrightarrow> s \<in> set (ListServers ord hs) \<Longrightarrow> server_json_ok A s"
  by (auto simp: ListServers_def map_order_set store_json_ok_def)

lemma room_members_ok:
  assumes "room_json_ok A r" "map_order ord" "m \<in> set (ord (map snd (nil_map (rm_Members r))))"
  shows "member_json_ok A m"
  using assms by (auto simp: room_json_ok_def map_order_set)

text \<open>The replies of each method are of one kind.\<close>

lemma answered:
  assumes "wf_json p" "store_json_ok A hs" "world_ok w"
    and "r \<in> set (replies_of (handleRPC w remote (rpc_text method p) env hs))"
  shows "method = ''ListServers'' \<Longrightarrow> \<exists>ss. r = ListServersResponse ss \<and> response_json_ok A r"
    and "method = ''ListRooms'' \<Longrightarrow> \<exists>rs e. r = ListRoomsResponse rs e \<and> response_json_ok A r"
    and "method = ''JoinServer'' \<Longrightarrow> \<exists>s e. r = JoinServerResponse s e \<and> response_json_ok A r"
    and "method = ''JoinRoom'' \<Longrightarrow> \<exists>s e. r = JoinRoomResponse s e \<and> response_json_ok A r"
    and "method = ''ListRoomMembers'' \<Longrightarrow> \<exists>ms e. r = ListRoomMembersResponse ms e \<and> response_json_ok A r"
proof -
  have ord: "map_order (hw_order_servers w)" "map_order (hw_order_rooms w)" "map_order (hw_order_members w)"
    using assms(3) by (simp_all add: world_ok_def)
  note defs = replies_of_def handleRPC_request hub_dispatch_def
  {
    assume m: "method = ''ListServers''"
    then have "r = ListServersResponse (visible_servers (ListServers (hw_order_servers w) hs))"
      using assms(1,4) by (simp add: defs handle_ListServers_def)
    then show "\<exists>ss. r = ListServersResponse ss \<and> response_json_ok A r"
      using ListServers_ok [OF assms(2) ord(1)]
      by (auto simp: visible_servers_def list_all_iff json_ok_sanitize)
  next
    assume m: "method = ''ListRooms''"
    then obtain sid rs where "ListRooms (hw_order_rooms w) sid hs = Inr rs" "r = ListRoomsResponse (visible_rooms rs) []"
      using assms(1,4) by (auto simp: defs handle_ListRooms_def Let_def split: prod.splits if_splits sum.splits)
    then show "\<exists>rs e. r = ListRoomsResponse rs e \<and> response_json_ok A r"
      using ListRooms_ok [OF assms(2) ord(2)]
      by (auto simp: visible_rooms_def list_all_iff json_ok_sanitize)
  next
    assume m: "method = ''JoinServer''"
    then obtain req where "r = join_server_response req (GetServer (jsr_ServerID req) hs)"
      using assms(1,4) by (auto simp: defs handle_JoinServer_def Let_def split: prod.splits if_splits)
    then show "\<exists>s e. r = JoinServerResponse s e \<and> response_json_ok A r"
      using GetServer_ok [OF assms(2)]
      by (auto simp: join_server_response_def utf8_valid_ascii json_ok_sanitize split: sum.splits)
  next
    assume m: "method = ''JoinRoom''"
    then obtain req where "r \<in> set (replies_of (env, Some (join_room remote req hs)))"
      using assms(1,4) by (auto simp: defs handle_JoinRoom_def Let_def split: prod.splits if_splits)
    then show "\<exists>s e. r = JoinRoomResponse s e \<and> response_json_ok A r"
      by (cases rule: join_room_replies) (auto dest: GetRoom_ok [OF assms(2)] simp: json_ok_sanitize)
  next
    assume m: "method = ''ListRoomMembers''"
    then consider e where "r = ListRoomMembersResponse [] e" "utf8_valid e"
      | sid rid room where "GetRoom sid rid hs = Inr room"
        "r = ListRoomMembersResponse (hw_order_members w (map snd (nil_map (rm_Members room)))) []"
      using assms(1,4)
      by (auto simp: defs handle_ListRoomMembers_def Let_def utf8_valid_ascii split: prod.splits if_splits sum.splits)
    then show "\<exists>ms e. r = ListRoomMembersResponse ms e \<and> response_json_ok A r"
      by cases (auto simp: list_all_iff intro: room_members_ok [OF GetRoom_ok [OF assms(2)] ord(3)])
  }
qed

section \<open>Requests cross the wire\<close>

lemma wire_ListServers:
  assumes "wf_json p" "store_json_ok A hs" "world_ok w"
  shows "SendRPC None (hub_exchange A w remote env hs) (dec_list_servers A) [] ''ListServers'' p
    = map_sum id (map wire_server) (hub_rpc listed_servers w remote env hs ''ListServers'' p)"
proof (rule SendRPC_hub_rpc, intro ballI)
  fix r assume "r \<in> set (replies_of (handleRPC w remote (rpc_text ''ListServers'' p) env hs))"
  from answered(1) [OF assms this refl] show "response_json_ok A r \<and> (\<exists>x. listed_servers r = Some x
      \<and> dec_list_servers A (enc_response A r) [] = (True, (map wire_server) x))"
    using dec_enc_list_servers [of A] by auto
qed

lemma wire_JoinServer:
  assumes "wf_json p" "store_json_ok A hs" "world_ok w"
  shows "SendRPC None (hub_exchange A w remote env hs) (dec_joined_server A) (None, []) ''JoinServer'' p
    = map_sum id (apfst (map_option wire_server)) (hub_rpc joined_server w remote env hs ''JoinServer'' p)"
proof (rule SendRPC_hub_rpc, intro ballI)
  fix r assume "r \<in> set (replies_of (handleRPC w remote (rpc_text ''JoinServer'' p) env hs))"
  from answered(3) [OF assms this refl] show "response_json_ok A r \<and> (\<exists>x. joined_server r = Some x
      \<and> dec_joined_server A (enc_response A r) (None, []) = (True, (apfst (map_option wire_server)) x))"
    using dec_enc_joined_server [of A] by auto
qed

lemma wire_JoinRoom:
  assumes "wf_json p" "store_json_ok A hs" "world_ok w"
  shows "SendRPC None (hub_exchange A w remote env hs) (dec_joined_room A) (None, []) ''JoinRoom'' p
    = map_sum id (apfst (map_option wire_room)) (hub_rpc joined_room w remote env hs ''JoinRoom'' p)"
proof (rule SendRPC_hub_rpc, intro ballI)
  fix r assume "r \<in> set (replies_of (handleRPC w remote (rpc_text ''JoinRoom'' p) env hs))"
  from answered(4) [OF assms this refl] show "response_json_ok A r \<and> (\<exists>x. joined_room r = Some x
      \<and> dec_joined_room A (enc_response A r) (None, []) = (True, (apfst (map_option wire_room)) x))"
    using dec_enc_joined_room [of A] by auto
qed

lemma wire_ListRoomMembers:
  assumes "wf_json p" "store_json_ok A hs" "world_ok w"
  shows "SendRPC None (hub_exchange A w remote env hs) (dec_room_members A) ([], []) ''ListRoomMembers'' p
    = map_sum id id (hub_rpc listed_members w remote env hs ''ListRoomMembers'' p)"
proof (rule SendRPC_hub_rpc, intro ballI)
  fix r assume "r \<in> set (replies_of (handleRPC w remote (rpc_text ''ListRoomMembers'' p) env hs))"
  from answered(5) [OF assms this refl] show "response_json_ok A r \<and> (\<exists>x. listed_members r = Some x
      \<and> dec_room_members A (enc_response A r) ([], []) = (True, id x))"
    using dec_enc_room_members [of A] by auto
qed

text \<open>
  C13. For a store whose values can be written, each request of a client that is written to a stream,
  read and answered by the hub as text gives what \<open>hub_rpc\<close> gives between values, as it comes back:
  the client that sent the text and the one that handed over the value go on alike.
\<close>

theorem requests_cross_the_wire:
  assumes "wf_json p" "store_json_ok A hs" "world_ok w"
  shows "SendRPC None (hub_exchange A w remote env hs) (dec_list_servers A) [] ''ListServers'' p
      = map_sum id (map wire_server) (hub_rpc listed_servers w remote env hs ''ListServers'' p)
    \<and> SendRPC None (hub_exchange A w remote env hs) (dec_joined_server A) (None, []) ''JoinServer'' p
      = map_sum id (apfst (map_option wire_server)) (hub_rpc joined_server w remote env hs ''JoinServer'' p)
    \<and> SendRPC None (hub_exchange A w remote env hs) (dec_joined_room A) (None, []) ''JoinRoom'' p
      = map_sum id (apfst (map_option wire_room)) (hub_rpc joined_room w remote env hs ''JoinRoom'' p)
    \<and> SendRPC None (hub_exchange A w remote env hs) (dec_room_members A) ([], []) ''ListRoomMembers'' p
      = hub_rpc listed_members w remote env hs ''ListRoomMembers'' p"
  using wire_ListServers [OF assms] wire_JoinServer [OF assms] wire_JoinRoom [OF assms] wire_ListRoomMembers [OF assms]
  by (simp add: sum.map_id)

section \<open>What the lists of servers give away\<close>

lemma listed_visible:
  assumes "world_ok w" "mget (hs_servers hs) sid = Some sm" "sm_Visibility sm \<noteq> Private"
  shows "\<exists>ss. hub_rpc listed_servers w remote env hs ''ListServers'' (JObj []) = Inr ss
    \<and> sanitize_server sm \<in> set ss"
proof -
  have "sm \<in> set (ListServers (hw_order_servers w) hs)"
    using assms(1) map_of_SomeD [OF assms(2)]
    by (force simp: world_ok_def ListServers_def map_order_set)
  then have "sanitize_server sm \<in> set (visible_servers (ListServers (hw_order_servers w) hs))"
    using assms(3) by (simp add: visible_servers_def)
  then show ?thesis
    by (simp add: hub_rpc_def hub_answer_def handleRPC_request hub_dispatch_def handle_ListServers_def)
qed

lemma wire_server_room:
  assumes "wf_server sid sm" "mget (nil_map (sm_Rooms sm)) rid = Some rm"
  shows "mget (nil_map (sm_Rooms (wire_server (sanitize_server sm)))) rid = Some (wire_room rm)"
proof -
  obtain rs where rs: "sm_Rooms sm = Some rs" "wf_map rs" using assms(1) by (auto simp: wf_server_def)
  with assms(2) show ?thesis
    by (simp add: wire_server_def sanitize_server_def mget_map_snd mget_sorted_map)
qed

lemma find_room_parts:
  assumes "find_room sid rid hs = Some rm"
  obtains sm where "mget (hs_servers hs) sid = Some sm" "mget (nil_map (sm_Rooms sm)) rid = Some rm"
  using find_room_Inr [OF assms] that by (auto simp: GetRoom_def split: option.splits)

text \<open>
  C14. The list of servers gives away the rooms of every server that is not private, private rooms
  too, each with its password hash, salt, key and members: whoever asks for it reads the hash of a
  room's password there and, where the room is not private, enters it by sending that hash, without
  the password.
\<close>

theorem listed_room_entered_without_password:
  assumes "wf_store hs" "store_json_ok A hs" "world_ok w" "world_ok w'"
    and "find_room sid rid hs = Some rm" "rm_PasswordHash rm = Some h" "h \<noteq> []"
    and "\<forall>sm. mget (hs_servers hs) sid = Some sm \<longrightarrow> sm_Visibility sm \<noteq> Private"
    and "wf_user u" "ai_ID remote = u_PeerID u"
  shows "\<exists>ss s r. SendRPC None (hub_exchange A w remote env hs) (dec_list_servers A) [] ''ListServers'' (JObj []) = Inr ss
    \<and> s \<in> set ss \<and> sm_ID s = sid \<and> mget (nil_map (sm_Rooms s)) rid = Some r
    \<and> r = wire_room rm \<and> rm_PasswordHash r = rm_PasswordHash rm
    \<and> (rm_Visibility rm \<noteq> Private \<longrightarrow>
        SendRPC None (hub_exchange A w' remote env' hs) (dec_joined_room A) (None, []) ''JoinRoom''
          (enc_join_room_request \<lparr>jrr_ServerID = sid, jrr_RoomID = rid, jrr_PasswordHash = rm_PasswordHash r,
             jrr_Sender = u\<rparr>)
        = Inr (Some (wire_room (rm\<lparr>rm_Members := Some []\<rparr>)), []))"
proof -
  obtain sm where sm: "mget (hs_servers hs) sid = Some sm" "mget (nil_map (sm_Rooms sm)) rid = Some rm"
    using assms(5) by (rule find_room_parts)
  then have wf: "wf_server sid sm" and seen: "sm_Visibility sm \<noteq> Private"
    using assms(1,8) by (auto simp: wf_store_def)
  obtain ss where ss: "hub_rpc listed_servers w remote env hs ''ListServers'' (JObj []) = Inr ss"
    "sanitize_server sm \<in> set ss" using listed_visible [OF assms(3) sm(1) seen] by blast
  have list: "SendRPC None (hub_exchange A w remote env hs) (dec_list_servers A) [] ''ListServers'' (JObj [])
      = Inr (map wire_server ss)"
    using wire_ListServers [of "JObj []", OF _ assms(2,3)] ss(1) by simp
  have hash: "rm_PasswordHash (wire_room rm) = Some h"
    using assms(6,7) by (simp add: wire_room_def drop_empty_def)
  let ?q = "\<lparr>jrr_ServerID = sid, jrr_RoomID = rid, jrr_PasswordHash = Some h, jrr_Sender = u\<rparr>"
  have "utf8_valid sid" "utf8_valid rid"
    using stored_server_ok [OF assms(2) sm(1)] wf map_of_SomeD [OF sm(2)]
    by (auto simp: server_json_ok_def wf_server_def)
  then have q: "wf_join_room_request ?q" using assms(7,9) by (simp add: wf_join_room_request_def)
  have join: "SendRPC None (hub_exchange A w' remote env' hs) (dec_joined_room A) (None, []) ''JoinRoom''
      (enc_join_room_request ?q) = Inr (Some (wire_room (rm\<lparr>rm_Members := Some []\<rparr>)), [])"
    if "rm_Visibility rm \<noteq> Private"
    using wire_JoinRoom [OF wf_enc_join_room_request [OF q] assms(2,4)] hub_join_room [OF q assms(1)] that assms(5,6,10)
    by (simp add: room_password_ok_def bytes_Equal_def)
  show ?thesis
  proof (intro exI conjI impI)
    show "wire_server (sanitize_server sm) \<in> set (map wire_server ss)" using ss(2) by simp
    show "sm_ID (wire_server (sanitize_server sm)) = sid"
      using wf by (simp add: wire_server_def sanitize_server_def wf_server_def)
    show "mget (nil_map (sm_Rooms (wire_server (sanitize_server sm)))) rid = Some (wire_room rm)"
      by (rule wire_server_room [OF wf sm(2)])
  qed (simp_all add: list hash assms(6) join)
qed

section \<open>Instances of the properties\<close>

text \<open>An address as an array of its parts.\<close>

definition sample_addr_lib :: addr_lib where
  "sample_addr_lib = \<lparr>
     al_enc = (\<lambda>a. JArr (JStr (ai_ID a) # map JStr (ai_Addrs a))),
     al_dec = (\<lambda>j old. case j of
        JArr (JStr i # js) \<Rightarrow>
          (True, \<lparr>ai_ID = i, ai_Addrs = map (\<lambda>j. case j of JStr s \<Rightarrow> s | _ \<Rightarrow> []) js\<rparr>)
      | _ \<Rightarrow> (False, old))\<rparr>"

definition sample_locked_room :: room_meta where
  "sample_locked_room = sample_hub_room\<lparr>rm_Visibility := PasswordProtected, rm_PasswordHash := Some [1]\<rparr>"

lemma sample_locked_ok:
  "wf_store (sample_store [([], sample_locked_room)])"
  "store_json_ok A (sample_store [([], sample_locked_room)])"
  "find_room [] [] (sample_store [([], sample_locked_room)]) = Some sample_locked_room"
  by (simp_all add: sample_locked_room_def sample_defs wf_store_def wf_server_def wf_room_def wf_map_def
      store_json_ok_def server_json_ok_def room_json_ok_def in_int64_def in_int16_def visibility_defs utf8_valid_ascii
      find_room_def GetRoom_def)

theorem requests_cross_the_wire_witness:
  "SendRPC None (hub_exchange sample_addr_lib sample_world sample_peer zero_rpc_env
       (sample_store [([], sample_locked_room)])) (dec_list_servers sample_addr_lib) [] ''ListServers'' (JObj [])
   = Inr [wire_server (sanitize_server (sample_server\<lparr>sm_Rooms := Some [([], sample_locked_room)]\<rparr>))]"
proof -
  have "hub_rpc listed_servers sample_world sample_peer zero_rpc_env (sample_store [([], sample_locked_room)])
      ''ListServers'' (JObj []) = Inr [sanitize_server (sample_server\<lparr>sm_Rooms := Some [([], sample_locked_room)]\<rparr>)]"
    by (simp add: hub_rpc_def hub_answer_def handleRPC_request hub_dispatch_def handle_ListServers_def
        ListServers_def visible_servers_def sample_defs visibility_defs)
  then show ?thesis
    using requests_cross_the_wire [of "JObj []" sample_addr_lib "sample_store [([], sample_locked_room)]" sample_world
        sample_peer zero_rpc_env] sample_locked_ok(2) by simp
qed

theorem listed_room_entered_without_password_witness:
  "\<exists>ss s r. SendRPC None (hub_exchange sample_addr_lib sample_world sample_peer zero_rpc_env
         (sample_store [([], sample_locked_room)])) (dec_list_servers sample_addr_lib) [] ''ListServers'' (JObj []) = Inr ss
     \<and> s \<in> set ss \<and> mget (nil_map (sm_Rooms s)) [] = Some r
     \<and> SendRPC None (hub_exchange sample_addr_lib sample_world sample_peer zero_rpc_env
         (sample_store [([], sample_locked_room)])) (dec_joined_room sample_addr_lib) (None, []) ''JoinRoom''
         (enc_join_room_request \<lparr>jrr_ServerID = [], jrr_RoomID = [], jrr_PasswordHash = rm_PasswordHash r,
            jrr_Sender = sample_user\<rparr>)
       = Inr (Some (wire_room (sample_locked_room\<lparr>rm_Members := Some []\<rparr>)), [])"
proof -
  have "rm_PasswordHash sample_locked_room = Some [1]" "rm_Visibility sample_locked_room \<noteq> Private"
    by (simp_all add: sample_locked_room_def visibility_defs)
  moreover have "\<forall>sm. mget (hs_servers (sample_store [([], sample_locked_room)])) [] = Some sm
      \<longrightarrow> sm_Visibility sm \<noteq> Private"
    by (simp add: sample_defs visibility_defs)
  moreover have "wf_user sample_user" "ai_ID sample_peer = u_PeerID sample_user"
    by (simp_all add: sample_user_def sample_peer_def zero_user_def wf_user_def utf8_valid_ascii)
  ultimately show ?thesis
    using listed_room_entered_without_password [OF sample_locked_ok(1) sample_locked_ok(2) [of sample_addr_lib]
        sample_world_ok sample_world_ok sample_locked_ok(3), of "[1]" sample_user sample_peer zero_rpc_env zero_rpc_env]
    by blast
qed

end
