(* ===== verification/Room_System.thy ===== *)
theory Room_System
  imports Chat_Correct Decrypt_Spec
begin

text \<open>
  The members of a room together: each is a client of \<open>Chat\<close>, what they publish on the chat topic
  reaches the others, and themselves, in any order, any number of times or never. The step
  relation of such a room, what holds in all its reachable states, and what becomes of a message.
\<close>

section \<open>A room and its steps\<close>

text \<open>What somebody said: with what the wire carries goes who said it, when and with which ratchet.\<close>

record said =
  sd_User :: user
  sd_Time :: int
  sd_Index :: u64
  sd_Text :: string

record room_net =
  rn_Members :: "(string, client) gomap"
  rn_Wire :: "(said \<times> bytes) list"
  rn_Calls :: nat

definition saying :: "client_env \<Rightarrow> client \<Rightarrow> room_ratchet \<Rightarrow> string \<Rightarrow> said" where
  "saying E c rat txt =
     \<lparr>sd_User = cli_User c, sd_Time = ce_now E, sd_Index = rr_Index rat, sd_Text = txt\<rparr>"

text \<open>A member runs this program with a key pair of its own; all have the same primitives.\<close>

definition honest :: "crypto_lib \<Rightarrow> client \<Rightarrow> bool" where
  "honest L c \<longleftrightarrow> sessions_ok c \<and> wf_user (cli_User c)
     \<and> key_pair L (cli_DilithiumPriv c) (u_DilithiumPub (cli_User c))"

definition env_ok :: "crypto_lib \<Rightarrow> client_env \<Rightarrow> bool" where
  "env_ok L E \<longleftrightarrow> ce_lib E = L \<and> in_int64 (ce_now E) \<and> ce_now E \<noteq> 0"

text \<open>
  A member enters with the room's key, calls the send handler, or receives something that was
  published. \<open>rn_Calls\<close> counts the calls; a call that fails to publish moves the ratchet too.
\<close>

inductive room_step :: "crypto_lib \<Rightarrow> room_ratchet \<Rightarrow> room_net \<Rightarrow> room_net \<Rightarrow> bool" for L key where
  enters: "honest L c \<Longrightarrow> cur_room c = Some r \<Longrightarrow> ro_Messages r = [] \<Longrightarrow>
    room_step L key n
      (n\<lparr>rn_Members := mput p (upd_room (SetInitialRatchet (Some key)) c) (rn_Members n)\<rparr>)"
| says: "mget (rn_Members n) p = Some c \<Longrightarrow> cur_room c = Some r \<Longrightarrow> ro_RoomRatchet r = Some rat \<Longrightarrow> env_ok L E \<Longrightarrow>
    SendMessageHandler E txt c = Ret (e, c', out) \<Longrightarrow>
    room_step L key n
      (n\<lparr>rn_Members := mput p c' (rn_Members n),
         rn_Wire := rn_Wire n @ map (\<lambda>(topic, data). (saying E c rat txt, data)) out,
         rn_Calls := rn_Calls n + 1\<rparr>)"
| hears: "mget (rn_Members n) p = Some c \<Longrightarrow> (s, data) \<in> set (rn_Wire n) \<Longrightarrow> env_ok L E \<Longrightarrow>
    chat_step E peer data c = Some (Ret (e, c')) \<Longrightarrow>
    room_step L key n (n\<lparr>rn_Members := mput p c' (rn_Members n)\<rparr>)"

inductive_cases room_stepE: "room_step L key n n'"

definition empty_room :: room_net where
  "empty_room = \<lparr>rn_Members = [], rn_Wire = [], rn_Calls = 0\<rparr>"

definition room_reachable :: "crypto_lib \<Rightarrow> room_ratchet \<Rightarrow> room_net \<Rightarrow> bool" where
  "room_reachable L key n \<longleftrightarrow> (room_step L key)\<^sup>*\<^sup>* empty_room n"

lemma room_reachable_step: "room_reachable L key n \<Longrightarrow> room_step L key n n' \<Longrightarrow> room_reachable L key n'"
  unfolding room_reachable_def by (rule rtranclp.rtrancl_into_rtrancl)

text \<open>Indices stay below the bound for which the loops of decryption return.\<close>

definition in_bound :: "room_ratchet \<Rightarrow> nat \<Rightarrow> bool" where
  "in_bound key n \<longleftrightarrow> unat (rr_Index key) + n < 2 ^ 64 - 11"

section \<open>What is on the wire\<close>

text \<open>The data of something said at position \<open>k\<close> of the chain.\<close>

definition carries :: "crypto_lib \<Rightarrow> room_ratchet \<Rightarrow> said \<Rightarrow> bytes \<Rightarrow> nat \<Rightarrow> bool" where
  "carries L key s data k \<longleftrightarrow> sd_Time s \<noteq> 0 \<and> sd_Index s = rr_Index (chain_at key k)
     \<and> (\<exists>env ct nonce.
          EncryptMessage L (chain_at key k) (string_bytes (sd_Text s)) = (Inr (ct, nonce), chain_at key (k + 1))
        \<and> UnmarshalEnvelope data = Inr (env, ChatMessage \<lparr>cm_ChainIndex = sd_Index s, cm_Ciphertext = Some ct\<rparr>)
        \<and> env_Sender env = sd_User s \<and> env_Timestamp env = sd_Time s)"

lemma chain_at_0 [simp]: "chain_at r 0 = r"
  by (simp add: chain_at_def)

lemma advance_chain [simp]: "advance (chain_at r k) = chain_at r (k + 1)"
  by (simp add: chain_at_def)

lemma index_after [simp]: "rr_Index (chain_at r (Suc k)) - 1 = rr_Index (chain_at r k)"
  by (metis Suc_eq_plus1 advance_chain Index_advance add_diff_cancel_right')

lemma honest_encrypts:
  assumes "hkdf_ok L" "chacha_ok L"
  obtains ct nonce where "EncryptMessage L (chain_at key k) pt = (Inr (ct, nonce), chain_at key (k + 1))"
  by (rule EncryptMessage_ok [OF assms, of "chain_at key k" pt]) (use that in simp)

lemma SendMessageHandler_effect:
  assumes "hkdf_ok L" "chacha_ok L" "honest L c" "env_ok L E"
    and "cur_room c = Some r" "ro_RoomRatchet r = Some (chain_at key k)"
    and "SendMessageHandler E txt c = Ret (e, c', out)"
  shows "honest L c' \<and> cur_room c' = Some (r\<lparr>ro_RoomRatchet := Some (chain_at key (k + 1))\<rparr>)
    \<and> (\<forall>(topic, data) \<in> set out. carries L key (saying E c (chain_at key k) txt) data k)"
proof -
  obtain ct nonce where enc: "EncryptMessage L (chain_at key k) (string_bytes txt) = (Inr (ct, nonce), chain_at key (k + 1))"
    by (rule honest_encrypts [OF assms(1,2)])
  let ?msg = "ChatMessage \<lparr>cm_ChainIndex = rr_Index (chain_at key k), cm_Ciphertext = Some ct\<rparr>"
  let ?c = "upd_room (\<lambda>r. r\<lparr>ro_RoomRatchet := Some (chain_at key (k + 1))\<rparr>) c"
  have pair: "key_pair L (cli_DilithiumPriv c) (u_DilithiumPub (cli_User c))" and user: "wf_user (cli_User c)"
    and ok: "sessions_ok c" using assms(3) by (simp_all add: honest_def)
  have lib: "ce_lib E = L" and time: "in_int64 (ce_now E)" "ce_now E \<noteq> 0" using assms(4) by (simp_all add: env_ok_def)
  obtain sig where "Sign L (string_bytes (jprint (enc_message ?msg))) (cli_DilithiumPriv c) = Inr sig"
    using key_pair_signs [OF pair] by blast
  then obtain data env where mar: "MarshalEnvelope L (ce_now E) ?msg (cli_User c) (cli_DilithiumPriv c) = Inr (data, env)"
    by (simp add: MarshalEnvelope_def Let_def)
  have env: "env_Sender env = cli_User c" "env_Timestamp env = ce_now E"
    using mar by (auto simp: MarshalEnvelope_def Let_def split: sum.splits)
  have "UnmarshalEnvelope data = Inr (env, ?msg)" using Unmarshal_Marshal [OF mar] user time by simp
  with enc env time have carried: "carries L key (saying E c (chain_at key k) txt) data k"
    by (simp add: carries_def saying_def)
  have "sessions_ok ?c" by (rule sessions_ok_upd_room [OF ok]) simp
  then have "(out = [] \<or> (\<exists>tp. out = [(tp, data)])) \<and> (\<exists>h. c' = ?c \<or> c' = ?c\<lparr>cli_History := h\<rparr>)"
    using assms(5-7) enc mar lib
    by (auto simp: SendMessageHandler_def Let_def GetRoomID_ok GetServerID_ok case_prod_unfold
        split: option.splits)
  moreover have "honest L ?c" using \<open>sessions_ok ?c\<close> pair user by (simp add: honest_def)
  ultimately show ?thesis
    using carried assms(5) by (auto simp: honest_def)
qed

section \<open>What becomes of it\<close>

definition kept :: "said \<Rightarrow> string \<Rightarrow> string \<Rightarrow> decrypted_message" where
  "kept s rid sid = \<lparr>dm_Sender = sd_User s, dm_Timestamp = sd_Time s, dm_Content = sd_Text s,
     dm_RoomID = rid, dm_ServerID = sid\<rparr>"

text \<open>The ratchets after a message of position \<open>k\<close>.\<close>

definition moved :: "room_ratchet \<Rightarrow> nat \<Rightarrow> nat \<Rightarrow> nat \<Rightarrow> room_session \<Rightarrow> room_session" where
  "moved key k m b r = r\<lparr>ro_RoomRatchet := Some (chain_at key (max m (k + 1))),
     ro_BackupRatchet := Some (chain_at key (if m \<le> k then max b (k - 8) else k + 1))\<rparr>"

lemma decrypt_position:
  assumes "hkdf_ok L" "chacha_ok L" "in_bound key k" "in_bound key m" "b \<le> m" "b \<le> k"
    and "EncryptMessage L (chain_at key k) pt = (Inr (ct, nonce), chain_at key (k + 1))"
  shows "decryptMessage L \<lparr>rs_Main = chain_at key m, rs_Backup = chain_at key b\<rparr>
      \<lparr>cm_ChainIndex = rr_Index (chain_at key k), cm_Ciphertext = Some ct\<rparr>
    = Some (Inr pt, \<lparr>rs_Main = chain_at key (max m (k + 1)),
        rs_Backup = chain_at key (if m \<le> k then max b (k - 8) else k + 1)\<rparr>)"
proof (cases "m \<le> k")
  case True
  with ahead_message_decrypts [OF assms(1,2) True assms(5), of key pt] assms(3,7) show ?thesis
    by (auto simp: in_bound_def max_def)
next
  case False
  moreover from False have "max m (k + 1) = m" by simp
  ultimately show ?thesis
    using late_message_decrypts [OF assms(1,2) assms(6), of m key pt] assms(4,7)
    by (auto simp: in_bound_def)
qed

lemma take_chat_frame:
  "take_chat E env cm pt c = Ret (e, c') \<Longrightarrow>
    cli_User c' = cli_User c \<and> cli_DilithiumPriv c' = cli_DilithiumPriv c"
  by (auto simp: take_chat_def Let_def case_prod_unfold DisplayMessage_def ShowError_def outcome_simps
      split: option.splits)

lemma ShowError_key [simp]: "cli_DilithiumPriv (ShowError t x c) = cli_DilithiumPriv c"
  by (simp add: ShowError_def)

text \<open>Hearing a message returns; it is read if the backup ratchet is not past its position.\<close>

lemma hears_said:
  assumes "hkdf_ok L" "chacha_ok L" "env_ok L E" "carries L key s data k" "in_bound key k" "in_bound key m"
    and "GetRoomID c = Ret rid" "GetServerID c = Ret sid" "cur_room c = Some r"
    and "ro_RoomRatchet r = Some (chain_at key m)" "ro_BackupRatchet r = Some (chain_at key b)" "b \<le> m"
  shows "\<exists>c'. chat_step E peer data c = Some (Ret (None, c'))
    \<and> cli_User c' = cli_User c \<and> cli_DilithiumPriv c' = cli_DilithiumPriv c
    \<and> (if b \<le> k
       then cur_room c' = Some ((moved key k m b r)\<lparr>ro_Messages := ro_Messages r @ [kept s rid sid]\<rparr>)
         \<and> cli_Lines c' = cli_Lines c @ [chat_line E (sd_Time s) (sd_User s) (sd_Text s)]
       else cur_room c' = Some r \<and> cli_Lines c' = cli_Lines c
         \<and> (\<exists>text. cli_Dialogs c' = cli_Dialogs c @ [(''Decryption Error'', text)]))"
proof -
  have lib: "ce_lib E = L" using assms(3) by (simp add: env_ok_def)
  obtain env ct nonce where enc: "EncryptMessage L (chain_at key k) (string_bytes (sd_Text s)) = (Inr (ct, nonce), chain_at key (k + 1))"
    and un: "UnmarshalEnvelope data = Inr (env, ChatMessage \<lparr>cm_ChainIndex = sd_Index s, cm_Ciphertext = Some ct\<rparr>)"
    and env: "env_Sender env = sd_User s" "env_Timestamp env = sd_Time s" "sd_Time s \<noteq> 0"
    and idx: "sd_Index s = rr_Index (chain_at key k)"
    using assms(4) by (auto simp: carries_def)
  let ?cm = "\<lparr>cm_ChainIndex = rr_Index (chain_at key k), cm_Ciphertext = Some ct\<rparr>"
  show ?thesis
  proof (cases "b \<le> k")
    case True
    let ?f = "\<lambda>r. r\<lparr>ro_RoomRatchet := Some (chain_at key (max m (k + 1))),
        ro_BackupRatchet := Some (chain_at key (if m \<le> k then max b (k - 8) else k + 1))\<rparr>"
    have "client_decrypt L ?cm c = Some (Ret (Inr (string_bytes (sd_Text s)), upd_room ?f c))"
      using decrypt_position [OF assms(1,2,5,6,12) True enc] assms(9-11) by (simp add: client_decrypt_def)
    then have step: "chat_step E peer data c = Some (take_chat E env ?cm (string_bytes (sd_Text s)) (upd_room ?f c))"
      using un env lib idx by (simp add: chat_step_chat)
    have "GetRoomID (upd_room ?f c) = Ret rid" "GetServerID (upd_room ?f c) = Ret sid" "cur_room (upd_room ?f c) = Some (?f r)"
      using assms(7-9) GetIDs_upd_room [of ?f c] by simp_all
    from take_chat_room [OF this, of E env ?cm "string_bytes (sd_Text s)"] obtain c' where
      c': "take_chat E env ?cm (string_bytes (sd_Text s)) (upd_room ?f c) = Ret (None, c')"
        "cur_room c' = Some ((?f r)\<lparr>ro_Messages := ro_Messages r @ [kept s rid sid]\<rparr>)"
        "cli_Lines c' = cli_Lines c @ [chat_line E (sd_Time s) (sd_User s) (sd_Text s)]"
      using env by (auto simp: kept_def)
    from take_chat_frame [OF c'(1)] c' step True show ?thesis by (auto simp: moved_def)
  next
    case False
    obtain err where "decryptMessage L \<lparr>rs_Main = chain_at key m, rs_Backup = chain_at key b\<rparr> ?cm
        = Some (Inl err, \<lparr>rs_Main = chain_at key m, rs_Backup = chain_at key b\<rparr>)"
      using too_old_message_rejected [OF assms(2), of k b m key "Some ct"] False assms(6,12) by (auto simp: in_bound_def)
    then have "client_decrypt L ?cm c = Some (Ret (Inl err, upd_room (\<lambda>r. r\<lparr>ro_RoomRatchet := Some (chain_at key m),
        ro_BackupRatchet := Some (chain_at key b)\<rparr>) c))"
      using assms(9-11) by (simp add: client_decrypt_def)
    moreover have "r\<lparr>ro_RoomRatchet := Some (chain_at key m), ro_BackupRatchet := Some (chain_at key b)\<rparr> = r"
      using assms(10,11) by (cases r) simp
    ultimately show ?thesis
      using un env lib idx False assms(9) by (simp add: chat_step_chat)
  qed
qed

section \<open>The invariant\<close>

definition ratchets_at :: "room_ratchet \<Rightarrow> room_session \<Rightarrow> nat \<Rightarrow> nat \<Rightarrow> bool" where
  "ratchets_at key r m b \<longleftrightarrow> ro_RoomRatchet r = Some (chain_at key m)
     \<and> ro_BackupRatchet r = Some (chain_at key b) \<and> b \<le> m"

definition is_said :: "said \<Rightarrow> decrypted_message \<Rightarrow> bool" where
  "is_said s d \<longleftrightarrow> dm_Sender d = sd_User s \<and> dm_Timestamp d = sd_Time s \<and> dm_Content d = sd_Text s"

lemma is_said_kept [simp]: "is_said s (kept s rid sid)"
  by (simp add: is_said_def kept_def)

definition in_room :: "crypto_lib \<Rightarrow> room_ratchet \<Rightarrow> said set \<Rightarrow> nat \<Rightarrow> client \<Rightarrow> bool" where
  "in_room L key S calls c \<longleftrightarrow> honest L c \<and> (\<exists>r m b. cur_room c = Some r \<and> ratchets_at key r m b \<and> m \<le> calls
     \<and> (\<forall>d \<in> set (ro_Messages r). \<exists>s \<in> S. is_said s d))"

definition room_inv :: "crypto_lib \<Rightarrow> room_ratchet \<Rightarrow> room_net \<Rightarrow> bool" where
  "room_inv L key n \<longleftrightarrow>
     (\<forall>p c. mget (rn_Members n) p = Some c \<longrightarrow> in_room L key (fst ` set (rn_Wire n)) (rn_Calls n) c)
     \<and> (\<forall>(s, data) \<in> set (rn_Wire n). \<exists>k < rn_Calls n. carries L key s data k)"

lemma in_room_mono: "in_room L key S n c \<Longrightarrow> S \<subseteq> S' \<Longrightarrow> n \<le> n' \<Longrightarrow> in_room L key S' n' c"
  unfolding in_room_def by (meson le_trans subsetD)

lemma honest_ids: "honest L c \<Longrightarrow> \<exists>rid sid. GetRoomID c = Ret rid \<and> GetServerID c = Ret sid"
  by (simp add: honest_def GetRoomID_ok GetServerID_ok)

lemma honest_upd_room: "honest L c \<Longrightarrow> (\<And>r. ro_RoomMeta (f r) = ro_RoomMeta r) \<Longrightarrow> honest L (upd_room f c)"
  by (simp add: honest_def sessions_ok_upd_room)

lemma entering_ok:
  assumes "rr_ChainKey key \<noteq> None" "honest L c" "cur_room c = Some r" "ro_Messages r = []"
  shows "in_room L key S calls (upd_room (SetInitialRatchet (Some key)) c)"
proof -
  have "Clone (Some key) = Some key" using assms(1) by (cases key) (auto simp: Clone_def)
  then have "ratchets_at key (SetInitialRatchet (Some key) r) 0 0"
    by (simp add: ratchets_at_def SetInitialRatchet_def)
  with assms(3,4) honest_upd_room [OF assms(2), of "SetInitialRatchet (Some key)"] show ?thesis
    by (auto simp: in_room_def SetInitialRatchet_def)
qed

lemma saying_ok:
  assumes "hkdf_ok L" "chacha_ok L" "env_ok L E" "in_room L key S calls c"
    and "cur_room c = Some r" "ro_RoomRatchet r = Some rat" "SendMessageHandler E txt c = Ret (e, c', out)"
  shows "in_room L key S (calls + 1) c'
    \<and> (\<forall>(topic, data) \<in> set out. \<exists>k \<le> calls. carries L key (saying E c rat txt) data k)"
proof -
  obtain m b where c: "honest L c" "ratchets_at key r m b" "m \<le> calls" "\<forall>d \<in> set (ro_Messages r). \<exists>s \<in> S. is_said s d"
    using assms(4,5) by (auto simp: in_room_def)
  then have rat: "ro_RoomRatchet r = Some (chain_at key m)" "rat = chain_at key m"
    using assms(6) by (simp_all add: ratchets_at_def)
  from SendMessageHandler_effect [OF assms(1,2) c(1) assms(3,5) rat(1) assms(7)] c(2-4) rat(2) show ?thesis
    by (fastforce simp: in_room_def ratchets_at_def)
qed

lemma member_hears:
  assumes "hkdf_ok L" "chacha_ok L" "env_ok L E" "in_room L key S calls c" "in_bound key calls"
    and "carries L key s data k" "k < calls"
  obtains r m b rid sid c' where "cur_room c = Some r" "ratchets_at key r m b" "m \<le> calls" "honest L c'"
    "chat_step E peer data c = Some (Ret (None, c'))"
    "if b \<le> k
     then cur_room c' = Some ((moved key k m b r)\<lparr>ro_Messages := ro_Messages r @ [kept s rid sid]\<rparr>)
       \<and> cli_Lines c' = cli_Lines c @ [chat_line E (sd_Time s) (sd_User s) (sd_Text s)]
     else cur_room c' = Some r \<and> cli_Lines c' = cli_Lines c
       \<and> (\<exists>text. cli_Dialogs c' = cli_Dialogs c @ [(''Decryption Error'', text)])"
proof -
  obtain r m b where c: "honest L c" "cur_room c = Some r" "ratchets_at key r m b" "m \<le> calls"
    using assms(4) by (auto simp: in_room_def)
  obtain rid sid where ids: "GetRoomID c = Ret rid" "GetServerID c = Ret sid" using honest_ids [OF c(1)] by blast
  have at: "ro_RoomRatchet r = Some (chain_at key m)" "ro_BackupRatchet r = Some (chain_at key b)" "b \<le> m"
    using c(3) by (simp_all add: ratchets_at_def)
  have bound: "in_bound key k" "in_bound key m" using assms(5,7) c(4) by (simp_all add: in_bound_def)
  from hears_said [OF assms(1-3,6) bound ids c(2) at, of peer] obtain c' where
    c': "chat_step E peer data c = Some (Ret (None, c'))" "cli_User c' = cli_User c" "cli_DilithiumPriv c' = cli_DilithiumPriv c"
      "if b \<le> k
       then cur_room c' = Some ((moved key k m b r)\<lparr>ro_Messages := ro_Messages r @ [kept s rid sid]\<rparr>)
         \<and> cli_Lines c' = cli_Lines c @ [chat_line E (sd_Time s) (sd_User s) (sd_Text s)]
       else cur_room c' = Some r \<and> cli_Lines c' = cli_Lines c
         \<and> (\<exists>text. cli_Dialogs c' = cli_Dialogs c @ [(''Decryption Error'', text)])" by blast
  from chat_step_ok [OF _ c'(1)] c(1) c'(2,3) have "honest L c'" by (simp add: honest_def)
  with that c c' show thesis by blast
qed

lemma hearing_ok:
  assumes "hkdf_ok L" "chacha_ok L" "env_ok L E" "in_room L key S calls c" "in_bound key calls"
    and "carries L key s data k" "k < calls" "s \<in> S" "chat_step E peer data c = Some (Ret (e, c'))"
  shows "in_room L key S calls c'"
proof -
  obtain r m b rid sid c1 where at: "cur_room c = Some r" "ratchets_at key r m b" "m \<le> calls" "honest L c1"
    and step: "chat_step E peer data c = Some (Ret (None, c1))"
    and then_else: "if b \<le> k
     then cur_room c1 = Some ((moved key k m b r)\<lparr>ro_Messages := ro_Messages r @ [kept s rid sid]\<rparr>)
       \<and> cli_Lines c1 = cli_Lines c @ [chat_line E (sd_Time s) (sd_User s) (sd_Text s)]
     else cur_room c1 = Some r \<and> cli_Lines c1 = cli_Lines c
       \<and> (\<exists>text. cli_Dialogs c1 = cli_Dialogs c @ [(''Decryption Error'', text)])"
    by (rule member_hears [OF assms(1-7)])
  have said: "\<forall>d \<in> set (ro_Messages r). \<exists>s \<in> S. is_said s d" using assms(4) at(1) by (auto simp: in_room_def)
  have c1: "c1 = c'" using step assms(9) by simp
  show ?thesis
  proof (cases "b \<le> k")
    case True
    let ?b = "if m \<le> k then max b (k - 8) else k + 1"
    let ?r = "(moved key k m b r)\<lparr>ro_Messages := ro_Messages r @ [kept s rid sid]\<rparr>"
    have "ratchets_at key ?r (max m (k + 1)) ?b" using at(2) True by (auto simp: ratchets_at_def moved_def)
    moreover have "\<forall>d \<in> set (ro_Messages ?r). \<exists>s \<in> S. is_said s d"
      using said assms(8) by (auto intro: bexI [of _ s])
    moreover have "cur_room c' = Some ?r" "max m (k + 1) \<le> calls"
      using then_else True c1 at(3) assms(7) by simp_all
    ultimately show ?thesis using at(4) c1 unfolding in_room_def by blast
  next
    case False
    with then_else at said c1 show ?thesis by (auto simp: in_room_def)
  qed
qed

lemma room_inv_step:
  assumes "hkdf_ok L" "chacha_ok L" "rr_ChainKey key \<noteq> None"
    and "room_step L key n n'" "room_inv L key n" "in_bound key (rn_Calls n')"
  shows "room_inv L key n'"
  using assms(4)
proof (cases rule: room_step.cases)
  case (enters c r p)
  with assms(5) entering_ok [OF assms(3) enters(2-4)] show ?thesis
    by (auto simp: room_inv_def map_simps)
next
  case (says p c r rat E w e c' out)
  let ?S = "fst ` set (rn_Wire n)" and ?S' = "fst ` set (rn_Wire n')"
  have mem: "in_room L key ?S (rn_Calls n) c" using assms(5) says(2) by (simp add: room_inv_def)
  note effect = saying_ok [OF assms(1,2) says(5) mem says(3,4,6)]
  have sub: "?S \<subseteq> ?S'" and calls: "rn_Calls n' = rn_Calls n + 1" using says(1) by auto
  have "in_room L key ?S' (rn_Calls n') x" if "mget (rn_Members n') q = Some x" for q x
  proof (cases "q = p")
    case True
    with that says(1) effect calls sub show ?thesis by (auto simp: map_simps intro: in_room_mono)
  next
    case False
    with that says(1) have "in_room L key ?S (rn_Calls n) x" using assms(5) by (simp add: map_simps room_inv_def)
    then show ?thesis by (rule in_room_mono [OF _ sub]) (simp add: calls)
  qed
  moreover have "\<exists>k < rn_Calls n'. carries L key s data k" if "(s, data) \<in> set (rn_Wire n')" for s data
  proof (cases "(s, data) \<in> set (rn_Wire n)")
    case True
    then obtain k where "k < rn_Calls n" "carries L key s data k" using assms(5) by (auto simp: room_inv_def)
    then show ?thesis using calls by (intro exI [of _ k]) simp
  next
    case False
    with that says(1) have "s = saying E c rat w" "data \<in> snd ` set out" by force+
    then show ?thesis using effect calls by (auto simp: less_Suc_eq_le)
  qed
  ultimately show ?thesis by (auto simp: room_inv_def)
next
  case (hears p c s data E peer e c')
  have mem: "in_room L key (fst ` set (rn_Wire n)) (rn_Calls n) c" using assms(5) hears(2) by (simp add: room_inv_def)
  obtain k where k: "k < rn_Calls n" "carries L key s data k" using assms(5) hears(3) by (auto simp: room_inv_def)
  have "s \<in> fst ` set (rn_Wire n)" using hears(3) by force
  from hearing_ok [OF assms(1,2) hears(4) mem _ k(2,1) this hears(5)] hears(1) assms(5,6) show ?thesis
    by (auto simp: room_inv_def map_simps)
qed

lemma room_step_calls: "room_step L key n n' \<Longrightarrow> rn_Calls n \<le> rn_Calls n'"
  by (auto elim: room_stepE)

lemma reachable_room_inv:
  assumes "hkdf_ok L" "chacha_ok L" "rr_ChainKey key \<noteq> None" "room_reachable L key n" "in_bound key (rn_Calls n)"
  shows "room_inv L key n"
  using assms(4,5) unfolding room_reachable_def
proof (induction rule: rtranclp_induct)
  case base
  show ?case by (simp add: room_inv_def empty_room_def)
next
  case (step n n')
  then have "in_bound key (rn_Calls n)" using room_step_calls [OF step.hyps(2)] by (simp add: in_bound_def)
  with step room_inv_step [OF assms(1-3) step.hyps(2)] show ?case by blast
qed

end
