(* ===== verification/Room_Correct.thy ===== *)
theory Room_Correct
  imports Room_System
begin

text \<open>
  What a room promises its members: only what was said is shown, a delivery returns and is read
  exactly when it is not too late, a conversation in turns is read by everybody, and what
  happens when two members speak at once.
\<close>

section \<open>Reachable rooms\<close>

text \<open>
  C2. In every reachable state of a room whose members run this program, whatever order the
  messages were delivered in, however often and whether at all: the ratchets of every member are
  positions of the room's chain, the backup not ahead of the main one, no further than messages
  were sent; and everything a member keeps was said by the member it names, at the time and in
  the words it was said.
\<close>

theorem kept_was_said:
  assumes "hkdf_ok L" "chacha_ok L" "rr_ChainKey key \<noteq> None"
    and "room_reachable L key n" "in_bound key (rn_Calls n)"
    and "mget (rn_Members n) p = Some c" "cur_room c = Some r"
  shows "(\<exists>m b. ro_RoomRatchet r = Some (chain_at key m) \<and> ro_BackupRatchet r = Some (chain_at key b)
      \<and> b \<le> m \<and> m \<le> rn_Calls n)
    \<and> (\<forall>d \<in> set (ro_Messages r). \<exists>(s, data) \<in> set (rn_Wire n).
        dm_Sender d = sd_User s \<and> dm_Timestamp d = sd_Time s \<and> dm_Content d = sd_Text s)"
proof -
  have "in_room L key (fst ` set (rn_Wire n)) (rn_Calls n) c"
    using reachable_room_inv [OF assms(1-5)] assms(6) by (simp add: room_inv_def)
  with assms(7) show ?thesis
    by (force simp: in_room_def ratchets_at_def is_said_def)
qed

text \<open>
  C3. Every delivery in such a room returns, without a crash and without blocking: the message is
  kept and shown, as it was said, exactly if the member's backup ratchet is not past its index;
  otherwise a dialog says that it cannot be read, and the session is unchanged.
\<close>

theorem delivery_exact:
  assumes "hkdf_ok L" "chacha_ok L" "rr_ChainKey key \<noteq> None"
    and "room_reachable L key n" "in_bound key (rn_Calls n)"
    and "mget (rn_Members n) p = Some c" "(s, data) \<in> set (rn_Wire n)" "env_ok L E"
  shows "\<exists>r bak c' r'. cur_room c = Some r \<and> ro_BackupRatchet r = Some bak
    \<and> chat_step E peer data c = Some (Ret (None, c')) \<and> cur_room c' = Some r'
    \<and> (if rr_Index bak \<le> sd_Index s
       then (\<exists>rid sid. ro_Messages r' = ro_Messages r @ [kept s rid sid])
         \<and> cli_Lines c' = cli_Lines c @ [chat_line E (sd_Time s) (sd_User s) (sd_Text s)]
       else r' = r \<and> cli_Lines c' = cli_Lines c
         \<and> (\<exists>text. cli_Dialogs c' = cli_Dialogs c @ [(''Decryption Error'', text)]))"
proof -
  have inv: "room_inv L key n" by (rule reachable_room_inv [OF assms(1-5)])
  then have mem: "in_room L key (fst ` set (rn_Wire n)) (rn_Calls n) c" using assms(6) by (simp add: room_inv_def)
  obtain k where k: "k < rn_Calls n" "carries L key s data k" using inv assms(7) by (auto simp: room_inv_def)
  obtain r m b rid sid c' where c': "cur_room c = Some r" "ratchets_at key r m b" "m \<le> rn_Calls n"
    "chat_step E peer data c = Some (Ret (None, c'))"
    "if b \<le> k
     then cur_room c' = Some ((moved key k m b r)\<lparr>ro_Messages := ro_Messages r @ [kept s rid sid]\<rparr>)
       \<and> cli_Lines c' = cli_Lines c @ [chat_line E (sd_Time s) (sd_User s) (sd_Text s)]
     else cur_room c' = Some r \<and> cli_Lines c' = cli_Lines c
       \<and> (\<exists>text. cli_Dialogs c' = cli_Dialogs c @ [(''Decryption Error'', text)])"
    by (rule member_hears [OF assms(1,2,8) mem assms(5) k(2,1)])
  have "unat (rr_Index (chain_at key i)) = unat (rr_Index key) + i" if "i \<le> rn_Calls n" for i
    using that assms(5) by (intro chain_at_index) (simp add: in_bound_def)
  then have "rr_Index (chain_at key b) \<le> sd_Index s \<longleftrightarrow> b \<le> k"
    using k c'(2,3) by (simp add: carries_def ratchets_at_def word_le_nat_alt)
  with c' show ?thesis by (auto simp: ratchets_at_def split: if_splits)
qed

section \<open>A conversation in turns\<close>

text \<open>Everybody hears what one member says before the next one speaks.\<close>

fun hear_all :: "client_env \<Rightarrow> string \<Rightarrow> bytes \<Rightarrow> (string, client) gomap \<Rightarrow> (string, client) gomap option" where
  "hear_all E peer data [] = Some []"
| "hear_all E peer data ((p, c) # ms) =
     (case chat_step E peer data c of
        Some (Ret (None, c')) \<Rightarrow> map_option (\<lambda>ms'. (p, c') # ms') (hear_all E peer data ms)
      | _ \<Rightarrow> None)"

definition take_turn ::
  "string \<times> client_env \<times> string \<Rightarrow> (string, client) gomap \<Rightarrow> (string, client) gomap option"
where
  "take_turn turn ms =
     (case turn of (p, E, words) \<Rightarrow>
        (case mget ms p of
           None \<Rightarrow> None
         | Some c \<Rightarrow>
             (case SendMessageHandler E words c of
                Ret (e, c', [(topic, data)]) \<Rightarrow> hear_all E p data (mput p c' ms)
              | _ \<Rightarrow> None)))"

fun converse ::
  "(string \<times> client_env \<times> string) list \<Rightarrow> (string, client) gomap \<Rightarrow> (string, client) gomap option"
where
  "converse [] ms = Some ms"
| "converse (turn # turns) ms = Option.bind (take_turn turn ms) (converse turns)"

text \<open>A member that can hear a message of position \<open>k\<close> next; one that can also send it; one that just has.\<close>

definition listening :: "crypto_lib \<Rightarrow> room_ratchet \<Rightarrow> nat \<Rightarrow> client \<Rightarrow> bool" where
  "listening L key k c \<longleftrightarrow> honest L c \<and> (\<exists>r m b. cur_room c = Some r \<and> ratchets_at key r m b
     \<and> b \<le> k \<and> m \<le> k + 1 \<and> HasTopic TopicChat (ro_Topics r))"

definition in_step :: "crypto_lib \<Rightarrow> room_ratchet \<Rightarrow> nat \<Rightarrow> client \<Rightarrow> bool" where
  "in_step L key k c \<longleftrightarrow> honest L c \<and> (\<exists>r b. cur_room c = Some r \<and> ratchets_at key r k b
     \<and> HasTopic TopicChat (ro_Topics r))"

definition spoken :: "crypto_lib \<Rightarrow> room_ratchet \<Rightarrow> nat \<Rightarrow> client \<Rightarrow> bool" where
  "spoken L key k c \<longleftrightarrow> honest L c \<and> (\<exists>r b. cur_room c = Some r \<and> ratchets_at key r (k + 1) b \<and> b \<le> k
     \<and> HasTopic TopicChat (ro_Topics r))"

lemma spoken_listens: "spoken L key k c \<Longrightarrow> listening L key k c"
  by (fastforce simp: spoken_def listening_def)

lemma in_step_listens: "in_step L key k c \<Longrightarrow> listening L key k c"
  by (fastforce simp: in_step_def listening_def ratchets_at_def)

definition adds :: "(decrypted_message \<Rightarrow> bool) \<Rightarrow> client \<Rightarrow> client \<Rightarrow> bool" where
  "adds P c c' \<longleftrightarrow> cli_User c' = cli_User c
     \<and> (\<exists>r r' d. cur_room c = Some r \<and> cur_room c' = Some r' \<and> ro_Messages r' = ro_Messages r @ [d] \<and> P d)"

lemma listening_hears:
  assumes "hkdf_ok L" "chacha_ok L" "env_ok L E" "carries L key s data k" "in_bound key (k + 1)" "listening L key k c"
  shows "\<exists>c'. chat_step E peer data c = Some (Ret (None, c')) \<and> in_step L key (k + 1) c' \<and> adds (is_said s) c c'"
proof -
  obtain r m b where c: "honest L c" "cur_room c = Some r" "ratchets_at key r m b" "b \<le> k" "m \<le> k + 1"
    "HasTopic TopicChat (ro_Topics r)" using assms(6) by (auto simp: listening_def)
  obtain rid sid where ids: "GetRoomID c = Ret rid" "GetServerID c = Ret sid" using honest_ids [OF c(1)] by blast
  let ?r = "(moved key k m b r)\<lparr>ro_Messages := ro_Messages r @ [kept s rid sid]\<rparr>"
  have at: "ro_RoomRatchet r = Some (chain_at key m)" "ro_BackupRatchet r = Some (chain_at key b)" "b \<le> m"
    using c(3) by (simp_all add: ratchets_at_def)
  have bound: "in_bound key k" "in_bound key m" using assms(5) c(5) by (simp_all add: in_bound_def)
  from hears_said [OF assms(1-4) bound ids c(2) at, of peer] c(4) obtain c' where
    c': "chat_step E peer data c = Some (Ret (None, c'))" "cli_User c' = cli_User c" "cli_DilithiumPriv c' = cli_DilithiumPriv c"
      "cur_room c' = Some ?r" by auto
  have "honest L c'" using chat_step_ok [OF _ c'(1)] c(1) c'(2,3) by (simp add: honest_def)
  moreover have "ratchets_at key ?r (k + 1) (if m \<le> k then max b (k - 8) else k + 1)" "HasTopic TopicChat (ro_Topics ?r)"
    using c(4-6) by (auto simp: ratchets_at_def moved_def)
  ultimately have "in_step L key (k + 1) c'" using c'(4) unfolding in_step_def by blast
  moreover have "adds (is_said s) c c'" using c' c(2) by (auto simp: adds_def moved_def)
  ultimately show ?thesis using c'(1) by blast
qed

lemma in_step_says:
  assumes "hkdf_ok L" "chacha_ok L" "env_ok L E" "in_step L key k c" "\<And>t. ce_publish E t = None"
  shows "\<exists>e c' topic data. SendMessageHandler E words c = Ret (e, c', [(topic, data)])
    \<and> carries L key (saying E c (chain_at key k) words) data k \<and> spoken L key k c'
    \<and> cli_User c' = cli_User c \<and> map_option ro_Messages (cur_room c') = map_option ro_Messages (cur_room c)"
proof -
  obtain r b topic where c: "honest L c" "cur_room c = Some r" "ratchets_at key r k b" "GetTopic TopicChat (ro_Topics r) = Some topic"
    using assms(4) by (auto simp: in_step_def HasTopic_def GetTopic_def)
  have lib: "ce_lib E = L" using assms(3) by (simp add: env_ok_def)
  have main: "ro_RoomRatchet r = Some (chain_at key k)" using c(3) by (simp add: ratchets_at_def)
  obtain ct nonce where enc: "EncryptMessage L (chain_at key k) (string_bytes words) = (Inr (ct, nonce), chain_at key (k + 1))"
    by (rule honest_encrypts [OF assms(1,2)])
  from c(1) lib have h: "key_pair (ce_lib E) (cli_DilithiumPriv c) (u_DilithiumPub (cli_User c))" "sessions_ok c"
    by (simp_all add: honest_def)
  obtain e c' data where send: "SendMessageHandler E words c = Ret (e, c', [(topic, data)])"
    using SendMessageHandler_sends [OF _ _ h c(2) main c(4) assms(5) enc [folded lib]] assms(1,2) lib by blast
  have user: "cli_User c' = cli_User c"
    using send by (auto simp: SendMessageHandler_def Let_def need_def outcome_simps case_prod_unfold
        split: option.splits sum.splits)
  from SendMessageHandler_effect [OF assms(1,2) c(1) assms(3) c(2) main send] c have
    "spoken L key k c'" "carries L key (saying E c (chain_at key k) words) data k"
    "map_option ro_Messages (cur_room c') = map_option ro_Messages (cur_room c)"
    by (fastforce simp: spoken_def ratchets_at_def HasTopic_def GetTopic_def)+
  with send user show ?thesis by blast
qed

text \<open>One turn: the speaker has sent, then everybody on the list hears it.\<close>

lemma hear_all_hears:
  assumes "hkdf_ok L" "chacha_ok L" "env_ok L E" "carries L key s data k" "in_bound key (k + 1)"
    and "\<forall>(p, c) \<in> set ms. listening L key k c"
  shows "\<exists>ms'. hear_all E peer data ms = Some ms'
    \<and> list_all2 (\<lambda>(p, c) (p', c'). p' = p \<and> in_step L key (k + 1) c' \<and> adds (is_said s) c c') ms ms'"
  using assms(6)
proof (induction ms)
  case (Cons e ms)
  obtain p c where e: "e = (p, c)" by (cases e)
  with Cons.prems have "listening L key k c" by simp
  from listening_hears [OF assms(1-5) this, of peer] obtain c' where
    "chat_step E peer data c = Some (Ret (None, c'))" "in_step L key (k + 1) c'" "adds (is_said s) c c'" by blast
  with Cons e show ?case by fastforce
qed simp

lemma list_all2_gomap:
  assumes "list_all2 (\<lambda>(p, c) (p', c'). p' = p \<and> R c c') ms ms'"
  shows "map fst ms' = map fst ms" "mget ms q = Some c \<Longrightarrow> \<exists>c'. mget ms' q = Some c' \<and> R c c'"
proof -
  from assms show "map fst ms' = map fst ms"
    by (induction rule: list_all2_induct) auto
  from assms show "mget ms q = Some c \<Longrightarrow> \<exists>c'. mget ms' q = Some c' \<and> R c c'"
    by (induction rule: list_all2_induct) (auto split: if_splits)
qed

lemma list_all2_targets: "list_all2 (\<lambda>(p, c) (p', c'). p' = p \<and> Q c' \<and> R c c') ms ms' \<Longrightarrow> \<forall>(p, c') \<in> set ms'. Q c'"
  by (induction rule: list_all2_induct) auto

text \<open>All members are at the same position.\<close>

definition room_in_step :: "crypto_lib \<Rightarrow> room_ratchet \<Rightarrow> nat \<Rightarrow> (string, client) gomap \<Rightarrow> bool" where
  "room_in_step L key k ms \<longleftrightarrow> wf_map ms \<and> (\<forall>(p, c) \<in> set ms. in_step L key k c)"

lemma turn_taken:
  assumes "hkdf_ok L" "chacha_ok L" "room_in_step L key k ms" "in_bound key (k + 1)"
    and "env_ok L E" "\<And>t. ce_publish E t = None" "mget ms p = Some a"
  obtains ms' s where "take_turn (p, E, words) ms = Some ms'" "room_in_step L key (k + 1) ms'"
    "sd_User s = cli_User a" "sd_Time s = ce_now E" "sd_Text s = words"
    "\<And>q c. mget ms q = Some c \<Longrightarrow> \<exists>c'. mget ms' q = Some c' \<and> adds (is_said s) c c'"
proof -
  let ?s = "saying E a (chain_at key k) words"
  have wf: "wf_map ms" and steps: "\<And>q c. mget ms q = Some c \<Longrightarrow> in_step L key k c"
    using assms(3) by (auto simp: room_in_step_def mget_Some_iff)
  obtain e a' topic data where send: "SendMessageHandler E words a = Ret (e, a', [(topic, data)])"
    "carries L key ?s data k" "spoken L key k a'" "cli_User a' = cli_User a"
    "map_option ro_Messages (cur_room a') = map_option ro_Messages (cur_room a)"
    using in_step_says [OF assms(1,2,5) steps [OF assms(7)] assms(6)] by blast
  have old: "(q, c) \<in> set ms \<Longrightarrow> listening L key k c" for q c
    using assms(3) in_step_listens by (auto simp: room_in_step_def)
  have "\<forall>(q, c) \<in> set (mput p a' ms). listening L key k c"
    using spoken_listens [OF send(3)] wf by (auto simp: set_mput dest: old split: if_splits)
  from hear_all_hears [OF assms(1,2,5) send(2) assms(4) this, of p] obtain ms' where
    hear: "hear_all E p data (mput p a' ms) = Some ms'" and
    all: "list_all2 (\<lambda>(p, c) (p', c'). p' = p \<and> in_step L key (k + 1) c' \<and> adds (is_said ?s) c c') (mput p a' ms) ms'" by blast
  have "wf_map ms'" using list_all2_gomap(1) [OF all] wf by (metis wf_map_def wf_map_mput)
  then have "room_in_step L key (k + 1) ms'" using list_all2_targets [OF all] by (simp add: room_in_step_def)
  moreover have "\<exists>c'. mget ms' q = Some c' \<and> adds (is_said ?s) c c'" if "mget ms q = Some c" for q c
  proof (cases "q = p")
    case True
    with list_all2_gomap(2) [OF all, of p a'] obtain c' where "mget ms' q = Some c'" "adds (is_said ?s) a' c'"
      by (auto simp: map_simps)
    with True that assms(7) send(4,5) show ?thesis by (cases "cur_room c") (auto simp: adds_def)
  next
    case False
    with list_all2_gomap(2) [OF all, of q c] that show ?thesis by (auto simp: map_simps)
  qed
  moreover have "take_turn (p, E, words) ms = Some ms'" using assms(7) send(1) hear by (simp add: take_turn_def)
  ultimately show thesis using that [of ms' ?s] by (simp add: saying_def)
qed

definition speaks :: "(string, client) gomap \<Rightarrow> string \<times> client_env \<times> string \<Rightarrow> decrypted_message \<Rightarrow> bool" where
  "speaks ms turn d \<longleftrightarrow> (case turn of (p, E, words) \<Rightarrow>
     map_option cli_User (mget ms p) = Some (dm_Sender d) \<and> dm_Timestamp d = ce_now E \<and> dm_Content d = words)"

text \<open>
  C8. A conversation in turns: when all members are at one position of the chain and each message
  reaches everybody before the next one is sent, every call returns and every member has kept
  exactly the conversation, in order: who said what and when. They are again at one position.
\<close>

theorem conversation_in_turns:
  assumes "hkdf_ok L" "chacha_ok L" "room_in_step L key k ms" "in_bound key (k + length turns)"
    and "\<forall>(p, E, words) \<in> set turns. mget ms p \<noteq> None \<and> env_ok L E \<and> (\<forall>t. ce_publish E t = None)"
  shows "\<exists>ms'. converse turns ms = Some ms' \<and> room_in_step L key (k + length turns) ms'
    \<and> (\<forall>q c r. mget ms q = Some c \<longrightarrow> cur_room c = Some r \<longrightarrow>
        (\<exists>c' r' ds. mget ms' q = Some c' \<and> cur_room c' = Some r' \<and> ro_Messages r' = ro_Messages r @ ds
           \<and> list_all2 (speaks ms) turns ds))"
  using assms(3-5)
proof (induction turns arbitrary: ms k)
  case (Cons turn turns)
  obtain p E words where turn: "turn = (p, E, words)" by (cases turn)
  with Cons.prems(3) obtain a where a: "mget ms p = Some a" "env_ok L E" "\<And>t. ce_publish E t = None" by auto
  have bound: "in_bound key (k + 1)" using Cons.prems(2) by (simp add: in_bound_def)
  from turn_taken [OF assms(1,2) Cons.prems(1) bound a(2,3,1)] obtain ms1 s where
    one: "take_turn (p, E, words) ms = Some ms1" "room_in_step L key (k + 1) ms1"
      "sd_User s = cli_User a" "sd_Time s = ce_now E" "sd_Text s = words"
    and added: "\<And>q c. mget ms q = Some c \<Longrightarrow> \<exists>c'. mget ms1 q = Some c' \<and> adds (is_said s) c c'" by metis
  have users: "map_option cli_User (mget ms1 q) = map_option cli_User (mget ms q)" if "mget ms q \<noteq> None" for q
    using that added [of q] by (auto simp: adds_def)
  have there: "\<forall>(p, E, words) \<in> set turns. mget ms1 p \<noteq> None \<and> env_ok L E \<and> (\<forall>t. ce_publish E t = None)"
    using Cons.prems(3) added by fastforce
  have same: "speaks ms1 t d \<longleftrightarrow> speaks ms t d" if "t \<in> set turns" for t d
    using that Cons.prems(3) users by (fastforce simp: speaks_def)
  have "in_bound key (k + 1 + length turns)" using Cons.prems(2) by simp
  from Cons.IH [OF one(2) this there] obtain ms' where rest: "converse turns ms1 = Some ms'"
    "room_in_step L key (k + 1 + length turns) ms'"
    and kept: "\<And>q c r. mget ms1 q = Some c \<Longrightarrow> cur_room c = Some r \<Longrightarrow>
        \<exists>c' r' ds. mget ms' q = Some c' \<and> cur_room c' = Some r' \<and> ro_Messages r' = ro_Messages r @ ds
           \<and> list_all2 (speaks ms1) turns ds" by blast
  have "\<exists>c' r' ds. mget ms' q = Some c' \<and> cur_room c' = Some r' \<and> ro_Messages r' = ro_Messages r @ ds
      \<and> list_all2 (speaks ms) (turn # turns) ds" if q: "mget ms q = Some c" "cur_room c = Some r" for q c r
  proof -
    from added [OF q(1)] q(2) obtain c1 r1 d where c1: "mget ms1 q = Some c1" "cur_room c1 = Some r1"
      "ro_Messages r1 = ro_Messages r @ [d]" "is_said s d" by (auto simp: adds_def)
    from kept [OF c1(1,2)] obtain c' r' ds where c': "mget ms' q = Some c'" "cur_room c' = Some r'"
      "ro_Messages r' = ro_Messages r1 @ ds" "list_all2 (speaks ms1) turns ds" by blast
    have "speaks ms turn d" using c1(4) one(3-5) a(1) turn by (simp add: speaks_def is_said_def)
    moreover have "list_all2 (speaks ms) turns ds"
      using c'(4) same by (auto simp: list_all2_conv_all_nth)
    ultimately show ?thesis using c' c1(3) by (intro exI [of _ c'] exI [of _ r'] exI [of _ "d # ds"]) simp
  qed
  with one rest turn show ?case by auto
qed simp

section \<open>Speaking at once\<close>

text \<open>What is said at a position is sealed with that position's key and nonce, whoever says it.\<close>

lemma position_seals:
  assumes "hkdf_ok L" "chacha_ok L"
  shows "\<exists>msgKey nonce A. NextKey L (chain_at key k) = (Inr (msgKey, nonce), chain_at key (k + 1))
    \<and> cl_chacha_New L msgKey = Inr A \<and> (\<forall>s data. carries L key s data k \<longrightarrow> (\<exists>env. UnmarshalEnvelope data =
    Inr (env, ChatMessage \<lparr>cm_ChainIndex = rr_Index (chain_at key k), cm_Ciphertext = Some (ae_Seal A nonce (string_bytes (sd_Text s)))\<rparr>)))"
proof -
  obtain seal nonce where k: "ratchet_key L (chain_at key k) = (seal, nonce)" by (cases "ratchet_key L (chain_at key k)")
  with ratchet_key_lengths [OF assms(1), of "chain_at key k"] have "length seal = 32" by simp
  then obtain A where A: "cl_chacha_New L seal = Inr A"
    using assms(2) unfolding chacha_ok_def by (auto dest!: spec [of _ seal])
  then have enc: "EncryptMessage L (chain_at key k) pt = (Inr (ae_Seal A nonce pt, nonce), chain_at key (k + 1))" for pt
    by (simp add: EncryptMessage_def NextKey_ok [OF assms(1)] k)
  have "\<exists>env. UnmarshalEnvelope data =
      Inr (env, ChatMessage \<lparr>cm_ChainIndex = rr_Index (chain_at key k), cm_Ciphertext = Some (ae_Seal A nonce (string_bytes (sd_Text s)))\<rparr>)"
    if "carries L key s data k" for s data
    using that by (auto simp: carries_def enc)
  moreover have "NextKey L (chain_at key k) = (Inr (seal, nonce), chain_at key (k + 1))"
    by (simp add: NextKey_ok [OF assms(1)] k)
  ultimately show ?thesis using A by blast
qed

text \<open>Who has sent at a position reads the first message of that position and no other.\<close>

lemma spoken_hears_one:
  assumes "hkdf_ok L" "chacha_ok L" "env_ok L E" "in_bound key (k + 1)" "spoken L key k c"
    and "carries L key s data k" "carries L key s' data' k"
  shows "\<exists>c1 c2 text. chat_step E peer data c = Some (Ret (None, c1)) \<and> adds (is_said s) c c1
    \<and> chat_step E peer' data' c1 = Some (Ret (None, c2)) \<and> cur_room c2 = cur_room c1
    \<and> cli_Lines c2 = cli_Lines c1 \<and> cli_Dialogs c2 = cli_Dialogs c1 @ [(''Decryption Error'', text)]"
proof -
  obtain r b where c: "honest L c" "cur_room c = Some r" "ratchets_at key r (k + 1) b" "b \<le> k"
    using assms(5) by (auto simp: spoken_def)
  obtain rid sid where ids: "GetRoomID c = Ret rid" "GetServerID c = Ret sid" using honest_ids [OF c(1)] by blast
  have at: "ro_RoomRatchet r = Some (chain_at key (k + 1))" "ro_BackupRatchet r = Some (chain_at key b)" "b \<le> k + 1"
    using c(3) by (simp_all add: ratchets_at_def)
  have bound: "in_bound key k" using assms(4) by (simp add: in_bound_def)
  let ?r = "(moved key k (k + 1) b r)\<lparr>ro_Messages := ro_Messages r @ [kept s rid sid]\<rparr>"
  from hears_said [OF assms(1-3,6) bound assms(4) ids c(2) at, of peer] c(4) obtain c1 where
    c1: "chat_step E peer data c = Some (Ret (None, c1))" "cli_User c1 = cli_User c" "cli_DilithiumPriv c1 = cli_DilithiumPriv c"
      "cur_room c1 = Some ?r" by auto
  have "honest L c1" using chat_step_ok [OF _ c1(1)] c(1) c1(2,3) by (simp add: honest_def)
  then obtain rid' sid' where ids': "GetRoomID c1 = Ret rid'" "GetServerID c1 = Ret sid'" using honest_ids by blast
  have at': "ro_RoomRatchet ?r = Some (chain_at key (k + 1))" "ro_BackupRatchet ?r = Some (chain_at key (k + 1))"
    by (simp_all add: moved_def)
  from hears_said [OF assms(1-3,7) bound assms(4) ids' c1(4) at' le_refl, of peer'] obtain c2 msg where
    "chat_step E peer' data' c1 = Some (Ret (None, c2))" "cur_room c2 = Some ?r" "cli_Lines c2 = cli_Lines c1"
    "cli_Dialogs c2 = cli_Dialogs c1 @ [(''Decryption Error'', msg)]" by auto
  moreover have "adds (is_said s) c c1" using c1 c(2) by (auto simp: adds_def moved_def)
  ultimately show ?thesis using c1(1,4) by auto
qed

text \<open>
  C9. Two members who speak at once lose each other's words: both send at the same position, and the
  two envelopes carry that position's index and two texts sealed with one key and one nonce, those
  of the ratchet there. When each hears its own message first (pubsub delivers it to the sender
  too), it keeps it, its backup ratchet is past the other's message when that arrives, and this is
  answered with a dialog and not kept.
\<close>

theorem spoken_at_once_lost:
  assumes "hkdf_ok L" "chacha_ok L" "in_bound key (k + 1)"
    and "in_step L key k a" "env_ok L E" "\<And>t. ce_publish E t = None"
    and "in_step L key k b" "env_ok L F" "\<And>t. ce_publish F t = None"
  shows "\<exists>e a1 ta da e' b1 tb db. SendMessageHandler E x a = Ret (e, a1, [(ta, da)])
    \<and> SendMessageHandler F y b = Ret (e', b1, [(tb, db)])
    \<and> (\<exists>msgKey nonce A env env'. NextKey L (chain_at key k) = (Inr (msgKey, nonce), chain_at key (k + 1))
       \<and> cl_chacha_New L msgKey = Inr A
       \<and> UnmarshalEnvelope da = Inr (env, ChatMessage
            \<lparr>cm_ChainIndex = rr_Index (chain_at key k), cm_Ciphertext = Some (ae_Seal A nonce (string_bytes x))\<rparr>)
       \<and> UnmarshalEnvelope db = Inr (env', ChatMessage
            \<lparr>cm_ChainIndex = rr_Index (chain_at key k), cm_Ciphertext = Some (ae_Seal A nonce (string_bytes y))\<rparr>))
    \<and> (\<exists>a2 a3 text. chat_step E p da a1 = Some (Ret (None, a2)) \<and> adds (\<lambda>d. dm_Content d = x) a1 a2
         \<and> chat_step E q db a2 = Some (Ret (None, a3)) \<and> cur_room a3 = cur_room a2 \<and> cli_Lines a3 = cli_Lines a2
         \<and> cli_Dialogs a3 = cli_Dialogs a2 @ [(''Decryption Error'', text)])
    \<and> (\<exists>b2 b3 text. chat_step F q db b1 = Some (Ret (None, b2)) \<and> adds (\<lambda>d. dm_Content d = y) b1 b2
         \<and> chat_step F p da b2 = Some (Ret (None, b3)) \<and> cur_room b3 = cur_room b2 \<and> cli_Lines b3 = cli_Lines b2
         \<and> cli_Dialogs b3 = cli_Dialogs b2 @ [(''Decryption Error'', text)])"
proof -
  obtain e a1 ta da where a: "SendMessageHandler E x a = Ret (e, a1, [(ta, da)])"
    "carries L key (saying E a (chain_at key k) x) da k" "spoken L key k a1"
    using in_step_says [OF assms(1,2,5,4,6)] by blast
  obtain e' b1 tb db where b: "SendMessageHandler F y b = Ret (e', b1, [(tb, db)])"
    "carries L key (saying F b (chain_at key k) y) db k" "spoken L key k b1"
    using in_step_says [OF assms(1,2,8,7,9)] by blast
  have words: "adds (is_said (saying G c rat w)) u v \<Longrightarrow> adds (\<lambda>d. dm_Content d = w) u v" for G c rat w u v
    by (fastforce simp: adds_def is_said_def saying_def)
  note at_a = spoken_hears_one [OF assms(1,2,5,3) a(3,2) b(2), of p q]
    and at_b = spoken_hears_one [OF assms(1,2,8,3) b(3,2) a(2), of q p]
  obtain msgKey nonce A where seals: "NextKey L (chain_at key k) = (Inr (msgKey, nonce), chain_at key (k + 1))"
    "cl_chacha_New L msgKey = Inr A" "\<And>s data. carries L key s data k \<Longrightarrow> \<exists>env. UnmarshalEnvelope data = Inr (env, ChatMessage
      \<lparr>cm_ChainIndex = rr_Index (chain_at key k), cm_Ciphertext = Some (ae_Seal A nonce (string_bytes (sd_Text s)))\<rparr>)"
    using position_seals [OF assms(1,2)] by blast
  obtain env where da: "UnmarshalEnvelope da = Inr (env, ChatMessage
      \<lparr>cm_ChainIndex = rr_Index (chain_at key k), cm_Ciphertext = Some (ae_Seal A nonce (string_bytes x))\<rparr>)"
    using seals(3) [OF a(2)] by (auto simp: saying_def)
  obtain env' where db: "UnmarshalEnvelope db = Inr (env', ChatMessage
      \<lparr>cm_ChainIndex = rr_Index (chain_at key k), cm_Ciphertext = Some (ae_Seal A nonce (string_bytes y))\<rparr>)"
    using seals(3) [OF b(2)] by (auto simp: saying_def)
  from da db seals(1,2) have "\<exists>msgKey nonce A env env'. NextKey L (chain_at key k) = (Inr (msgKey, nonce), chain_at key (k + 1))
     \<and> cl_chacha_New L msgKey = Inr A
     \<and> UnmarshalEnvelope da = Inr (env, ChatMessage
          \<lparr>cm_ChainIndex = rr_Index (chain_at key k), cm_Ciphertext = Some (ae_Seal A nonce (string_bytes x))\<rparr>)
     \<and> UnmarshalEnvelope db = Inr (env', ChatMessage
          \<lparr>cm_ChainIndex = rr_Index (chain_at key k), cm_Ciphertext = Some (ae_Seal A nonce (string_bytes y))\<rparr>)"
    by blast
  with a(1) b(1) at_a at_b show ?thesis by (fast dest: words)
qed

section \<open>Instances of the properties\<close>

lemma sample_in_step: "in_step sample_lib sample_ratchet 0 (sample_client 0 empty_table)"
proof -
  have "HasTopic TopicChat (ro_Topics (sample_room 0))"
    using sample_room_fields(3) [of 0] by (simp add: HasTopic_def GetTopic_def)
  then show ?thesis by (simp add: in_step_def honest_def ratchets_at_def)
qed

lemma sample_env_ok [simp]: "env_ok sample_lib sample_env"
  by (simp add: env_ok_def in_int64_def)

lemma sample_bound [simp]: "n < 2 ^ 63 \<Longrightarrow> in_bound sample_ratchet n"
  by (simp add: in_bound_def)

text \<open>A member enters, says something, and hears itself.\<close>

lemma sample_talk:
  "\<exists>n c r s data. room_reachable sample_lib sample_ratchet n \<and> rn_Calls n = 1
     \<and> mget (rn_Members n) ''p'' = Some c \<and> cur_room c = Some r \<and> rn_Wire n = [(s, data)]
     \<and> sd_Text s = ''hi'' \<and> (\<exists>d. ro_Messages r = [d])"
proof -
  let ?c = "upd_room (SetInitialRatchet (Some sample_ratchet)) (sample_client 0 empty_table)"
  let ?n1 = "empty_room\<lparr>rn_Members := mput ''p'' ?c (rn_Members empty_room)\<rparr>"
  have old: "honest sample_lib (sample_client 0 empty_table)" using sample_in_step by (simp add: in_step_def)
  have key: "SetInitialRatchet (Some sample_ratchet) (sample_room 0) = sample_room 0"
    by (simp add: SetInitialRatchet_def Clone_def sample_room_def sample_ratchet_def)
  have n1: "room_reachable sample_lib sample_ratchet ?n1"
    using room_step.enters [OF old sample_client_room sample_room_fields(4), of sample_ratchet empty_room "''p''"]
    by (auto simp: room_reachable_def)
  have "honest sample_lib ?c" using old by (rule honest_upd_room) (simp add: SetInitialRatchet_def)
  then have c: "in_step sample_lib sample_ratchet 0 ?c" "cur_room ?c = Some (sample_room 0)"
    using sample_in_step key by (simp_all add: in_step_def)
  obtain e c' topic data where send: "SendMessageHandler sample_env ''hi'' ?c = Ret (e, c', [(topic, data)])"
    "carries sample_lib sample_ratchet (saying sample_env ?c (chain_at sample_ratchet 0) ''hi'') data 0"
    "spoken sample_lib sample_ratchet 0 c'" "map_option ro_Messages (cur_room c') = map_option ro_Messages (cur_room ?c)"
    using in_step_says [OF _ _ sample_env_ok c(1)] by fastforce
  let ?s = "saying sample_env ?c (chain_at sample_ratchet 0) ''hi''"
  let ?n2 = "?n1\<lparr>rn_Members := mput ''p'' c' (rn_Members ?n1), rn_Wire := rn_Wire ?n1 @ map (\<lambda>(topic, data). (?s, data)) [(topic, data)],
         rn_Calls := rn_Calls ?n1 + 1\<rparr>"
  have "room_step sample_lib sample_ratchet ?n1 ?n2"
    by (rule room_step.says [OF _ c(2) sample_room_fields(1) sample_env_ok send(1)]) (simp add: map_simps)
  with n1 have n2: "room_reachable sample_lib sample_ratchet ?n2" by (rule room_reachable_step)
  obtain c'' where hear: "chat_step sample_env ''p'' data c' = Some (Ret (None, c''))" "adds (is_said ?s) c' c''"
    using listening_hears [OF _ _ sample_env_ok send(2) _ spoken_listens [OF send(3)], of "''p''"] by auto
  let ?n3 = "?n2\<lparr>rn_Members := mput ''p'' c'' (rn_Members ?n2)\<rparr>"
  have "room_step sample_lib sample_ratchet ?n2 ?n3"
    by (rule room_step.hears [OF _ _ sample_env_ok hear(1), where s = ?s]) (simp_all add: map_simps)
  with n2 have "room_reachable sample_lib sample_ratchet ?n3" by (rule room_reachable_step)
  moreover obtain r d where "cur_room c'' = Some r" "ro_Messages r = [d]"
    using hear(2) send(4) c(2) by (auto simp: adds_def)
  ultimately show ?thesis
    by (intro exI [of _ ?n3] exI [of _ c''] exI [of _ r] exI [of _ ?s] exI [of _ data])
      (simp add: map_simps empty_room_def saying_def)
qed

lemma sample_ratchet_key [simp]: "rr_ChainKey sample_ratchet \<noteq> None"
  by (simp add: sample_ratchet_def)

theorem kept_was_said_witness:
  "\<exists>n c r d. room_reachable sample_lib sample_ratchet n \<and> mget (rn_Members n) ''p'' = Some c
     \<and> cur_room c = Some r \<and> ro_Messages r = [d] \<and> dm_Content d = ''hi''"
proof -
  obtain n c r s data d where n: "room_reachable sample_lib sample_ratchet n" "rn_Calls n = 1"
    "mget (rn_Members n) ''p'' = Some c" "cur_room c = Some r" "rn_Wire n = [(s, data)]" "sd_Text s = ''hi''"
    "ro_Messages r = [d]" using sample_talk by blast
  from kept_was_said [OF _ _ _ n(1) _ n(3,4)] n(2,5-7) have "dm_Content d = ''hi''" by simp
  with n show ?thesis by blast
qed

theorem delivery_exact_witness:
  "\<exists>n c s data c'. room_reachable sample_lib sample_ratchet n \<and> mget (rn_Members n) ''p'' = Some c
     \<and> rn_Wire n = [(s, data)] \<and> chat_step sample_env ''p'' data c = Some (Ret (None, c'))"
proof -
  obtain n c r s data d where n: "room_reachable sample_lib sample_ratchet n" "rn_Calls n = 1"
    "mget (rn_Members n) ''p'' = Some c" "cur_room c = Some r" "rn_Wire n = [(s, data)]" "sd_Text s = ''hi''"
    "ro_Messages r = [d]" using sample_talk by blast
  have "(s, data) \<in> set (rn_Wire n)" using n(5) by simp
  from delivery_exact [OF _ _ _ n(1) _ n(3) this sample_env_ok, of "''p''"] n(2) obtain c' where
    "chat_step sample_env ''p'' data c = Some (Ret (None, c'))" by auto
  with n show ?thesis by blast
qed

definition sample_party :: "(string, client) gomap" where
  "sample_party = [(''p'', sample_client 0 empty_table), (''q'', sample_client 0 empty_table)]"

theorem conversation_in_turns_witness:
  "\<exists>ms c r. converse [(''p'', sample_env, ''hi''), (''q'', sample_env, ''yes'')] sample_party = Some ms
     \<and> mget ms ''p'' = Some c \<and> cur_room c = Some r \<and> map dm_Content (ro_Messages r) = [''hi'', ''yes'']"
proof -
  have "room_in_step sample_lib sample_ratchet 0 sample_party"
    using sample_in_step by (simp add: room_in_step_def sample_party_def wf_map_def)
  from conversation_in_turns [OF _ _ this, of "[(''p'', sample_env, ''hi''), (''q'', sample_env, ''yes'')]"]
  obtain ms where ms: "converse [(''p'', sample_env, ''hi''), (''q'', sample_env, ''yes'')] sample_party = Some ms"
    "\<And>q c r. mget sample_party q = Some c \<Longrightarrow> cur_room c = Some r \<Longrightarrow>
        \<exists>c' r' ds. mget ms q = Some c' \<and> cur_room c' = Some r' \<and> ro_Messages r' = ro_Messages r @ ds
           \<and> list_all2 (speaks sample_party) [(''p'', sample_env, ''hi''), (''q'', sample_env, ''yes'')] ds"
    by (auto simp: sample_party_def)
  have "mget sample_party ''p'' = Some (sample_client 0 empty_table)" by (simp add: sample_party_def)
  from ms(2) [OF this sample_client_room] ms(1) show ?thesis
    by (fastforce simp: list_all2_Cons1 speaks_def)
qed

theorem spoken_at_once_lost_witness:
  "\<exists>e a1 t da e' b1 t' db a2 a3 text. SendMessageHandler sample_env ''hi'' (sample_client 0 empty_table) = Ret (e, a1, [(t, da)])
     \<and> SendMessageHandler sample_env ''yes'' (sample_client 0 empty_table) = Ret (e', b1, [(t', db)])
     \<and> chat_step sample_env ''p'' da a1 = Some (Ret (None, a2)) \<and> adds (\<lambda>d. dm_Content d = ''hi'') a1 a2
     \<and> chat_step sample_env ''q'' db a2 = Some (Ret (None, a3)) \<and> cur_room a3 = cur_room a2
     \<and> cli_Dialogs a3 = cli_Dialogs a2 @ [(''Decryption Error'', text)]"
  using spoken_at_once_lost [OF _ _ _ sample_in_step sample_env_ok _ sample_in_step sample_env_ok, of "''hi''" "''yes''" "''p''" "''q''"]
  by fastforce

end
