(* ===== verification/Spec2Isabelle.thy ===== *)
theory Spec2Isabelle
  imports Hub_Client Client_System Decrypt_Spec Store_Maps Hub_Start App Layout Wire Room_Correct
begin

text \<open>
  \<^bold>\<open>Hillside: a verification library.\<close>

  Hillside is a chat program for the terminal, written in Go. Clients are libp2p hosts; a hub keeps
  the directory of servers, rooms and members; messages go from client to client on pubsub
  topics, encrypted with a symmetric ratchet per room and signed with Dilithium. The theories
  follow the packages under \<open>src/internal\<close>, keep the names of its functions and types, and are
  listed here from the bottom up.

  \<^bold>\<open>Foundations.\<close> \<open>Prelude\<close>: bytes, Go slices (\<open>None\<close> is
  nil), Go maps as association lists, calls that return or panic (\<open>go\<close>),
  \<open>result\<close>s, the collections of simplification rules. \<open>Base64\<close>,
  \<open>Json_String\<close>, \<open>Json\<close>, \<open>Json_Codec\<close>:
  \<open>encoding/json\<close> as the code uses it, from values to text and back, with unknown,
  repeated, absent and null members. \<open>Errors\<close> (utils/errors.go and the errors.go of each
  package): error values, wrapping, \<open>errors.Is\<close>. \<open>Models\<close>,
  \<open>Model_Codec\<close>, \<open>Rpc_Codec\<close>, \<open>Response_Codec\<close> (models/): every
  structure with its JSON form. \<open>Misc\<close>, \<open>Pretty_Time\<close> (utils/misc.go,
  utils/validation.go). \<open>Topics\<close> (p2p/pubsub_topics.go).

  \<^bold>\<open>The hub.\<close> \<open>Hub_Store\<close> (hub/store.go) is the table of servers with
  their rooms. \<open>Hub_Server\<close> (hub/server.go) has one definition per RPC method and
  advertiser; \<open>handleRPC\<close> decodes into the variable all streams share and dispatches.
  \<open>Hub_System\<close> is the step relation of the running hub (streams interleave between
  decoding, the choice of the method and the handler, goroutines run when they will, a panic ends
  it), \<open>Hub_Invariant\<close> what its reachable states satisfy and
  \<open>Hub_Correct\<close> the properties of its methods. \<open>Hub_Start\<close> is
  \<open>NewHubServer\<close> and cmd/hub/main.go; what it starts is the first state of
  \<open>Hub_System\<close>.

  \<^bold>\<open>Cryptography.\<close> \<open>Sha256\<close> computes SHA-256 and HMAC.
  \<open>Crypto_Lib\<close> (crypto/keys.go, messages.go, auth.go, aead_utils.go) is over a record of
  the primitives the sources only call. \<open>Ratchet\<close> (crypto/ratchetkey.go) and
  \<open>Decrypt\<close> (\<open>decryptMessage\<close> in client/handlers.go) have the loops over
  64-bit indices as partial functions; \<open>Decrypt_Spec\<close> proves them equal to a specification
  without loops and bounds the window of late messages.

  \<^bold>\<open>Storage.\<close> \<open>Tables\<close> is what the SQL does to rows.
  \<open>Msg_Store\<close>, \<open>Auth_Store\<close>, \<open>Peer_Store\<close> (storage/history.go,
  auth.go, peer_manager.go) have one definition per statement, \<open>Store_Maps\<close> the finite maps
  two of them implement. \<open>Write_Queue\<close> is the worker that batches writes,
  \<open>History\<close> its two uses with the index cache and its lock, on which a stuck call of
  \<open>GetLastIndex\<close> makes the worker wait too, \<open>Frame\<close> and
  \<open>Catch_Up_Payload\<close> (storage/helpers.go, history.go) the compressed payload of a catch-up.
  \<open>Open_Store\<close> (storage.go) opens a database, sets its pragmas, migrates it and starts the
  managers. \<open>Profile\<close> (the profile package) is the sealed file of a user, down to its JSON
  text.

  \<^bold>\<open>The client.\<close> \<open>Envelope\<close> (client/messages.go, validation.go),
  \<open>Session\<close> (session.go, models_session.go, accessors.go), \<open>Client_Rpc\<close>
  (rpc.go), \<open>Chat\<close> (chat.go), \<open>Catch_Up\<close> (helpers.go), \<open>Join\<close>
  (handlers.go); \<open>Chat_Correct\<close>, \<open>Catch_Up_Correct\<close> and
  \<open>Join_Correct\<close> have their properties. \<open>Client_System\<close> is the step relation
  of a client, \<open>Hub_Client\<close> the client's requests answered by the hub's handler,
  \<open>Wire\<close> the same with the text that crosses the stream in both directions.
  \<open>Room_System\<close> has the members of a room together, each running the code of
  \<open>Chat\<close>, over a network that reorders, repeats and loses; \<open>Room_Correct\<close> is
  what they get.

  \<^bold>\<open>The program around it.\<close> \<open>Node\<close> (p2p/node.go, dht.go,
  client/lifecycle.go) starts the libp2p parts and closes all but pubsub. \<open>Login\<close> (handlers.go) goes from
  a password to a connected node. \<open>Screens\<close> (ui/browse.go, chat.go and the refresh loops of
  handlers.go) has the lists, what choosing and the forms do. \<open>Dialogs\<close> (ui/dialogs.go) has
  toasts and error dialogs with the goroutines that close them, \<open>Theme\<close> (ui/theme.go) the
  colours, \<open>Logger\<close> (utils/logger.go) the remote logger. \<open>App\<close> puts them
  together: ui/login.go, ui/ui.go, client/client.go, cmd/client/main.go. \<open>Layout\<close> has the
  widgets of every screen, form and dialog as the calls that build them, the forms at work with what was
  entered in their fields, and the theme of the repository.

  \<^bold>\<open>How the state corresponds.\<close> A record field stands for the struct field of the
  same name; the pointers \<open>Session.Current\<close> are identifiers into the maps they point into.
  An error is a value, a panic is \<open>Panic\<close>, a call that never returns is
  \<open>None\<close>: no definition has fuel, except that a list of drawn random identifiers may be
  used up before one is free. Timeouts and deliveries are arguments. A lock is modelled where it can
  block for ever (\<open>GetLastIndex\<close>). A handler of the hub, a flush of the write queue and the
  goroutine that a login starts are one step each: what another goroutine could do in the middle of
  one is left out.

  \<^bold>\<open>Parameters.\<close> Code that is not in the repository is an argument: the primitives
  of \<open>crypto_lib\<close> (HKDF gives as many bytes as asked for, an AEAD opens what it sealed, a
  signature of a key pair verifies) and of \<open>key_lib\<close> (a key is read back from its bytes),
  \<open>gzip_lib\<close> (reading gives what was written), the SQL engine's failures and the order in
  which it meets rows, opening it (\<open>db_env\<close>), the answers of libp2p and its JSON of an
  address (\<open>addr_lib\<close>), the DHT and pubsub (\<open>node_env\<close>,
  \<open>hub_libs\<close>), \<open>Node.SendRPC\<close> where a theory is not about it, joining,
  subscribing and publishing, the files and environment of a profile (\<open>profile_env\<close>),
  decoding YAML, reading directories, the pages of the terminal library (\<open>pages_lib\<close>) and
  its search for a field (\<open>by_label\<close>), the clock, the calendar, random draws, the order in
  which maps are visited. Their laws are hypotheses (\<open>hkdf_ok\<close>, \<open>chacha_ok\<close>,
  \<open>key_pair\<close>, \<open>keys_ok\<close>, \<open>gzip_ok\<close>, \<open>world_ok\<close>,
  \<open>pages_ok\<close>, \<open>by_label_ok\<close>, \<open>map_order\<close>), and the witnesses
  instantiate them.

  \<^bold>\<open>What is shown.\<close> The hub: members are filed under the peer they are, what is
  published is what the store had when its task ran, on the topic of that server or room, its entries
  cleaned, the rooms inside listed servers are not and what that gives away, what
  each method changes and answers, and exactly which requests crash it. Messages: a sent message is read
  by every member at or before its position, queued for storage and shown, the loops meet their specification, at most nine
  messages can be late. In a room of members, whatever the network does: what a member keeps was said by
  whom it names, a delivery is kept exactly if the backup ratchet is not past it, a conversation in
  turns is kept in full by everybody, and who speak at the same time seal with one key and nonce and lose each other. Validation accepts
  what it should and envelopes and payloads survive the way there and back. Storage: refinement of maps,
  what is saved is found, the queues lose nothing and have done all they accepted when they stop, which
  they do unless a reader is stuck. Joining: passwords from one client through
  the hub to another, the room the hub answered with is the one that is joined and it is ready, who can help whom. The client: typing of its state in all
  reachable states, and which steps crash it (exactly, but for what a joining client reads before it
  does). Around it: a created user logs in again, the
  browse screen needs a login, starting and closing the node and the database match but for pubsub, what the lists
  show, that the forms hand over what was entered, how long a dialog stays, how colours are read.
  Several theorems show that the code does what it does not mean to; they are listed with their places
  in the findings.

  \<^bold>\<open>Bounds.\<close> The loops of decryption are shown to return for indices below \<open>2
  ^ 64 - 11\<close>: above, \<open>rr_Index b + 10\<close> wraps around. Payloads are shorter than
  \<open>maxAlloc\<close>. A request for catching up is sent five times, as in the source.

  \<^bold>\<open>Not modelled.\<close> How tview draws a widget and moves the focus inside one; the text
  of log messages (the remote logger delivers whatever it is given) and the hub's periodic statistics.
  The files crypto/rekey.go and crypto/symmetric.go, and parts of client/helpers.go, client/handlers.go
  and storage/history.go, are commented out. Memory is not modelled beyond the values: data races
  between goroutines appear only where the source shares a variable or a lock on purpose. \<close>

end
